(* ===== verification/Prelude.thy ===== *)
theory Prelude
  imports Complex_Main
begin

text \<open>
  Shared vocabulary of the development: the errors the backend raises, the
  state-and-exception operations every request handler is written with, their rewrite
  rules, and the invariant predicate \<open>keeps\<close> with its composition rules.

  An operation takes the session and returns a sum (\<open>Inl\<close> the exception) together with
  the session as it stands at that moment, so that an exception raised after a commit
  still shows the committed data, as in the Python code.
\<close>

named_theorems keeps_intro \<open>composition rules for invariants of operations\<close>
named_theorems op_defs \<open>unfolding equations of the model's operations\<close>

subsection \<open>Types shared by all components\<close>

type_synonym uuid = nat
type_synonym datetime = int

text \<open>
  A \<^typ>\<open>datetime\<close> counts microseconds since the epoch in UTC; a \<open>timedelta\<close> is a
  difference of two of them.
\<close>

definition timedelta_seconds :: "int \<Rightarrow> int" where
  "timedelta_seconds n = n * 1000000"

definition timedelta_minutes :: "int \<Rightarrow> int" where
  "timedelta_minutes n = n * 60000000"

definition timedelta_hours :: "int \<Rightarrow> int" where
  "timedelta_hours n = n * 3600000000"

definition timedelta_days :: "int \<Rightarrow> int" where
  "timedelta_days n = n * 86400000000"

lemmas timedelta_defs =
  timedelta_seconds_def timedelta_minutes_def timedelta_hours_def timedelta_days_def

datatype error =
    HTTPException int string
  | ValueError string
  | RuntimeError string
  | TypeError string
  | KeyError string
  | IntegrityError

subsection \<open>Operations: state passing with exceptions\<close>

type_synonym ('s, 'a) op = "'s \<Rightarrow> (error + 'a) \<times> 's"

definition ret :: "'a \<Rightarrow> ('s, 'a) op" where
  "ret x = (\<lambda>s. (Inr x, s))"

definition raise :: "error \<Rightarrow> ('s, 'a) op" where
  "raise e = (\<lambda>s. (Inl e, s))"

definition gets :: "('s \<Rightarrow> 'a) \<Rightarrow> ('s, 'a) op" where
  "gets f = (\<lambda>s. (Inr (f s), s))"

definition modify :: "('s \<Rightarrow> 's) \<Rightarrow> ('s, unit) op" where
  "modify f = (\<lambda>s. (Inr (), f s))"

definition andThen :: "('s, 'a) op \<Rightarrow> ('a \<Rightarrow> ('s, 'b) op) \<Rightarrow> ('s, 'b) op" where
  "andThen m f = (\<lambda>s. case m s of
      (Inl e, s') \<Rightarrow> (Inl e, s')
    | (Inr x, s') \<Rightarrow> f x s')"

text \<open>\<open>require e b\<close> is the guard \<open>if not b: raise e\<close>.\<close>

definition require :: "error \<Rightarrow> bool \<Rightarrow> ('s, unit) op" where
  "require e b = (if b then ret () else raise e)"

text \<open>\<open>require_some e x\<close> is \<open>if x is None: raise e\<close>, giving the value otherwise.\<close>

definition require_some :: "error \<Rightarrow> 'a option \<Rightarrow> ('s, 'a) op" where
  "require_some e x = (case x of None \<Rightarrow> raise e | Some y \<Rightarrow> ret y)"

text \<open>\<open>lift_sum r\<close> runs a pure computation that may raise.\<close>

definition lift_sum :: "error + 'a \<Rightarrow> ('s, 'a) op" where
  "lift_sum r = (case r of Inl e \<Rightarrow> raise e | Inr x \<Rightarrow> ret x)"

text \<open>\<open>try: m except ValueError as exc: raise HTTPException(400, str(exc))\<close>.\<close>

definition value_error_as_400 :: "('s, 'a) op \<Rightarrow> ('s, 'a) op" where
  "value_error_as_400 m = (\<lambda>s. case m s of
      (Inl (ValueError msg), s') \<Rightarrow> (Inl (HTTPException 400 msg), s')
    | r \<Rightarrow> r)"

text \<open>An operation for its effect alone.\<close>

definition discard :: "('s, 'a) op \<Rightarrow> ('s, unit) op" where
  "discard m = andThen m (\<lambda>_. ret ())"

text \<open>A \<open>for\<close> loop over a list, and the loop that collects its results.\<close>

primrec for_each :: "'a list \<Rightarrow> ('a \<Rightarrow> ('s, unit) op) \<Rightarrow> ('s, unit) op" where
  "for_each [] f = ret ()"
| "for_each (x # xs) f = andThen (f x) (\<lambda>_. for_each xs f)"

primrec map_each :: "'a list \<Rightarrow> ('a \<Rightarrow> ('s, 'b) op) \<Rightarrow> ('s, 'b list) op" where
  "map_each [] f = ret []"
| "map_each (x # xs) f =
     andThen (f x) (\<lambda>y. andThen (map_each xs f) (\<lambda>ys. ret (y # ys)))"

subsection \<open>Running operations\<close>

lemma ret_run [simp]: "ret x s = (Inr x, s)"
  by (simp add: ret_def)

lemma raise_run [simp]: "raise e s = (Inl e, s)"
  by (simp add: raise_def)

lemma gets_run [simp]: "gets f s = (Inr (f s), s)"
  by (simp add: gets_def)

lemma modify_run [simp]: "modify f s = (Inr (), f s)"
  by (simp add: modify_def)

lemma andThen_ret [simp]: "andThen (ret x) f = f x"
  by (simp add: andThen_def ret_def)

lemma andThen_raise [simp]: "andThen (raise e) f = raise e"
  by (simp add: andThen_def raise_def)

text \<open>
  The two run rules above hold for every state, so the simplifier uses them in their
  contracted form; sequencing is stated for that form too.
\<close>

lemma andThen_Pair [simp]:
  "andThen (Pair (Inr x)) f = f x"
  "andThen (Pair (Inl e)) f = Pair (Inl e)"
  by (rule ext, simp add: andThen_def)+

lemma andThen_gets [simp]: "andThen (gets g) f s = f (g s) s"
  by (simp add: andThen_def gets_def)

lemma andThen_modify [simp]: "andThen (modify g) f s = f () (g s)"
  by (simp add: andThen_def modify_def)

lemma andThen_assoc [simp]:
  "andThen (andThen m f) g = andThen m (\<lambda>x. andThen (f x) g)"
  by (rule ext) (simp add: andThen_def split: prod.splits sum.splits)

lemma andThen_ret_right [simp]: "andThen m ret = m"
  by (rule ext) (simp add: andThen_def split: prod.splits sum.splits)

lemma andThen_run:
  "andThen m f s = (case m s of (Inl e, s') \<Rightarrow> (Inl e, s') | (Inr x, s') \<Rightarrow> f x s')"
  by (simp add: andThen_def)

lemma andThen_Inr: "m s = (Inr x, s') \<Longrightarrow> andThen m f s = f x s'"
  by (simp add: andThen_def)

lemma andThen_Inl: "m s = (Inl e, s') \<Longrightarrow> andThen m f s = (Inl e, s')"
  by (simp add: andThen_def)

lemma andThen_if [simp]:
  "andThen (if b then m else n) f = (if b then andThen m f else andThen n f)"
  by simp

lemma require_True [simp]: "require e True = ret ()"
  by (simp add: require_def)

lemma require_False [simp]: "require e False = raise e"
  by (simp add: require_def)

lemma require_some_simps [simp]:
  "require_some e None = raise e"
  "require_some e (Some x) = ret x"
  by (simp_all add: require_some_def)

lemma lift_sum_simps [simp]:
  "lift_sum (Inl e) = raise e"
  "lift_sum (Inr x) = ret x"
  by (simp_all add: lift_sum_def)

lemma value_error_InrD: "value_error_as_400 m s = (Inr x, s') \<Longrightarrow> m s = (Inr x, s')"
  by (auto simp: value_error_as_400_def split: prod.splits sum.splits error.splits)

text \<open>Inversion: a successful sequence is two successful steps.\<close>

lemma andThen_InrE:
  assumes "andThen m f s = (Inr y, s')"
  obtains x t where "m s = (Inr x, t)" and "f x t = (Inr y, s')"
  using assms by (cases "m s"; cases "fst (m s)") (auto simp: andThen_def)

lemma andThen_InlE:
  assumes "andThen m f s = (Inl e, s')"
  obtains (first) "m s = (Inl e, s')"
    | (second) x t where "m s = (Inr x, t)" and "f x t = (Inl e, s')"
  using assms by (cases "m s"; cases "fst (m s)") (auto simp: andThen_def)

text \<open>A sequence whose first step only reads and whose second is refused is refused.\<close>

lemma andThen_refused:
  assumes "snd (m s) = s" and "\<And>x. m s = (Inr x, s) \<Longrightarrow> \<exists>e. f x s = (Inl e, s)"
  shows "\<exists>e. andThen m f s = (Inl e, s)"
  using assms by (cases "m s"; cases "fst (m s)") (auto simp: andThen_def)

lemma require_InrD: "require e b s = (Inr x, s') \<Longrightarrow> b \<and> s' = s"
  by (cases b) simp_all

lemma require_some_InrD: "require_some e v s = (Inr x, s') \<Longrightarrow> v = Some x \<and> s' = s"
  by (cases v) simp_all

lemma lift_sum_InrD: "lift_sum r s = (Inr x, s') \<Longrightarrow> r = Inr x \<and> s' = s"
  by (cases r) simp_all

lemma for_each_append:
  "for_each (xs @ ys) f = andThen (for_each xs f) (\<lambda>_. for_each ys f)"
  by (induction xs) simp_all

text \<open>A loop whose body never raises is a fold of the body's effect.\<close>

lemma for_each_pure:
  assumes "\<And>x s. x \<in> set xs \<Longrightarrow> f x s = (Inr (), g x s)"
  shows "for_each xs f s = (Inr (), fold g xs s)"
  using assms
proof (induction xs arbitrary: s)
  case Nil
  then show ?case by simp
next
  case (Cons x xs)
  have "f x s = (Inr (), g x s)" by (rule Cons.prems) simp
  moreover have "for_each xs f (g x s) = (Inr (), fold g xs (g x s))"
    by (rule Cons.IH) (simp add: Cons.prems)
  ultimately show ?case by (simp add: andThen_Inr)
qed

subsection \<open>Invariants of operations\<close>

text \<open>\<open>keeps I m\<close>: whenever \<open>I\<close> holds before \<open>m\<close> it holds after, also when \<open>m\<close> raises.\<close>

definition keeps :: "('s \<Rightarrow> bool) \<Rightarrow> ('s, 'a) op \<Rightarrow> bool" where
  "keeps I m \<longleftrightarrow> (\<forall>s. I s \<longrightarrow> I (snd (m s)))"

lemma keepsI: "(\<And>s. I s \<Longrightarrow> I (snd (m s))) \<Longrightarrow> keeps I m"
  by (simp add: keeps_def)

lemma keepsD: "keeps I m \<Longrightarrow> I s \<Longrightarrow> I (snd (m s))"
  by (simp add: keeps_def)

lemma keeps_runD: "keeps I m \<Longrightarrow> I s \<Longrightarrow> m s = (r, s') \<Longrightarrow> I s'"
  by (drule keepsD) auto

lemma keeps_ret [keeps_intro]: "keeps I (ret x)"
  by (simp add: keeps_def)

lemma keeps_raise [keeps_intro]: "keeps I (raise e)"
  by (simp add: keeps_def)

lemma keeps_gets [keeps_intro]: "keeps I (gets f)"
  by (simp add: keeps_def)

lemma keeps_modify: "(\<And>s. I s \<Longrightarrow> I (f s)) \<Longrightarrow> keeps I (modify f)"
  by (simp add: keeps_def)

lemma keeps_require [keeps_intro]: "keeps I (require e b)"
  by (simp add: require_def keeps_intro)

lemma keeps_require_some [keeps_intro]: "keeps I (require_some e x)"
  by (cases x) (simp_all add: keeps_intro)

lemma keeps_lift_sum [keeps_intro]: "keeps I (lift_sum r)"
  by (cases r) (simp_all add: keeps_intro)

lemma keeps_andThen [keeps_intro]:
  assumes "keeps I m" and "\<And>x. keeps I (f x)"
  shows "keeps I (andThen m f)"
proof (rule keepsI)
  fix s assume "I s"
  with assms(1) have "I (snd (m s))" by (rule keepsD)
  then show "I (snd (andThen m f s))"
    using assms(2) by (auto simp: andThen_def keeps_def split: prod.splits sum.splits)
qed

text \<open>The same, with what the first operation returned at hand for the second.\<close>

lemma keeps_andThen_result:
  assumes "keeps I m" and "\<And>x s s'. m s = (Inr x, s') \<Longrightarrow> keeps I (f x)"
  shows "keeps I (andThen m f)"
proof (rule keepsI)
  fix s assume "I s"
  with assms(1) have "I (snd (m s))" by (rule keepsD)
  then show "I (snd (andThen m f s))"
    using assms(2)[of s]
    by (auto simp: andThen_def split: prod.splits sum.splits intro: keepsD)
qed

lemma keeps_discard [keeps_intro]: "keeps I m \<Longrightarrow> keeps I (discard m)"
  unfolding discard_def by (intro keeps_andThen keeps_ret)

lemma discard_state [simp]: "snd (discard m s) = snd (m s)"
  by (simp add: discard_def andThen_def split: prod.splits sum.splits)

lemma keeps_gets_andThen:
  assumes "\<And>s. I s \<Longrightarrow> I (snd (f (g s) s))"
  shows "keeps I (andThen (gets g) f)"
  using assms by (simp add: keeps_def)

lemma keeps_value_error [keeps_intro]: "keeps I m \<Longrightarrow> keeps I (value_error_as_400 m)"
  by (force simp: keeps_def value_error_as_400_def split: prod.splits sum.splits error.splits)

lemma keeps_case_prod [keeps_intro]:
  "(\<And>a b. keeps I (f a b)) \<Longrightarrow> keeps I (case x of (a, b) \<Rightarrow> f a b)"
  by (cases x) simp

lemma keeps_if [keeps_intro]:
  "(b \<Longrightarrow> keeps I m) \<Longrightarrow> (\<not> b \<Longrightarrow> keeps I n) \<Longrightarrow> keeps I (if b then m else n)"
  by simp

lemma keeps_case_option [keeps_intro]:
  "(x = None \<Longrightarrow> keeps I m) \<Longrightarrow> (\<And>y. x = Some y \<Longrightarrow> keeps I (f y)) \<Longrightarrow>
   keeps I (case x of None \<Rightarrow> m | Some y \<Rightarrow> f y)"
  by (cases x) simp_all

lemma keeps_for_each [keeps_intro]:
  "(\<And>x. x \<in> set xs \<Longrightarrow> keeps I (f x)) \<Longrightarrow> keeps I (for_each xs f)"
  by (induction xs) (auto intro!: keeps_intro)

lemma keeps_map_each [keeps_intro]:
  "(\<And>x. x \<in> set xs \<Longrightarrow> keeps I (f x)) \<Longrightarrow> keeps I (map_each xs f)"
  by (induction xs) (auto intro!: keeps_intro)

subsection \<open>Keyed lists\<close>

lemma find_Some_iff_distinct:
  assumes "distinct (map k rs)"
  shows "List.find (\<lambda>r. k r = i) rs = Some r \<longleftrightarrow> r \<in> set rs \<and> k r = i"
  using assms by (induction rs) (auto simp: image_iff)

lemma find_SomeD: "List.find P xs = Some x \<Longrightarrow> x \<in> set xs \<and> P x"
  by (induction xs) (auto split: if_splits)

lemma find_filter: "List.find P (filter Q xs) = List.find (\<lambda>x. Q x \<and> P x) xs"
  by (induction xs) auto

lemma find_unique:
  assumes "distinct (map f xs)" and "x \<in> set xs" and "P x"
    and "\<And>y. y \<in> set xs \<Longrightarrow> P y \<Longrightarrow> f y = f x"
  shows "List.find P xs = Some x"
proof (cases "List.find P xs")
  case None
  with assms(2,3) show ?thesis by (auto simp: find_None_iff)
next
  case (Some y)
  then have "y \<in> set xs" "f y = f x" using assms(4) by (auto dest: find_SomeD)
  with assms(1,2) have "y = x" by (auto simp: distinct_map dest: inj_onD)
  with Some show ?thesis by simp
qed

lemma find_map_same:
  assumes "\<And>x. P (f x) = P x"
  shows "List.find P (map f xs) = map_option f (List.find P xs)"
  by (induction xs) (auto simp: assms)

lemma find_append:
  "List.find P (xs @ ys) =
     (case List.find P xs of None \<Rightarrow> List.find P ys | Some x \<Rightarrow> Some x)"
  by (induction xs) auto

lemma filter_map_unchanged:
  assumes "\<And>x. x \<in> set xs \<Longrightarrow> f x \<noteq> x \<Longrightarrow> \<not> P x \<and> \<not> P (f x)"
  shows "filter P (map f xs) = filter P xs"
  using assms
proof (induction xs)
  case Nil
  then show ?case by simp
next
  case (Cons x xs)
  then show ?case by (cases "f x = x") auto
qed

text \<open>Overwriting, one after the other, the rows of a keyed list that a loop visits.\<close>

lemma put_each:
  assumes "distinct (map k js)" and "\<And>r. k (g r) = k r"
    and "\<And>r x. r \<in> set js \<Longrightarrow> x \<in> set rs \<Longrightarrow> k x = k r \<Longrightarrow> x = r"
  shows "fold (\<lambda>r. map (\<lambda>x. if k x = k r then g r else x)) js rs =
     map (\<lambda>x. if k x \<in> k ` set js then g x else x) rs"
  using assms(1,3)
proof (induction js arbitrary: rs)
  case Nil
  then show ?case by simp
next
  case (Cons r js)
  let ?rs = "map (\<lambda>x. if k x = k r then g r else x) rs"
  have "k r \<notin> k ` set js" using Cons.prems(1) by auto
  have "fold (\<lambda>r. map (\<lambda>x. if k x = k r then g r else x)) js ?rs =
      map (\<lambda>x. if k x \<in> k ` set js then g x else x) ?rs"
  proof (rule Cons.IH)
    show "distinct (map k js)" using Cons.prems(1) by simp
    fix r' x assume "r' \<in> set js" "x \<in> set ?rs" "k x = k r'"
    moreover from this \<open>k r \<notin> k ` set js\<close> have "k x \<noteq> k r" by (metis imageI)
    ultimately have "x \<in> set rs" using assms(2) by (auto split: if_splits)
    with Cons.prems(2)[of r' x] \<open>r' \<in> set js\<close> \<open>k x = k r'\<close> show "x = r'" by simp
  qed
  moreover have "map (\<lambda>x. if k x \<in> k ` set js then g x else x) ?rs =
      map (\<lambda>x. if k x \<in> k ` set (r # js) then g x else x) rs"
    using \<open>k r \<notin> k ` set js\<close> Cons.prems(2)[of r] assms(2) by (auto split: if_splits)
  ultimately show ?case by simp
qed

end
