(* ===== verification/PyLib.thy ===== *)
theory PyLib
  imports Prelude "HOL-Library.Word"
begin

text \<open>
  The parts of Python's built-in types and standard library that the backend uses, as
  functions on the model's types: text methods, JSON values, \<open>int(...)\<close> and \<open>str(...)\<close> on
  JSON values, \<open>bytes.hex\<close>/\<open>bytes.fromhex\<close>, \<open>uuid.UUID\<close>. Text is ASCII text: a
  \<^typ>\<open>char\<close> is one code point, and no character outside ASCII is alphanumeric here.
\<close>

subsection \<open>Text\<close>

definition ord :: "char \<Rightarrow> nat" where
  "ord c = of_char c"

definition is_lower :: "char \<Rightarrow> bool" where
  "is_lower c \<longleftrightarrow> 97 \<le> ord c \<and> ord c \<le> 122"

definition is_upper :: "char \<Rightarrow> bool" where
  "is_upper c \<longleftrightarrow> 65 \<le> ord c \<and> ord c \<le> 90"

definition is_digit :: "char \<Rightarrow> bool" where
  "is_digit c \<longleftrightarrow> 48 \<le> ord c \<and> ord c \<le> 57"

definition is_alnum :: "char \<Rightarrow> bool" where
  "is_alnum c \<longleftrightarrow> is_lower c \<or> is_upper c \<or> is_digit c"

definition is_space :: "char \<Rightarrow> bool" where
  "is_space c \<longleftrightarrow> ord c = 32 \<or> (9 \<le> ord c \<and> ord c \<le> 13) \<or> (28 \<le> ord c \<and> ord c \<le> 31)"

lemmas char_class_defs =
  ord_def is_lower_def is_upper_def is_digit_def is_alnum_def is_space_def

definition lower_char :: "char \<Rightarrow> char" where
  "lower_char c = (if is_upper c then char_of (ord c + 32) else c)"

definition py_lower :: "string \<Rightarrow> string" where
  "py_lower s = map lower_char s"

definition upper_char :: "char \<Rightarrow> char" where
  "upper_char c = (if is_lower c then char_of (ord c - 32) else c)"

definition py_upper :: "string \<Rightarrow> string" where
  "py_upper s = map upper_char s"

lemmas char_eval = py_lower_def lower_char_def char_class_defs char_of_def bit_0

text \<open>\<open>s.strip(chars)\<close> with the characters as a predicate.\<close>

definition strip_by :: "(char \<Rightarrow> bool) \<Rightarrow> string \<Rightarrow> string" where
  "strip_by p s = rev (dropWhile p (rev (dropWhile p s)))"

text \<open>\<open>s.split(c)\<close> and \<open>s.split(c, n)\<close> for a one-character separator.\<close>

fun split_char :: "char \<Rightarrow> string \<Rightarrow> string list" where
  "split_char c [] = [[]]"
| "split_char c (x # xs) =
     (if x = c then [] # split_char c xs
      else (case split_char c xs of
              [] \<Rightarrow> [[x]]
            | p # ps \<Rightarrow> (x # p) # ps))"

fun split_max :: "nat \<Rightarrow> char \<Rightarrow> string \<Rightarrow> string list" where
  "split_max 0 c s = [s]"
| "split_max (Suc n) c s =
     (let pre = takeWhile (\<lambda>x. x \<noteq> c) s; post = dropWhile (\<lambda>x. x \<noteq> c) s
      in if post = [] then [s] else pre # split_max n c (tl post))"

fun py_join :: "string \<Rightarrow> string list \<Rightarrow> string" where
  "py_join sep [] = []"
| "py_join sep [x] = x"
| "py_join sep (x # y # ys) = x @ sep @ py_join sep (y # ys)"

text \<open>\<open>p in s\<close> and \<open>s.startswith(p)\<close>.\<close>

definition starts_with :: "string \<Rightarrow> string \<Rightarrow> bool" where
  "starts_with p s \<longleftrightarrow> take (length p) s = p"

fun contains_str :: "string \<Rightarrow> string \<Rightarrow> bool" where
  "contains_str p [] \<longleftrightarrow> p = []"
| "contains_str p (c # s) \<longleftrightarrow> starts_with p (c # s) \<or> contains_str p s"

text \<open>\<open>re.fullmatch("[class]{lo,hi}", s)\<close>.\<close>

definition fullmatch_class :: "(char \<Rightarrow> bool) \<Rightarrow> nat \<Rightarrow> nat \<Rightarrow> string \<Rightarrow> bool" where
  "fullmatch_class cls lo hi s \<longleftrightarrow> list_all cls s \<and> lo \<le> length s \<and> length s \<le> hi"

text \<open>Decimal rendering of an integer, Python's \<open>str(n)\<close>.\<close>

definition digit_char :: "nat \<Rightarrow> char" where
  "digit_char d = char_of (48 + d)"

fun nat_str :: "nat \<Rightarrow> string" where
  "nat_str n = (if n < 10 then [digit_char n] else nat_str (n div 10) @ [digit_char (n mod 10)])"

declare nat_str.simps [simp del]

definition int_str :: "int \<Rightarrow> string" where
  "int_str i = (if i < 0 then ''-'' @ nat_str (nat (- i)) else nat_str (nat i))"

text \<open>
  \<open>int(s)\<close> on text: surrounding white space, an optional sign, digits, and single
  underscores between digits; anything else is a ValueError (\<open>None\<close>).
\<close>

fun digits_value :: "nat \<Rightarrow> string \<Rightarrow> nat option" where
  "digits_value acc [] = Some acc"
| "digits_value acc (c # cs) =
     (if is_digit c then digits_value (acc * 10 + (ord c - 48)) cs
      else if c = CHR ''_'' then
        (case cs of
           [] \<Rightarrow> None
         | d # _ \<Rightarrow> if is_digit d then digits_value acc cs else None)
      else None)"

definition unsigned_value :: "string \<Rightarrow> nat option" where
  "unsigned_value s = (case s of [] \<Rightarrow> None | c # _ \<Rightarrow>
     if is_digit c then digits_value 0 s else None)"

definition py_int_of_string :: "string \<Rightarrow> int option" where
  "py_int_of_string s =
     (let t = strip_by is_space s in
      case t of
        [] \<Rightarrow> None
      | c # cs \<Rightarrow>
          if c = CHR ''-'' then map_option (\<lambda>n. - int n) (unsigned_value cs)
          else if c = CHR ''+'' then map_option int (unsigned_value cs)
          else map_option int (unsigned_value t))"

subsection \<open>JSON values\<close>

datatype json =
    JNull
  | JBool bool
  | JInt int
  | JFloat real
  | JStr string
  | JArr "json list"
  | JObj "(string \<times> json) list"

type_synonym json_dict = "(string \<times> json) list"

text \<open>\<open>d.get(key, default)\<close>.\<close>

definition dict_get :: "json_dict \<Rightarrow> string \<Rightarrow> json \<Rightarrow> json" where
  "dict_get d k dflt = (case map_of d k of None \<Rightarrow> dflt | Some v \<Rightarrow> v)"

text \<open>\<open>d[key] = value\<close>, and \<open>{**d, **e}\<close>.\<close>

fun dict_set :: "json_dict \<Rightarrow> string \<Rightarrow> json \<Rightarrow> json_dict" where
  "dict_set [] k v = [(k, v)]"
| "dict_set ((k', v') # d) k v = (if k' = k then (k, v) # d else (k', v') # dict_set d k v)"

definition dict_merge :: "json_dict \<Rightarrow> json_dict \<Rightarrow> json_dict" where
  "dict_merge d e = fold (\<lambda>(k, v) acc. dict_set acc k v) e d"

text \<open>Truth value of a JSON value in a Python condition.\<close>

fun truthy :: "json \<Rightarrow> bool" where
  "truthy JNull = False"
| "truthy (JBool b) = b"
| "truthy (JInt i) = (i \<noteq> 0)"
| "truthy (JFloat r) = (r \<noteq> 0)"
| "truthy (JStr s) = (s \<noteq> [])"
| "truthy (JArr xs) = (xs \<noteq> [])"
| "truthy (JObj d) = (d \<noteq> [])"

text \<open>\<open>v or d\<close>.\<close>

definition json_or :: "json \<Rightarrow> json \<Rightarrow> json" where
  "json_or v d = (if truthy v then v else d)"

definition is_JStr :: "json \<Rightarrow> bool" where
  "is_JStr v = (case v of JStr _ \<Rightarrow> True | _ \<Rightarrow> False)"

text \<open>
  \<open>str(v)\<close> on a JSON value; the rendering of floating point numbers is the argument
  \<open>frepr\<close>. Inside containers text appears quoted (its escapes are left out).
\<close>

fun py_repr :: "(real \<Rightarrow> string) \<Rightarrow> json \<Rightarrow> string" where
  "py_repr frepr JNull = ''None''"
| "py_repr frepr (JBool b) = (if b then ''True'' else ''False'')"
| "py_repr frepr (JInt i) = int_str i"
| "py_repr frepr (JFloat r) = frepr r"
| "py_repr frepr (JStr s) = [char_of (39::nat)] @ s @ [char_of (39::nat)]"
| "py_repr frepr (JArr xs) = ''['' @ py_join '', '' (map (py_repr frepr) xs) @ '']''"
| "py_repr frepr (JObj d) =
     ''{'' @ py_join '', ''
       (map (\<lambda>(k, v). [char_of (39::nat)] @ k @ [char_of (39::nat)] @ '': '' @ py_repr frepr v) d) @ ''}''"

definition py_str :: "(real \<Rightarrow> string) \<Rightarrow> json \<Rightarrow> string" where
  "py_str frepr v = (case v of JStr s \<Rightarrow> s | _ \<Rightarrow> py_repr frepr v)"

text \<open>\<open>int(v)\<close> on a JSON value; \<open>None\<close> stands for the TypeError or ValueError.\<close>

definition py_int :: "json \<Rightarrow> int option" where
  "py_int v = (case v of
      JBool b \<Rightarrow> Some (if b then 1 else 0)
    | JInt i \<Rightarrow> Some i
    | JFloat r \<Rightarrow> Some (if r < 0 then - \<lfloor>- r\<rfloor> else \<lfloor>r\<rfloor>)
    | JStr s \<Rightarrow> py_int_of_string s
    | _ \<Rightarrow> None)"

text \<open>\<open>round(x, 2)\<close>: to the nearest hundredth, halves to the even one.\<close>

definition round2 :: "real \<Rightarrow> real" where
  "round2 x =
     (let y = x * 100; f = \<lfloor>y\<rfloor>; d = y - of_int f
      in of_int (if d < 1/2 then f else if d > 1/2 then f + 1
                 else if even f then f else f + 1) / 100)"

subsection \<open>Time stamps as text\<close>

text \<open>The proleptic Gregorian date of a day number counted from 1970-01-01.\<close>

definition civil_date :: "int \<Rightarrow> int \<times> int \<times> int" where
  "civil_date day =
     (let z = day + 719468; era = z div 146097; doe = z mod 146097;
          yoe = (doe - doe div 1460 + doe div 36524 - doe div 146096) div 365;
          doy = doe - (365 * yoe + yoe div 4 - yoe div 100);
          mp = (5 * doy + 2) div 153; d = doy - (153 * mp + 2) div 5 + 1;
          m = (if mp < 10 then mp + 3 else mp - 9); y = yoe + era * 400
      in (if m \<le> 2 then y + 1 else y, m, d))"

definition pad_int :: "nat \<Rightarrow> int \<Rightarrow> string" where
  "pad_int w i = (let s = nat_str (nat i) in replicate (w - length s) (CHR ''0'') @ s)"

text \<open>\<open>d.isoformat()\<close> of a UTC datetime, and \<open>str(d)\<close>, which has a blank for the \<open>T\<close>.\<close>

definition datetime_text :: "string \<Rightarrow> datetime \<Rightarrow> string" where
  "datetime_text sep t =
     (let secs = t div 1000000; us = t mod 1000000; day = secs div 86400; sod = secs mod 86400
      in case civil_date day of (y, m, d) \<Rightarrow>
         pad_int 4 y @ ''-'' @ pad_int 2 m @ ''-'' @ pad_int 2 d @ sep @
         pad_int 2 (sod div 3600) @ '':'' @ pad_int 2 (sod div 60 mod 60) @ '':'' @ pad_int 2 (sod mod 60) @
         (if us = 0 then [] else ''.'' @ pad_int 6 us) @ ''+00:00'')"

definition isoformat :: "datetime \<Rightarrow> string" where
  "isoformat t = datetime_text ''T'' t"

definition datetime_str :: "datetime option \<Rightarrow> string" where
  "datetime_str t = (case t of None \<Rightarrow> ''None'' | Some x \<Rightarrow> datetime_text '' '' x)"

subsection \<open>Hexadecimal text\<close>

type_synonym byte = "8 word"

definition hex_digit :: "nat \<Rightarrow> char" where
  "hex_digit d = (if d < 10 then char_of (48 + d) else char_of (87 + d))"

definition hex_value :: "char \<Rightarrow> nat option" where
  "hex_value c =
     (if is_digit c then Some (ord c - 48)
      else if 97 \<le> ord c \<and> ord c \<le> 102 then Some (ord c - 87)
      else if 65 \<le> ord c \<and> ord c \<le> 70 then Some (ord c - 55)
      else None)"

definition byte_hex :: "byte \<Rightarrow> string" where
  "byte_hex b = [hex_digit (unat b div 16), hex_digit (unat b mod 16)]"

definition bytes_hex :: "byte list \<Rightarrow> string" where
  "bytes_hex bs = concat (map byte_hex bs)"

text \<open>\<open>bytes.fromhex(s)\<close>: pairs of digits, white space between pairs is skipped.\<close>

fun bytes_fromhex :: "string \<Rightarrow> byte list option" where
  "bytes_fromhex [] = Some []"
| "bytes_fromhex (c # cs) =
     (if is_space c then bytes_fromhex cs
      else (case cs of
              [] \<Rightarrow> None
            | d # ds \<Rightarrow>
               (case (hex_value c, hex_value d) of
                  (Some x, Some y) \<Rightarrow>
                    map_option (\<lambda>bs. of_nat (16 * x + y) # bs) (bytes_fromhex ds)
                | _ \<Rightarrow> None)))"

subsection \<open>UUID text\<close>

fun hex_fixed :: "nat \<Rightarrow> nat \<Rightarrow> string" where
  "hex_fixed 0 n = []"
| "hex_fixed (Suc k) n = hex_fixed k (n div 16) @ [hex_digit (n mod 16)]"

definition uuid_str :: "uuid \<Rightarrow> string" where
  "uuid_str u =
     hex_fixed 8 (u div 16 ^ 24) @ ''-'' @ hex_fixed 4 (u div 16 ^ 20) @ ''-'' @
     hex_fixed 4 (u div 16 ^ 16) @ ''-'' @ hex_fixed 4 (u div 16 ^ 12) @ ''-'' @
     hex_fixed 12 u"

fun hex_number :: "nat \<Rightarrow> string \<Rightarrow> nat option" where
  "hex_number acc [] = Some acc"
| "hex_number acc (c # cs) =
     (case hex_value c of None \<Rightarrow> None | Some v \<Rightarrow> hex_number (acc * 16 + v) cs)"

fun remove_sub :: "string \<Rightarrow> string \<Rightarrow> string" where
  "remove_sub p [] = []"
| "remove_sub p (c # s) =
     (if p \<noteq> [] \<and> starts_with p (c # s) then remove_sub p (drop (length p) (c # s))
      else c # remove_sub p s)"

text \<open>\<open>UUID(s)\<close>; \<open>None\<close> stands for the ValueError.\<close>

definition uuid_parse :: "string \<Rightarrow> uuid option" where
  "uuid_parse s =
     (let h = remove_sub ''uuid:'' (remove_sub ''urn:'' s);
          h' = filter (\<lambda>c. c \<noteq> CHR ''-'')
                 (strip_by (\<lambda>c. c = CHR ''{'' \<or> c = CHR ''}'') h)
      in if length h' = 32 then hex_number 0 h' else None)"

subsection \<open>Facts about the text functions\<close>

lemma py_lower_append [simp]: "py_lower (xs @ ys) = py_lower xs @ py_lower ys"
  by (simp add: py_lower_def)

lemma length_py_lower [simp]: "length (py_lower s) = length s"
  by (simp add: py_lower_def)

lemma lower_char_not_upper: "\<not> is_upper (lower_char c)"
proof (cases "is_upper c")
  case True
  then have "ord c + 32 < 256" "97 \<le> ord c + 32" by (simp_all add: is_upper_def)
  with True show ?thesis by (simp add: lower_char_def is_upper_def ord_def)
next
  case False
  then show ?thesis by (simp add: lower_char_def)
qed

lemma py_lower_idem [simp]: "py_lower (py_lower s) = py_lower s"
proof -
  have "lower_char (lower_char c) = lower_char c" for c
    using lower_char_not_upper[of c] by (simp add: lower_char_def[of "lower_char c"])
  then show ?thesis by (simp add: py_lower_def)
qed

lemma split_max_step:
  "c \<notin> set p \<Longrightarrow> split_max (Suc n) c (p @ c # rest) = p # split_max n c rest"
  by (induction p) (auto simp: Let_def)

lemma set_strip_by: "set (strip_by P s) \<subseteq> set s"
  by (auto simp: strip_by_def dest!: set_dropWhileD)

lemma split_char_ne: "split_char c s \<noteq> []"
  by (induction s) (auto split: list.splits)

lemma set_split_char: "p \<in> set (split_char c s) \<Longrightarrow> set p \<subseteq> set s - {c}"
  by (induction s arbitrary: p) (fastforce split: if_splits list.splits)+

lemma split_plain: "c \<notin> set p \<Longrightarrow> split_char c p = [p]"
  by (induction p) auto

lemma split_char_step: "c \<notin> set p \<Longrightarrow> split_char c (p @ c # rest) = p # split_char c rest"
  by (induction p) auto

lemma split_join:
  "ps \<noteq> [] \<Longrightarrow> (\<And>p. p \<in> set ps \<Longrightarrow> c \<notin> set p) \<Longrightarrow> split_char c (py_join [c] ps) = ps"
  by (induction "[c]" ps rule: py_join.induct) (auto simp: split_plain split_char_step)

lemma join_split: "py_join [c] (split_char c s) = s"
proof (induction s)
  case Nil
  then show ?case by simp
next
  case (Cons x s)
  then show ?case
    using split_char_ne[of c s]
    by (cases "split_char c s" rule: remdups_adj.cases) (auto split: list.splits)
qed

lemma in_split_char: "x \<in> set s \<Longrightarrow> x = c \<or> (\<exists>p \<in> set (split_char c s). x \<in> set p)"
proof (induction s)
  case Nil
  then show ?case by simp
next
  case (Cons y s)
  then show ?case using split_char_ne[of c s] by (cases "split_char c s") auto
qed

lemma join_ends:
  assumes "ps \<noteq> []" and "\<forall>p \<in> set ps. p \<noteq> []"
  shows "py_join sep ps \<noteq> [] \<and> hd (py_join sep ps) = hd (hd ps) \<and>
     last (py_join sep ps) = last (last ps)"
  using assms by (induction sep ps rule: py_join.induct) auto

lemma strip_by_ends:
  assumes "s \<noteq> []" and "\<not> P (hd s)" and "\<not> P (last s)"
  shows "strip_by P s = s"
proof -
  have "dropWhile P s = s" using assms(1,2) by (cases s) auto
  moreover have "dropWhile P (rev s) = rev s"
    using assms(1,3) by (cases "rev s") (auto simp: hd_rev[symmetric])
  ultimately show ?thesis by (simp add: strip_by_def)
qed

lemma strip_by_none: "\<forall>x \<in> set s. \<not> P x \<Longrightarrow> strip_by P s = s"
proof -
  assume a: "\<forall>x \<in> set s. \<not> P x"
  have d: "dropWhile P xs = xs" if "\<forall>x \<in> set xs. \<not> P x" for xs
    using that by (cases xs) auto
  show ?thesis using a by (simp add: strip_by_def d)
qed

lemma remove_sub_none: "c \<notin> set s \<Longrightarrow> remove_sub (c # p) s = s"
  by (induction s) (auto simp: starts_with_def)

lemma ord_hex_digit: "d < 16 \<Longrightarrow> ord (hex_digit d) = (if d < 10 then 48 + d else 87 + d)"
  by (auto simp: hex_digit_def ord_def)

lemma hex_digit_value: "d < 16 \<Longrightarrow> hex_value (hex_digit d) = Some d"
  by (auto simp: hex_value_def ord_hex_digit is_digit_def)

definition hex_chars :: "char set" where
  "hex_chars = hex_digit ` {..<16}"

lemma hex_digit_in: "d < 16 \<Longrightarrow> hex_digit d \<in> hex_chars"
  by (simp add: hex_chars_def)

lemma hex_char_plain:
  assumes "c \<in> hex_chars"
  shows "\<not> is_space c \<and> c \<noteq> CHR ''$'' \<and> c \<noteq> CHR ''-'' \<and> c \<noteq> CHR ''{'' \<and>
     c \<noteq> CHR ''}'' \<and> c \<noteq> CHR ''u''"
proof -
  from assms obtain d where d: "d < 16" "c = hex_digit d" by (auto simp: hex_chars_def)
  have neq: "c \<noteq> x" if "ord x \<notin> {48..57} \<union> {97..102}" for x
    using that d ord_hex_digit[OF d(1)] by (auto split: if_splits)
  have "\<not> is_space c"
    using ord_hex_digit[OF d(1)] d by (auto simp: is_space_def split: if_splits)
  then show ?thesis by (intro conjI neq) (simp_all add: ord_def)
qed

lemma unat_byte_less: "unat (b :: byte) < 256"
  using unsigned_less[of b, where ?'a = nat] by simp

lemma set_bytes_hex: "set (bytes_hex bs) \<subseteq> hex_chars"
proof -
  have "set (byte_hex b) \<subseteq> hex_chars" for b
    using unat_byte_less[of b] by (simp add: byte_hex_def hex_digit_in)
  then show ?thesis by (auto simp: bytes_hex_def)
qed

text \<open>\<open>bytes.fromhex\<close> reads back what \<open>bytes.hex\<close> writes.\<close>

lemma bytes_fromhex_hex: "bytes_fromhex (bytes_hex bs) = Some bs"
proof (induction bs)
  case Nil
  then show ?case by (simp add: bytes_hex_def)
next
  case (Cons b bs)
  have lt: "unat b div 16 < 16" "unat b mod 16 < 16"
    using unat_byte_less[of b] by simp_all
  note v = hex_digit_value[OF lt(1)] hex_digit_value[OF lt(2)]
  have sp: "\<not> is_space (hex_digit (unat b div 16))"
    using hex_char_plain[OF hex_digit_in[OF lt(1)]] by simp
  have same: "(of_nat (16 * (unat b div 16) + unat b mod 16) :: byte) = b"
    by (simp only: mult_div_mod_eq of_nat_unat ucast_id)
  from Cons v sp same show ?case by (simp add: bytes_hex_def byte_hex_def)
qed

lemma hex_number_append:
  "hex_number acc (xs @ ys) = Option.bind (hex_number acc xs) (\<lambda>a. hex_number a ys)"
  by (induction xs arbitrary: acc) (auto split: option.splits)

lemma hex_number_fixed: "hex_number acc (hex_fixed k n) = Some (acc * 16 ^ k + n mod 16 ^ k)"
proof (induction k arbitrary: n)
  case 0
  then show ?case by simp
next
  case (Suc k)
  have v: "hex_value (hex_digit (n mod 16)) = Some (n mod 16)"
    by (rule hex_digit_value) simp
  have "n mod 16 ^ Suc k = 16 * (n div 16 mod 16 ^ k) + n mod 16"
    by (simp add: mod_mult2_eq)
  with v show ?case by (simp add: hex_number_append Suc algebra_simps)
qed

lemma set_hex_fixed: "set (hex_fixed k n) \<subseteq> hex_chars"
  by (induction k arbitrary: n) (auto simp: hex_digit_in)

lemma length_hex_fixed [simp]: "length (hex_fixed k n) = k"
  by (induction k arbitrary: n) auto

lemma set_uuid_str: "set (uuid_str u) \<subseteq> insert (CHR ''-'') hex_chars"
  using set_hex_fixed by (auto simp: uuid_str_def)

lemma hex_fixed_add: "hex_fixed (a + b) n = hex_fixed a (n div 16 ^ b) @ hex_fixed b n"
  by (induction b arbitrary: n) (simp_all add: div_mult2_eq)

lemma filter_hex_fixed: "filter (\<lambda>c. c \<noteq> CHR ''-'') (hex_fixed k n) = hex_fixed k n"
  using set_hex_fixed[of k n] hex_char_plain by (intro filter_True) blast

text \<open>\<open>UUID(str(u))\<close> is \<open>u\<close> for every 128-bit value.\<close>

lemma uuid_parse_str:
  assumes "u < 16 ^ 32"
  shows "uuid_parse (uuid_str u) = Some u"
proof -
  have chars: "\<forall>c \<in> set (uuid_str u). c \<noteq> CHR ''u'' \<and> c \<noteq> CHR ''{'' \<and> c \<noteq> CHR ''}''"
    using set_uuid_str[of u] hex_char_plain by fastforce
  then have "CHR ''u'' \<notin> set (uuid_str u)" by blast
  then have rem: "remove_sub ''uuid:'' (remove_sub ''urn:'' (uuid_str u)) = uuid_str u"
    by (simp add: remove_sub_none)
  have str: "strip_by (\<lambda>c. c = CHR ''{'' \<or> c = CHR ''}'') (uuid_str u) = uuid_str u"
    using chars by (intro strip_by_none) blast
  have fil: "filter (\<lambda>c. c \<noteq> CHR ''-'') (uuid_str u) = hex_fixed 32 u"
    using hex_fixed_add[of 8 24 u] hex_fixed_add[of 4 20 u] hex_fixed_add[of 4 16 u]
      hex_fixed_add[of 4 12 u]
    by (simp only: uuid_str_def filter_append filter_hex_fixed) simp
  have "hex_number 0 (hex_fixed 32 u) = Some u"
    using assms by (simp only: hex_number_fixed) simp
  then show ?thesis
    by (simp add: uuid_parse_def rem str fil Let_def)
qed

end
