(* ===== verification/Phase2Models.thy ===== *)
theory Phase2Models
  imports PyLib
begin

text \<open>
  The tables behind the operations API, from \<^verbatim>\<open>backend/app/models/phase2.py\<close>: assets,
  documentation, discovery, tickets, the query assistant and reports. Only the classes some
  handler reads or writes have a record. A \<open>date\<close> counts days since the epoch; a
  \<open>decimal\<close> is its canonical text, as the column's rounding to two places is the
  database's.
\<close>

type_synonym date = int
type_synonym decimal = string

record asset =
  ast_id :: uuid
  ast_organization_id :: uuid
  ast_device_id :: "uuid option"
  ast_asset_type_id :: "uuid option"
  ast_asset_tag :: string
  ast_name :: string
  ast_serial_number :: "string option"
  ast_manufacturer :: "string option"
  ast_model :: "string option"
  ast_purchase_date :: "date option"
  ast_purchase_cost :: "decimal option"
  ast_vendor :: "string option"
  ast_warranty_expiration :: "date option"
  ast_assigned_user :: "string option"
  ast_department :: "string option"
  ast_location :: "string option"
  ast_status :: string
  ast_notes :: "string option"
  ast_created_at :: datetime

record company =
  cmp_id :: uuid
  cmp_organization_id :: uuid
  cmp_name :: string
  cmp_notes :: "string option"
  cmp_created_at :: datetime

record documentation_category =
  dcg_id :: uuid
  dcg_organization_id :: uuid
  dcg_name :: string
  dcg_created_at :: datetime

record documentation_article =
  dar_id :: uuid
  dar_organization_id :: uuid
  dar_company_id :: "uuid option"
  dar_category_id :: "uuid option"
  dar_title :: string
  dar_body_markdown :: string
  dar_tags :: "string list"
  dar_version :: int
  dar_created_at :: datetime

record discovery_scan =
  dsn_id :: uuid
  dsn_organization_id :: uuid
  dsn_device_id :: "uuid option"
  dsn_scan_type :: string
  dsn_status :: string
  dsn_scheduled_for :: "datetime option"
  dsn_completed_at :: "datetime option"
  dsn_created_at :: datetime

record discovered_device =
  dcd_id :: uuid
  dcd_organization_id :: uuid
  dcd_asset_id :: "uuid option"
  dcd_ip_address :: string
  dcd_hostname :: "string option"
  dcd_mac_address :: "string option"
  dcd_vendor :: "string option"
  dcd_open_ports :: "int list"
  dcd_snmp_data :: json_dict
  dcd_last_seen_at :: datetime
  dcd_created_at :: datetime

record ticket =
  tkt_id :: uuid
  tkt_organization_id :: uuid
  tkt_device_id :: "uuid option"
  tkt_asset_id :: "uuid option"
  tkt_company_id :: "uuid option"
  tkt_alert_id :: "uuid option"
  tkt_assigned_user_id :: "uuid option"
  tkt_title :: string
  tkt_description :: "string option"
  tkt_status :: string
  tkt_priority :: string
  tkt_created_at :: datetime

record ticket_comment =
  tkc_id :: uuid
  tkc_organization_id :: uuid
  tkc_ticket_id :: uuid
  tkc_author_user_id :: "uuid option"
  tkc_body :: string
  tkc_internal :: bool
  tkc_created_at :: datetime

record ticket_time_entry =
  tke_id :: uuid
  tke_organization_id :: uuid
  tke_ticket_id :: uuid
  tke_user_id :: "uuid option"
  tke_minutes :: int
  tke_notes :: "string option"
  tke_created_at :: datetime

record ai_conversation =
  aic_id :: uuid
  aic_organization_id :: uuid
  aic_user_id :: "uuid option"
  aic_title :: string
  aic_created_at :: datetime

record ai_message =
  aim_id :: uuid
  aim_organization_id :: uuid
  aim_conversation_id :: uuid
  aim_role :: string
  aim_content :: string
  aim_created_at :: datetime

record ai_insight =
  aii_id :: uuid
  aii_organization_id :: uuid
  aii_insight_type :: string
  aii_summary :: string
  aii_metadata_json :: json_dict
  aii_created_at :: datetime

record report_template =
  rtm_id :: uuid
  rtm_organization_id :: uuid
  rtm_name :: string
  rtm_report_type :: string
  rtm_config :: json_dict
  rtm_created_at :: datetime

record report_run =
  rrn_id :: uuid
  rrn_organization_id :: uuid
  rrn_template_id :: "uuid option"
  rrn_status :: string
  rrn_format :: string
  rrn_output_path :: "string option"
  rrn_completed_at :: "datetime option"
  rrn_created_at :: datetime

record report_schedule =
  rsc_id :: uuid
  rsc_organization_id :: uuid
  rsc_template_id :: uuid
  rsc_cron :: string
  rsc_enabled :: bool
  rsc_email_recipients :: "string list"
  rsc_created_at :: datetime

record phase2_store =
  assets :: "asset list"
  companies :: "company list"
  documentation_categories :: "documentation_category list"
  documentation_articles :: "documentation_article list"
  discovery_scans :: "discovery_scan list"
  discovered_devices :: "discovered_device list"
  tickets :: "ticket list"
  ticket_comments :: "ticket_comment list"
  ticket_time_entries :: "ticket_time_entry list"
  ai_conversations :: "ai_conversation list"
  ai_messages :: "ai_message list"
  ai_insights :: "ai_insight list"
  report_templates :: "report_template list"
  report_runs :: "report_run list"
  report_schedules :: "report_schedule list"

definition empty_phase2 :: phase2_store where
  "empty_phase2 = \<lparr>assets = [], companies = [], documentation_categories = [],
     documentation_articles = [], discovery_scans = [], discovered_devices = [], tickets = [],
     ticket_comments = [], ticket_time_entries = [], ai_conversations = [], ai_messages = [],
     ai_insights = [], report_templates = [], report_runs = [], report_schedules = []\<rparr>"

end
