(* ===== verification/Phase3Models.thy ===== *)
theory Phase3Models
  imports PyLib
begin

text \<open>
  The tables of \<^verbatim>\<open>backend/app/models/phase3.py\<close>: dashboard preferences, the customer
  portal, workflows, API keys, health records and backups. The organization column of the
  last two groups is nullable, but every row the program writes has one.
\<close>

record dashboard_preference =
  dpr_id :: uuid
  dpr_organization_id :: uuid
  dpr_user_id :: uuid
  dpr_layout :: json_dict
  dpr_role_widgets :: "string list"
  dpr_created_at :: datetime

record portal_role =
  prl_id :: uuid
  prl_organization_id :: uuid
  prl_name :: string
  prl_permissions :: "string list"
  prl_created_at :: datetime

record portal_user =
  pus_id :: uuid
  pus_organization_id :: uuid
  pus_portal_role_id :: "uuid option"
  pus_email :: string
  pus_display_name :: string
  pus_hashed_password :: string
  pus_is_active :: bool
  pus_created_at :: datetime

record portal_session =
  pse_id :: uuid
  pse_organization_id :: uuid
  pse_portal_user_id :: uuid
  pse_token_hash :: string
  pse_expires_at :: datetime
  pse_created_at :: datetime
  pse_revoked_at :: "datetime option"

record workflow =
  wfl_id :: uuid
  wfl_organization_id :: uuid
  wfl_name :: string
  wfl_enabled :: bool
  wfl_created_at :: datetime

record workflow_trigger =
  wft_id :: uuid
  wft_organization_id :: uuid
  wft_workflow_id :: uuid
  wft_trigger_type :: string
  wft_config :: json_dict
  wft_created_at :: datetime

record workflow_action =
  wfa_id :: uuid
  wfa_organization_id :: uuid
  wfa_workflow_id :: uuid
  wfa_action_type :: string
  wfa_config :: json_dict
  wfa_created_at :: datetime

record workflow_execution =
  wfe_id :: uuid
  wfe_organization_id :: uuid
  wfe_workflow_id :: uuid
  wfe_status :: string
  wfe_trigger_payload :: json_dict
  wfe_completed_at :: "datetime option"
  wfe_created_at :: datetime

record api_key =
  apk_id :: uuid
  apk_organization_id :: uuid
  apk_name :: string
  apk_key_hash :: string
  apk_prefix :: string
  apk_scopes :: "string list"
  apk_last_used_at :: "datetime option"
  apk_revoked_at :: "datetime option"
  apk_created_at :: datetime

record system_health =
  syh_id :: uuid
  syh_organization_id :: uuid
  syh_component :: string
  syh_status :: string
  syh_details :: json_dict
  syh_checked_at :: datetime
  syh_created_at :: datetime

record backup_job =
  bkj_id :: uuid
  bkj_organization_id :: uuid
  bkj_name :: string
  bkj_schedule :: string
  bkj_enabled :: bool
  bkj_target :: string
  bkj_created_at :: datetime

record backup_run =
  bkr_id :: uuid
  bkr_organization_id :: uuid
  bkr_job_id :: "uuid option"
  bkr_status :: string
  bkr_backup_path :: "string option"
  bkr_validation_status :: "string option"
  bkr_notes :: "string option"
  bkr_completed_at :: "datetime option"
  bkr_created_at :: datetime

record phase3_store =
  dashboard_preferences :: "dashboard_preference list"
  portal_roles :: "portal_role list"
  portal_users :: "portal_user list"
  portal_sessions :: "portal_session list"
  workflows :: "workflow list"
  workflow_triggers :: "workflow_trigger list"
  workflow_actions :: "workflow_action list"
  workflow_executions :: "workflow_execution list"
  api_keys :: "api_key list"
  system_healths :: "system_health list"
  backup_jobs :: "backup_job list"
  backup_runs :: "backup_run list"

definition empty_phase3 :: phase3_store where
  "empty_phase3 = \<lparr>dashboard_preferences = [], portal_roles = [], portal_users = [],
     portal_sessions = [], workflows = [], workflow_triggers = [], workflow_actions = [],
     workflow_executions = [], api_keys = [], system_healths = [], backup_jobs = [],
     backup_runs = []\<rparr>"

end
