(* ===== verification/Models.thy ===== *)
theory Models
  imports Phase2Models Phase3Models
begin

text \<open>
  The database tables of \<^verbatim>\<open>backend/app/models\<close>, one record per mapped class and one
  field per mapped column. \<open>Mapped[T | None]\<close> is an option, JSON columns are \<^typ>\<open>json\<close>
  values. Every table with the \<open>TimestampMixin\<close> has its \<open>created_at\<close> column;
  \<open>updated_at\<close>, which only the database writes and no decision reads, is left out, as are
  the \<open>relationship\<close> attributes, which are not columns. A store holds the rows of every
  table in insertion order.
\<close>

subsection \<open>Tenants, operators and credentials\<close>

record organization =
  org_id :: uuid
  org_name :: string
  org_slug :: string
  org_created_at :: datetime

record user =
  usr_id :: uuid
  usr_organization_id :: uuid
  usr_email :: string
  usr_hashed_password :: string
  usr_role :: string
  usr_is_active :: bool
  usr_created_at :: datetime

record refresh_token =
  rft_id :: uuid
  rft_organization_id :: uuid
  rft_user_id :: uuid
  rft_token_hash :: string
  rft_expires_at :: datetime
  rft_revoked_at :: "datetime option"
  rft_created_at :: datetime

record enrollment_token =
  ent_id :: uuid
  ent_organization_id :: uuid
  ent_token_hash :: string
  ent_expires_at :: datetime
  ent_max_uses :: int
  ent_uses :: int
  ent_revoked_at :: "datetime option"
  ent_created_by_user_id :: "uuid option"
  ent_created_at :: datetime

record audit_log =
  aud_id :: uuid
  aud_organization_id :: uuid
  aud_actor_user_id :: "uuid option"
  aud_action :: string
  aud_target_type :: string
  aud_target_id :: "string option"
  aud_metadata_json :: json_dict
  aud_created_at :: datetime

subsection \<open>Devices, agents and their telemetry\<close>

record device =
  dev_id :: uuid
  dev_organization_id :: uuid
  dev_hostname :: string
  dev_operating_system :: string
  dev_architecture :: "string option"
  dev_machine_identifier :: string
  dev_ip_address :: "string option"
  dev_agent_version :: "string option"
  dev_health_status :: string
  dev_status :: string
  dev_is_online :: bool
  dev_last_seen_at :: "datetime option"
  dev_created_at :: datetime

record agent =
  agt_id :: uuid
  agt_organization_id :: uuid
  agt_device_id :: "uuid option"
  agt_version :: string
  agt_install_id :: string
  agt_device_secret_hash :: string
  agt_last_seen_at :: "datetime option"
  agt_created_at :: datetime

record device_checkin =
  chk_id :: uuid
  chk_organization_id :: uuid
  chk_device_id :: uuid
  chk_agent_id :: uuid
  chk_status :: string
  chk_ip_address :: "string option"
  chk_agent_version :: "string option"
  chk_payload :: json_dict
  chk_checked_in_at :: datetime

record device_inventory =
  inv_id :: uuid
  inv_device_id :: uuid
  inv_organization_id :: uuid
  inv_hostname :: string
  inv_operating_system :: string
  inv_os_version :: "string option"
  inv_os_build :: "string option"
  inv_architecture :: "string option"
  inv_agent_version :: "string option"
  inv_cpu_model :: "string option"
  inv_cpu_cores :: "int option"
  inv_memory_total_bytes :: "int option"
  inv_bios_vendor :: "string option"
  inv_bios_version :: "string option"
  inv_system_manufacturer :: "string option"
  inv_system_model :: "string option"
  inv_inventory_refreshed_at :: datetime
  inv_created_at :: datetime

record disk_inventory =
  dsk_id :: uuid
  dsk_device_id :: uuid
  dsk_organization_id :: uuid
  dsk_name :: string
  dsk_filesystem :: "string option"
  dsk_size_bytes :: "int option"
  dsk_free_bytes :: "int option"
  dsk_created_at :: datetime

record network_interface_inventory =
  nic_id :: uuid
  nic_device_id :: uuid
  nic_organization_id :: uuid
  nic_name :: string
  nic_mac_address :: "string option"
  nic_ip_addresses :: "string list"
  nic_created_at :: datetime

record installed_software =
  sft_id :: uuid
  sft_device_id :: uuid
  sft_organization_id :: uuid
  sft_name :: string
  sft_version :: "string option"
  sft_publisher :: "string option"
  sft_installed_at :: "datetime option"
  sft_created_at :: datetime

record security_status =
  sec_id :: uuid
  sec_device_id :: uuid
  sec_organization_id :: uuid
  sec_antivirus_product :: "string option"
  sec_antivirus_enabled :: "bool option"
  sec_antivirus_up_to_date :: "bool option"
  sec_defender_enabled :: "bool option"
  sec_firewall_enabled :: "bool option"
  sec_details :: json_dict
  sec_refreshed_at :: datetime
  sec_created_at :: datetime

record update_status =
  ups_id :: uuid
  ups_device_id :: uuid
  ups_organization_id :: uuid
  ups_pending_reboot :: "bool option"
  ups_update_status :: "string option"
  ups_last_update_check_at :: "datetime option"
  ups_details :: json_dict
  ups_refreshed_at :: datetime
  ups_created_at :: datetime

subsection \<open>Alerts and notifications\<close>

record alert_rule =
  alr_id :: uuid
  alr_organization_id :: uuid
  alr_rule_key :: string
  alr_name :: string
  alr_severity :: string
  alr_description :: string
  alr_enabled :: bool
  alr_parameters :: json_dict
  alr_created_at :: datetime

record alert =
  alt_id :: uuid
  alt_organization_id :: uuid
  alt_device_id :: uuid
  alt_rule_id :: uuid
  alt_severity :: string
  alt_status :: string
  alt_title :: string
  alt_message :: string
  alt_first_seen_at :: datetime
  alt_last_seen_at :: datetime
  alt_acknowledged_at :: "datetime option"
  alt_resolved_at :: "datetime option"
  alt_created_at :: datetime

record alert_event =
  ale_id :: uuid
  ale_organization_id :: uuid
  ale_alert_id :: uuid
  ale_event_type :: string
  ale_message :: string
  ale_metadata_json :: json_dict
  ale_created_at :: datetime

record notification_channel =
  ncl_id :: uuid
  ncl_organization_id :: uuid
  ncl_name :: string
  ncl_channel_type :: string
  ncl_enabled :: bool
  ncl_config :: json_dict
  ncl_created_at :: datetime

record notification_rule =
  nrl_id :: uuid
  nrl_organization_id :: uuid
  nrl_name :: string
  nrl_enabled :: bool
  nrl_severity_filter :: "string list"
  nrl_alert_rule_type_filter :: "string list"
  nrl_channel_ids :: "string list"
  nrl_created_at :: datetime

record notification_delivery =
  ndl_id :: uuid
  ndl_organization_id :: uuid
  ndl_alert_id :: uuid
  ndl_channel_id :: uuid
  ndl_status :: string
  ndl_attempts :: int
  ndl_last_error :: "string option"
  ndl_sent_at :: "datetime option"
  ndl_created_at :: datetime

subsection \<open>Agent jobs\<close>

record agent_job =
  job_id :: uuid
  job_organization_id :: uuid
  job_device_id :: uuid
  job_assigned_agent_id :: "uuid option"
  job_type :: string
  job_status :: string
  job_payload :: json_dict
  job_expires_at :: datetime
  job_started_at :: "datetime option"
  job_completed_at :: "datetime option"
  job_result_summary :: "string option"
  job_created_at :: datetime

record agent_job_event =
  jev_id :: uuid
  jev_organization_id :: uuid
  jev_job_id :: uuid
  jev_event_type :: string
  jev_message :: string
  jev_metadata_json :: json_dict
  jev_created_at :: datetime

record agent_job_result =
  jrs_id :: uuid
  jrs_organization_id :: uuid
  jrs_job_id :: uuid
  jrs_status :: string
  jrs_output :: string
  jrs_error :: "string option"
  jrs_exit_code :: "int option"
  jrs_metadata_json :: json_dict
  jrs_created_at :: datetime

subsection \<open>Remote access\<close>

record remote_provider_config =
  rpc_id :: uuid
  rpc_organization_id :: uuid
  rpc_provider_type :: string
  rpc_name :: string
  rpc_host :: string
  rpc_relay_host :: "string option"
  rpc_public_key :: "string option"
  rpc_enabled :: bool
  rpc_created_at :: datetime

record remote_device_link =
  rdl_id :: uuid
  rdl_organization_id :: uuid
  rdl_device_id :: uuid
  rdl_provider_config_id :: "uuid option"
  rdl_provider_type :: string
  rdl_rustdesk_id :: "string option"
  rdl_installed :: bool
  rdl_last_status :: string
  rdl_last_reported_at :: "datetime option"
  rdl_created_at :: datetime

record remote_session_audit =
  rsa_id :: uuid
  rsa_organization_id :: uuid
  rsa_device_id :: uuid
  rsa_provider_config_id :: "uuid option"
  rsa_actor_user_id :: "uuid option"
  rsa_provider_type :: string
  rsa_action :: string
  rsa_launch_url :: "string option"
  rsa_metadata_json :: json_dict
  rsa_created_at :: datetime

subsection \<open>The store\<close>

record store =
  organizations :: "organization list"
  users :: "user list"
  refresh_tokens :: "refresh_token list"
  enrollment_tokens :: "enrollment_token list"
  audit_logs :: "audit_log list"
  devices :: "device list"
  agents :: "agent list"
  device_checkins :: "device_checkin list"
  device_inventories :: "device_inventory list"
  disk_inventories :: "disk_inventory list"
  network_interfaces :: "network_interface_inventory list"
  softwares :: "installed_software list"
  security_statuses :: "security_status list"
  update_statuses :: "update_status list"
  alert_rules :: "alert_rule list"
  alerts :: "alert list"
  alert_events :: "alert_event list"
  notification_channels :: "notification_channel list"
  notification_rules :: "notification_rule list"
  notification_deliveries :: "notification_delivery list"
  agent_jobs :: "agent_job list"
  agent_job_events :: "agent_job_event list"
  agent_job_results :: "agent_job_result list"
  remote_providers :: "remote_provider_config list"
  remote_links :: "remote_device_link list"
  remote_session_audits :: "remote_session_audit list"
  phase2 :: phase2_store
  phase3 :: phase3_store

definition empty_store :: store where
  "empty_store =
    \<lparr>organizations = [], users = [], refresh_tokens = [], enrollment_tokens = [],
     audit_logs = [], devices = [], agents = [], device_checkins = [],
     device_inventories = [], disk_inventories = [], network_interfaces = [],
     softwares = [], security_statuses = [], update_statuses = [], alert_rules = [],
     alerts = [], alert_events = [], notification_channels = [],
     notification_rules = [], notification_deliveries = [], agent_jobs = [],
     agent_job_events = [], agent_job_results = [], remote_providers = [],
     remote_links = [], remote_session_audits = [],
     phase2 = empty_phase2, phase3 = empty_phase3\<rparr>"

text \<open>
  The unique constraints the mapped columns declare (\<open>unique=True\<close>); the database
  rejects a flush that would break one.
\<close>

definition unique_ok :: "store \<Rightarrow> bool" where
  "unique_ok st \<longleftrightarrow>
     distinct (map org_name (organizations st)) \<and>
     distinct (map org_slug (organizations st)) \<and>
     distinct (map usr_email (users st)) \<and>
     distinct (map rft_token_hash (refresh_tokens st)) \<and>
     distinct (map ent_token_hash (enrollment_tokens st)) \<and>
     distinct (map agt_install_id (agents st)) \<and>
     distinct (map inv_device_id (device_inventories st)) \<and>
     distinct (map sec_device_id (security_statuses st)) \<and>
     distinct (map ups_device_id (update_statuses st)) \<and>
     distinct (map jrs_job_id (agent_job_results st))"

end
