(* ===== verification/Session.thy ===== *)
theory Session
  imports Models
begin

text \<open>
  The database session of \<^verbatim>\<open>backend/app/db/session.py\<close>. \<open>SessionLocal\<close> is created with
  \<open>autoflush=False\<close>, so three versions of the data have to be told apart while a request
  runs: the committed rows (\<open>durable\<close>), the rows as flushed in the request's transaction,
  which is what a SELECT filters on (\<open>flushed\<close>), and the mapped objects with their pending
  changes (\<open>live\<close>). A query evaluates its WHERE clause on the flushed rows and returns the
  live objects with those primary keys; an attribute assignment or \<open>db.add\<close> only changes
  the live objects; \<open>db.flush\<close> and \<open>db.commit\<close> move them on. Primary keys come from a
  counter, the model of \<open>uuid4\<close>: a new key is one that was never used.
\<close>

record session =
  durable :: store
  flushed :: store
  live :: store
  next_id :: uuid

type_synonym 'a db_op = "(session, 'a) op"

subsection \<open>The session's operations, for any table\<close>

text \<open>
  A table is given by the store's field \<open>t\<close>, its update \<open>u\<close> and the key \<open>k\<close> of its rows.
\<close>

definition live_row :: "(store \<Rightarrow> 'r list) \<Rightarrow> ('r \<Rightarrow> uuid) \<Rightarrow> session \<Rightarrow> 'r \<Rightarrow> 'r" where
  "live_row t k s r =
     (case List.find (\<lambda>x. k x = k r) (t (live s)) of None \<Rightarrow> r | Some x \<Rightarrow> x)"

text \<open>\<open>db.scalars(select(T).where(P)).all()\<close>\<close>

definition db_select ::
  "(store \<Rightarrow> 'r list) \<Rightarrow> ('r \<Rightarrow> uuid) \<Rightarrow> ('r \<Rightarrow> bool) \<Rightarrow> session \<Rightarrow> 'r list" where
  "db_select t k P s = map (live_row t k s) (filter P (t (flushed s)))"

text \<open>\<open>db.scalars(select(T).where(P).order_by(key)).all()\<close>\<close>

definition db_select_by ::
  "(store \<Rightarrow> 'r list) \<Rightarrow> ('r \<Rightarrow> uuid) \<Rightarrow> ('r \<Rightarrow> 'o::linorder) \<Rightarrow> ('r \<Rightarrow> bool) \<Rightarrow>
   session \<Rightarrow> 'r list" where
  "db_select_by t k key P s =
     map (live_row t k s) (sort_key key (filter P (t (flushed s))))"

text \<open>\<open>db.scalar(select(T).where(P))\<close>: the first row, or \<open>None\<close>.\<close>

definition db_scalar ::
  "(store \<Rightarrow> 'r list) \<Rightarrow> ('r \<Rightarrow> uuid) \<Rightarrow> ('r \<Rightarrow> bool) \<Rightarrow> session \<Rightarrow> 'r option" where
  "db_scalar t k P s = map_option (live_row t k s) (List.find P (t (flushed s)))"

text \<open>\<open>db.get(T, i)\<close>\<close>

definition db_get ::
  "(store \<Rightarrow> 'r list) \<Rightarrow> ('r \<Rightarrow> uuid) \<Rightarrow> uuid \<Rightarrow> session \<Rightarrow> 'r option" where
  "db_get t k i = db_scalar t k (\<lambda>r. k r = i)"

text \<open>\<open>db.scalar(select(func.count()).select_from(T).where(P))\<close>\<close>

definition db_count :: "(store \<Rightarrow> 'r list) \<Rightarrow> ('r \<Rightarrow> bool) \<Rightarrow> session \<Rightarrow> nat" where
  "db_count t P s = length (filter P (t (flushed s)))"

text \<open>The attributes an already loaded object has by now.\<close>

definition current_row :: "(store \<Rightarrow> 'r list) \<Rightarrow> ('r \<Rightarrow> uuid) \<Rightarrow> 'r \<Rightarrow> 'r db_op" where
  "current_row t k r = gets (\<lambda>s. live_row t k s r)"

text \<open>\<open>db.add(T(...))\<close>: the new object gets its primary key from the counter.\<close>

definition insert_row ::
  "(('r list \<Rightarrow> 'r list) \<Rightarrow> store \<Rightarrow> store) \<Rightarrow> (uuid \<Rightarrow> 'r) \<Rightarrow> 'r db_op" where
  "insert_row u mk = (\<lambda>s.
     (Inr (mk (next_id s)),
      s\<lparr>live := u (\<lambda>rs. rs @ [mk (next_id s)]) (live s), next_id := Suc (next_id s)\<rparr>))"

text \<open>Attribute assignments on the object with key \<open>k r\<close>, leaving it as \<open>r\<close>.\<close>

definition put_row ::
  "(('r list \<Rightarrow> 'r list) \<Rightarrow> store \<Rightarrow> store) \<Rightarrow> ('r \<Rightarrow> uuid) \<Rightarrow> 'r \<Rightarrow> unit db_op" where
  "put_row u k r =
     modify (\<lambda>s. s\<lparr>live := u (map (\<lambda>x. if k x = k r then r else x)) (live s)\<rparr>)"

text \<open>\<open>db.execute(delete(T).where(P))\<close>\<close>

definition delete_rows ::
  "(store \<Rightarrow> 'r list) \<Rightarrow> (('r list \<Rightarrow> 'r list) \<Rightarrow> store \<Rightarrow> store) \<Rightarrow> ('r \<Rightarrow> uuid) \<Rightarrow>
   ('r \<Rightarrow> bool) \<Rightarrow> unit db_op" where
  "delete_rows t u k P = modify (\<lambda>s.
     (let ks = map k (filter P (t (flushed s)));
          del = filter (\<lambda>r. k r \<notin> set ks)
      in s\<lparr>live := u del (live s), flushed := u del (flushed s)\<rparr>))"

text \<open>\<open>db.flush()\<close> and \<open>db.commit()\<close>; a broken unique constraint is an IntegrityError.\<close>

definition db_flush :: "unit db_op" where
  "db_flush = (\<lambda>s. if unique_ok (live s) then (Inr (), s\<lparr>flushed := live s\<rparr>)
                   else (Inl IntegrityError, s))"

definition db_commit :: "unit db_op" where
  "db_commit = (\<lambda>s. if unique_ok (live s) then (Inr (), s\<lparr>flushed := live s, durable := live s\<rparr>)
                    else (Inl IntegrityError, s))"

lemma db_flush_run: "unique_ok (live s) \<Longrightarrow> db_flush s = (Inr (), s\<lparr>flushed := live s\<rparr>)"
  by (simp add: db_flush_def)

lemma db_commit_run:
  "unique_ok (live s) \<Longrightarrow> db_commit s = (Inr (), s\<lparr>flushed := live s, durable := live s\<rparr>)"
  by (simp add: db_commit_def)

subsection \<open>Requests\<close>

text \<open>
  \<open>get_db\<close> opens a session for each request and closes it when the request ends, which
  rolls back whatever was not committed. The server between requests is its committed
  store and the key counter.
\<close>

record server =
  srv_store :: store
  srv_next_id :: uuid

definition open_session :: "server \<Rightarrow> session" where
  "open_session w =
     \<lparr>durable = srv_store w, flushed = srv_store w, live = srv_store w, next_id = srv_next_id w\<rparr>"

definition close_session :: "session \<Rightarrow> server" where
  "close_session s = \<lparr>srv_store = durable s, srv_next_id = next_id s\<rparr>"

definition run_request :: "'a db_op \<Rightarrow> server \<Rightarrow> (error + 'a) \<times> server" where
  "run_request h w = (case h (open_session w) of (r, s) \<Rightarrow> (r, close_session s))"

text \<open>\<open>synced s\<close>: nothing is pending, as at the start of a request and after a flush.\<close>

definition synced :: "session \<Rightarrow> bool" where
  "synced s \<longleftrightarrow> flushed s = live s"

lemma synced_open [simp]: "synced (open_session w)"
  by (simp add: synced_def open_session_def)

lemma open_session_simps [simp]:
  "durable (open_session w) = srv_store w"
  "flushed (open_session w) = srv_store w"
  "live (open_session w) = srv_store w"
  "next_id (open_session w) = srv_next_id w"
  by (simp_all add: open_session_def)

text \<open>The session of a request that has just committed \<open>st\<close>.\<close>

definition committed :: "store \<Rightarrow> uuid \<Rightarrow> session" where
  "committed st n = \<lparr>durable = st, flushed = st, live = st, next_id = n\<rparr>"

lemma committed_simps [simp]:
  "durable (committed st n) = st"
  "flushed (committed st n) = st"
  "live (committed st n) = st"
  "next_id (committed st n) = n"
  "synced (committed st n)"
  "close_session (committed st n) = \<lparr>srv_store = st, srv_next_id = n\<rparr>"
  by (simp_all add: committed_def synced_def close_session_def)

lemma commit_open:
  "unique_ok (live s) \<Longrightarrow> db_commit s = (Inr (), committed (live s) (next_id s))"
  by (simp add: db_commit_def committed_def)

lemma close_session_simps [simp]:
  "srv_store (close_session s) = durable s"
  "srv_next_id (close_session s) = next_id s"
  by (simp_all add: close_session_def)

lemma keeps_current_row [keeps_intro]: "keeps I (current_row t k r)"
  by (simp add: current_row_def keeps_gets)

text \<open>
  A request that never committed leaves the store as it was: the frame every error
  path of the handlers rests on.
\<close>

lemma keeps_durable_primitives [keeps_intro]:
  "keeps (\<lambda>s. durable s = d) (insert_row u mk)"
  "keeps (\<lambda>s. durable s = d) (put_row u k r)"
  "keeps (\<lambda>s. durable s = d) (delete_rows t u k P)"
  "keeps (\<lambda>s. durable s = d) db_flush"
  by (simp_all add: keeps_def insert_row_def put_row_def delete_rows_def db_flush_def Let_def)

subsection \<open>Facts about the rows in every version of the data\<close>

text \<open>
  \<open>everywhere P\<close>: the committed, the flushed and the live rows all satisfy \<open>P\<close>. Commit
  and flush keep it for any \<open>P\<close>, so an invariant of the stored rows is proved on the
  writes alone.
\<close>

definition everywhere :: "(store \<Rightarrow> bool) \<Rightarrow> session \<Rightarrow> bool" where
  "everywhere P s \<longleftrightarrow> P (live s) \<and> P (flushed s) \<and> P (durable s)"

lemma everywhere_commit [keeps_intro]: "keeps (everywhere P) db_commit"
  by (simp add: keeps_def db_commit_def everywhere_def)

lemma everywhere_flush [keeps_intro]: "keeps (everywhere P) db_flush"
  by (simp add: keeps_def db_flush_def everywhere_def)

lemma everywhere_insert:
  "(\<And>st i. P st \<Longrightarrow> P (u (\<lambda>rs. rs @ [mk i]) st)) \<Longrightarrow> keeps (everywhere P) (insert_row u mk)"
  by (simp add: keeps_def insert_row_def everywhere_def)

lemma everywhere_put:
  "(\<And>st. P st \<Longrightarrow> P (u (map (\<lambda>x. if k x = k r then r else x)) st)) \<Longrightarrow>
   keeps (everywhere P) (put_row u k r)"
  by (simp add: keeps_def put_row_def everywhere_def)

lemma everywhere_delete:
  "(\<And>st Q. P st \<Longrightarrow> P (u (filter Q) st)) \<Longrightarrow> keeps (everywhere P) (delete_rows t u k D)"
  by (simp add: keeps_def delete_rows_def everywhere_def Let_def)

lemma run_request_everywhere:
  assumes "keeps (everywhere P) h" and "P (srv_store w)"
  shows "P (srv_store (snd (run_request h w)))"
  using keepsD[OF assms(1), of "open_session w"] assms(2)
  by (auto simp: run_request_def everywhere_def split: prod.splits)

subsection \<open>Failing requests\<close>

text \<open>
  An operation is \<open>atomic\<close> when it commits nothing if it fails. It holds of every
  sequence that commits last: only steps that cannot raise may follow the commit.
\<close>

definition uncommitted :: "'a db_op \<Rightarrow> bool" where
  "uncommitted m \<longleftrightarrow> (\<forall>s. durable (snd (m s)) = durable s)"

definition safe_return :: "'a db_op \<Rightarrow> bool" where
  "safe_return m \<longleftrightarrow> (\<forall>s. \<not> isl (fst (m s)))"

definition atomic :: "'a db_op \<Rightarrow> bool" where
  "atomic m \<longleftrightarrow> (\<forall>s. isl (fst (m s)) \<longrightarrow> durable (snd (m s)) = durable s)"

lemma uncommitted_keeps: "uncommitted m \<longleftrightarrow> (\<forall>d. keeps (\<lambda>s. durable s = d) m)"
  by (auto simp: uncommitted_def keeps_def)

lemma uncommittedI: "(\<And>d. keeps (\<lambda>s. durable s = d) m) \<Longrightarrow> uncommitted m"
  by (simp add: uncommitted_keeps)

lemma atomic_uncommitted: "uncommitted m \<Longrightarrow> atomic m"
  by (simp add: atomic_def uncommitted_def)

lemma atomic_andThen:
  assumes "uncommitted m" and "\<And>x. atomic (f x)"
  shows "atomic (andThen m f)"
  unfolding atomic_def
proof (intro allI impI)
  fix s assume err: "isl (fst (andThen m f s))"
  obtain r t where m: "m s = (r, t)" by (cases "m s")
  with assms(1) have t: "durable t = durable s" unfolding uncommitted_def by (metis snd_conv)
  show "durable (snd (andThen m f s)) = durable s"
  proof (cases r)
    case (Inl e)
    with m t show ?thesis by (simp add: andThen_run)
  next
    case (Inr x)
    with m err t assms(2)[of x] show ?thesis by (auto simp: andThen_run atomic_def)
  qed
qed

lemma atomic_commit: "(\<And>x. safe_return (f x)) \<Longrightarrow> atomic (andThen db_commit f)"
  by (simp add: atomic_def safe_return_def andThen_def db_commit_def)

lemma safe_ret: "safe_return (ret x)"
  by (simp add: safe_return_def)

lemma safe_gets: "(\<And>x. safe_return (f x)) \<Longrightarrow> safe_return (andThen (gets g) f)"
  by (simp add: safe_return_def)

lemma atomic_if: "atomic m \<Longrightarrow> atomic n \<Longrightarrow> atomic (if b then m else n)"
  by simp

lemma atomic_case_option: "atomic m \<Longrightarrow> (\<And>x. atomic (f x)) \<Longrightarrow> atomic (case v of None \<Rightarrow> m | Some x \<Rightarrow> f x)"
  by (cases v) simp_all

lemma atomic_case_prod: "(\<And>a b. atomic (f a b)) \<Longrightarrow> atomic (case p of (a, b) \<Rightarrow> f a b)"
  by (cases p) simp

lemmas atomic_intro = atomic_andThen atomic_commit atomic_if atomic_case_option atomic_case_prod
  safe_ret safe_gets

lemma run_request_atomic:
  assumes "atomic h" and "run_request h w = (Inl e, w')"
  shows "srv_store w' = srv_store w"
proof -
  obtain s where s: "h (open_session w) = (Inl e, s)" "w' = close_session s"
    using assms(2) by (auto simp: run_request_def split: prod.splits)
  have "durable (snd (h (open_session w))) = durable (open_session w)"
    using assms(1) s(1) unfolding atomic_def by (metis fst_conv sum.disc(1))
  with s show ?thesis by simp
qed

text \<open>Tables an operation does not write keep their live rows.\<close>

lemma frame_live:
  "(\<And>f st. t (u f st) = t st) \<Longrightarrow> keeps (\<lambda>s. t (live s) = v) (insert_row u mk)"
  "(\<And>f st. t (u f st) = t st) \<Longrightarrow> keeps (\<lambda>s. t (live s) = v) (put_row u k r)"
  "(\<And>f st. t (u f st) = t st) \<Longrightarrow> keeps (\<lambda>s. t (live s) = v) (delete_rows tt u k P)"
  "keeps (\<lambda>s. t (live s) = v) db_flush" "keeps (\<lambda>s. t (live s) = v) db_commit"
  by (auto simp: keeps_def insert_row_def put_row_def delete_rows_def db_flush_def db_commit_def Let_def)

subsection \<open>The interface of a table\<close>

text \<open>
  What the handlers rely on from a table of the store: reading after writing, writes
  composing, and a write depending on nothing but the table's rows. The client lemmas
  say what queries return once pending changes are flushed.
\<close>

locale orm_table =
  fixes t :: "store \<Rightarrow> 'r list"
    and u :: "('r list \<Rightarrow> 'r list) \<Rightarrow> store \<Rightarrow> store"
    and k :: "'r \<Rightarrow> uuid"
  assumes read_write: "t (u f st) = f (t st)"
    and write_write: "u f (u g st) = u (\<lambda>rs. f (g rs)) st"
    and write_cong: "f (t st) = g (t st) \<Longrightarrow> u f st = u g st"
    and write_id: "u (\<lambda>rs. rs) st = st"
begin

lemma write_same: "f (t st) = t st \<Longrightarrow> u f st = st"
  using write_cong[of f st "\<lambda>rs. rs"] by (simp add: write_id)

lemma live_row_synced:
  assumes "synced s" and "distinct (map k (t (live s)))" and "r \<in> set (t (live s))"
  shows "live_row t k s r = r"
  using assms by (simp add: live_row_def find_Some_iff_distinct[THEN iffD2])

lemma select_synced:
  assumes "synced s" and "distinct (map k (t (live s)))"
  shows "db_select t k P s = filter P (t (live s))"
proof -
  have "map (live_row t k s) (filter P (t (live s))) = filter P (t (live s))"
    using assms by (intro map_idI) (auto simp: live_row_synced)
  with assms(1) show ?thesis by (simp add: db_select_def synced_def)
qed

lemma select_by_synced:
  assumes "synced s" and "distinct (map k (t (live s)))"
  shows "db_select_by t k key P s = sort_key key (filter P (t (live s)))"
proof -
  have "map (live_row t k s) (sort_key key (filter P (t (live s))))
      = sort_key key (filter P (t (live s)))"
    using assms by (intro map_idI) (auto simp: live_row_synced)
  with assms(1) show ?thesis by (simp add: db_select_by_def synced_def)
qed

lemma scalar_synced:
  assumes "synced s" and "distinct (map k (t (live s)))"
  shows "db_scalar t k P s = List.find P (t (live s))"
proof (cases "List.find P (t (live s))")
  case None
  with assms(1) show ?thesis by (simp add: db_scalar_def synced_def)
next
  case (Some r)
  then have "r \<in> set (t (live s))" by (simp add: find_SomeD)
  with Some assms show ?thesis by (simp add: db_scalar_def synced_def live_row_synced)
qed

lemma get_synced:
  assumes "synced s" and "distinct (map k (t (live s)))"
  shows "db_get t k i s = List.find (\<lambda>r. k r = i) (t (live s))"
  using assms by (simp add: db_get_def scalar_synced)

lemma get_SomeD:
  assumes "db_get t k i s = Some r"
  shows "k r = i \<and> (\<exists>r0 \<in> set (t (flushed s)). k r0 = i) \<and>
         (r \<in> set (t (live s)) \<or> r \<in> set (t (flushed s)))"
proof -
  from assms obtain r0 where r0: "List.find (\<lambda>r. k r = i) (t (flushed s)) = Some r0"
    and r: "r = live_row t k s r0"
    by (auto simp: db_get_def db_scalar_def)
  from r0 have k0: "k r0 = i" "r0 \<in> set (t (flushed s))" by (auto dest: find_SomeD)
  show ?thesis
  proof (cases "List.find (\<lambda>x. k x = k r0) (t (live s))")
    case None
    with r k0 show ?thesis by (auto simp: live_row_def)
  next
    case (Some x)
    with r k0 show ?thesis by (auto simp: live_row_def dest: find_SomeD)
  qed
qed

text \<open>A row a query returns is a live one, or a flushed one deleted since.\<close>

lemma live_row_in:
  "r0 \<in> set (t (flushed s)) \<Longrightarrow>
   live_row t k s r0 \<in> set (t (live s)) \<union> set (t (flushed s)) \<and> k (live_row t k s r0) = k r0"
  by (auto simp: live_row_def dest: find_SomeD split: option.splits)

lemma scalar_SomeD:
  assumes "db_scalar t k P s = Some r"
  shows "r \<in> set (t (live s)) \<union> set (t (flushed s))"
  using assms live_row_in by (auto simp: db_scalar_def dest!: find_SomeD)

lemma select_subset: "set (db_select t k P s) \<subseteq> set (t (live s)) \<union> set (t (flushed s))"
  using live_row_in by (auto simp: db_select_def)

lemma select_by_subset:
  "set (db_select_by t k key P s) \<subseteq> set (t (live s)) \<union> set (t (flushed s))"
  using live_row_in by (auto simp: db_select_by_def)

text \<open>An invariant of the rows is available on every row a query returns.\<close>

lemma get_rows:
  assumes "\<And>s r. I s \<Longrightarrow> r \<in> set (t (live s)) \<union> set (t (flushed s)) \<Longrightarrow> Q r"
    and "keeps I (f None)" and "\<And>r. Q r \<Longrightarrow> k r = i \<Longrightarrow> keeps I (f (Some r))"
  shows "keeps I (andThen (gets (db_get t k i)) f)"
proof (rule keeps_gets_andThen)
  fix s assume s: "I s"
  show "I (snd (f (db_get t k i s) s))"
  proof (cases "db_get t k i s")
    case None
    with keepsD[OF assms(2) s] show ?thesis by simp
  next
    case (Some r)
    then have "Q r" "k r = i"
      using assms(1)[OF s, of r] get_SomeD[OF Some] by auto
    from keepsD[OF assms(3)[OF this] s] Some show ?thesis by simp
  qed
qed

lemma scalar_rows:
  assumes "\<And>s r. I s \<Longrightarrow> r \<in> set (t (live s)) \<union> set (t (flushed s)) \<Longrightarrow> Q r"
    and "keeps I (f None)" and "\<And>r. Q r \<Longrightarrow> keeps I (f (Some r))"
  shows "keeps I (andThen (gets (db_scalar t k P)) f)"
proof (rule keeps_gets_andThen)
  fix s assume s: "I s"
  show "I (snd (f (db_scalar t k P s) s))"
  proof (cases "db_scalar t k P s")
    case None
    with keepsD[OF assms(2) s] show ?thesis by simp
  next
    case (Some r)
    from keepsD[OF assms(3)[OF assms(1)[OF s scalar_SomeD[OF Some]]] s] Some show ?thesis
      by simp
  qed
qed

text \<open>Each row of a SELECT comes with the flushed row that satisfied the WHERE clause.\<close>

lemma select_rows:
  assumes Q: "\<And>s r. I s \<Longrightarrow> r \<in> set (t (live s)) \<union> set (t (flushed s)) \<Longrightarrow> Q r"
    and f: "\<And>rs. (\<And>r. r \<in> set rs \<Longrightarrow> Q r \<and> (\<exists>r0. P r0 \<and> Q r0 \<and> k r0 = k r)) \<Longrightarrow> keeps I (f rs)"
  shows "keeps I (andThen (gets (db_select t k P)) f)"
    and "keeps I (andThen (gets (db_select_by t k key P)) f)"
proof -
  have row: "Q (live_row t k s r0) \<and> (\<exists>r1. P r1 \<and> Q r1 \<and> k r1 = k (live_row t k s r0))"
    if "I s" "r0 \<in> set (t (flushed s))" "P r0" for s r0
    using that Q[OF that(1)] live_row_in[OF that(2)] by (metis UnI2)
  show "keeps I (andThen (gets (db_select t k P)) f)"
    by (rule keeps_gets_andThen, rule keepsD[OF f]) (auto simp: db_select_def dest: row)
  show "keeps I (andThen (gets (db_select_by t k key P)) f)"
    by (rule keeps_gets_andThen, rule keepsD[OF f]) (auto simp: db_select_by_def dest: row)
qed

lemma keys_after_put:
  "map k (t (live (snd (put_row u k r s)))) = map k (t (live s))"
proof -
  have "map k (map (\<lambda>x. if k x = k r then r else x) rs) = map k rs" for rs
    by (induction rs) auto
  then show ?thesis by (simp add: put_row_def read_write)
qed

lemma keys_after_insert:
  "map k (t (live (snd (insert_row u mk s)))) = map k (t (live s)) @ [k (mk (next_id s))]"
  by (simp add: insert_row_def read_write)

end

end
