(* ===== verification/Tables.thy ===== *)
theory Tables
  imports Session
begin

text \<open>
  Facts about every table at once: primary keys are unique and below the key counter
  (\<open>ids_ok\<close>), and the rows of one organization (\<open>org_view\<close>), the unit of tenancy. The
  locale \<open>tenant_table\<close> states what a table contributes to both and proves, for any such
  table, how each primitive of the session acts on them; it is interpreted on every
  table of the store.
\<close>

subsection \<open>Key uniqueness and the view of one tenant\<close>

definition keys_ok :: "uuid \<Rightarrow> ('r \<Rightarrow> uuid) \<Rightarrow> 'r list \<Rightarrow> bool" where
  "keys_ok n k rs \<longleftrightarrow> distinct (map k rs) \<and> list_all (\<lambda>r. k r < n) rs"

definition phase2_ids_ok :: "uuid \<Rightarrow> phase2_store \<Rightarrow> bool" where
  "phase2_ids_ok n st \<longleftrightarrow>
     keys_ok n ast_id (assets st) \<and>
     keys_ok n cmp_id (companies st) \<and>
     keys_ok n dcg_id (documentation_categories st) \<and>
     keys_ok n dar_id (documentation_articles st) \<and>
     keys_ok n dsn_id (discovery_scans st) \<and>
     keys_ok n dcd_id (discovered_devices st) \<and>
     keys_ok n tkt_id (tickets st) \<and>
     keys_ok n tkc_id (ticket_comments st) \<and>
     keys_ok n tke_id (ticket_time_entries st) \<and>
     keys_ok n aic_id (ai_conversations st) \<and>
     keys_ok n aim_id (ai_messages st) \<and>
     keys_ok n aii_id (ai_insights st) \<and>
     keys_ok n rtm_id (report_templates st) \<and>
     keys_ok n rrn_id (report_runs st) \<and>
     keys_ok n rsc_id (report_schedules st)"

definition phase2_view :: "uuid \<Rightarrow> phase2_store \<Rightarrow> phase2_store" where
  "phase2_view o' st =
    \<lparr>assets = filter (\<lambda>r. ast_organization_id r = o') (assets st),
     companies = filter (\<lambda>r. cmp_organization_id r = o') (companies st),
     documentation_categories = filter (\<lambda>r. dcg_organization_id r = o') (documentation_categories st),
     documentation_articles = filter (\<lambda>r. dar_organization_id r = o') (documentation_articles st),
     discovery_scans = filter (\<lambda>r. dsn_organization_id r = o') (discovery_scans st),
     discovered_devices = filter (\<lambda>r. dcd_organization_id r = o') (discovered_devices st),
     tickets = filter (\<lambda>r. tkt_organization_id r = o') (tickets st),
     ticket_comments = filter (\<lambda>r. tkc_organization_id r = o') (ticket_comments st),
     ticket_time_entries = filter (\<lambda>r. tke_organization_id r = o') (ticket_time_entries st),
     ai_conversations = filter (\<lambda>r. aic_organization_id r = o') (ai_conversations st),
     ai_messages = filter (\<lambda>r. aim_organization_id r = o') (ai_messages st),
     ai_insights = filter (\<lambda>r. aii_organization_id r = o') (ai_insights st),
     report_templates = filter (\<lambda>r. rtm_organization_id r = o') (report_templates st),
     report_runs = filter (\<lambda>r. rrn_organization_id r = o') (report_runs st),
     report_schedules = filter (\<lambda>r. rsc_organization_id r = o') (report_schedules st)\<rparr>"

definition phase3_ids_ok :: "uuid \<Rightarrow> phase3_store \<Rightarrow> bool" where
  "phase3_ids_ok n st \<longleftrightarrow>
     keys_ok n dpr_id (dashboard_preferences st) \<and>
     keys_ok n prl_id (portal_roles st) \<and>
     keys_ok n pus_id (portal_users st) \<and>
     keys_ok n pse_id (portal_sessions st) \<and>
     keys_ok n wfl_id (workflows st) \<and>
     keys_ok n wft_id (workflow_triggers st) \<and>
     keys_ok n wfa_id (workflow_actions st) \<and>
     keys_ok n wfe_id (workflow_executions st) \<and>
     keys_ok n apk_id (api_keys st) \<and>
     keys_ok n syh_id (system_healths st) \<and>
     keys_ok n bkj_id (backup_jobs st) \<and>
     keys_ok n bkr_id (backup_runs st)"

definition phase3_view :: "uuid \<Rightarrow> phase3_store \<Rightarrow> phase3_store" where
  "phase3_view o' st =
    \<lparr>dashboard_preferences = filter (\<lambda>r. dpr_organization_id r = o') (dashboard_preferences st),
     portal_roles = filter (\<lambda>r. prl_organization_id r = o') (portal_roles st),
     portal_users = filter (\<lambda>r. pus_organization_id r = o') (portal_users st),
     portal_sessions = filter (\<lambda>r. pse_organization_id r = o') (portal_sessions st),
     workflows = filter (\<lambda>r. wfl_organization_id r = o') (workflows st),
     workflow_triggers = filter (\<lambda>r. wft_organization_id r = o') (workflow_triggers st),
     workflow_actions = filter (\<lambda>r. wfa_organization_id r = o') (workflow_actions st),
     workflow_executions = filter (\<lambda>r. wfe_organization_id r = o') (workflow_executions st),
     api_keys = filter (\<lambda>r. apk_organization_id r = o') (api_keys st),
     system_healths = filter (\<lambda>r. syh_organization_id r = o') (system_healths st),
     backup_jobs = filter (\<lambda>r. bkj_organization_id r = o') (backup_jobs st),
     backup_runs = filter (\<lambda>r. bkr_organization_id r = o') (backup_runs st)\<rparr>"

lemma empty_ids_ok [simp]: "phase2_ids_ok n empty_phase2" "phase3_ids_ok n empty_phase3"
  by (simp_all add: phase2_ids_ok_def phase3_ids_ok_def empty_phase2_def empty_phase3_def keys_ok_def)

definition ids_ok :: "uuid \<Rightarrow> store \<Rightarrow> bool" where
  "ids_ok n st \<longleftrightarrow>
     keys_ok n org_id (organizations st) \<and>
     keys_ok n usr_id (users st) \<and>
     keys_ok n rft_id (refresh_tokens st) \<and>
     keys_ok n ent_id (enrollment_tokens st) \<and>
     keys_ok n aud_id (audit_logs st) \<and>
     keys_ok n dev_id (devices st) \<and>
     keys_ok n agt_id (agents st) \<and>
     keys_ok n chk_id (device_checkins st) \<and>
     keys_ok n inv_id (device_inventories st) \<and>
     keys_ok n dsk_id (disk_inventories st) \<and>
     keys_ok n nic_id (network_interfaces st) \<and>
     keys_ok n sft_id (softwares st) \<and>
     keys_ok n sec_id (security_statuses st) \<and>
     keys_ok n ups_id (update_statuses st) \<and>
     keys_ok n alr_id (alert_rules st) \<and>
     keys_ok n alt_id (alerts st) \<and>
     keys_ok n ale_id (alert_events st) \<and>
     keys_ok n ncl_id (notification_channels st) \<and>
     keys_ok n nrl_id (notification_rules st) \<and>
     keys_ok n ndl_id (notification_deliveries st) \<and>
     keys_ok n job_id (agent_jobs st) \<and>
     keys_ok n jev_id (agent_job_events st) \<and>
     keys_ok n jrs_id (agent_job_results st) \<and>
     keys_ok n rpc_id (remote_providers st) \<and>
     keys_ok n rdl_id (remote_links st) \<and>
     keys_ok n rsa_id (remote_session_audits st) \<and>
     phase2_ids_ok n (phase2 st) \<and> phase3_ids_ok n (phase3 st)"

definition org_view :: "uuid \<Rightarrow> store \<Rightarrow> store" where
  "org_view o' st =
    \<lparr>organizations = filter (\<lambda>r. org_id r = o') (organizations st),
     users = filter (\<lambda>r. usr_organization_id r = o') (users st),
     refresh_tokens = filter (\<lambda>r. rft_organization_id r = o') (refresh_tokens st),
     enrollment_tokens = filter (\<lambda>r. ent_organization_id r = o') (enrollment_tokens st),
     audit_logs = filter (\<lambda>r. aud_organization_id r = o') (audit_logs st),
     devices = filter (\<lambda>r. dev_organization_id r = o') (devices st),
     agents = filter (\<lambda>r. agt_organization_id r = o') (agents st),
     device_checkins = filter (\<lambda>r. chk_organization_id r = o') (device_checkins st),
     device_inventories = filter (\<lambda>r. inv_organization_id r = o') (device_inventories st),
     disk_inventories = filter (\<lambda>r. dsk_organization_id r = o') (disk_inventories st),
     network_interfaces = filter (\<lambda>r. nic_organization_id r = o') (network_interfaces st),
     softwares = filter (\<lambda>r. sft_organization_id r = o') (softwares st),
     security_statuses = filter (\<lambda>r. sec_organization_id r = o') (security_statuses st),
     update_statuses = filter (\<lambda>r. ups_organization_id r = o') (update_statuses st),
     alert_rules = filter (\<lambda>r. alr_organization_id r = o') (alert_rules st),
     alerts = filter (\<lambda>r. alt_organization_id r = o') (alerts st),
     alert_events = filter (\<lambda>r. ale_organization_id r = o') (alert_events st),
     notification_channels = filter (\<lambda>r. ncl_organization_id r = o') (notification_channels st),
     notification_rules = filter (\<lambda>r. nrl_organization_id r = o') (notification_rules st),
     notification_deliveries = filter (\<lambda>r. ndl_organization_id r = o') (notification_deliveries st),
     agent_jobs = filter (\<lambda>r. job_organization_id r = o') (agent_jobs st),
     agent_job_events = filter (\<lambda>r. jev_organization_id r = o') (agent_job_events st),
     agent_job_results = filter (\<lambda>r. jrs_organization_id r = o') (agent_job_results st),
     remote_providers = filter (\<lambda>r. rpc_organization_id r = o') (remote_providers st),
     remote_links = filter (\<lambda>r. rdl_organization_id r = o') (remote_links st),
     remote_session_audits = filter (\<lambda>r. rsa_organization_id r = o') (remote_session_audits st),
     phase2 = phase2_view o' (phase2 st), phase3 = phase3_view o' (phase3 st)\<rparr>"

text \<open>
  \<open>wf_session\<close> is the key invariant of a session, with the unique constraints of the
  committed rows. \<open>isolated o' V\<close> adds that the rows of
  organization \<open>o'\<close> are exactly those of \<open>V\<close> in all three versions of the data.
\<close>

definition wf_session :: "session \<Rightarrow> bool" where
  "wf_session s \<longleftrightarrow> ids_ok (next_id s) (live s) \<and> ids_ok (next_id s) (flushed s) \<and>
     ids_ok (next_id s) (durable s) \<and> unique_ok (durable s)"

definition isolated :: "uuid \<Rightarrow> store \<Rightarrow> session \<Rightarrow> bool" where
  "isolated o' V s \<longleftrightarrow> wf_session s \<and> org_view o' (live s) = V \<and>
     org_view o' (flushed s) = V \<and> org_view o' (durable s) = V"

definition wf_server :: "server \<Rightarrow> bool" where
  "wf_server w \<longleftrightarrow> ids_ok (srv_next_id w) (srv_store w) \<and> unique_ok (srv_store w)"

lemma keys_ok_mono: "keys_ok n k rs \<Longrightarrow> n \<le> m \<Longrightarrow> keys_ok m k rs"
  by (auto simp: keys_ok_def list_all_iff)

lemma ids_ok_Suc: "ids_ok n st \<Longrightarrow> ids_ok (Suc n) st"
  unfolding ids_ok_def phase2_ids_ok_def phase3_ids_ok_def
  by (elim conjE, intro conjI) (erule keys_ok_mono, simp)+

lemma keys_ok_snoc: "keys_ok n k rs \<Longrightarrow> k r = n \<Longrightarrow> keys_ok (Suc n) k (rs @ [r])"
  by (auto simp: keys_ok_def list_all_iff)

lemma keys_ok_filter: "keys_ok n k rs \<Longrightarrow> keys_ok n k (filter P rs)"
  by (auto simp: keys_ok_def list_all_iff distinct_map_filter)

lemma keys_ok_map:
  "map k rs' = map k rs \<Longrightarrow> keys_ok n k rs \<Longrightarrow> keys_ok n k rs'"
proof -
  have "keys_ok n k xs \<longleftrightarrow> distinct (map k xs) \<and> list_all (\<lambda>i. i < n) (map k xs)" for xs
    by (simp add: keys_ok_def list.pred_map comp_def)
  then show "map k rs' = map k rs \<Longrightarrow> keys_ok n k rs \<Longrightarrow> keys_ok n k rs'" by simp
qed

lemma keys_ok_put: "keys_ok n k rs \<Longrightarrow> keys_ok n k (map (\<lambda>x. if k x = k r then r else x) rs)"
  by (erule keys_ok_map[rotated]) (induction rs, auto)

lemma keys_ok_row:
  "keys_ok n k rs \<Longrightarrow> r \<in> set rs \<Longrightarrow> r' \<in> set rs \<Longrightarrow> k r = k r' \<Longrightarrow> r = r'"
  by (auto simp: keys_ok_def distinct_map dest: inj_onD)

text \<open>What a request finds in its session is the committed store.\<close>

lemma run_request_eq:
  "h (open_session w) = (r, s) \<Longrightarrow> run_request h w = (r, close_session s)"
  by (simp add: run_request_def)

lemma run_requestE:
  assumes "run_request h w = (r, w')"
  obtains s where "h (open_session w) = (r, s)" and "w' = close_session s"
  using assms by (auto simp: run_request_def split: prod.splits)

lemma run_request_state:
  assumes "snd (h (open_session w)) = open_session w"
  shows "run_request h w = (fst (h (open_session w)), w)"
  using assms by (cases w) (auto simp: run_request_def close_session_def split: prod.splits)

lemma run_request_refused:
  "h (open_session w) = (Inl e, open_session w) \<Longrightarrow> run_request h w = (Inl e, w)"
  by (simp add: run_request_state)

lemma wf_session_open [simp]: "wf_session (open_session w) \<longleftrightarrow> wf_server w"
  by (simp add: wf_session_def wf_server_def)

lemma wf_server_close: "wf_session s \<Longrightarrow> wf_server (close_session s)"
  by (simp add: wf_session_def wf_server_def)

lemma isolated_open [simp]:
  "isolated o' V (open_session w) \<longleftrightarrow> wf_server w \<and> org_view o' (srv_store w) = V"
  by (auto simp: isolated_def)

lemma wf_flush [keeps_intro]: "keeps wf_session db_flush"
  by (simp add: keeps_def db_flush_def wf_session_def)

lemma wf_commit [keeps_intro]: "keeps wf_session db_commit"
  by (simp add: keeps_def db_commit_def wf_session_def)

lemma isolated_flush [keeps_intro]: "keeps (isolated o' V) db_flush"
  by (simp add: keeps_def db_flush_def isolated_def wf_session_def)

lemma isolated_commit [keeps_intro]: "keeps (isolated o' V) db_commit"
  by (simp add: keeps_def db_commit_def isolated_def wf_session_def)

lemma run_request_wf: "keeps wf_session h \<Longrightarrow> wf_server w \<Longrightarrow> wf_server (snd (run_request h w))"
  using keepsD[of wf_session h "open_session w"]
  by (auto simp: run_request_def wf_server_close split: prod.splits)

lemma run_request_isolated:
  assumes "keeps (isolated o' (org_view o' (srv_store w))) h" and "wf_server w"
  shows "org_view o' (srv_store (snd (run_request h w))) = org_view o' (srv_store w)"
  using keepsD[OF assms(1), of "open_session w"] assms(2)
  by (auto simp: run_request_def isolated_def split: prod.splits)

subsection \<open>The interface of a tenant-scoped table\<close>

locale tenant_table = orm_table t u k
  for t :: "store \<Rightarrow> 'r list" and u and k +
  fixes org :: "'r \<Rightarrow> uuid"
  assumes ids_read: "ids_ok n st \<Longrightarrow> keys_ok n k (t st)"
    and ids_write: "ids_ok n st \<Longrightarrow> keys_ok n k (f (t st)) \<Longrightarrow> ids_ok n (u f st)"
    and view_read: "t (org_view o' st) = filter (\<lambda>r. org r = o') (t st)"
    and view_write: "org_view o' (u f st) =
          u (\<lambda>_. filter (\<lambda>r. org r = o') (f (t st))) (org_view o' st)"
begin

lemma view_unchanged:
  assumes "filter (\<lambda>r. org r = o') (f (t st)) = filter (\<lambda>r. org r = o') (t st)"
  shows "org_view o' (u f st) = org_view o' st"
  by (simp add: view_write assms flip: view_read) (rule write_same, simp)

lemma insert_wf [keeps_intro]:
  assumes "\<And>i. k (mk i) = i"
  shows "keeps wf_session (insert_row u mk)"
proof (rule keepsI)
  fix s assume s: "wf_session s"
  then have "keys_ok (next_id s) k (t (live s))"
    by (simp add: wf_session_def ids_read)
  then have "keys_ok (Suc (next_id s)) k (t (live s) @ [mk (next_id s)])"
    by (rule keys_ok_snoc) (rule assms)
  with s show "wf_session (snd (insert_row u mk s))"
    by (auto simp: wf_session_def insert_row_def ids_ok_Suc intro: ids_write)
qed

lemma put_wf [keeps_intro]: "keeps wf_session (put_row u k r)"
  by (auto simp: keeps_def put_row_def wf_session_def intro!: ids_write keys_ok_put ids_read)

lemma delete_wf [keeps_intro]: "keeps wf_session (delete_rows t u k P)"
  by (auto simp: keeps_def delete_rows_def wf_session_def Let_def
      intro!: ids_write keys_ok_filter ids_read)

lemma insert_isolated [keeps_intro]:
  assumes key: "\<And>i. k (mk i) = i" and other: "\<And>i. org (mk i) \<noteq> o'"
  shows "keeps (isolated o' V) (insert_row u mk)"
proof (rule keepsI)
  fix s assume s: "isolated o' V s"
  have "wf_session (snd (insert_row u mk s))"
    using s by (intro keepsD[OF insert_wf] key) (simp add: isolated_def)
  with s other show "isolated o' V (snd (insert_row u mk s))"
    by (simp add: isolated_def insert_row_def view_unchanged)
qed

lemma put_isolated:
  assumes "org r \<noteq> o'" and "k r \<notin> k ` set (t V)"
  shows "keeps (isolated o' V) (put_row u k r)"
proof (rule keepsI)
  fix s assume s: "isolated o' V s"
  have wf: "wf_session (snd (put_row u k r s))"
    using s by (intro keepsD[OF put_wf]) (simp add: isolated_def)
  have V: "filter (\<lambda>r. org r = o') (t (live s)) = t V"
    using s by (auto simp: isolated_def simp flip: view_read)
  have "org x \<noteq> o'" if "x \<in> set (t (live s))" "k x = k r" for x
  proof
    assume "org x = o'"
    with that have "x \<in> set (t V)" by (simp flip: V)
    with that assms(2) show False by (metis imageI)
  qed
  then have "filter (\<lambda>r. org r = o') (map (\<lambda>x. if k x = k r then r else x) (t (live s)))
           = filter (\<lambda>r. org r = o') (t (live s))"
    using assms(1) by (intro filter_map_unchanged) (auto split: if_splits)
  with s wf show "isolated o' V (snd (put_row u k r s))"
    by (simp add: isolated_def put_row_def view_unchanged)
qed

text \<open>Queries of a request's first statements read the committed rows.\<close>

lemma open_distinct: "wf_server w \<Longrightarrow> distinct (map k (t (live (open_session w))))"
  by (auto simp: wf_server_def keys_ok_def dest: ids_read)

lemma open_get:
  "wf_server w \<Longrightarrow> db_get t k i (open_session w) = List.find (\<lambda>r. k r = i) (t (srv_store w))"
  by (simp add: get_synced open_distinct[simplified])

lemma open_scalar:
  "wf_server w \<Longrightarrow> db_scalar t k P (open_session w) = List.find P (t (srv_store w))"
  by (simp add: scalar_synced open_distinct[simplified])

lemma open_select:
  "wf_server w \<Longrightarrow> db_select t k P (open_session w) = filter P (t (srv_store w))"
  by (simp add: select_synced open_distinct[simplified])

lemma open_select_by:
  "wf_server w \<Longrightarrow>
     db_select_by t k key P (open_session w) = sort_key key (filter P (t (srv_store w)))"
  by (simp add: select_by_synced open_distinct[simplified])

lemma open_find_key:
  "wf_server w \<Longrightarrow> r \<in> set (t (srv_store w)) \<Longrightarrow>
     List.find (\<lambda>x. k x = k r) (t (srv_store w)) = Some r"
  using open_distinct[of w] by (simp add: find_Some_iff_distinct)

text \<open>
  A row a query returns belongs to \<open>o'\<close> exactly when its key is one of \<open>V\<close>'s: the fact
  about a loaded object that later writes to it need.
\<close>

lemma live_row_org:
  assumes s: "isolated o' V s" and r0: "r0 \<in> set (t (flushed s))"
  shows "k (live_row t k s r0) = k r0 \<and>
         (org (live_row t k s r0) = o' \<longleftrightarrow> k r0 \<in> k ` set (t V)) \<and>
         (org r0 = o' \<longleftrightarrow> k r0 \<in> k ` set (t V))"
proof -
  have keys: "keys_ok (next_id s) k (t (flushed s))" "keys_ok (next_id s) k (t (live s))"
    using s by (auto simp: isolated_def wf_session_def ids_read)
  have V: "filter (\<lambda>r. org r = o') (t (live s)) = t V"
          "filter (\<lambda>r. org r = o') (t (flushed s)) = t V"
    using s by (auto simp: isolated_def simp flip: view_read)
  have char: "org r = o' \<longleftrightarrow> k r \<in> k ` set (t V)"
    if r: "r \<in> set rs" and rs: "keys_ok (next_id s) k rs"
      and f: "filter (\<lambda>r. org r = o') rs = t V" for r rs
  proof
    assume "org r = o'"
    with r show "k r \<in> k ` set (t V)" by (simp flip: f)
  next
    assume "k r \<in> k ` set (t V)"
    then obtain x where "x \<in> set rs" "org x = o'" "k x = k r"
      by (auto simp flip: f)
    with keys_ok_row[OF rs r, of x] show "org r = o'" by simp
  qed
  have c0: "org r0 = o' \<longleftrightarrow> k r0 \<in> k ` set (t V)"
    by (rule char[OF r0 keys(1) V(2)])
  show ?thesis
  proof (cases "List.find (\<lambda>x. k x = k r0) (t (live s))")
    case None
    with c0 show ?thesis by (simp add: live_row_def)
  next
    case (Some x)
    then have x: "x \<in> set (t (live s))" "k x = k r0" by (auto dest: find_SomeD)
    with char[OF x(1) keys(2) V(1)] Some c0 show ?thesis by (simp add: live_row_def)
  qed
qed

lemma get_isolated:
  assumes none: "keeps (isolated o' V) (f None)"
    and some: "\<And>r. k r = i \<Longrightarrow> org r = o' \<longleftrightarrow> i \<in> k ` set (t V) \<Longrightarrow>
                 keeps (isolated o' V) (f (Some r))"
  shows "keeps (isolated o' V) (andThen (gets (db_get t k i)) f)"
proof (rule keeps_gets_andThen)
  fix s assume s: "isolated o' V s"
  show "isolated o' V (snd (f (db_get t k i s) s))"
  proof (cases "db_get t k i s")
    case None
    with keepsD[OF none s] show ?thesis by simp
  next
    case (Some r)
    then obtain r0 where "r0 \<in> set (t (flushed s))" "k r0 = i" "r = live_row t k s r0"
      by (auto simp: db_get_def db_scalar_def dest: find_SomeD)
    with live_row_org[OF s] have "k r = i" "org r = o' \<longleftrightarrow> i \<in> k ` set (t V)" by auto
    from keepsD[OF some[OF this] s] Some show ?thesis by simp
  qed
qed

lemma scalar_isolated:
  assumes none: "keeps (isolated o' V) (f None)"
    and some: "\<And>r r0. P r0 \<Longrightarrow> k r = k r0 \<Longrightarrow> org r = o' \<longleftrightarrow> k r \<in> k ` set (t V) \<Longrightarrow>
                 org r0 = o' \<longleftrightarrow> org r = o' \<Longrightarrow> keeps (isolated o' V) (f (Some r))"
  shows "keeps (isolated o' V) (andThen (gets (db_scalar t k P)) f)"
proof (rule keeps_gets_andThen)
  fix s assume s: "isolated o' V s"
  show "isolated o' V (snd (f (db_scalar t k P s) s))"
  proof (cases "db_scalar t k P s")
    case None
    with keepsD[OF none s] show ?thesis by simp
  next
    case (Some r)
    then obtain r0 where "r0 \<in> set (t (flushed s))" "P r0" "r = live_row t k s r0"
      by (auto simp: db_scalar_def dest: find_SomeD)
    with live_row_org[OF s] have "P r0" "k r = k r0" "org r = o' \<longleftrightarrow> k r \<in> k ` set (t V)"
      "org r0 = o' \<longleftrightarrow> org r = o'" by auto
    from keepsD[OF some[OF this] s] Some show ?thesis by simp
  qed
qed

lemma select_isolated:
  assumes "\<And>rs. (\<And>r. r \<in> set rs \<Longrightarrow> \<exists>r0. P r0 \<and> k r = k r0 \<and>
               (org r = o' \<longleftrightarrow> k r \<in> k ` set (t V)) \<and> (org r0 = o' \<longleftrightarrow> org r = o') \<and>
               (org r0 = o' \<longrightarrow> r0 \<in> set (t V))) \<Longrightarrow>
             keeps (isolated o' V) (f rs)"
  shows "keeps (isolated o' V) (andThen (gets (db_select t k P)) f)"
    and "keeps (isolated o' V) (andThen (gets (db_select_by t k key P)) f)"
proof -
  have row: "\<exists>r0. P r0 \<and> k r = k r0 \<and> (org r = o' \<longleftrightarrow> k r \<in> k ` set (t V)) \<and>
               (org r0 = o' \<longleftrightarrow> org r = o') \<and> (org r0 = o' \<longrightarrow> r0 \<in> set (t V))"
    if s: "isolated o' V s" and r0: "r0 \<in> set (t (flushed s))" "P r0" "r = live_row t k s r0"
    for r r0 s
  proof -
    have "filter (\<lambda>r. org r = o') (t (flushed s)) = t V"
      using s by (auto simp: isolated_def simp flip: view_read)
    with r0(1) have "org r0 = o' \<longrightarrow> r0 \<in> set (t V)" by (auto simp: set_eq_iff simp flip: \<open>_ = t V\<close>)
    with live_row_org[OF s r0(1)] r0(2,3) show ?thesis by (intro exI[of _ r0]) auto
  qed
  show "keeps (isolated o' V) (andThen (gets (db_select t k P)) f)"
    by (rule keeps_gets_andThen, rule keepsD[OF assms]) (auto simp: db_select_def intro: row)
  show "keeps (isolated o' V) (andThen (gets (db_select_by t k key P)) f)"
    by (rule keeps_gets_andThen, rule keepsD[OF assms]) (auto simp: db_select_by_def intro: row)
qed

end

subsection \<open>Every table of the store is such a table\<close>

interpretation organizations_tbl: tenant_table organizations organizations_update org_id org_id
  by unfold_locales (simp_all add: ids_ok_def org_view_def)

interpretation users_tbl: tenant_table users users_update usr_id usr_organization_id
  by unfold_locales (simp_all add: ids_ok_def org_view_def)

interpretation refresh_tokens_tbl: tenant_table refresh_tokens refresh_tokens_update rft_id rft_organization_id
  by unfold_locales (simp_all add: ids_ok_def org_view_def)

interpretation enrollment_tokens_tbl: tenant_table enrollment_tokens enrollment_tokens_update ent_id ent_organization_id
  by unfold_locales (simp_all add: ids_ok_def org_view_def)

interpretation audit_logs_tbl: tenant_table audit_logs audit_logs_update aud_id aud_organization_id
  by unfold_locales (simp_all add: ids_ok_def org_view_def)

interpretation devices_tbl: tenant_table devices devices_update dev_id dev_organization_id
  by unfold_locales (simp_all add: ids_ok_def org_view_def)

interpretation agents_tbl: tenant_table agents agents_update agt_id agt_organization_id
  by unfold_locales (simp_all add: ids_ok_def org_view_def)

interpretation device_checkins_tbl: tenant_table device_checkins device_checkins_update chk_id chk_organization_id
  by unfold_locales (simp_all add: ids_ok_def org_view_def)

interpretation device_inventories_tbl: tenant_table device_inventories device_inventories_update inv_id inv_organization_id
  by unfold_locales (simp_all add: ids_ok_def org_view_def)

interpretation disk_inventories_tbl: tenant_table disk_inventories disk_inventories_update dsk_id dsk_organization_id
  by unfold_locales (simp_all add: ids_ok_def org_view_def)

interpretation network_interfaces_tbl: tenant_table network_interfaces network_interfaces_update nic_id nic_organization_id
  by unfold_locales (simp_all add: ids_ok_def org_view_def)

interpretation softwares_tbl: tenant_table softwares softwares_update sft_id sft_organization_id
  by unfold_locales (simp_all add: ids_ok_def org_view_def)

interpretation security_statuses_tbl: tenant_table security_statuses security_statuses_update sec_id sec_organization_id
  by unfold_locales (simp_all add: ids_ok_def org_view_def)

interpretation update_statuses_tbl: tenant_table update_statuses update_statuses_update ups_id ups_organization_id
  by unfold_locales (simp_all add: ids_ok_def org_view_def)

interpretation alert_rules_tbl: tenant_table alert_rules alert_rules_update alr_id alr_organization_id
  by unfold_locales (simp_all add: ids_ok_def org_view_def)

interpretation alerts_tbl: tenant_table alerts alerts_update alt_id alt_organization_id
  by unfold_locales (simp_all add: ids_ok_def org_view_def)

interpretation alert_events_tbl: tenant_table alert_events alert_events_update ale_id ale_organization_id
  by unfold_locales (simp_all add: ids_ok_def org_view_def)

interpretation notification_channels_tbl: tenant_table notification_channels notification_channels_update ncl_id ncl_organization_id
  by unfold_locales (simp_all add: ids_ok_def org_view_def)

interpretation notification_rules_tbl: tenant_table notification_rules notification_rules_update nrl_id nrl_organization_id
  by unfold_locales (simp_all add: ids_ok_def org_view_def)

interpretation notification_deliveries_tbl: tenant_table notification_deliveries notification_deliveries_update ndl_id ndl_organization_id
  by unfold_locales (simp_all add: ids_ok_def org_view_def)

interpretation agent_jobs_tbl: tenant_table agent_jobs agent_jobs_update job_id job_organization_id
  by unfold_locales (simp_all add: ids_ok_def org_view_def)

interpretation agent_job_events_tbl: tenant_table agent_job_events agent_job_events_update jev_id jev_organization_id
  by unfold_locales (simp_all add: ids_ok_def org_view_def)

interpretation agent_job_results_tbl: tenant_table agent_job_results agent_job_results_update jrs_id jrs_organization_id
  by unfold_locales (simp_all add: ids_ok_def org_view_def)

interpretation remote_providers_tbl: tenant_table remote_providers remote_providers_update rpc_id rpc_organization_id
  by unfold_locales (simp_all add: ids_ok_def org_view_def)

interpretation remote_links_tbl: tenant_table remote_links remote_links_update rdl_id rdl_organization_id
  by unfold_locales (simp_all add: ids_ok_def org_view_def)

interpretation remote_session_audits_tbl: tenant_table remote_session_audits remote_session_audits_update rsa_id rsa_organization_id
  by unfold_locales (simp_all add: ids_ok_def org_view_def)


interpretation assets_tbl: tenant_table "\<lambda>st. assets (phase2 st)" "\<lambda>f. phase2_update (assets_update f)" ast_id ast_organization_id
  by unfold_locales (simp_all add: ids_ok_def org_view_def phase2_ids_ok_def phase2_view_def cong: store.fold_congs phase2_store.fold_congs)

interpretation companies_tbl: tenant_table "\<lambda>st. companies (phase2 st)" "\<lambda>f. phase2_update (companies_update f)" cmp_id cmp_organization_id
  by unfold_locales (simp_all add: ids_ok_def org_view_def phase2_ids_ok_def phase2_view_def cong: store.fold_congs phase2_store.fold_congs)

interpretation documentation_categories_tbl: tenant_table "\<lambda>st. documentation_categories (phase2 st)" "\<lambda>f. phase2_update (documentation_categories_update f)" dcg_id dcg_organization_id
  by unfold_locales (simp_all add: ids_ok_def org_view_def phase2_ids_ok_def phase2_view_def cong: store.fold_congs phase2_store.fold_congs)

interpretation documentation_articles_tbl: tenant_table "\<lambda>st. documentation_articles (phase2 st)" "\<lambda>f. phase2_update (documentation_articles_update f)" dar_id dar_organization_id
  by unfold_locales (simp_all add: ids_ok_def org_view_def phase2_ids_ok_def phase2_view_def cong: store.fold_congs phase2_store.fold_congs)

interpretation discovery_scans_tbl: tenant_table "\<lambda>st. discovery_scans (phase2 st)" "\<lambda>f. phase2_update (discovery_scans_update f)" dsn_id dsn_organization_id
  by unfold_locales (simp_all add: ids_ok_def org_view_def phase2_ids_ok_def phase2_view_def cong: store.fold_congs phase2_store.fold_congs)

interpretation discovered_devices_tbl: tenant_table "\<lambda>st. discovered_devices (phase2 st)" "\<lambda>f. phase2_update (discovered_devices_update f)" dcd_id dcd_organization_id
  by unfold_locales (simp_all add: ids_ok_def org_view_def phase2_ids_ok_def phase2_view_def cong: store.fold_congs phase2_store.fold_congs)

interpretation tickets_tbl: tenant_table "\<lambda>st. tickets (phase2 st)" "\<lambda>f. phase2_update (tickets_update f)" tkt_id tkt_organization_id
  by unfold_locales (simp_all add: ids_ok_def org_view_def phase2_ids_ok_def phase2_view_def cong: store.fold_congs phase2_store.fold_congs)

interpretation ticket_comments_tbl: tenant_table "\<lambda>st. ticket_comments (phase2 st)" "\<lambda>f. phase2_update (ticket_comments_update f)" tkc_id tkc_organization_id
  by unfold_locales (simp_all add: ids_ok_def org_view_def phase2_ids_ok_def phase2_view_def cong: store.fold_congs phase2_store.fold_congs)

interpretation ticket_time_entries_tbl: tenant_table "\<lambda>st. ticket_time_entries (phase2 st)" "\<lambda>f. phase2_update (ticket_time_entries_update f)" tke_id tke_organization_id
  by unfold_locales (simp_all add: ids_ok_def org_view_def phase2_ids_ok_def phase2_view_def cong: store.fold_congs phase2_store.fold_congs)

interpretation ai_conversations_tbl: tenant_table "\<lambda>st. ai_conversations (phase2 st)" "\<lambda>f. phase2_update (ai_conversations_update f)" aic_id aic_organization_id
  by unfold_locales (simp_all add: ids_ok_def org_view_def phase2_ids_ok_def phase2_view_def cong: store.fold_congs phase2_store.fold_congs)

interpretation ai_messages_tbl: tenant_table "\<lambda>st. ai_messages (phase2 st)" "\<lambda>f. phase2_update (ai_messages_update f)" aim_id aim_organization_id
  by unfold_locales (simp_all add: ids_ok_def org_view_def phase2_ids_ok_def phase2_view_def cong: store.fold_congs phase2_store.fold_congs)

interpretation ai_insights_tbl: tenant_table "\<lambda>st. ai_insights (phase2 st)" "\<lambda>f. phase2_update (ai_insights_update f)" aii_id aii_organization_id
  by unfold_locales (simp_all add: ids_ok_def org_view_def phase2_ids_ok_def phase2_view_def cong: store.fold_congs phase2_store.fold_congs)

interpretation report_templates_tbl: tenant_table "\<lambda>st. report_templates (phase2 st)" "\<lambda>f. phase2_update (report_templates_update f)" rtm_id rtm_organization_id
  by unfold_locales (simp_all add: ids_ok_def org_view_def phase2_ids_ok_def phase2_view_def cong: store.fold_congs phase2_store.fold_congs)

interpretation report_runs_tbl: tenant_table "\<lambda>st. report_runs (phase2 st)" "\<lambda>f. phase2_update (report_runs_update f)" rrn_id rrn_organization_id
  by unfold_locales (simp_all add: ids_ok_def org_view_def phase2_ids_ok_def phase2_view_def cong: store.fold_congs phase2_store.fold_congs)

interpretation report_schedules_tbl: tenant_table "\<lambda>st. report_schedules (phase2 st)" "\<lambda>f. phase2_update (report_schedules_update f)" rsc_id rsc_organization_id
  by unfold_locales (simp_all add: ids_ok_def org_view_def phase2_ids_ok_def phase2_view_def cong: store.fold_congs phase2_store.fold_congs)

interpretation dashboard_preferences_tbl: tenant_table "\<lambda>st. dashboard_preferences (phase3 st)" "\<lambda>f. phase3_update (dashboard_preferences_update f)" dpr_id dpr_organization_id
  by unfold_locales (simp_all add: ids_ok_def org_view_def phase3_ids_ok_def phase3_view_def cong: store.fold_congs phase3_store.fold_congs)

interpretation portal_roles_tbl: tenant_table "\<lambda>st. portal_roles (phase3 st)" "\<lambda>f. phase3_update (portal_roles_update f)" prl_id prl_organization_id
  by unfold_locales (simp_all add: ids_ok_def org_view_def phase3_ids_ok_def phase3_view_def cong: store.fold_congs phase3_store.fold_congs)

interpretation portal_users_tbl: tenant_table "\<lambda>st. portal_users (phase3 st)" "\<lambda>f. phase3_update (portal_users_update f)" pus_id pus_organization_id
  by unfold_locales (simp_all add: ids_ok_def org_view_def phase3_ids_ok_def phase3_view_def cong: store.fold_congs phase3_store.fold_congs)

interpretation portal_sessions_tbl: tenant_table "\<lambda>st. portal_sessions (phase3 st)" "\<lambda>f. phase3_update (portal_sessions_update f)" pse_id pse_organization_id
  by unfold_locales (simp_all add: ids_ok_def org_view_def phase3_ids_ok_def phase3_view_def cong: store.fold_congs phase3_store.fold_congs)

interpretation workflows_tbl: tenant_table "\<lambda>st. workflows (phase3 st)" "\<lambda>f. phase3_update (workflows_update f)" wfl_id wfl_organization_id
  by unfold_locales (simp_all add: ids_ok_def org_view_def phase3_ids_ok_def phase3_view_def cong: store.fold_congs phase3_store.fold_congs)

interpretation workflow_triggers_tbl: tenant_table "\<lambda>st. workflow_triggers (phase3 st)" "\<lambda>f. phase3_update (workflow_triggers_update f)" wft_id wft_organization_id
  by unfold_locales (simp_all add: ids_ok_def org_view_def phase3_ids_ok_def phase3_view_def cong: store.fold_congs phase3_store.fold_congs)

interpretation workflow_actions_tbl: tenant_table "\<lambda>st. workflow_actions (phase3 st)" "\<lambda>f. phase3_update (workflow_actions_update f)" wfa_id wfa_organization_id
  by unfold_locales (simp_all add: ids_ok_def org_view_def phase3_ids_ok_def phase3_view_def cong: store.fold_congs phase3_store.fold_congs)

interpretation workflow_executions_tbl: tenant_table "\<lambda>st. workflow_executions (phase3 st)" "\<lambda>f. phase3_update (workflow_executions_update f)" wfe_id wfe_organization_id
  by unfold_locales (simp_all add: ids_ok_def org_view_def phase3_ids_ok_def phase3_view_def cong: store.fold_congs phase3_store.fold_congs)

interpretation api_keys_tbl: tenant_table "\<lambda>st. api_keys (phase3 st)" "\<lambda>f. phase3_update (api_keys_update f)" apk_id apk_organization_id
  by unfold_locales (simp_all add: ids_ok_def org_view_def phase3_ids_ok_def phase3_view_def cong: store.fold_congs phase3_store.fold_congs)

interpretation system_healths_tbl: tenant_table "\<lambda>st. system_healths (phase3 st)" "\<lambda>f. phase3_update (system_healths_update f)" syh_id syh_organization_id
  by unfold_locales (simp_all add: ids_ok_def org_view_def phase3_ids_ok_def phase3_view_def cong: store.fold_congs phase3_store.fold_congs)

interpretation backup_jobs_tbl: tenant_table "\<lambda>st. backup_jobs (phase3 st)" "\<lambda>f. phase3_update (backup_jobs_update f)" bkj_id bkj_organization_id
  by unfold_locales (simp_all add: ids_ok_def org_view_def phase3_ids_ok_def phase3_view_def cong: store.fold_congs phase3_store.fold_congs)

interpretation backup_runs_tbl: tenant_table "\<lambda>st. backup_runs (phase3 st)" "\<lambda>f. phase3_update (backup_runs_update f)" bkr_id bkr_organization_id
  by unfold_locales (simp_all add: ids_ok_def org_view_def phase3_ids_ok_def phase3_view_def cong: store.fold_congs phase3_store.fold_congs)

subsection \<open>Writes that only append to the logs\<close>

text \<open>
  Many operations write audit entries, events and notification deliveries beside what they
  are for. \<open>core\<close> is a store without those four tables; an operation is \<open>quiet\<close> when it
  always succeeds, leaves the core and sends nothing to the database.
\<close>

definition core :: "store \<Rightarrow> store" where
  "core st = st\<lparr>audit_logs := [], alert_events := [], notification_deliveries := [],
                agent_job_events := []\<rparr>"

definition quiet :: "unit db_op \<Rightarrow> bool" where
  "quiet m \<longleftrightarrow> (\<forall>s. \<exists>s'. m s = (Inr (), s') \<and> core (live s') = core (live s) \<and>
     flushed s' = flushed s \<and> durable s' = durable s)"

lemma quietD:
  assumes "quiet m"
  obtains s' where "m s = (Inr (), s')" and "core (live s') = core (live s)"
    and "flushed s' = flushed s" and "durable s' = durable s"
  using assms unfolding quiet_def by blast

lemma unique_core: "unique_ok (core st) = unique_ok st"
  by (simp add: core_def unique_ok_def)

lemma core_unique: "core st = core st' \<Longrightarrow> unique_ok st = unique_ok st'"
  by (metis unique_core)

lemma quiet_ret [intro]: "quiet (ret ())"
  by (simp add: quiet_def)

lemma quiet_andThen [intro]:
  assumes "quiet m" and "quiet (f ())"
  shows "quiet (andThen m f)"
  unfolding quiet_def
proof
  fix s
  obtain t where t: "m s = (Inr (), t)" "core (live t) = core (live s)" "flushed t = flushed s"
    "durable t = durable s" by (rule quietD[OF assms(1)])
  obtain s' where "f () t = (Inr (), s')" "core (live s') = core (live t)" "flushed s' = flushed t"
    "durable s' = durable t" by (rule quietD[OF assms(2)])
  with t show "\<exists>s'. andThen m f s = (Inr (), s') \<and> core (live s') = core (live s) \<and>
     flushed s' = flushed s \<and> durable s' = durable s"
    by (simp add: andThen_run)
qed

lemma quiet_gets [intro]: "(\<And>x. quiet (f x)) \<Longrightarrow> quiet (andThen (gets g) f)"
  by (simp add: quiet_def)

lemma quiet_insert:
  assumes "\<And>g st. core (u g st) = core st" and "\<And>r. quiet (f r)"
  shows "quiet (andThen (insert_row u mk) f)"
  unfolding quiet_def
proof
  fix s
  let ?s = "snd (insert_row u mk s)"
  obtain s' where "f (mk (next_id s)) ?s = (Inr (), s')" "core (live s') = core (live ?s)"
    "flushed s' = flushed ?s" "durable s' = durable ?s" by (rule quietD[OF assms(2)])
  with assms(1) show "\<exists>s'. andThen (insert_row u mk) f s = (Inr (), s') \<and> core (live s') = core (live s) \<and>
     flushed s' = flushed s \<and> durable s' = durable s"
    by (simp add: insert_row_def andThen_run)
qed

lemma core_logs [simp]:
  "core (audit_logs_update f1 st) = core st" "core (alert_events_update f2 st) = core st"
  "core (notification_deliveries_update f3 st) = core st" "core (agent_job_events_update f4 st) = core st"
  by (simp_all add: core_def)

lemma quiet_for_each [intro]: "(\<And>x. x \<in> set xs \<Longrightarrow> quiet (f x)) \<Longrightarrow> quiet (for_each xs f)"
  by (induction xs) auto

lemma quiet_case_option [intro]:
  "quiet m \<Longrightarrow> (\<And>x. v = Some x \<Longrightarrow> quiet (f x)) \<Longrightarrow> quiet (case v of None \<Rightarrow> m | Some x \<Rightarrow> f x)"
  by (cases v) simp_all

lemma quiet_if [intro]: "quiet m \<Longrightarrow> quiet n \<Longrightarrow> quiet (if b then m else n)"
  by simp

text \<open>Tables of the core are read off it.\<close>

lemma core_read [simp]:
  "organizations (core st) = organizations st"
  "users (core st) = users st"
  "refresh_tokens (core st) = refresh_tokens st"
  "enrollment_tokens (core st) = enrollment_tokens st"
  "devices (core st) = devices st"
  "agents (core st) = agents st"
  "device_checkins (core st) = device_checkins st"
  "device_inventories (core st) = device_inventories st"
  "disk_inventories (core st) = disk_inventories st"
  "network_interfaces (core st) = network_interfaces st"
  "softwares (core st) = softwares st"
  "security_statuses (core st) = security_statuses st"
  "update_statuses (core st) = update_statuses st"
  "alert_rules (core st) = alert_rules st"
  "alerts (core st) = alerts st"
  "notification_channels (core st) = notification_channels st"
  "notification_rules (core st) = notification_rules st"
  "agent_jobs (core st) = agent_jobs st"
  "agent_job_results (core st) = agent_job_results st"
  "remote_providers (core st) = remote_providers st"
  "remote_links (core st) = remote_links st"
  "remote_session_audits (core st) = remote_session_audits st"
  by (simp_all add: core_def)

lemma core_tables:
  assumes "core st = core st'"
  shows "organizations st = organizations st'"
    and "users st = users st'"
    and "refresh_tokens st = refresh_tokens st'"
    and "enrollment_tokens st = enrollment_tokens st'"
    and "devices st = devices st'"
    and "agents st = agents st'"
    and "device_checkins st = device_checkins st'"
    and "device_inventories st = device_inventories st'"
    and "disk_inventories st = disk_inventories st'"
    and "network_interfaces st = network_interfaces st'"
    and "softwares st = softwares st'"
    and "security_statuses st = security_statuses st'"
    and "update_statuses st = update_statuses st'"
    and "alert_rules st = alert_rules st'"
    and "alerts st = alerts st'"
    and "notification_channels st = notification_channels st'"
    and "notification_rules st = notification_rules st'"
    and "agent_jobs st = agent_jobs st'"
    and "agent_job_results st = agent_job_results st'"
    and "remote_providers st = remote_providers st'"
    and "remote_links st = remote_links st'"
    and "remote_session_audits st = remote_session_audits st'"
  using arg_cong[OF assms, of core] assms by (metis core_read)+

end
