(* ===== verification/Security.thy ===== *)
theory Security
  imports Tables Settings "HOL-Library.List_Lexorder" "HOL-Library.Char_ord"
begin

text \<open>
  Credentials and access control: \<^verbatim>\<open>backend/app/core/security.py\<close>,
  \<^verbatim>\<open>backend/app/core/token_hashing.py\<close> and \<^verbatim>\<open>backend/app/core/enrollment.py\<close>. The
  cryptographic primitives and the JWT library are arguments, fields of \<open>runtime\<close>; random
  values (salts, tokens) are arguments of the operations that draw them, and so is the
  time.
\<close>

record runtime =
  hmac_sha256 :: "string \<Rightarrow> string \<Rightarrow> string"
  pbkdf2_sha256 :: "string \<Rightarrow> byte list \<Rightarrow> int \<Rightarrow> byte list"
  jwt_encode :: "json_dict \<Rightarrow> string \<Rightarrow> string"
  jwt_decode :: "string \<Rightarrow> string \<Rightarrow> string \<Rightarrow> string \<Rightarrow> datetime \<Rightarrow> json_dict option"
  float_repr :: "real \<Rightarrow> string"
  float_parse :: "string \<Rightarrow> real option"

subsection \<open>Token hashing\<close>

definition hash_token :: "runtime \<Rightarrow> settings \<Rightarrow> string \<Rightarrow> string" where
  "hash_token rt cfg token = hmac_sha256 rt (token_hash_pepper cfg) token"

definition verify_token :: "runtime \<Rightarrow> settings \<Rightarrow> string \<Rightarrow> string \<Rightarrow> bool" where
  "verify_token rt cfg token token_hash \<longleftrightarrow> hash_token rt cfg token = token_hash"

text \<open>The new model row carries the hash only; the plaintext is returned beside it.\<close>

definition build_enrollment_token ::
  "runtime \<Rightarrow> settings \<Rightarrow> datetime \<Rightarrow> string \<Rightarrow> uuid \<Rightarrow> int \<Rightarrow> int \<Rightarrow>
   string \<times> (uuid \<Rightarrow> enrollment_token)" where
  "build_enrollment_token rt cfg now plaintext organization_id ttl_hours max_uses =
     (plaintext,
      \<lambda>i. \<lparr>ent_id = i, ent_organization_id = organization_id,
           ent_token_hash = hash_token rt cfg plaintext,
           ent_expires_at = now + timedelta_hours ttl_hours,
           ent_max_uses = max_uses, ent_uses = 0, ent_revoked_at = None,
           ent_created_by_user_id = None, ent_created_at = now\<rparr>)"

subsection \<open>Passwords\<close>

definition hash_password :: "runtime \<Rightarrow> byte list \<Rightarrow> string \<Rightarrow> string" where
  "hash_password rt salt password =
     (let digest = pbkdf2_sha256 rt password salt 210000
      in ''pbkdf2_sha256$210000$'' @ bytes_hex salt @ ''$'' @ bytes_hex digest)"

text \<open>
  The ValueErrors of unpacking, \<open>fromhex\<close>, \<open>int\<close> and \<open>pbkdf2_hmac\<close> (whose iteration count
  has to be positive) are caught and give \<open>False\<close>.
\<close>

definition verify_password :: "runtime \<Rightarrow> string \<Rightarrow> string \<Rightarrow> bool" where
  "verify_password rt password password_hash =
     (case split_max 3 (CHR ''$'') password_hash of
        [algorithm, iterations, salt_hex, digest_hex] \<Rightarrow>
          if algorithm \<noteq> ''pbkdf2_sha256'' then False
          else (case (bytes_fromhex salt_hex, py_int_of_string iterations) of
                  (Some salt, Some n) \<Rightarrow>
                    0 < n \<and> bytes_hex (pbkdf2_sha256 rt password salt n) = digest_hex
                | _ \<Rightarrow> False)
      | _ \<Rightarrow> False)"

subsection \<open>Roles and permissions\<close>

definition ROLES :: "string list" where
  "ROLES = [''viewer'', ''technician'', ''admin'', ''owner'']"

definition ROLE_PERMISSIONS :: "(string \<times> string list) list" where
  "ROLE_PERMISSIONS =
    [(''viewer'',
       [''dashboard:read'', ''devices:read'', ''alerts:read'', ''jobs:read'', ''remote:read'',
        ''assets:read'', ''documentation:read'', ''discovery:read'', ''tickets:read'',
        ''reports:read'', ''ai:read'']),
     (''technician'',
       [''dashboard:read'', ''devices:read'', ''alerts:read'', ''alerts:acknowledge'',
        ''jobs:read'', ''jobs:create'', ''jobs:cancel'', ''remote:read'', ''remote:launch'',
        ''assets:read'', ''assets:write'', ''documentation:read'', ''discovery:read'',
        ''discovery:write'', ''tickets:read'', ''tickets:write'', ''reports:read'', ''ai:read'']),
     (''admin'',
       [''dashboard:read'', ''devices:read'', ''alerts:read'', ''alerts:acknowledge'',
        ''jobs:read'', ''jobs:create'', ''jobs:cancel'', ''notifications:manage'',
        ''enrollment_tokens:manage'', ''remote:read'', ''remote:launch'', ''remote:manage'',
        ''assets:read'', ''assets:write'', ''documentation:read'', ''documentation:write'',
        ''discovery:read'', ''discovery:write'', ''tickets:read'', ''tickets:write'',
        ''reports:read'', ''reports:write'', ''ai:read'', ''portal:manage'',
        ''automation:manage'', ''api_keys:manage'', ''platform:read'', ''backups:manage'']),
     (''owner'',
       [''dashboard:read'', ''devices:read'', ''alerts:read'', ''alerts:acknowledge'',
        ''jobs:read'', ''jobs:create'', ''jobs:cancel'', ''notifications:manage'',
        ''enrollment_tokens:manage'', ''users:manage'', ''organization:manage'',
        ''remote:read'', ''remote:launch'', ''remote:manage'', ''assets:read'',
        ''assets:write'', ''documentation:read'', ''documentation:write'', ''discovery:read'',
        ''discovery:write'', ''tickets:read'', ''tickets:write'', ''reports:read'',
        ''reports:write'', ''ai:read'', ''portal:manage'', ''automation:manage'',
        ''api_keys:manage'', ''platform:read'', ''backups:manage''])]"

definition role_permissions :: "string \<Rightarrow> string list" where
  "role_permissions role = (case map_of ROLE_PERMISSIONS role of None \<Rightarrow> [] | Some ps \<Rightarrow> ps)"

definition ACCESS_TOKEN_MINUTES :: int where "ACCESS_TOKEN_MINUTES = 15"

definition REFRESH_TOKEN_DAYS :: int where "REFRESH_TOKEN_DAYS = 14"

subsection \<open>Access tokens\<close>

definition access_token_payload :: "settings \<Rightarrow> datetime \<Rightarrow> user \<Rightarrow> json_dict" where
  "access_token_payload cfg now usr =
     [(''sub'', JStr (uuid_str (usr_id usr))),
      (''org'', JStr (uuid_str (usr_organization_id usr))),
      (''role'', JStr (usr_role usr)),
      (''type'', JStr ''access''),
      (''exp'', JInt (now + timedelta_minutes ACCESS_TOKEN_MINUTES)),
      (''iat'', JInt now),
      (''iss'', JStr (jwt_issuer cfg)),
      (''aud'', JStr (jwt_audience cfg))]"

definition create_access_token :: "runtime \<Rightarrow> settings \<Rightarrow> datetime \<Rightarrow> user \<Rightarrow> string" where
  "create_access_token rt cfg now usr =
     jwt_encode rt (access_token_payload cfg now usr) (jwt_secret_key cfg)"

text \<open>Credentials are the scheme and the token of the Authorization header, if any.\<close>

type_synonym credentials = "(string \<times> string) option"

definition require_authenticated_user ::
  "runtime \<Rightarrow> settings \<Rightarrow> datetime \<Rightarrow> credentials \<Rightarrow> user db_op" where
  "require_authenticated_user rt cfg now credentials =
     (case credentials of
        None \<Rightarrow> raise (HTTPException 401 ''Bearer token required'')
      | Some (scheme, token) \<Rightarrow>
          if py_lower scheme \<noteq> ''bearer''
          then raise (HTTPException 401 ''Bearer token required'')
          else (case jwt_decode rt token (jwt_secret_key cfg) (jwt_audience cfg)
                       (jwt_issuer cfg) now of
                  None \<Rightarrow> raise (HTTPException 401 ''Invalid token'')
                | Some payload \<Rightarrow>
                    if dict_get payload ''type'' JNull \<noteq> JStr ''access''
                    then raise (HTTPException 401 ''Invalid token'')
                    else (case uuid_parse (py_str (float_repr rt) (dict_get payload ''sub'' JNull)) of
                            None \<Rightarrow> raise (HTTPException 401 ''Invalid token'')
                          | Some user_id \<Rightarrow>
                              andThen (gets (db_get users usr_id user_id)) (\<lambda>found.
                              case found of
                                None \<Rightarrow> raise (HTTPException 401 ''Inactive user'')
                              | Some usr \<Rightarrow>
                                  if \<not> usr_is_active usr
                                  then raise (HTTPException 401 ''Inactive user'')
                                  else ret usr))))"

text \<open>
  The dependencies \<open>require_role\<close> and \<open>require_permission\<close> are built on an
  authentication step \<open>auth\<close>, FastAPI's \<open>Depends(require_authenticated_user)\<close>.
\<close>

definition require_role :: "string list \<Rightarrow> user db_op \<Rightarrow> user db_op" where
  "require_role roles auth =
     andThen auth (\<lambda>usr.
       if usr_role usr \<notin> set roles then raise (HTTPException 403 ''Insufficient role'')
       else ret usr)"

definition require_permission :: "string \<Rightarrow> user db_op \<Rightarrow> user db_op" where
  "require_permission permission auth =
     andThen auth (\<lambda>usr.
       if permission \<notin> set (role_permissions (usr_role usr))
       then raise (HTTPException 403 ''Insufficient permission'')
       else ret usr)"

definition get_current_organization :: "user db_op \<Rightarrow> organization db_op" where
  "get_current_organization auth =
     andThen auth (\<lambda>usr.
     andThen (gets (db_get organizations org_id (usr_organization_id usr))) (\<lambda>organization.
       require_some (HTTPException 403 ''Organization unavailable'') organization))"

definition get_current_user_stub :: "user db_op \<Rightarrow> (string \<times> string) list db_op" where
  "get_current_user_stub auth =
     andThen auth (\<lambda>usr.
       ret [(''subject'', uuid_str (usr_id usr)), (''email'', usr_email usr),
            (''role'', usr_role usr)])"

subsection \<open>Refresh tokens\<close>

definition new_refresh_token ::
  "runtime \<Rightarrow> settings \<Rightarrow> datetime \<Rightarrow> string \<Rightarrow> user \<Rightarrow> uuid \<Rightarrow> refresh_token" where
  "new_refresh_token rt cfg now raw_token usr i =
     \<lparr>rft_id = i, rft_organization_id = usr_organization_id usr, rft_user_id = usr_id usr,
      rft_token_hash = hash_token rt cfg raw_token,
      rft_expires_at = now + timedelta_days REFRESH_TOKEN_DAYS,
      rft_revoked_at = None, rft_created_at = now\<rparr>"

definition issue_refresh_token ::
  "runtime \<Rightarrow> settings \<Rightarrow> datetime \<Rightarrow> string \<Rightarrow> user \<Rightarrow> string db_op" where
  "issue_refresh_token rt cfg now raw_token usr =
     andThen (insert_row refresh_tokens_update (new_refresh_token rt cfg now raw_token usr))
     (\<lambda>_. ret raw_token)"

definition find_valid_refresh_token ::
  "runtime \<Rightarrow> settings \<Rightarrow> datetime \<Rightarrow> string \<Rightarrow> refresh_token option db_op" where
  "find_valid_refresh_token rt cfg now raw_token =
     andThen (gets (db_select refresh_tokens rft_id
        (\<lambda>r. rft_revoked_at r = None \<and> now < rft_expires_at r)))
     (\<lambda>candidates. ret (List.find (\<lambda>token. verify_token rt cfg raw_token (rft_token_hash token))
                            candidates))"

subsection \<open>Credentials as an interface\<close>

text \<open>
  What the handlers rely on from a stored credential: it is checked by recomputing its
  digest. Rotation and lookup lemmas for any such scheme follow.
\<close>

locale credential =
  fixes digest :: "'p \<Rightarrow> 'd" and check :: "'p \<Rightarrow> 'd \<Rightarrow> bool"
  assumes check_iff: "check p d \<longleftrightarrow> digest p = d"
begin

lemma check_own: "check p (digest p)"
  by (simp add: check_iff)

lemma check_inj: "inj digest \<Longrightarrow> check p (digest q) \<longleftrightarrow> p = q"
  by (simp add: check_iff inj_eq)

lemma find_checked:
  assumes "distinct (map f rs)" and "r \<in> set rs" and "check p (f r)"
  shows "List.find (\<lambda>x. check p (f x)) rs = Some r"
  using assms by (induction rs) (auto simp: check_iff image_iff)

lemma find_none:
  "(\<And>r. r \<in> set rs \<Longrightarrow> f r \<noteq> digest p) \<Longrightarrow> List.find (\<lambda>x. check p (f x)) rs = None"
  by (force simp: find_None_iff check_iff)

end

interpretation token_credential: credential "hash_token rt cfg" "verify_token rt cfg"
  for rt :: runtime and cfg :: settings
  by unfold_locales (simp add: verify_token_def)

subsection \<open>Passwords\<close>

lemma dollar_notin_hex: "CHR ''$'' \<notin> set (bytes_hex bs)"
  using set_bytes_hex hex_char_plain by blast

lemma split_password_hash:
  "split_max 3 (CHR ''$'') (hash_password rt salt password) =
     [''pbkdf2_sha256'', ''210000'', bytes_hex salt,
      bytes_hex (pbkdf2_sha256 rt password salt 210000)]"
proof -
  have "hash_password rt salt password =
      ''pbkdf2_sha256'' @ CHR ''$'' # (''210000'' @ CHR ''$'' # (bytes_hex salt @ CHR ''$'' #
        bytes_hex (pbkdf2_sha256 rt password salt 210000)))"
    by (simp add: hash_password_def)
  moreover have "CHR ''$'' \<notin> set ''pbkdf2_sha256''" "CHR ''$'' \<notin> set ''210000''" by simp_all
  ultimately show ?thesis
    by (simp only: numeral_3_eq_3 split_max_step dollar_notin_hex not_False_eq_True split_max.simps(1))
qed

lemma int_210000: "py_int_of_string ''210000'' = Some 210000"
  by (simp add: py_int_of_string_def strip_by_def unsigned_value_def char_class_defs)

lemma verify_hash_password:
  "verify_password rt attempt (hash_password rt salt password) \<longleftrightarrow>
     pbkdf2_sha256 rt attempt salt 210000 = pbkdf2_sha256 rt password salt 210000"
proof -
  have "bytes_hex xs = bytes_hex ys \<longleftrightarrow> xs = ys" for xs ys
    by (metis bytes_fromhex_hex option.inject)
  then show ?thesis
    by (simp add: verify_password_def split_password_hash bytes_fromhex_hex int_210000)
qed

subsection \<open>The order of the roles\<close>

text \<open>
  The access levels the roles stand for, lowest first; a role outside \<open>ROLES\<close> has the
  lowest level.
\<close>

datatype access_level = No_Access | Viewer | Technician | Admin | Owner

primrec level_rank :: "access_level \<Rightarrow> nat" where
  "level_rank No_Access = 0"
| "level_rank Viewer = 1"
| "level_rank Technician = 2"
| "level_rank Admin = 3"
| "level_rank Owner = 4"

lemma level_rank_inj: "level_rank a = level_rank b \<Longrightarrow> a = b"
  by (cases a; cases b) simp_all

instantiation access_level :: linorder
begin

definition less_eq_access_level :: "access_level \<Rightarrow> access_level \<Rightarrow> bool" where
  "less_eq_access_level a b \<longleftrightarrow> level_rank a \<le> level_rank b"

definition less_access_level :: "access_level \<Rightarrow> access_level \<Rightarrow> bool" where
  "less_access_level a b \<longleftrightarrow> level_rank a < level_rank b"

instance
  by standard (auto simp: less_eq_access_level_def less_access_level_def level_rank_inj)

end

definition role_level :: "string \<Rightarrow> access_level" where
  "role_level role =
     (if role = ''viewer'' then Viewer else if role = ''technician'' then Technician
      else if role = ''admin'' then Admin else if role = ''owner'' then Owner else No_Access)"

definition level_permissions :: "access_level \<Rightarrow> string list" where
  "level_permissions l = (case l of No_Access \<Rightarrow> [] | Viewer \<Rightarrow> role_permissions ''viewer''
     | Technician \<Rightarrow> role_permissions ''technician'' | Admin \<Rightarrow> role_permissions ''admin''
     | Owner \<Rightarrow> role_permissions ''owner'')"

lemma role_permissions_level: "role_permissions role = level_permissions (role_level role)"
  by (simp add: role_permissions_def ROLE_PERMISSIONS_def role_level_def level_permissions_def)

lemma level_permissions_step:
  "list_all (\<lambda>p. p \<in> set (role_permissions ''technician'')) (role_permissions ''viewer'')"
  "list_all (\<lambda>p. p \<in> set (role_permissions ''admin'')) (role_permissions ''technician'')"
  "list_all (\<lambda>p. p \<in> set (role_permissions ''owner'')) (role_permissions ''admin'')"
  by (simp_all add: role_permissions_def ROLE_PERMISSIONS_def)

lemma level_permissions_mono:
  assumes "a \<le> b"
  shows "set (level_permissions a) \<subseteq> set (level_permissions b)"
proof -
  have vt: "set (level_permissions Viewer) \<subseteq> set (level_permissions Technician)"
    and ta: "set (level_permissions Technician) \<subseteq> set (level_permissions Admin)"
    and ao: "set (level_permissions Admin) \<subseteq> set (level_permissions Owner)"
    using level_permissions_step by (auto simp: list_all_iff level_permissions_def)
  have "level_permissions No_Access = []" by (simp add: level_permissions_def)
  with vt ta ao assms show ?thesis
    by (cases a; cases b) (auto simp: less_eq_access_level_def)
qed

subsection \<open>Authentication\<close>

lemma keeps_authenticate [keeps_intro]:
  "keeps I (require_authenticated_user rt cfg now credentials)"
  unfolding require_authenticated_user_def
  by (auto intro!: keeps_intro split: prod.splits option.splits)

lemma keeps_require_role [keeps_intro]: "keeps I auth \<Longrightarrow> keeps I (require_role roles auth)"
  unfolding require_role_def by (intro keeps_intro)

lemma keeps_require_permission [keeps_intro]:
  "keeps I auth \<Longrightarrow> keeps I (require_permission permission auth)"
  unfolding require_permission_def by (intro keeps_intro)

lemma authenticate_state: "snd (require_authenticated_user rt cfg now credentials s) = s"
  using keepsD[OF keeps_authenticate, of "\<lambda>t. t = s" s] by simp

lemma require_permission_Inr_iff:
  "require_permission permission auth s = (Inr usr, s') \<longleftrightarrow>
     auth s = (Inr usr, s') \<and> permission \<in> set (role_permissions (usr_role usr))"
  by (auto simp: require_permission_def andThen_def split: prod.splits sum.splits if_splits)

text \<open>A guarded handler that succeeds has run its body for an authenticated operator.\<close>

lemma guarded_InrE:
  assumes "andThen (require_permission permission auth) f s = (Inr y, s')"
    and "snd (auth s) = s"
  obtains usr where "auth s = (Inr usr, s)" and "permission \<in> set (role_permissions (usr_role usr))"
    and "f usr s = (Inr y, s')"
proof -
  from assms(1) obtain usr t where "require_permission permission auth s = (Inr usr, t)"
    and "f usr t = (Inr y, s')" by (rule andThen_InrE)
  with assms(2) that show thesis by (auto simp: require_permission_Inr_iff)
qed

lemma issue_refresh_token_run:
  "issue_refresh_token rt cfg now raw usr s =
     (Inr raw, s\<lparr>live := refresh_tokens_update (\<lambda>rs. rs @
        [new_refresh_token rt cfg now raw usr (next_id s)]) (live s),
        next_id := Suc (next_id s)\<rparr>)"
  by (simp add: issue_refresh_token_def insert_row_def andThen_def)

end
