(* ===== verification/Schemas.thy ===== *)
theory Schemas
  imports Models
begin

text \<open>
  The request and response bodies of \<^verbatim>\<open>backend/app/api/schemas.py\<close> the modelled handlers
  take and give. A pydantic class is a record; its \<open>Field\<close> constraints are the predicate
  \<open>valid_...\<close> of the same name, which FastAPI checks before it calls the handler
  (\<open>validated\<close>, answering 422 otherwise).
\<close>

definition len_between :: "nat \<Rightarrow> nat \<Rightarrow> string \<Rightarrow> bool" where
  "len_between lo hi s \<longleftrightarrow> lo \<le> length s \<and> length s \<le> hi"

definition opt_max :: "nat \<Rightarrow> string option \<Rightarrow> bool" where
  "opt_max hi v = (case v of None \<Rightarrow> True | Some s \<Rightarrow> length s \<le> hi)"

definition opt_ge0 :: "int option \<Rightarrow> bool" where
  "opt_ge0 v = (case v of None \<Rightarrow> True | Some n \<Rightarrow> 0 \<le> n)"

definition validated :: "bool \<Rightarrow> ('s, 'a) op \<Rightarrow> ('s, 'a) op" where
  "validated ok h = (if ok then h else raise (HTTPException 422 ''Unprocessable Entity''))"

lemma validated_True [simp]: "validated True h = h"
  by (simp add: validated_def)

lemma keeps_validated [keeps_intro]: "keeps I h \<Longrightarrow> keeps I (validated ok h)"
  by (simp add: validated_def keeps_intro)

subsection \<open>Sessions and users\<close>

record LoginRequest =
  lgn_email :: string
  lgn_password :: string

definition valid_LoginRequest :: "LoginRequest \<Rightarrow> bool" where
  "valid_LoginRequest p \<longleftrightarrow> 1 \<le> length (lgn_password p)"

record RefreshRequest =
  rfr_refresh_token :: string

definition valid_RefreshRequest :: "RefreshRequest \<Rightarrow> bool" where
  "valid_RefreshRequest p \<longleftrightarrow> 16 \<le> length (rfr_refresh_token p)"

record OrganizationResponse =
  orr_id :: uuid
  orr_name :: string
  orr_slug :: string

record UserResponse =
  usp_id :: uuid
  usp_organization_id :: uuid
  usp_email :: string
  usp_role :: string
  usp_is_active :: bool
  usp_created_at :: datetime

record AuthResponse =
  aup_access_token :: string
  aup_refresh_token :: string
  aup_token_type :: string
  aup_user :: UserResponse
  aup_organization :: OrganizationResponse
  aup_permissions :: "string list"

record CurrentUserResponse =
  cur_user :: UserResponse
  cur_organization :: OrganizationResponse
  cur_permissions :: "string list"

record UserCreateRequest =
  ucr_email :: string
  ucr_password :: string
  ucr_role :: string

definition valid_UserCreateRequest :: "UserCreateRequest \<Rightarrow> bool" where
  "valid_UserCreateRequest p \<longleftrightarrow> 12 \<le> length (ucr_password p)"

record UserPatchRequest =
  upr_email :: "string option"
  upr_password :: "string option"
  upr_role :: "string option"

definition valid_UserPatchRequest :: "UserPatchRequest \<Rightarrow> bool" where
  "valid_UserPatchRequest p =
     (case upr_password p of None \<Rightarrow> True | Some s \<Rightarrow> 12 \<le> length s)"

record BootstrapStatusResponse =
  bsr_has_organization :: bool
  bsr_has_owner :: bool
  bsr_setup_required :: bool

record BootstrapSetupRequest =
  bst_organization_name :: string
  bst_owner_name :: string
  bst_owner_email :: string
  bst_owner_password :: string

definition valid_BootstrapSetupRequest :: "BootstrapSetupRequest \<Rightarrow> bool" where
  "valid_BootstrapSetupRequest p \<longleftrightarrow>
     len_between 2 255 (bst_organization_name p) \<and> len_between 1 255 (bst_owner_name p) \<and>
     12 \<le> length (bst_owner_password p)"

subsection \<open>Enrollment\<close>

record AgentEnrollRequest =
  enr_enrollment_token :: string
  enr_hostname :: string
  enr_operating_system :: string
  enr_architecture :: string
  enr_agent_version :: string
  enr_machine_identifier :: string

definition valid_AgentEnrollRequest :: "AgentEnrollRequest \<Rightarrow> bool" where
  "valid_AgentEnrollRequest p \<longleftrightarrow>
     16 \<le> length (enr_enrollment_token p) \<and> len_between 1 255 (enr_hostname p) \<and>
     len_between 1 128 (enr_operating_system p) \<and> len_between 1 64 (enr_architecture p) \<and>
     len_between 1 64 (enr_agent_version p) \<and> len_between 1 255 (enr_machine_identifier p)"

record AgentEnrollResponse =
  ens_device_id :: uuid
  ens_device_secret :: string

subsection \<open>Agent jobs\<close>

record AgentJobCreateRequest =
  ajc_job_type :: string
  ajc_payload :: json_dict

definition valid_AgentJobCreateRequest :: "AgentJobCreateRequest \<Rightarrow> bool" where
  "valid_AgentJobCreateRequest p \<longleftrightarrow> len_between 1 64 (ajc_job_type p)"

record AgentJobEventResponse =
  ajv_id :: uuid
  ajv_event_type :: string
  ajv_message :: string
  ajv_metadata_json :: json_dict
  ajv_created_at :: datetime

record AgentJobResultResponse =
  ajs_id :: uuid
  ajs_status :: string
  ajs_output :: string
  ajs_error :: "string option"
  ajs_exit_code :: "int option"
  ajs_metadata_json :: json_dict
  ajs_created_at :: datetime

record AgentJobResponse =
  ajp_id :: uuid
  ajp_organization_id :: uuid
  ajp_device_id :: uuid
  ajp_assigned_agent_id :: "uuid option"
  ajp_job_type :: string
  ajp_status :: string
  ajp_payload :: json_dict
  ajp_expires_at :: datetime
  ajp_created_at :: datetime
  ajp_started_at :: "datetime option"
  ajp_completed_at :: "datetime option"
  ajp_result_summary :: "string option"
  ajp_result :: "AgentJobResultResponse option"
  ajp_events :: "AgentJobEventResponse list"

record AgentJobPollRequest =
  apr_device_id :: uuid
  apr_device_secret :: string

definition valid_AgentJobPollRequest :: "AgentJobPollRequest \<Rightarrow> bool" where
  "valid_AgentJobPollRequest p \<longleftrightarrow> 16 \<le> length (apr_device_secret p)"

record AgentJobCompleteRequest =
  acr_device_id :: uuid
  acr_device_secret :: string
  acr_succeeded :: bool
  acr_output :: string
  acr_error :: "string option"
  acr_exit_code :: "int option"
  acr_metadata :: json_dict

definition valid_AgentJobCompleteRequest :: "AgentJobCompleteRequest \<Rightarrow> bool" where
  "valid_AgentJobCompleteRequest p \<longleftrightarrow>
     16 \<le> length (acr_device_secret p) \<and> length (acr_output p) \<le> 20000 \<and>
     opt_max 20000 (acr_error p)"

end
