(* ===== verification/Samples.thy ===== *)
theory Samples
  imports Security
begin

text \<open>
  One small installation the witnesses run on: toy primitives for the cryptography, two
  organizations with their operators, and a server holding them.
\<close>

definition sample_base :: runtime where
  "sample_base =
    \<lparr>hmac_sha256 = (\<lambda>key text. key @ ''/'' @ text),
     pbkdf2_sha256 = (\<lambda>password salt n. map of_char password @ salt),
     jwt_encode = (\<lambda>claims secret. ''access-token''),
     jwt_decode = (\<lambda>token secret audience issuer now. None),
     float_repr = (\<lambda>x. ''0.5''), float_parse = (\<lambda>s. None)\<rparr>"

definition sample_owner :: user where
  "sample_owner =
    \<lparr>usr_id = 3, usr_organization_id = 1, usr_email = ''ann@acme.test'',
     usr_hashed_password = hash_password sample_base [1, 2] ''Correct-Horse-1'',
     usr_role = ''owner'', usr_is_active = True, usr_created_at = 0\<rparr>"

definition sample_viewer :: user where
  "sample_viewer =
    \<lparr>usr_id = 4, usr_organization_id = 2, usr_email = ''vic@globex.test'',
     usr_hashed_password = hash_password sample_base [3, 4] ''Battery-Staple-2'',
     usr_role = ''viewer'', usr_is_active = True, usr_created_at = 0\<rparr>"

definition sample_technician :: user where
  "sample_technician =
    \<lparr>usr_id = 6, usr_organization_id = 1, usr_email = ''tom@acme.test'',
     usr_hashed_password = hash_password sample_base [5, 6] ''Staple-Horse-3'',
     usr_role = ''technician'', usr_is_active = True, usr_created_at = 0\<rparr>"

definition sample_runtime :: runtime where
  "sample_runtime = sample_base
    \<lparr>jwt_decode := (\<lambda>token secret audience issuer now.
       if token = ''access-token''
       then Some (access_token_payload default_settings 0 sample_owner) else None)\<rparr>"

text \<open>An enrolled device of the first organization, its agent and three jobs.\<close>

definition sample_device :: device where
  "sample_device =
    \<lparr>dev_id = 10, dev_organization_id = 1, dev_hostname = ''web-1'', dev_operating_system = ''linux'',
     dev_architecture = Some ''amd64'', dev_machine_identifier = ''machine-1'',
     dev_ip_address = None, dev_agent_version = Some ''0.3.0'', dev_health_status = ''ok'',
     dev_status = ''online'', dev_is_online = True, dev_last_seen_at = Some 0, dev_created_at = 0\<rparr>"

definition sample_agent :: agent where
  "sample_agent =
    \<lparr>agt_id = 11, agt_organization_id = 1, agt_device_id = Some 10, agt_version = ''0.3.0'',
     agt_install_id = ''machine-1'',
     agt_device_secret_hash = hash_token sample_runtime default_settings ''device-secret-0001'',
     agt_last_seen_at = Some 0, agt_created_at = 0\<rparr>"

definition sample_job :: "uuid \<Rightarrow> string \<Rightarrow> agent_job" where
  "sample_job i status =
    \<lparr>job_id = i, job_organization_id = 1, job_device_id = 10,
     job_assigned_agent_id = (if status = ''queued'' then None else Some 11), job_type = ''ping'',
     job_status = status, job_payload = [], job_expires_at = 50, job_started_at = None,
     job_completed_at = None, job_result_summary = None, job_created_at = int i\<rparr>"

definition sample_rule :: alert_rule where
  "sample_rule =
    \<lparr>alr_id = 20, alr_organization_id = 1, alr_rule_key = ''low_disk_free_space'', alr_name = ''Low disk free space'',
     alr_severity = ''warning'', alr_description = ''Free disk space is low.'', alr_enabled = True,
     alr_parameters = [], alr_created_at = 0\<rparr>"

definition sample_alert :: "uuid \<Rightarrow> string \<Rightarrow> alert" where
  "sample_alert i status =
    \<lparr>alt_id = i, alt_organization_id = 1, alt_device_id = 10, alt_rule_id = 20,
     alt_severity = ''warning'', alt_status = status, alt_title = ''Low disk free space'',
     alt_message = ''Free disk space is low.'', alt_first_seen_at = 0, alt_last_seen_at = 0,
     alt_acknowledged_at = None, alt_resolved_at = None, alt_created_at = 0\<rparr>"

definition sample_link :: remote_device_link where
  "sample_link =
    \<lparr>rdl_id = 22, rdl_organization_id = 1, rdl_device_id = 10, rdl_provider_config_id = None,
     rdl_provider_type = ''rustdesk_oss'', rdl_rustdesk_id = Some ''123456789'', rdl_installed = True,
     rdl_last_status = ''online'', rdl_last_reported_at = Some 0, rdl_created_at = 0\<rparr>"

definition sample_token :: enrollment_token where
  "sample_token =
    \<lparr>ent_id = 23, ent_organization_id = 1,
     ent_token_hash = hash_token sample_runtime default_settings ''enrollment-token-1'',
     ent_expires_at = 1000, ent_max_uses = 2, ent_uses = 1, ent_revoked_at = None,
     ent_created_by_user_id = Some 3, ent_created_at = 0\<rparr>"

definition sample_store :: store where
  "sample_store = empty_store
    \<lparr>organizations :=
       [\<lparr>org_id = 1, org_name = ''Acme'', org_slug = ''acme'', org_created_at = 0\<rparr>,
        \<lparr>org_id = 2, org_name = ''Globex'', org_slug = ''globex'', org_created_at = 0\<rparr>],
     users := [sample_owner, sample_viewer, sample_technician],
     refresh_tokens :=
       [new_refresh_token sample_runtime default_settings 0 ''refresh-token-one'' sample_owner 5],
     enrollment_tokens := [sample_token],
     devices := [sample_device], agents := [sample_agent],
     alert_rules := [sample_rule], alerts := [sample_alert 21 ''active''], remote_links := [sample_link],
     agent_jobs := [sample_job 12 ''queued'', sample_job 13 ''running'', sample_job 14 ''succeeded'']\<rparr>"

definition sample_server :: server where
  "sample_server = \<lparr>srv_store = sample_store, srv_next_id = 100\<rparr>"

lemmas sample_defs =
  sample_server_def sample_store_def empty_store_def sample_owner_def sample_viewer_def
  sample_technician_def
  sample_device_def sample_agent_def sample_job_def new_refresh_token_def sample_rule_def
  sample_alert_def sample_link_def sample_token_def

lemma sample_server_simps:
  "srv_store sample_server = sample_store"
  "srv_next_id sample_server = 100"
  by (simp_all add: sample_server_def)

lemma sample_wf: "wf_server sample_server"
  by (simp add: wf_server_def ids_ok_def keys_ok_def unique_ok_def sample_defs)

lemma lower_Bearer: "py_lower ''Bearer'' = ''bearer''"
  by (simp add: char_eval)

lemma sample_active: "usr_is_active sample_owner"
  by (simp add: sample_owner_def)

lemma sample_hash:
  "hash_token sample_runtime cfg token = token_hash_pepper cfg @ ''/'' @ token"
  by (simp add: hash_token_def sample_runtime_def sample_base_def)

lemma sample_verify:
  "verify_password sample_runtime password (usr_hashed_password sample_owner) \<longleftrightarrow>
     map of_char password = (map of_char ''Correct-Horse-1'' :: byte list)"
proof -
  have "pbkdf2_sha256 sample_base = pbkdf2_sha256 sample_runtime"
    by (simp add: sample_runtime_def)
  then have "verify_password sample_runtime = verify_password sample_base"
    by (simp only: verify_password_def fun_eq_iff simp_thms)
  then show ?thesis
    by (simp add: sample_owner_def verify_hash_password) (simp add: sample_base_def)
qed

lemma sample_authenticates:
  "require_authenticated_user sample_runtime cfg now (Some (''Bearer'', ''access-token''))
     (open_session sample_server) = (Inr sample_owner, open_session sample_server)"
proof -
  have "jwt_decode sample_runtime ''access-token'' k a i n =
      Some (access_token_payload default_settings 0 sample_owner)" for k a i n
    by (simp add: sample_runtime_def)
  moreover have "db_get users usr_id 3 (open_session sample_server) = Some sample_owner"
    by (simp add: users_tbl.open_get[OF sample_wf]) (simp add: sample_defs)
  moreover have "uuid_parse (uuid_str 3) = Some 3" by (simp add: uuid_parse_str)
  ultimately show ?thesis
    by (simp add: lower_Bearer require_authenticated_user_def access_token_payload_def dict_get_def py_str_def
        sample_owner_def)
qed

end
