(* ===== verification/Access.thy ===== *)
theory Access
  imports Samples
begin

text \<open>
  The properties of access control: what a password hash and an access token establish,
  how roles are ordered, and what a handler may rely on after \<open>require_permission\<close>.
\<close>

text \<open>A stored password hash accepts exactly the passwords whose derived key is that of
  the original password: formatting the hash as text and parsing it back loses nothing.\<close>

theorem password_roundtrip:
  "verify_password rt attempt (hash_password rt salt password) \<longleftrightarrow>
     pbkdf2_sha256 rt attempt salt 210000 = pbkdf2_sha256 rt password salt 210000"
  by (rule verify_hash_password)

text \<open>The roles are ordered: viewer, technician, admin and owner each hold every
  permission of the roles below, and a role outside the table holds none.\<close>

theorem role_permissions_monotone:
  assumes "role_level role \<le> role_level role'"
  shows "set (role_permissions role) \<subseteq> set (role_permissions role') \<and>
    (role \<notin> set ROLES \<longrightarrow> role_permissions role = [])"
proof
  show "set (role_permissions role) \<subseteq> set (role_permissions role')"
    using level_permissions_mono[OF assms] by (simp add: role_permissions_level)
  show "role \<notin> set ROLES \<longrightarrow> role_permissions role = []"
    by (simp add: role_permissions_level role_level_def level_permissions_def ROLES_def)
qed

theorem role_permissions_monotone_witness:
  "''jobs:read'' \<in> set (role_permissions ''viewer'') \<and>
   set (role_permissions ''viewer'') \<subseteq> set (role_permissions ''admin'')"
  using role_permissions_monotone[of "''viewer''" "''admin''"]
  by (simp add: role_level_def less_eq_access_level_def role_permissions_def ROLE_PERMISSIONS_def)

text \<open>C9. The access token issued to a stored, active user authenticates that user and
  changes nothing, whenever the JWT library accepts the token it encoded: the claims carry
  the user's id through its text form and back.\<close>

theorem access_token_authenticates:
  assumes "wf_server w" and "usr \<in> set (users (srv_store w))" and "usr_is_active usr"
    and "usr_id usr < 16 ^ 32" and "py_lower scheme = ''bearer''"
    and jwt: "jwt_decode rt (create_access_token rt cfg issued usr) (jwt_secret_key cfg)
            (jwt_audience cfg) (jwt_issuer cfg) now = Some (access_token_payload cfg issued usr)"
  shows "require_authenticated_user rt cfg now
           (Some (scheme, create_access_token rt cfg issued usr)) (open_session w) =
         (Inr usr, open_session w)"
  using assms
  by (simp add: require_authenticated_user_def access_token_payload_def dict_get_def py_str_def
      uuid_parse_str users_tbl.open_get users_tbl.open_find_key)

theorem access_token_authenticates_witness:
  "require_authenticated_user sample_runtime default_settings 5
     (Some (''Bearer'', create_access_token sample_runtime default_settings 0 sample_owner))
     (open_session sample_server) = (Inr sample_owner, open_session sample_server)"
proof (rule access_token_authenticates[OF sample_wf])
  show "sample_owner \<in> set (users (srv_store sample_server))"
    by (simp add: sample_server_def sample_store_def)
  show "jwt_decode sample_runtime
     (create_access_token sample_runtime default_settings 0 sample_owner)
     (jwt_secret_key default_settings) (jwt_audience default_settings)
     (jwt_issuer default_settings) 5 =
     Some (access_token_payload default_settings 0 sample_owner)"
    by (simp add: create_access_token_def sample_runtime_def sample_base_def)
  show "py_lower ''Bearer'' = ''bearer''" by (rule lower_Bearer)
qed (simp_all add: sample_owner_def)

text \<open>C2. A guarded handler runs only for a stored, active user whose role holds the
  permission; every other request ends with 401 or 403, and the check itself never changes
  the data.\<close>

theorem access_control_sound:
  assumes "wf_server w"
    and "require_permission permission (require_authenticated_user rt cfg now credentials)
           (open_session w) = (r, s)"
  shows "s = open_session w \<and>
    (case r of
       Inl e \<Rightarrow> e \<in> {HTTPException 401 ''Bearer token required'', HTTPException 401 ''Invalid token'',
                     HTTPException 401 ''Inactive user'', HTTPException 403 ''Insufficient permission''}
     | Inr usr \<Rightarrow> usr \<in> set (users (srv_store w)) \<and> usr_is_active usr \<and>
         permission \<in> set (role_permissions (usr_role usr)))"
proof -
  have "s = open_session w"
    using keepsD[OF keeps_require_permission[OF keeps_authenticate], of "\<lambda>t. t = open_session w"] assms(2)
    by (metis snd_conv)
  moreover have "usr \<in> set (users (srv_store w))"
    if "db_get users usr_id i (open_session w) = Some usr" for i usr
    using that by (simp add: users_tbl.open_get[OF assms(1)] find_SomeD)
  ultimately show ?thesis
    using assms(2)
    by (auto simp: require_permission_def require_authenticated_user_def andThen_run
        split: option.splits if_splits prod.splits)
qed

theorem access_control_sound_witness:
  "wf_server sample_server \<and>
   (\<exists>usr. fst (require_permission ''users:manage'' (require_authenticated_user sample_runtime
      default_settings 5 (Some (''Bearer'', ''access-token''))) (open_session sample_server)) = Inr usr \<and>
     usr \<in> set (users (srv_store sample_server)) \<and> usr_is_active usr)"
proof -
  have "require_permission ''users:manage'' (require_authenticated_user sample_runtime
     default_settings 5 (Some (''Bearer'', ''access-token''))) (open_session sample_server) =
     (Inr sample_owner, open_session sample_server)"
    by (simp add: require_permission_def andThen_run sample_authenticates)
      (simp add: sample_owner_def role_permissions_def ROLE_PERMISSIONS_def)
  from access_control_sound[OF sample_wf this] this show ?thesis by (simp add: sample_wf)
qed

end
