(* ===== verification/Auth.thy ===== *)
theory Auth
  imports Samples Schemas
begin

text \<open>
  The session endpoints of \<^verbatim>\<open>backend/app/api/auth.py\<close>: login, refresh with rotation,
  logout and the current user. The raw refresh token a handler draws is its argument
  \<open>raw\<close>. The properties: a failed login changes nothing and always answers the same, and
  a refresh token is good for one refresh only.
\<close>

definition user_response :: "user \<Rightarrow> UserResponse" where
  "user_response usr =
     \<lparr>usp_id = usr_id usr, usp_organization_id = usr_organization_id usr,
      usp_email = usr_email usr, usp_role = usr_role usr,
      usp_is_active = usr_is_active usr, usp_created_at = usr_created_at usr\<rparr>"

definition org_response :: "organization \<Rightarrow> OrganizationResponse" where
  "org_response o' = \<lparr>orr_id = org_id o', orr_name = org_name o', orr_slug = org_slug o'\<rparr>"

definition auth_response ::
  "runtime \<Rightarrow> settings \<Rightarrow> datetime \<Rightarrow> user \<Rightarrow> string \<Rightarrow> AuthResponse db_op" where
  "auth_response rt cfg now usr refresh_token =
     andThen (gets (db_get organizations org_id (usr_organization_id usr))) (\<lambda>organization.
     case organization of
       None \<Rightarrow> raise (HTTPException 403 ''Organization unavailable'')
     | Some org \<Rightarrow>
         ret \<lparr>aup_access_token = create_access_token rt cfg now usr,
              aup_refresh_token = refresh_token, aup_token_type = ''bearer'',
              aup_user = user_response usr, aup_organization = org_response org,
              aup_permissions = sort (role_permissions (usr_role usr))\<rparr>)"

definition login ::
  "runtime \<Rightarrow> settings \<Rightarrow> datetime \<Rightarrow> string \<Rightarrow> LoginRequest \<Rightarrow> AuthResponse db_op" where
  "login rt cfg now raw payload =
     andThen (gets (db_scalar users usr_id (\<lambda>u. usr_email u = py_lower (lgn_email payload))))
     (\<lambda>found. case found of
        None \<Rightarrow> raise (HTTPException 401 ''Invalid credentials'')
      | Some usr \<Rightarrow>
          if \<not> usr_is_active usr \<or>
             \<not> verify_password rt (lgn_password payload) (usr_hashed_password usr)
          then raise (HTTPException 401 ''Invalid credentials'')
          else andThen (issue_refresh_token rt cfg now raw usr) (\<lambda>refresh_token.
               andThen db_commit (\<lambda>_. auth_response rt cfg now usr refresh_token)))"

definition refresh ::
  "runtime \<Rightarrow> settings \<Rightarrow> datetime \<Rightarrow> string \<Rightarrow> RefreshRequest \<Rightarrow> AuthResponse db_op" where
  "refresh rt cfg now raw payload =
     andThen (find_valid_refresh_token rt cfg now (rfr_refresh_token payload)) (\<lambda>found.
     case found of
       None \<Rightarrow> raise (HTTPException 401 ''Invalid refresh token'')
     | Some token \<Rightarrow>
         andThen (gets (db_get users usr_id (rft_user_id token))) (\<lambda>user.
         case user of
           None \<Rightarrow> raise (HTTPException 401 ''Invalid refresh token'')
         | Some usr \<Rightarrow>
             if \<not> usr_is_active usr then raise (HTTPException 401 ''Invalid refresh token'')
             else andThen (put_row refresh_tokens_update rft_id
                             (token\<lparr>rft_revoked_at := Some now\<rparr>)) (\<lambda>_.
                  andThen (issue_refresh_token rt cfg now raw usr) (\<lambda>new_refresh.
                  andThen db_commit (\<lambda>_. auth_response rt cfg now usr new_refresh)))))"

definition logout ::
  "runtime \<Rightarrow> settings \<Rightarrow> datetime \<Rightarrow> RefreshRequest \<Rightarrow> (string \<times> string) list db_op" where
  "logout rt cfg now payload =
     andThen (find_valid_refresh_token rt cfg now (rfr_refresh_token payload)) (\<lambda>found.
     andThen (case found of
                None \<Rightarrow> ret ()
              | Some token \<Rightarrow>
                  andThen (put_row refresh_tokens_update rft_id
                             (token\<lparr>rft_revoked_at := Some now\<rparr>)) (\<lambda>_. db_commit))
     (\<lambda>_. ret [(''status'', ''ok'')]))"

definition current_user :: "user db_op \<Rightarrow> CurrentUserResponse db_op" where
  "current_user auth =
     andThen auth (\<lambda>usr.
     andThen (gets (db_get organizations org_id (usr_organization_id usr))) (\<lambda>organization.
     case organization of
       None \<Rightarrow> raise (HTTPException 403 ''Organization unavailable'')
     | Some org \<Rightarrow>
         ret \<lparr>cur_user = user_response usr, cur_organization = org_response org,
              cur_permissions = sort (role_permissions (usr_role usr))\<rparr>))"

subsection \<open>Running the handlers\<close>

lemma keeps_auth_response [keeps_intro]: "keeps I (auth_response rt cfg now usr tok)"
  unfolding auth_response_def by (intro keeps_intro)

lemma auth_response_state: "snd (auth_response rt cfg now usr tok s) = s"
  using keepsD[OF keeps_auth_response, of "\<lambda>t. t = s" s] by simp

lemma auth_response_InrD: "auth_response rt cfg now usr tok t = (r, s') \<Longrightarrow> s' = t"
  using auth_response_state[of rt cfg now usr tok t] by simp

lemma auth_response_run:
  "db_get organizations org_id (usr_organization_id usr) s = Some org \<Longrightarrow>
   auth_response rt cfg now usr tok s =
     (Inr \<lparr>aup_access_token = create_access_token rt cfg now usr,
           aup_refresh_token = tok, aup_token_type = ''bearer'',
           aup_user = user_response usr, aup_organization = org_response org,
           aup_permissions = sort (role_permissions (usr_role usr))\<rparr>, s)"
  by (simp add: auth_response_def)

lemma keeps_find_valid [keeps_intro]: "keeps I (find_valid_refresh_token rt cfg now raw)"
  unfolding find_valid_refresh_token_def by (intro keeps_intro)

text \<open>The condition under which a stored token answers to \<open>raw\<close>.\<close>

definition token_usable :: "runtime \<Rightarrow> settings \<Rightarrow> datetime \<Rightarrow> string \<Rightarrow> refresh_token \<Rightarrow> bool" where
  "token_usable rt cfg now raw r \<longleftrightarrow> rft_revoked_at r = None \<and> now < rft_expires_at r \<and>
     verify_token rt cfg raw (rft_token_hash r)"

lemma find_valid_open:
  assumes "wf_server w"
  shows "find_valid_refresh_token rt cfg now raw (open_session w) =
    (Inr (List.find (token_usable rt cfg now raw) (refresh_tokens (srv_store w))),
     open_session w)"
  using assms by (simp add: find_valid_refresh_token_def refresh_tokens_tbl.open_select find_filter
      token_usable_def[abs_def])

subsection \<open>Spent refresh tokens\<close>

text \<open>
  \<open>spent raw st\<close>: every stored token with the digest of \<open>raw\<close> is revoked. Handlers that do
  not issue a token with that digest keep it in all three versions of the data.
\<close>

definition spent :: "runtime \<Rightarrow> settings \<Rightarrow> string \<Rightarrow> store \<Rightarrow> bool" where
  "spent rt cfg raw st \<longleftrightarrow>
     list_all (\<lambda>r. rft_token_hash r = hash_token rt cfg raw \<longrightarrow> rft_revoked_at r \<noteq> None)
       (refresh_tokens st)"

abbreviation spent_session :: "runtime \<Rightarrow> settings \<Rightarrow> string \<Rightarrow> session \<Rightarrow> bool" where
  "spent_session rt cfg raw \<equiv> everywhere (spent rt cfg raw)"

lemma spent_revoke [keeps_intro]:
  "keeps (spent_session rt cfg raw)
     (put_row refresh_tokens_update rft_id (token\<lparr>rft_revoked_at := Some now\<rparr>))"
  by (rule everywhere_put) (auto simp: spent_def list_all_iff)

lemma spent_issue [keeps_intro]:
  "hash_token rt cfg raw' \<noteq> hash_token rt cfg raw \<Longrightarrow>
   keeps (spent_session rt cfg raw) (issue_refresh_token rt cfg now raw' usr)"
  unfolding issue_refresh_token_def
  by (intro keeps_intro everywhere_insert) (simp add: spent_def new_refresh_token_def)

lemma spent_login:
  "hash_token rt cfg raw' \<noteq> hash_token rt cfg raw \<Longrightarrow>
   keeps (spent_session rt cfg raw) (login rt cfg now raw' p)"
  unfolding login_def by (intro keeps_intro)

lemma spent_refresh:
  "hash_token rt cfg raw' \<noteq> hash_token rt cfg raw \<Longrightarrow>
   keeps (spent_session rt cfg raw) (refresh rt cfg now raw' p)"
  unfolding refresh_def by (intro keeps_intro)

lemma spent_logout: "keeps (spent_session rt cfg raw) (logout rt cfg now p)"
  unfolding logout_def by (intro keeps_intro)

lemma refresh_refused:
  assumes "wf_server w"
    and "\<And>r. r \<in> set (refresh_tokens (srv_store w)) \<Longrightarrow> rft_token_hash r = hash_token rt cfg raw \<Longrightarrow>
       rft_revoked_at r \<noteq> None \<or> rft_expires_at r \<le> now"
  shows "run_request (refresh rt cfg now raw' \<lparr>rfr_refresh_token = raw\<rparr>) w =
           (Inl (HTTPException 401 ''Invalid refresh token''), w)"
proof -
  have "List.find (token_usable rt cfg now raw) (refresh_tokens (srv_store w)) = None"
    using assms(2) by (force simp: find_None_iff token_usable_def verify_token_def)
  then have "refresh rt cfg now raw' \<lparr>rfr_refresh_token = raw\<rparr> (open_session w) =
      (Inl (HTTPException 401 ''Invalid refresh token''), open_session w)"
    by (simp add: refresh_def andThen_run find_valid_open[OF assms(1)])
  then show ?thesis by (simp add: run_request_state)
qed

lemma spent_refused:
  assumes "wf_server w" and "spent rt cfg raw (srv_store w)"
  shows "run_request (refresh rt cfg now raw' \<lparr>rfr_refresh_token = raw\<rparr>) w =
           (Inl (HTTPException 401 ''Invalid refresh token''), w)"
  using assms by (intro refresh_refused) (auto simp: spent_def list_all_iff)

text \<open>A logout that finds its token and a successful refresh both spend it.\<close>

lemma revoked_spent:
  assumes "unique_ok st" and "keys_ok n rft_id (refresh_tokens st)"
    and "token \<in> set (refresh_tokens st)" and "rft_token_hash token = hash_token rt cfg raw"
    and "\<forall>r \<in> set new. rft_token_hash r \<noteq> hash_token rt cfg raw"
  shows "spent rt cfg raw (refresh_tokens_update
    (\<lambda>rs. map (\<lambda>x. if rft_id x = rft_id token then token\<lparr>rft_revoked_at := Some now\<rparr> else x) rs @ new) st)"
proof -
  have "rft_id x = rft_id token"
    if "x \<in> set (refresh_tokens st)" "rft_token_hash x = hash_token rt cfg raw" for x
    using assms(1,3,4) that
    by (auto simp: unique_ok_def distinct_map dest!: inj_onD[where x = x and y = token])
  with assms(5) show ?thesis by (auto simp: spent_def list_all_iff)
qed

definition rotated ::
  "runtime \<Rightarrow> settings \<Rightarrow> datetime \<Rightarrow> string \<Rightarrow> user \<Rightarrow> refresh_token \<Rightarrow> server \<Rightarrow> store" where
  "rotated rt cfg now raw' usr token w = refresh_tokens_update
     (\<lambda>rs. map (\<lambda>x. if rft_id x = rft_id token then token\<lparr>rft_revoked_at := Some now\<rparr> else x) rs @
       [new_refresh_token rt cfg now raw' usr (srv_next_id w)]) (srv_store w)"

lemma refresh_open:
  assumes "wf_server w"
    and "List.find (token_usable rt cfg now raw) (refresh_tokens (srv_store w)) = Some token"
    and "db_get users usr_id (rft_user_id token) (open_session w) = Some usr" and "usr_is_active usr"
  shows "refresh rt cfg now raw' \<lparr>rfr_refresh_token = raw\<rparr> (open_session w) =
    andThen db_commit (\<lambda>_. auth_response rt cfg now usr raw')
      ((open_session w)\<lparr>live := rotated rt cfg now raw' usr token w, next_id := Suc (srv_next_id w)\<rparr>)"
  using assms
  by (simp add: refresh_def andThen_run find_valid_open put_row_def issue_refresh_token_run
      rotated_def comp_def)

lemma refresh_success:
  assumes w: "wf_server w"
    and ok: "run_request (refresh rt cfg now raw' \<lparr>rfr_refresh_token = raw\<rparr>) w = (Inr resp, w')"
  obtains token usr where "token \<in> set (refresh_tokens (srv_store w))"
    and "rft_token_hash token = hash_token rt cfg raw" and "rft_revoked_at token = None"
    and "usr_id usr = rft_user_id token" and "usr_is_active usr"
    and "srv_store w' = rotated rt cfg now raw' usr token w"
proof -
  let ?s = "open_session w"
  let ?P = "token_usable rt cfg now raw"
  from ok obtain s' where run: "refresh rt cfg now raw' \<lparr>rfr_refresh_token = raw\<rparr> ?s = (Inr resp, s')"
    and w': "w' = close_session s'" by (rule run_requestE)
  from run obtain token where tok: "List.find ?P (refresh_tokens (srv_store w)) = Some token"
    by (cases "List.find ?P (refresh_tokens (srv_store w))")
      (auto simp: refresh_def andThen_run find_valid_open[OF w])
  from run tok obtain usr where usr: "db_get users usr_id (rft_user_id token) ?s = Some usr"
    "usr_is_active usr"
    by (auto simp: refresh_def andThen_run find_valid_open[OF w] split: option.splits if_splits)
  have "durable s' = rotated rt cfg now raw' usr token w"
    using run
    by (auto simp: refresh_open[OF w tok usr] andThen_run db_commit_def
        split: if_splits dest!: auth_response_InrD)
  moreover have "token \<in> set (refresh_tokens (srv_store w))"
    "rft_token_hash token = hash_token rt cfg raw" "rft_revoked_at token = None"
    using tok by (auto dest!: find_SomeD simp: token_usable_def verify_token_def)
  moreover have "usr_id usr = rft_user_id token"
    using users_tbl.get_SomeD[OF usr(1)] by simp
  ultimately show ?thesis using that usr(2) w' by simp
qed

lemma refresh_spends:
  assumes w: "wf_server w"
    and ok: "run_request (refresh rt cfg now raw' \<lparr>rfr_refresh_token = raw\<rparr>) w = (Inr resp, w')"
    and new: "hash_token rt cfg raw' \<noteq> hash_token rt cfg raw"
  shows "spent rt cfg raw (srv_store w')"
proof -
  obtain token usr where tok: "token \<in> set (refresh_tokens (srv_store w))"
    "rft_token_hash token = hash_token rt cfg raw"
    and w': "srv_store w' = rotated rt cfg now raw' usr token w"
    using refresh_success[OF w ok] by blast
  from w have "unique_ok (srv_store w)" "keys_ok (srv_next_id w) rft_id (refresh_tokens (srv_store w))"
    by (auto simp: wf_server_def intro: refresh_tokens_tbl.ids_read)
  from revoked_spent[OF this tok, of "[new_refresh_token rt cfg now raw' usr (srv_next_id w)]"] new
  show ?thesis by (simp add: w' rotated_def new_refresh_token_def)
qed

subsection \<open>Sequences of session requests\<close>

lemma wf_issue [keeps_intro]: "keeps wf_session (issue_refresh_token rt cfg now raw usr)"
  unfolding issue_refresh_token_def
  by (intro keeps_intro refresh_tokens_tbl.insert_wf) (simp add: new_refresh_token_def)

lemma wf_login: "keeps wf_session (login rt cfg now raw p)"
  unfolding login_def by (intro keeps_intro)

lemma wf_refresh: "keeps wf_session (refresh rt cfg now raw p)"
  unfolding refresh_def by (intro keeps_intro refresh_tokens_tbl.put_wf)

lemma wf_logout: "keeps wf_session (logout rt cfg now p)"
  unfolding logout_def by (intro keeps_intro refresh_tokens_tbl.put_wf)

text \<open>The requests that touch refresh tokens, each with its time and the token it draws.\<close>

datatype auth_request =
    Login datetime string LoginRequest
  | Refresh datetime string RefreshRequest
  | Logout datetime RefreshRequest

primrec auth_step :: "runtime \<Rightarrow> settings \<Rightarrow> auth_request \<Rightarrow> server \<Rightarrow> server" where
  "auth_step rt cfg (Login now raw p) w = snd (run_request (login rt cfg now raw p) w)"
| "auth_step rt cfg (Refresh now raw p) w = snd (run_request (refresh rt cfg now raw p) w)"
| "auth_step rt cfg (Logout now p) w = snd (run_request (logout rt cfg now p) w)"

primrec drawn_token :: "auth_request \<Rightarrow> string option" where
  "drawn_token (Login now raw p) = Some raw"
| "drawn_token (Refresh now raw p) = Some raw"
| "drawn_token (Logout now p) = None"

definition run_auth :: "runtime \<Rightarrow> settings \<Rightarrow> auth_request list \<Rightarrow> server \<Rightarrow> server" where
  "run_auth rt cfg history w = fold (auth_step rt cfg) history w"

text \<open>No request of the history draws a token with the digest of \<open>raw\<close> again.\<close>

definition never_reissued :: "runtime \<Rightarrow> settings \<Rightarrow> string \<Rightarrow> auth_request list \<Rightarrow> bool" where
  "never_reissued rt cfg raw history \<longleftrightarrow>
     list_all (\<lambda>q. case drawn_token q of None \<Rightarrow> True
        | Some t \<Rightarrow> hash_token rt cfg t \<noteq> hash_token rt cfg raw) history"

lemma run_auth_spent:
  assumes "wf_server w" and "spent rt cfg raw (srv_store w)" and "never_reissued rt cfg raw history"
  shows "wf_server (run_auth rt cfg history w) \<and> spent rt cfg raw (srv_store (run_auth rt cfg history w))"
  using assms
proof (induction history arbitrary: w)
  case Nil
  then show ?case by (simp add: run_auth_def)
next
  case (Cons q history)
  have "wf_server (auth_step rt cfg q w)"
    using Cons.prems(1)
    by (cases q) (simp_all add: run_request_wf wf_login wf_refresh wf_logout)
  moreover have "spent rt cfg raw (srv_store (auth_step rt cfg q w))"
    using Cons.prems(2,3)
    by (cases q) (simp_all add: never_reissued_def run_request_everywhere[where P = "spent rt cfg raw"]
        spent_login spent_refresh spent_logout)
  moreover have "never_reissued rt cfg raw history"
    using Cons.prems(3) by (simp add: never_reissued_def)
  ultimately show ?case using Cons.IH by (simp add: run_auth_def)
qed

subsection \<open>Login, refresh and logout\<close>

lemma login_refused:
  assumes "wf_server w"
    and "\<And>usr. usr \<in> set (users (srv_store w)) \<Longrightarrow> usr_email usr = py_lower (lgn_email p) \<Longrightarrow>
       \<not> usr_is_active usr \<or> \<not> verify_password rt (lgn_password p) (usr_hashed_password usr)"
  shows "run_request (login rt cfg now raw p) w = (Inl (HTTPException 401 ''Invalid credentials''), w)"
proof -
  have "login rt cfg now raw p (open_session w) =
      (Inl (HTTPException 401 ''Invalid credentials''), open_session w)"
    using assms(2)
    by (auto simp: login_def andThen_run users_tbl.open_scalar[OF assms(1)]
        split: option.splits dest!: find_SomeD)
  then show ?thesis by (simp add: run_request_state)
qed



text \<open>C6. A login of an active account with its password answers with an access token for
  it, the drawn refresh token, the account, its organization and the sorted permissions of
  its role, and stores exactly one row: the new refresh token, by its digest.\<close>

theorem login_success:
  assumes w: "wf_server w" and usr: "usr \<in> set (users (srv_store w))"
    and p: "py_lower (lgn_email p) = usr_email usr" "usr_is_active usr"
      "verify_password rt (lgn_password p) (usr_hashed_password usr)"
    and fresh: "hash_token rt cfg raw \<notin> rft_token_hash ` set (refresh_tokens (srv_store w))"
    and org: "o' \<in> set (organizations (srv_store w))" "org_id o' = usr_organization_id usr"
  shows "run_request (login rt cfg now raw p) w =
    (Inr \<lparr>aup_access_token = create_access_token rt cfg now usr, aup_refresh_token = raw,
          aup_token_type = ''bearer'', aup_user = user_response usr,
          aup_organization = org_response o',
          aup_permissions = sort (role_permissions (usr_role usr))\<rparr>,
     \<lparr>srv_store = refresh_tokens_update
        (\<lambda>rs. rs @ [new_refresh_token rt cfg now raw usr (srv_next_id w)]) (srv_store w),
      srv_next_id = Suc (srv_next_id w)\<rparr>)"
proof -
  let ?st = "refresh_tokens_update
        (\<lambda>rs. rs @ [new_refresh_token rt cfg now raw usr (srv_next_id w)]) (srv_store w)"
  let ?s = "committed ?st (Suc (srv_next_id w))"
  have "distinct (map usr_email (users (srv_store w)))"
    using w by (simp add: wf_server_def unique_ok_def)
  then have find: "db_scalar users usr_id (\<lambda>u. usr_email u = usr_email usr) (open_session w) = Some usr"
    using usr by (simp add: users_tbl.open_scalar[OF w] find_Some_iff_distinct)
  have unique: "unique_ok ?st"
    using w fresh by (simp add: wf_server_def unique_ok_def new_refresh_token_def)
  have "distinct (map org_id (organizations (srv_store w)))"
    using organizations_tbl.open_distinct[OF w] by simp
  then have "db_get organizations org_id (usr_organization_id usr) ?s = Some o'"
    using org by (subst organizations_tbl.get_synced) (simp_all add: find_Some_iff_distinct)
  note answer = auth_response_run[OF this]
  have "login rt cfg now raw p (open_session w) = auth_response rt cfg now usr raw ?s"
    using p by (simp add: login_def andThen_run find issue_refresh_token_run commit_open unique)
  with answer have "login rt cfg now raw p (open_session w) =
      (Inr \<lparr>aup_access_token = create_access_token rt cfg now usr,
       aup_refresh_token = raw, aup_token_type = ''bearer'', aup_user = user_response usr,
       aup_organization = org_response o',
       aup_permissions = sort (role_permissions (usr_role usr))\<rparr>, ?s)"
    by simp
  then show ?thesis by (simp add: run_request_def)
qed

theorem login_success_witness:
  "fst (run_request (login sample_runtime default_settings 7 ''fresh-token''
      \<lparr>lgn_email = ''ann@acme.test'', lgn_password = ''Correct-Horse-1''\<rparr>) sample_server) =
   Inr \<lparr>aup_access_token = ''access-token'', aup_refresh_token = ''fresh-token'',
        aup_token_type = ''bearer'', aup_user = user_response sample_owner,
        aup_organization = \<lparr>orr_id = 1, orr_name = ''Acme'', orr_slug = ''acme''\<rparr>,
        aup_permissions = sort (role_permissions ''owner'')\<rparr>"
proof -
  let ?org = "\<lparr>org_id = 1, org_name = ''Acme'', org_slug = ''acme'', org_created_at = 0\<rparr>"
  have "run_request (login sample_runtime default_settings 7 ''fresh-token''
      \<lparr>lgn_email = ''ann@acme.test'', lgn_password = ''Correct-Horse-1''\<rparr>) sample_server =
    (Inr \<lparr>aup_access_token = create_access_token sample_runtime default_settings 7 sample_owner,
          aup_refresh_token = ''fresh-token'',
          aup_token_type = ''bearer'', aup_user = user_response sample_owner,
          aup_organization = org_response ?org,
          aup_permissions = sort (role_permissions (usr_role sample_owner))\<rparr>,
     \<lparr>srv_store = refresh_tokens_update
        (\<lambda>rs. rs @ [new_refresh_token sample_runtime default_settings 7 ''fresh-token''
            sample_owner (srv_next_id sample_server)]) (srv_store sample_server),
      srv_next_id = Suc (srv_next_id sample_server)\<rparr>)"
  proof (rule login_success[OF sample_wf])
    show "sample_owner \<in> set (users (srv_store sample_server))"
      by (simp add: sample_server_def sample_store_def)
    show "hash_token sample_runtime default_settings ''fresh-token'' \<notin>
        rft_token_hash ` set (refresh_tokens (srv_store sample_server))"
      by (simp add: sample_server_def sample_store_def new_refresh_token_def sample_hash)
    show "?org \<in> set (organizations (srv_store sample_server))"
      by (simp add: sample_server_def sample_store_def)
  qed (simp_all add: sample_verify, simp_all add: sample_owner_def char_eval)
  then show ?thesis
    by (simp add: create_access_token_def sample_runtime_def sample_base_def org_response_def sample_owner_def)
qed

text \<open>C1. A refresh token is good for one refresh. Once it has been exchanged, and whatever
  logins, refreshes and logouts follow, presenting it again answers 401 and changes
  nothing, provided no later draw repeats its digest.\<close>

theorem refresh_token_single_use:
  assumes "wf_server w"
    and "run_request (refresh rt cfg now new \<lparr>rfr_refresh_token = raw\<rparr>) w = (Inr resp, w')"
    and "never_reissued rt cfg raw (Refresh now new \<lparr>rfr_refresh_token = raw\<rparr> # history)"
  shows "run_request (refresh rt cfg later other \<lparr>rfr_refresh_token = raw\<rparr>) (run_auth rt cfg history w') =
    (Inl (HTTPException 401 ''Invalid refresh token''), run_auth rt cfg history w')"
proof -
  have "wf_server w'"
    using run_request_wf[OF wf_refresh assms(1)] assms(2) by (metis snd_conv)
  moreover have "spent rt cfg raw (srv_store w')" "never_reissued rt cfg raw history"
    using assms(3) refresh_spends[OF assms(1,2)] by (simp_all add: never_reissued_def)
  ultimately show ?thesis using run_auth_spent spent_refused by blast
qed

theorem refresh_token_single_use_witness:
  "\<exists>w. run_request (refresh sample_runtime default_settings 9 ''next-token''
        \<lparr>rfr_refresh_token = ''refresh-token-one''\<rparr>) w = (Inl (HTTPException 401 ''Invalid refresh token''), w)"
proof -
  let ?go = "refresh sample_runtime default_settings 7 ''fresh-token''
        \<lparr>rfr_refresh_token = ''refresh-token-one''\<rparr>"
  let ?token = "new_refresh_token sample_runtime default_settings 0 ''refresh-token-one'' sample_owner 5"
  have tok: "List.find (token_usable sample_runtime default_settings 7 ''refresh-token-one'')
      (refresh_tokens (srv_store sample_server)) = Some ?token"
    by (simp add: sample_server_def sample_store_def new_refresh_token_def token_usable_def verify_token_def
        REFRESH_TOKEN_DAYS_def timedelta_defs)
  have usr: "db_get users usr_id (rft_user_id ?token) (open_session sample_server) = Some sample_owner"
    by (simp add: users_tbl.open_get[OF sample_wf]) (simp add: sample_defs)
  let ?st = "rotated sample_runtime default_settings 7 ''fresh-token'' sample_owner ?token sample_server"
  let ?s = "committed ?st (Suc (srv_next_id sample_server))"
  have unique: "unique_ok ?st"
    by (simp add: rotated_def unique_ok_def sample_defs sample_hash)
  have "?go (open_session sample_server) =
      auth_response sample_runtime default_settings 7 sample_owner ''fresh-token'' ?s"
    by (subst refresh_open[OF sample_wf tok usr])
      (simp_all add: andThen_run commit_open unique sample_active)
  moreover have "db_get organizations org_id (usr_organization_id sample_owner) ?s =
      Some \<lparr>org_id = 1, org_name = ''Acme'', org_slug = ''acme'', org_created_at = 0\<rparr>"
    by (simp add: db_get_def db_scalar_def live_row_def rotated_def sample_defs)
  ultimately obtain resp where "?go (open_session sample_server) = (Inr resp, ?s)"
    by (simp add: auth_response_run)
  then have "run_request ?go sample_server = (Inr resp, close_session ?s)"
    by (rule run_request_eq)
  from refresh_token_single_use[OF sample_wf this, of
      "[Logout 8 \<lparr>rfr_refresh_token = ''unrelated''\<rparr>]" 9 "''next-token''"]
  show ?thesis
    by (auto simp: never_reissued_def sample_hash)
qed

lemma logout_found:
  assumes w: "wf_server w"
    and tok: "List.find (token_usable rt cfg now raw) (refresh_tokens (srv_store w)) = Some token"
  shows "srv_store (snd (run_request (logout rt cfg now \<lparr>rfr_refresh_token = raw\<rparr>) w)) =
    refresh_tokens_update (map (\<lambda>x. if rft_id x = rft_id token then token\<lparr>rft_revoked_at := Some now\<rparr> else x))
      (srv_store w)"
proof -
  let ?st = "refresh_tokens_update
      (map (\<lambda>x. if rft_id x = rft_id token then token\<lparr>rft_revoked_at := Some now\<rparr> else x)) (srv_store w)"
  have row: "x = token" if "x \<in> set (refresh_tokens (srv_store w))" "rft_id x = rft_id token" for x
    using that tok refresh_tokens_tbl.open_distinct[OF w]
    by (auto dest!: find_SomeD simp: distinct_map dest: inj_onD)
  then have "map rft_token_hash (refresh_tokens ?st) = map rft_token_hash (refresh_tokens (srv_store w))"
    by auto
  with w have "unique_ok ?st"
    by (simp add: wf_server_def unique_ok_def del: map_eq_conv)
  then show ?thesis
    by (simp add: run_request_def logout_def andThen_run find_valid_open[OF w] tok put_row_def
        db_commit_def)
qed

text \<open>C8. A logout ends the session of its refresh token: from then on the token is refused
  with 401 by every refresh, also when it had been rotated or had expired before.\<close>

theorem logout_ends_session:
  assumes w: "wf_server w"
    and out: "run_request (logout rt cfg now \<lparr>rfr_refresh_token = raw\<rparr>) w = (r, w')"
    and "now \<le> later"
  shows "run_request (refresh rt cfg later new \<lparr>rfr_refresh_token = raw\<rparr>) w' =
    (Inl (HTTPException 401 ''Invalid refresh token''), w')"
proof -
  let ?P = "token_usable rt cfg now raw"
  have wf: "wf_server w'" using run_request_wf[OF wf_logout w] out by (metis snd_conv)
  show ?thesis
  proof (cases "List.find ?P (refresh_tokens (srv_store w))")
    case None
    then have "logout rt cfg now \<lparr>rfr_refresh_token = raw\<rparr> (open_session w) =
        (Inr [(''status'', ''ok'')], open_session w)"
      by (simp add: logout_def andThen_run find_valid_open[OF w])
    with out have "w' = w" by (simp add: run_request_state)
    with None \<open>now \<le> later\<close> show ?thesis
      by (intro refresh_refused wf) (force simp: find_None_iff token_usable_def verify_token_def)
  next
    case (Some token)
    then have st: "srv_store w' = refresh_tokens_update (map (\<lambda>x. if rft_id x = rft_id token
        then token\<lparr>rft_revoked_at := Some now\<rparr> else x)) (srv_store w)"
      using logout_found[OF w Some] out by simp
    have "unique_ok (srv_store w)" "keys_ok (srv_next_id w) rft_id (refresh_tokens (srv_store w))"
      using w by (auto simp: wf_server_def intro: refresh_tokens_tbl.ids_read)
    from revoked_spent[OF this, of token rt cfg raw "[]" now] Some
    have "spent rt cfg raw (srv_store w')" by (auto simp: st dest!: find_SomeD simp: token_usable_def verify_token_def)
    with wf show ?thesis by (rule spent_refused)
  qed
qed

theorem logout_ends_session_witness:
  "\<exists>w. run_request (refresh sample_runtime default_settings 9 ''next-token''
        \<lparr>rfr_refresh_token = ''refresh-token-one''\<rparr>) w = (Inl (HTTPException 401 ''Invalid refresh token''), w)
     \<and> length (refresh_tokens (srv_store w)) = 1"
proof -
  let ?out = "logout sample_runtime default_settings 7 \<lparr>rfr_refresh_token = ''refresh-token-one''\<rparr>"
  let ?w = "snd (run_request ?out sample_server)"
  have tok: "List.find (token_usable sample_runtime default_settings 7 ''refresh-token-one'')
      (refresh_tokens (srv_store sample_server)) =
    Some (new_refresh_token sample_runtime default_settings 0 ''refresh-token-one'' sample_owner 5)"
    by (simp add: sample_server_def sample_store_def new_refresh_token_def token_usable_def verify_token_def
        REFRESH_TOKEN_DAYS_def timedelta_defs)
  have "length (refresh_tokens (srv_store ?w)) = 1"
    by (simp add: logout_found[OF sample_wf tok]) (simp add: sample_server_def sample_store_def)
  moreover have "run_request ?out sample_server = (fst (run_request ?out sample_server), ?w)" by simp
  note logout_ends_session[OF sample_wf this, of 9 "''next-token''"]
  ultimately show ?thesis by (intro exI[of _ ?w]) simp
qed

end
