(* ===== verification/Users.thy ===== *)
theory Users
  imports Auth
begin

text \<open>
  Operator accounts: \<^verbatim>\<open>backend/app/api/users.py\<close>. Every handler runs behind
  \<open>require_permission("users:manage")\<close> on an authentication step \<open>auth\<close>; the salt a
  handler draws for a new password is its argument. The properties: accounts stay
  well-formed (\<open>accounts_ok\<close>), a new account is exactly the requested one, and a disabled
  account is locked out at every entrance.
\<close>

definition require_same_org_user :: "uuid \<Rightarrow> uuid \<Rightarrow> user db_op" where
  "require_same_org_user user_id organization_id =
     andThen (gets (db_get users usr_id user_id)) (\<lambda>found.
     case found of
       None \<Rightarrow> raise (HTTPException 404 ''User not found'')
     | Some usr \<Rightarrow>
         if usr_organization_id usr \<noteq> organization_id
         then raise (HTTPException 404 ''User not found'') else ret usr)"

definition list_users :: "user db_op \<Rightarrow> UserResponse list db_op" where
  "list_users auth =
     andThen (require_permission ''users:manage'' auth) (\<lambda>current.
     andThen (gets (db_select_by users usr_id usr_email
        (\<lambda>u. usr_organization_id u = usr_organization_id current))) (\<lambda>us.
     ret (map user_response us)))"

definition new_user ::
  "uuid \<Rightarrow> string \<Rightarrow> string \<Rightarrow> string \<Rightarrow> datetime \<Rightarrow> uuid \<Rightarrow> user" where
  "new_user organization_id email hashed role now i =
     \<lparr>usr_id = i, usr_organization_id = organization_id, usr_email = email,
      usr_hashed_password = hashed, usr_role = role, usr_is_active = True,
      usr_created_at = now\<rparr>"

definition create_user ::
  "runtime \<Rightarrow> datetime \<Rightarrow> byte list \<Rightarrow> user db_op \<Rightarrow> UserCreateRequest \<Rightarrow> UserResponse db_op" where
  "create_user rt now salt auth payload =
     andThen (require_permission ''users:manage'' auth) (\<lambda>current.
     if ucr_role payload \<notin> set ROLES then raise (HTTPException 400 ''Invalid role'')
     else andThen (gets (db_scalar users usr_id (\<lambda>u. usr_email u = py_lower (ucr_email payload))))
       (\<lambda>existing.
       if existing \<noteq> None then raise (HTTPException 409 ''Email already exists'')
       else andThen (insert_row users_update
              (new_user (usr_organization_id current) (py_lower (ucr_email payload))
                 (hash_password rt salt (ucr_password payload)) (ucr_role payload) now)) (\<lambda>usr.
            andThen db_commit (\<lambda>_. ret (user_response usr)))))"

definition patch_user ::
  "runtime \<Rightarrow> byte list \<Rightarrow> user db_op \<Rightarrow> uuid \<Rightarrow> UserPatchRequest \<Rightarrow> UserResponse db_op" where
  "patch_user rt salt auth user_id payload =
     andThen (require_permission ''users:manage'' auth) (\<lambda>current.
     andThen (require_same_org_user user_id (usr_organization_id current)) (\<lambda>usr0.
     andThen (case upr_role payload of
                None \<Rightarrow> ret usr0
              | Some role \<Rightarrow>
                  if role \<notin> set ROLES then raise (HTTPException 400 ''Invalid role'')
                  else ret (usr0\<lparr>usr_role := role\<rparr>)) (\<lambda>usr1.
     let usr2 = (case upr_email payload of None \<Rightarrow> usr1
                 | Some email \<Rightarrow> usr1\<lparr>usr_email := py_lower email\<rparr>);
         usr3 = (case upr_password payload of None \<Rightarrow> usr2
                 | Some password \<Rightarrow> usr2\<lparr>usr_hashed_password := hash_password rt salt password\<rparr>)
     in andThen (put_row users_update usr_id usr3) (\<lambda>_.
        andThen db_commit (\<lambda>_. ret (user_response usr3))))))"

definition disable_user :: "user db_op \<Rightarrow> uuid \<Rightarrow> UserResponse db_op" where
  "disable_user auth user_id =
     andThen (require_permission ''users:manage'' auth) (\<lambda>current.
     andThen (require_same_org_user user_id (usr_organization_id current)) (\<lambda>usr.
     andThen (put_row users_update usr_id (usr\<lparr>usr_is_active := False\<rparr>)) (\<lambda>_.
     andThen db_commit (\<lambda>_. ret (user_response (usr\<lparr>usr_is_active := False\<rparr>))))))"

definition enable_user :: "user db_op \<Rightarrow> uuid \<Rightarrow> UserResponse db_op" where
  "enable_user auth user_id =
     andThen (require_permission ''users:manage'' auth) (\<lambda>current.
     andThen (require_same_org_user user_id (usr_organization_id current)) (\<lambda>usr.
     andThen (put_row users_update usr_id (usr\<lparr>usr_is_active := True\<rparr>)) (\<lambda>_.
     andThen db_commit (\<lambda>_. ret (user_response (usr\<lparr>usr_is_active := True\<rparr>))))))"

subsection \<open>Invariants\<close>

lemma keeps_same_org_user [keeps_intro]: "keeps I (require_same_org_user user_id o')"
  unfolding require_same_org_user_def by (intro keeps_intro)

lemma wf_users:
  "keeps wf_session auth \<Longrightarrow> keeps wf_session (list_users auth)"
  "keeps wf_session auth \<Longrightarrow> keeps wf_session (create_user rt now salt auth p)"
  "keeps wf_session auth \<Longrightarrow> keeps wf_session (patch_user rt salt auth i q)"
  "keeps wf_session auth \<Longrightarrow> keeps wf_session (disable_user auth i)"
  "keeps wf_session auth \<Longrightarrow> keeps wf_session (enable_user auth i)"
  unfolding list_users_def create_user_def patch_user_def disable_user_def enable_user_def Let_def
  by (intro keeps_intro users_tbl.insert_wf users_tbl.put_wf; simp add: new_user_def)+

text \<open>Every account has one of the four roles and its address in lower case.\<close>

definition account_ok :: "user \<Rightarrow> bool" where
  "account_ok usr \<longleftrightarrow> usr_role usr \<in> set ROLES \<and> py_lower (usr_email usr) = usr_email usr"

definition accounts_ok :: "store \<Rightarrow> bool" where
  "accounts_ok st \<longleftrightarrow> list_all account_ok (users st)"

lemma accounts_insert:
  "(\<And>i. account_ok (mk i)) \<Longrightarrow> keeps (everywhere accounts_ok) (insert_row users_update mk)"
  by (rule everywhere_insert) (simp add: accounts_ok_def)

lemma accounts_put:
  "account_ok usr \<Longrightarrow> keeps (everywhere accounts_ok) (put_row users_update usr_id usr)"
  by (rule everywhere_put) (auto simp: accounts_ok_def list_all_iff)

lemma accounts_same_org:
  assumes "\<And>usr. account_ok usr \<Longrightarrow> keeps (everywhere accounts_ok) (f usr)"
  shows "keeps (everywhere accounts_ok) (andThen (require_same_org_user i o') f)"
  unfolding require_same_org_user_def andThen_assoc
  by (rule users_tbl.get_rows[where Q = account_ok])
    (auto simp: everywhere_def accounts_ok_def list_all_iff intro!: keeps_intro assms)

lemma accounts_create:
  assumes "keeps (everywhere accounts_ok) auth"
  shows "keeps (everywhere accounts_ok) (create_user rt now salt auth p)"
  unfolding create_user_def
  by (intro keeps_intro assms accounts_insert; simp add: account_ok_def new_user_def)

lemma accounts_patch:
  assumes "keeps (everywhere accounts_ok) auth"
  shows "keeps (everywhere accounts_ok) (patch_user rt salt auth i q)"
  unfolding patch_user_def Let_def
  by (intro keeps_intro assms accounts_same_org keeps_andThen_result[where m = "case _ of None \<Rightarrow> _ | Some r \<Rightarrow> _ r"] accounts_put)
    (auto simp: account_ok_def split: option.splits if_splits)

lemma accounts_toggle:
  assumes "keeps (everywhere accounts_ok) auth"
  shows "keeps (everywhere accounts_ok) (disable_user auth i)"
    and "keeps (everywhere accounts_ok) (enable_user auth i)"
  unfolding disable_user_def enable_user_def
  by (intro keeps_intro assms accounts_same_org accounts_put; simp add: account_ok_def)+

subsection \<open>What a success says\<close>

lemma authenticated_open:
  assumes "wf_server w"
    and "require_authenticated_user rt cfg now cred (open_session w) = (Inr usr, s)"
  shows "s = open_session w \<and> usr \<in> set (users (srv_store w)) \<and> usr_is_active usr"
  using assms(2) authenticate_state[of rt cfg now cred "open_session w"]
  by (auto simp: require_authenticated_user_def andThen_run users_tbl.open_get[OF assms(1)]
      dest: find_SomeD split: option.splits if_splits prod.splits)

lemma auth_response_user:
  "auth_response rt cfg now usr tok s = (Inr a, s') \<Longrightarrow> aup_user a = user_response usr"
  by (auto simp: auth_response_def andThen_run split: option.splits)

lemma login_user:
  assumes "wf_server w" and "run_request (login rt cfg now raw p) w = (Inr a, w')"
  shows "\<exists>usr \<in> set (users (srv_store w)). usr_is_active usr \<and> aup_user a = user_response usr"
proof -
  from assms(2) obtain s where "login rt cfg now raw p (open_session w) = (Inr a, s)"
    by (rule run_requestE)
  then show ?thesis
    by (force simp: login_def andThen_run users_tbl.open_scalar[OF assms(1)]
        split: option.splits if_splits prod.splits sum.splits
        dest: find_SomeD auth_response_user)
qed

lemma refresh_user:
  assumes "wf_server w" and "run_request (refresh rt cfg now raw p) w = (Inr a, w')"
  shows "\<exists>usr \<in> set (users (srv_store w)). usr_is_active usr \<and> aup_user a = user_response usr"
proof -
  from assms(2) obtain s where "refresh rt cfg now raw p (open_session w) = (Inr a, s)"
    by (rule run_requestE)
  moreover have "usr \<in> set (users (srv_store w))"
    if "db_get users usr_id i (open_session w) = Some usr" for i usr
    using that by (simp add: users_tbl.open_get[OF assms(1)] find_SomeD)
  ultimately show ?thesis
    by (cases p) (force simp: refresh_def andThen_run find_valid_open[OF assms(1)]
        split: option.splits if_splits prod.splits sum.splits dest: auth_response_user)
qed

lemma same_org_user_InrD:
  "require_same_org_user i o' s = (Inr usr, s') \<Longrightarrow>
     s' = s \<and> db_get users usr_id i s = Some usr \<and> usr_id usr = i \<and> usr_organization_id usr = o'"
  using users_tbl.get_SomeD[of i s]
  by (auto simp: require_same_org_user_def split: option.splits if_splits)

lemma disable_user_run:
  assumes w: "wf_server w" and wf_auth: "keeps wf_session auth"
    and auth: "snd (auth (open_session w)) = open_session w"
    and run: "run_request (disable_user auth user_id) w = (Inr resp, w')"
  shows "wf_server w' \<and> (\<forall>usr \<in> set (users (srv_store w')). usr_id usr = user_id \<longrightarrow> \<not> usr_is_active usr)"
proof -
  from run obtain s where s: "disable_user auth user_id (open_session w) = (Inr resp, s)"
    and w': "w' = close_session s" by (rule run_requestE)
  from s auth obtain current where "auth (open_session w) = (Inr current, open_session w)"
    and "''users:manage'' \<in> set (role_permissions (usr_role current))"
    and "andThen (require_same_org_user user_id (usr_organization_id current)) (\<lambda>usr.
       andThen (put_row users_update usr_id (usr\<lparr>usr_is_active := False\<rparr>)) (\<lambda>_.
       andThen db_commit (\<lambda>_. ret (user_response (usr\<lparr>usr_is_active := False\<rparr>)))))
     (open_session w) = (Inr resp, s)"
    unfolding disable_user_def by (elim guarded_InrE)
  then obtain usr where "usr_id usr = user_id"
    and "durable s = users_update (map (\<lambda>x. if usr_id x = usr_id usr then usr\<lparr>usr_is_active := False\<rparr> else x))
           (srv_store w)"
    by (elim andThen_InrE) (auto dest!: same_org_user_InrD simp: put_row_def db_commit_def split: if_splits)
  moreover have "wf_server w'"
    using run_request_wf[OF wf_users(4)[OF wf_auth] w] run by (metis snd_conv)
  ultimately show ?thesis by (auto simp: w')
qed

text \<open>C17. Disabling an account locks it out: once the request has succeeded, no access
  token authenticates it, no login and no refresh succeeds as it, whatever the request
  carries.\<close>

theorem disabled_user_locked_out:
  assumes w: "wf_server w"
    and run: "run_request (disable_user (require_authenticated_user rt cfg now cred) user_id) w = (Inr resp, w')"
  shows "(\<forall>now' cred' usr s. require_authenticated_user rt cfg now' cred' (open_session w') = (Inr usr, s)
             \<longrightarrow> usr_id usr \<noteq> user_id) \<and>
         (\<forall>now' raw p a w''. run_request (login rt cfg now' raw p) w' = (Inr a, w'')
             \<longrightarrow> usp_id (aup_user a) \<noteq> user_id) \<and>
         (\<forall>now' raw p a w''. run_request (refresh rt cfg now' raw p) w' = (Inr a, w'')
             \<longrightarrow> usp_id (aup_user a) \<noteq> user_id)"
proof -
  have wf: "wf_server w'"
    and off: "\<forall>usr \<in> set (users (srv_store w')). usr_id usr = user_id \<longrightarrow> \<not> usr_is_active usr"
    using disable_user_run[OF w keeps_authenticate authenticate_state run] by auto
  then show ?thesis
    using authenticated_open[OF wf] login_user[OF wf] refresh_user[OF wf]
    by (fastforce simp: user_response_def)
qed

lemma owner_manages_users: "''users:manage'' \<in> set (role_permissions (usr_role sample_owner))"
  by (simp add: sample_owner_def role_permissions_def ROLE_PERMISSIONS_def)

theorem disabled_user_locked_out_witness:
  "\<exists>w. (\<exists>usr \<in> set (users (srv_store w)). usr_id usr = 6) \<and>
     (\<forall>now raw p a w''. run_request (login sample_runtime default_settings now raw p) w = (Inr a, w'')
        \<longrightarrow> usp_id (aup_user a) \<noteq> 6)"
proof -
  let ?auth = "require_authenticated_user sample_runtime default_settings 5 (Some (''Bearer'', ''access-token''))"
  let ?off = "sample_technician\<lparr>usr_is_active := False\<rparr>"
  let ?st = "users_update (map (\<lambda>x. if usr_id x = usr_id ?off then ?off else x)) sample_store"
  have "require_same_org_user 6 (usr_organization_id sample_owner) (open_session sample_server)
      = (Inr sample_technician, open_session sample_server)"
    by (simp add: require_same_org_user_def users_tbl.open_get[OF sample_wf]) (simp add: sample_defs)
  moreover have "unique_ok ?st"
    by (simp add: unique_ok_def sample_defs)
  ultimately have "disable_user ?auth 6 (open_session sample_server) =
      (Inr (user_response ?off), committed ?st (srv_next_id sample_server))"
    using owner_manages_users
    by (simp add: disable_user_def andThen_run require_permission_def sample_authenticates
        put_row_def commit_open sample_server_simps)
  then have "run_request (disable_user ?auth 6) sample_server =
      (Inr (user_response ?off), close_session (committed ?st (srv_next_id sample_server)))"
    by (rule run_request_eq)
  from disabled_user_locked_out[OF sample_wf this] show ?thesis
    by (intro exI[of _ "close_session (committed ?st (srv_next_id sample_server))"])
      (simp add: sample_store_def sample_technician_def)
qed

text \<open>C18. A successful \<open>POST /users\<close> was made by an active operator with
  \<open>users:manage\<close>, names one of the four roles and an address nobody has, and stores
  exactly one row: the active account, in the operator's organization, with the address in
  lower case and a hash its password verifies against.\<close>

theorem create_user_exact:
  assumes w: "wf_server w"
    and run: "run_request (create_user rt now salt (require_authenticated_user rt cfg t cred) p) w = (Inr resp, w')"
  shows "\<exists>current \<in> set (users (srv_store w)). usr_is_active current \<and>
     ''users:manage'' \<in> set (role_permissions (usr_role current)) \<and>
     ucr_role p \<in> set ROLES \<and>
     (\<forall>usr \<in> set (users (srv_store w)). usr_email usr \<noteq> py_lower (ucr_email p)) \<and>
     srv_store w' = users_update (\<lambda>us. us @
        [\<lparr>usr_id = srv_next_id w, usr_organization_id = usr_organization_id current,
          usr_email = py_lower (ucr_email p), usr_hashed_password = hash_password rt salt (ucr_password p),
          usr_role = ucr_role p, usr_is_active = True, usr_created_at = now\<rparr>]) (srv_store w) \<and>
     verify_password rt (ucr_password p) (hash_password rt salt (ucr_password p))"
proof -
  from run obtain s where s: "create_user rt now salt (require_authenticated_user rt cfg t cred) p
      (open_session w) = (Inr resp, s)" and w': "w' = close_session s" by (rule run_requestE)
  from s obtain current where "require_authenticated_user rt cfg t cred (open_session w) =
       (Inr current, open_session w)"
    and perm: "''users:manage'' \<in> set (role_permissions (usr_role current))"
    and body: "(if ucr_role p \<notin> set ROLES then raise (HTTPException 400 ''Invalid role'')
       else andThen (gets (db_scalar users usr_id (\<lambda>u. usr_email u = py_lower (ucr_email p))))
         (\<lambda>existing. if existing \<noteq> None then raise (HTTPException 409 ''Email already exists'')
          else andThen (insert_row users_update (new_user (usr_organization_id current)
                 (py_lower (ucr_email p)) (hash_password rt salt (ucr_password p)) (ucr_role p) now))
               (\<lambda>usr. andThen db_commit (\<lambda>_. ret (user_response usr)))))
       (open_session w) = (Inr resp, s)"
    unfolding create_user_def using authenticate_state by (elim guarded_InrE) blast+
  then have cur: "current \<in> set (users (srv_store w))" "usr_is_active current"
    using authenticated_open[OF w] by blast+
  from body have "ucr_role p \<in> set ROLES"
    and "\<forall>usr \<in> set (users (srv_store w)). usr_email usr \<noteq> py_lower (ucr_email p)"
    and "durable s = users_update (\<lambda>us. us @ [new_user (usr_organization_id current)
           (py_lower (ucr_email p)) (hash_password rt salt (ucr_password p)) (ucr_role p) now
           (srv_next_id w)]) (srv_store w)"
    by (auto simp: users_tbl.open_scalar[OF w] find_None_iff insert_row_def andThen_run db_commit_def
        split: if_splits)
  with cur perm w' show ?thesis by (auto simp: new_user_def verify_hash_password)
qed

theorem create_user_exact_witness:
  "\<exists>w'. snd (run_request (create_user sample_runtime 9 [7] (require_authenticated_user sample_runtime
       default_settings 5 (Some (''Bearer'', ''access-token'')))
       \<lparr>ucr_email = ''New@acme.test'', ucr_password = ''Long-Enough-1'', ucr_role = ''viewer''\<rparr>) sample_server) = w' \<and>
     length (users (srv_store w')) = 4"
proof -
  let ?p = "\<lparr>ucr_email = ''New@acme.test'', ucr_password = ''Long-Enough-1'', ucr_role = ''viewer''\<rparr>"
  let ?auth = "require_authenticated_user sample_runtime default_settings 5 (Some (''Bearer'', ''access-token''))"
  let ?usr = "new_user 1 ''new@acme.test'' (hash_password sample_runtime [7] ''Long-Enough-1'') ''viewer'' 9 100"
  let ?st = "users_update (\<lambda>us. us @ [?usr]) sample_store"
  have low: "py_lower ''New@acme.test'' = ''new@acme.test''" by (simp add: char_eval)
  have none: "db_scalar users usr_id (\<lambda>u. usr_email u = ''new@acme.test'') (open_session sample_server) = None"
    by (simp add: users_tbl.open_scalar[OF sample_wf]) (simp add: sample_defs)
  have unique: "unique_ok ?st"
    by (simp add: unique_ok_def sample_defs new_user_def)
  have org: "usr_organization_id sample_owner = 1" by (simp add: sample_owner_def)
  have "create_user sample_runtime 9 [7] ?auth ?p (open_session sample_server) =
      (Inr (user_response ?usr), committed ?st 101)"
    using owner_manages_users
    by (simp add: create_user_def andThen_run require_permission_def sample_authenticates ROLES_def
        low none insert_row_def commit_open sample_server_simps org unique del: One_nat_def)
  then have run: "run_request (create_user sample_runtime 9 [7] ?auth ?p) sample_server =
      (Inr (user_response ?usr), close_session (committed ?st 101))"
    by (rule run_request_eq)
  from create_user_exact[OF sample_wf run] run show ?thesis
    by (auto simp: sample_server_def sample_store_def)
qed

end
