(* ===== verification/Bootstrap.thy ===== *)
theory Bootstrap
  imports Users
begin

text \<open>
  First-run setup: \<^verbatim>\<open>backend/app/core/bootstrap.py\<close> and
  \<^verbatim>\<open>backend/app/api/bootstrap.py\<close>. The properties: setup is possible exactly while there is
  no organization or no active owner, a successful setup creates the organization, its
  owner and a session in one commit and closes the door, and the slug of an organization
  is well-formed.
\<close>

definition validate_strong_password :: "string \<Rightarrow> error + unit" where
  "validate_strong_password password =
     (if length password < 12
      then Inl (ValueError ''Password must be at least 12 characters long'')
      else let checks = [list_ex is_lower password, list_ex is_upper password,
                         list_ex is_digit password, list_ex (\<lambda>c. \<not> is_alnum c) password]
           in if length (filter (\<lambda>b. b) checks) < 3
              then Inl (ValueError ''Password must include at least three character classes'')
              else Inr ())"

definition bootstrap_status :: "session \<Rightarrow> bool \<times> bool" where
  "bootstrap_status s =
     (let organization_count = db_count organizations (\<lambda>_. True) s;
          owner_count = db_count users (\<lambda>u. usr_role u = ''owner'' \<and> usr_is_active u) s
      in (organization_count > 0, owner_count > 0))"

definition setup_required :: "session \<Rightarrow> bool" where
  "setup_required s = (case bootstrap_status s of (has_org, has_owner) \<Rightarrow> \<not> (has_org \<and> has_owner))"

definition slugify :: "string \<Rightarrow> string" where
  "slugify v =
     (let slug = strip_by (\<lambda>c. c = CHR ''-'')
            (map (\<lambda>c. if is_alnum c then lower_char c else CHR ''-'') v);
          joined = py_join ''-'' (filter (\<lambda>part. part \<noteq> []) (split_char (CHR ''-'') slug))
      in if joined \<noteq> [] then joined else ''default'')"

definition new_organization :: "string \<Rightarrow> datetime \<Rightarrow> uuid \<Rightarrow> organization" where
  "new_organization name now i =
     \<lparr>org_id = i, org_name = name, org_slug = slugify name, org_created_at = now\<rparr>"

definition create_first_owner ::
  "runtime \<Rightarrow> settings \<Rightarrow> datetime \<Rightarrow> byte list \<Rightarrow> string \<Rightarrow> string \<Rightarrow> string \<Rightarrow> string \<Rightarrow>
   (user \<times> string) db_op" where
  "create_first_owner rt cfg now salt raw organization_name owner_email owner_password =
     andThen (gets setup_required) (\<lambda>required.
     if \<not> required then raise (RuntimeError ''Bootstrap setup has already completed'')
     else andThen (lift_sum (validate_strong_password owner_password)) (\<lambda>_.
          andThen (insert_row organizations_update (new_organization organization_name now)) (\<lambda>org.
          andThen db_flush (\<lambda>_.
          andThen (insert_row users_update
             (new_user (org_id org) (py_lower owner_email) (hash_password rt salt owner_password)
                ''owner'' now)) (\<lambda>usr.
          andThen db_flush (\<lambda>_.
          andThen (issue_refresh_token rt cfg now raw usr) (\<lambda>refresh_token.
          ret (usr, refresh_token))))))))"

definition get_bootstrap_status :: "BootstrapStatusResponse db_op" where
  "get_bootstrap_status =
     andThen (gets bootstrap_status) (\<lambda>(has_org, has_owner).
     ret \<lparr>bsr_has_organization = has_org, bsr_has_owner = has_owner,
          bsr_setup_required = \<not> (has_org \<and> has_owner)\<rparr>)"

definition bootstrap_setup ::
  "runtime \<Rightarrow> settings \<Rightarrow> datetime \<Rightarrow> byte list \<Rightarrow> string \<Rightarrow> BootstrapSetupRequest \<Rightarrow>
   AuthResponse db_op" where
  "bootstrap_setup rt cfg now salt raw payload =
     andThen (gets setup_required) (\<lambda>required.
     if \<not> required then raise (HTTPException 409 ''Bootstrap setup has already completed'')
     else andThen (value_error_as_400 (create_first_owner rt cfg now salt raw
             (bst_organization_name payload) (bst_owner_email payload) (bst_owner_password payload)))
          (\<lambda>(usr, refresh_token).
          andThen db_commit (\<lambda>_. auth_response rt cfg now usr refresh_token)))"

subsection \<open>Slugs\<close>

definition slug_char :: "char \<Rightarrow> bool" where
  "slug_char c \<longleftrightarrow> is_lower c \<or> is_digit c"

text \<open>
  A slug is lower-case alphanumeric parts joined by single hyphens: no part between two
  hyphens, or before the first or after the last, is empty.
\<close>

definition slug_ok :: "string \<Rightarrow> bool" where
  "slug_ok s \<longleftrightarrow> list_all (\<lambda>p. p \<noteq> [] \<and> list_all slug_char p) (split_char (CHR ''-'') s)"

lemma slug_char_lower: "is_alnum c \<Longrightarrow> slug_char (lower_char c)"
  using lower_char_not_upper[of c]
  by (cases "is_upper c")
    (auto simp: slug_char_def is_alnum_def lower_char_def is_upper_def is_lower_def ord_def)

lemma slug_char_fixed: "slug_char c \<Longrightarrow> is_alnum c \<and> lower_char c = c \<and> c \<noteq> CHR ''-''"
  by (auto simp: slug_char_def is_alnum_def lower_char_def char_class_defs)

lemma slugify_slug_ok: "slug_ok (slugify v)"
proof -
  let ?s = "strip_by (\<lambda>c. c = CHR ''-'') (map (\<lambda>c. if is_alnum c then lower_char c else CHR ''-'') v)"
  let ?ps = "filter (\<lambda>part. part \<noteq> []) (split_char (CHR ''-'') ?s)"
  have chars: "slug_char c \<or> c = CHR ''-''" if "c \<in> set ?s" for c
    using that set_strip_by slug_char_lower by fastforce
  have parts: "p \<noteq> [] \<and> list_all slug_char p \<and> CHR ''-'' \<notin> set p" if "p \<in> set ?ps" for p
    using that set_split_char[of p "CHR ''-''" ?s] chars by (auto simp: list_all_iff)
  show ?thesis
  proof (cases "?ps = []")
    case True
    then show ?thesis by (simp add: slugify_def slug_ok_def slug_char_def char_class_defs)
  next
    case False
    then have "py_join ''-'' ?ps \<noteq> []" using parts join_ends by blast
    then have "slugify v = py_join ''-'' ?ps" by (simp only: slugify_def Let_def if_True simp_thms)
    moreover have "split_char (CHR ''-'') (py_join ''-'' ?ps) = ?ps"
      by (rule split_join[OF False]) (use parts in blast)
    moreover have "list_all (\<lambda>p. p \<noteq> [] \<and> list_all slug_char p) ?ps"
      unfolding list_all_iff[of _ ?ps] using parts by blast
    ultimately show ?thesis by (simp only: slug_ok_def)
  qed
qed

lemma slugify_id:
  assumes "slug_ok s"
  shows "slugify s = s"
proof -
  let ?ps = "split_char (CHR ''-'') s"
  have parts: "p \<noteq> [] \<and> (\<forall>c \<in> set p. slug_char c)" if "p \<in> set ?ps" for p
    using assms that by (auto simp: slug_ok_def list_all_iff)
  have ends: "s \<noteq> [] \<and> hd s = hd (hd ?ps) \<and> last s = last (last ?ps)"
    using join_ends[OF split_char_ne[of "CHR ''-''" s], of "''-''"] parts by (simp add: join_split)
  have "hd (hd ?ps) \<noteq> CHR ''-''" "last (last ?ps) \<noteq> CHR ''-''"
    using parts[OF hd_in_set[OF split_char_ne]] parts[OF last_in_set[OF split_char_ne]]
      slug_char_fixed by fastforce+
  with ends have strip: "strip_by (\<lambda>c. c = CHR ''-'') s = s" by (simp add: strip_by_ends)
  have chars: "map (\<lambda>c. if is_alnum c then lower_char c else CHR ''-'') s = s"
  proof (rule map_idI)
    fix c assume "c \<in> set s"
    then have "c = CHR ''-'' \<or> slug_char c" using in_split_char parts by blast
    moreover have "\<not> is_alnum (CHR ''-'')" by (simp add: char_class_defs)
    ultimately show "(if is_alnum c then lower_char c else CHR ''-'') = c"
      using slug_char_fixed by auto
  qed
  have "filter (\<lambda>part. part \<noteq> []) ?ps = ?ps" using parts by (simp add: filter_id_conv)
  then have "py_join ''-'' (filter (\<lambda>part. part \<noteq> []) ?ps) = s" by (simp only: join_split)
  with ends show ?thesis by (simp only: slugify_def chars strip Let_def simp_thms if_True)
qed

subsection \<open>Setup\<close>

lemma wf_setup: "keeps wf_session (bootstrap_setup rt cfg now salt raw p)"
  unfolding bootstrap_setup_def create_first_owner_def
  by (intro keeps_intro organizations_tbl.insert_wf users_tbl.insert_wf)
    (simp_all add: new_organization_def new_user_def)

lemma accounts_setup: "keeps (everywhere accounts_ok) (bootstrap_setup rt cfg now salt raw p)"
  unfolding bootstrap_setup_def create_first_owner_def issue_refresh_token_def
  by (intro keeps_intro accounts_insert everywhere_insert)
    (simp_all add: account_ok_def new_user_def ROLES_def accounts_ok_def)

definition has_active_owner :: "store \<Rightarrow> bool" where
  "has_active_owner st \<longleftrightarrow> list_ex (\<lambda>u. usr_role u = ''owner'' \<and> usr_is_active u) (users st)"

lemma setup_required_flushed:
  "setup_required s \<longleftrightarrow> organizations (flushed s) = [] \<or> \<not> has_active_owner (flushed s)"
  by (auto simp: setup_required_def bootstrap_status_def db_count_def has_active_owner_def
      list_ex_iff filter_empty_conv)

text \<open>The rows a setup creates, with consecutive keys.\<close>

definition after_setup ::
  "runtime \<Rightarrow> settings \<Rightarrow> datetime \<Rightarrow> byte list \<Rightarrow> string \<Rightarrow> BootstrapSetupRequest \<Rightarrow> server \<Rightarrow> store" where
  "after_setup rt cfg now salt raw p w =
     (let i = srv_next_id w;
          owner = \<lparr>usr_id = i + 1, usr_organization_id = i, usr_email = py_lower (bst_owner_email p),
                   usr_hashed_password = hash_password rt salt (bst_owner_password p),
                   usr_role = ''owner'', usr_is_active = True, usr_created_at = now\<rparr>
      in refresh_tokens_update (\<lambda>rs. rs @ [new_refresh_token rt cfg now raw owner (i + 2)])
           (users_update (\<lambda>us. us @ [owner])
             (organizations_update (\<lambda>os. os @ [\<lparr>org_id = i, org_name = bst_organization_name p,
                 org_slug = slugify (bst_organization_name p), org_created_at = now\<rparr>])
               (srv_store w))))"

lemma setup_refused:
  assumes "\<not> setup_required (open_session w)"
  shows "run_request (bootstrap_setup rt cfg now salt raw p) w =
    (Inl (HTTPException 409 ''Bootstrap setup has already completed''), w)"
proof -
  have "bootstrap_setup rt cfg now salt raw p (open_session w) =
      (Inl (HTTPException 409 ''Bootstrap setup has already completed''), open_session w)"
    using assms by (simp add: bootstrap_setup_def)
  then show ?thesis by (simp add: run_request_state)
qed

lemma first_owner_success:
  assumes "create_first_owner rt cfg now salt raw (bst_organization_name p) (bst_owner_email p)
     (bst_owner_password p) (open_session w) = (Inr (usr, tok), s)"
  shows "setup_required (open_session w) \<and> validate_strong_password (bst_owner_password p) = Inr () \<and>
     live s = after_setup rt cfg now salt raw p w \<and> tok = raw \<and> usr_id usr = srv_next_id w + 1 \<and>
     usr_role usr = ''owner'' \<and> usr_organization_id usr = srv_next_id w"
  using assms
  by (auto simp: create_first_owner_def andThen_run insert_row_def db_flush_def issue_refresh_token_run
      lift_sum_def after_setup_def Let_def new_organization_def new_user_def
      split: if_splits sum.splits)

lemma setup_InrD:
  assumes "run_request (bootstrap_setup rt cfg now salt raw p) w = (Inr resp, w')"
  shows "setup_required (open_session w) \<and> validate_strong_password (bst_owner_password p) = Inr () \<and>
     srv_store w' = after_setup rt cfg now salt raw p w \<and> aup_refresh_token resp = raw \<and>
     usp_id (aup_user resp) = srv_next_id w + 1 \<and> usp_role (aup_user resp) = ''owner''"
proof -
  from assms obtain s where s: "bootstrap_setup rt cfg now salt raw p (open_session w) = (Inr resp, s)"
    and w': "w' = close_session s" by (rule run_requestE)
  from s have "andThen (value_error_as_400 (create_first_owner rt cfg now salt raw
      (bst_organization_name p) (bst_owner_email p) (bst_owner_password p)))
      (\<lambda>(usr, tok). andThen db_commit (\<lambda>_. auth_response rt cfg now usr tok)) (open_session w) = (Inr resp, s)"
    by (auto simp: bootstrap_setup_def split: if_splits)
  then obtain x t where x: "value_error_as_400 (create_first_owner rt cfg now salt raw (bst_organization_name p)
      (bst_owner_email p) (bst_owner_password p)) (open_session w) = (Inr x, t)"
    and rest0: "(case x of (usr, tok) \<Rightarrow> andThen db_commit (\<lambda>_. auth_response rt cfg now usr tok)) t = (Inr resp, s)"
    by (rule andThen_InrE)
  obtain usr tok where xp: "x = (usr, tok)" by (cases x)
  have owner: "create_first_owner rt cfg now salt raw (bst_organization_name p)
      (bst_owner_email p) (bst_owner_password p) (open_session w) = (Inr (usr, tok), t)"
    using value_error_InrD[OF x] xp by simp
  have rest: "andThen db_commit (\<lambda>_. auth_response rt cfg now usr tok) t = (Inr resp, s)"
    using rest0 xp by simp
  from rest have "durable s = live t \<and> aup_refresh_token resp = tok \<and> aup_user resp = user_response usr"
    by (auto simp: andThen_run db_commit_def auth_response_def split: if_splits option.splits)
  with first_owner_success[OF owner] w' show ?thesis by (simp add: user_response_def)
qed

text \<open>On a fresh installation every setup with a strong password succeeds.\<close>

lemma fresh_setup:
  assumes "validate_strong_password (bst_owner_password p) = Inr ()"
  shows "\<exists>resp. bootstrap_setup rt cfg now salt raw p (open_session \<lparr>srv_store = empty_store, srv_next_id = n\<rparr>) =
     (Inr resp, committed (after_setup rt cfg now salt raw p \<lparr>srv_store = empty_store, srv_next_id = n\<rparr>) (n + 3))"
  using assms
  by (simp add: bootstrap_setup_def create_first_owner_def andThen_run insert_row_def setup_required_flushed
      db_flush_def issue_refresh_token_run value_error_as_400_def unique_ok_def empty_store_def
      new_organization_def new_user_def new_refresh_token_def commit_open auth_response_def
      db_get_def db_scalar_def live_row_def after_setup_def Let_def)

text \<open>Setup is open exactly while no organization exists or no account is an active
  owner; while it is closed, a setup request answers 409 and changes nothing.\<close>

theorem setup_open_iff:
  "(setup_required (open_session w) \<longleftrightarrow>
      \<not> (organizations (srv_store w) \<noteq> [] \<and> has_active_owner (srv_store w))) \<and>
   (if setup_required (open_session w) then True
    else run_request (bootstrap_setup rt cfg now salt raw p) w =
      (Inl (HTTPException 409 ''Bootstrap setup has already completed''), w))"
  by (simp add: setup_required_flushed setup_refused)

text \<open>C19. A successful setup happened while setup was open, with a strong password, and
  commits exactly three rows: the organization with its slug, its active owner and the
  owner's refresh token. From then on every setup request answers 409 and changes nothing.\<close>

theorem setup_once:
  assumes "run_request (bootstrap_setup rt cfg now salt raw p) w = (Inr resp, w')"
  shows "setup_required (open_session w) \<and> validate_strong_password (bst_owner_password p) = Inr () \<and>
     srv_store w' = after_setup rt cfg now salt raw p w \<and>
     usp_id (aup_user resp) = srv_next_id w + 1 \<and> usp_role (aup_user resp) = ''owner'' \<and>
     run_request (bootstrap_setup rt cfg' now' salt' raw' p') w' =
       (Inl (HTTPException 409 ''Bootstrap setup has already completed''), w')"
proof -
  note facts = setup_InrD[OF assms]
  then have "\<not> setup_required (open_session w')"
    by (simp add: setup_required_flushed has_active_owner_def after_setup_def Let_def)
  with facts show ?thesis by (simp add: setup_refused)
qed

theorem setup_once_witness:
  "\<exists>w. run_request (bootstrap_setup sample_runtime default_settings 9 [] ''another-token''
       \<lparr>bst_organization_name = ''Initech'', bst_owner_name = ''Bill'', bst_owner_email = ''bill@initech.test'',
        bst_owner_password = ''Correct-Horse-9''\<rparr>) w =
     (Inl (HTTPException 409 ''Bootstrap setup has already completed''), w) \<and>
     map org_slug (organizations (srv_store w)) = [''acme-corp'']"
proof -
  let ?w = "\<lparr>srv_store = empty_store, srv_next_id = 1\<rparr>"
  let ?p = "\<lparr>bst_organization_name = ''Acme  Corp!'', bst_owner_name = ''Ann'',
              bst_owner_email = ''ann@acme.test'', bst_owner_password = ''Correct-Horse-1''\<rparr>"
  let ?st = "after_setup sample_runtime default_settings 5 [1] ''first-token'' ?p ?w"
  have slug: "slugify ''Acme  Corp!'' = ''acme-corp''"
    by (simp add: slugify_def strip_by_def is_alnum_def char_eval)
  have strong: "validate_strong_password ''Correct-Horse-1'' = Inr ()"
    by (simp add: validate_strong_password_def char_class_defs)
  have "\<exists>resp. bootstrap_setup sample_runtime default_settings 5 [1] ''first-token'' ?p (open_session ?w) =
      (Inr resp, committed ?st 4)"
    using fresh_setup[where p = ?p and n = 1] strong by simp
  then obtain resp where "run_request (bootstrap_setup sample_runtime default_settings 5 [1] ''first-token'' ?p) ?w =
      (Inr resp, close_session (committed ?st 4))" using run_request_eq by blast
  from setup_once[OF this] show ?thesis
    by (intro exI[of _ "close_session (committed ?st 4)"])
      (simp add: after_setup_def Let_def empty_store_def slug)
qed

text \<open>The slug of any organization name is well-formed (lower-case letters and digits in
  parts joined by single hyphens, never empty) and is its own slug.\<close>

theorem slugify_wellformed: "slug_ok (slugify v) \<and> slugify (slugify v) = slugify v"
  by (simp add: slugify_slug_ok slugify_id)

end
