(* ===== verification/Lifecycle.thy ===== *)
theory Lifecycle
  imports Main
begin

text \<open>
  The interface of a status column: a step relation between statuses in which every step
  climbs a rank and terminal statuses have no step. Its clients need to know that a
  status never comes back once left, and that a terminal one is final. The job, delivery
  and alert statuses are its interpretations.
\<close>

locale lifecycle =
  fixes step :: "'a \<Rightarrow> 'a \<Rightarrow> bool" and rank :: "'a \<Rightarrow> nat" and terminal :: "'a \<Rightarrow> bool"
  assumes step_rank: "step s t \<Longrightarrow> rank s < rank t"
    and terminal_stuck: "terminal s \<Longrightarrow> \<not> step s t"
begin

lemma steps_rank: "step\<^sup>*\<^sup>* s t \<Longrightarrow> rank s \<le> rank t"
  by (induction rule: rtranclp_induct) (auto dest: step_rank)

lemma steps_same_rank:
  assumes "step\<^sup>*\<^sup>* s t" and "rank s = rank t"
  shows "s = t"
  using assms(1)
proof (cases rule: converse_rtranclpE)
  case base
  then show ?thesis .
next
  case (step u)
  with assms(2) show ?thesis using step_rank[OF step(1)] steps_rank[OF step(2)] by linarith
qed

lemma no_return: "step\<^sup>*\<^sup>* s t \<Longrightarrow> step\<^sup>*\<^sup>* t s \<Longrightarrow> s = t"
  by (intro steps_same_rank antisym steps_rank)

text \<open>A chain of steps is no longer than the rank it climbs.\<close>

lemma chain_bounded: "(step ^^ n) s t \<Longrightarrow> rank s + n \<le> rank t"
proof (induction n arbitrary: t)
  case 0
  then show ?case by simp
next
  case (Suc n)
  then obtain u where "(step ^^ n) s u" and "step u t" by auto
  then show ?case using Suc.IH[of u] step_rank[of u t] by fastforce
qed

lemma terminal_final:
  assumes "terminal s" and "step\<^sup>*\<^sup>* s t"
  shows "t = s"
  using assms(2)
proof (cases rule: converse_rtranclpE)
  case base
  then show ?thesis by simp
next
  case (step u)
  with terminal_stuck[OF assms(1)] show ?thesis by blast
qed

lemma source_not_terminal: "step\<^sup>*\<^sup>* s t \<Longrightarrow> \<not> terminal t \<Longrightarrow> \<not> terminal s"
  using terminal_final by blast

end

end
