(* ===== verification/Tracking.thy ===== *)
theory Tracking
  imports Tables Lifecycle
begin

text \<open>
  What may become of the rows of a table whose status column has a lifecycle, over any
  number of requests: no row disappears, its fixed columns stay, its status moves along the
  steps only and a row with a terminal status is never written again. The locale
  \<open>tracked_table\<close> joins the interfaces of a table and of a lifecycle and proves once how
  each primitive of the session preserves this; agent jobs and alerts are its
  interpretations.
\<close>

definition row_progress ::
  "('s \<Rightarrow> 's \<Rightarrow> bool) \<Rightarrow> ('s \<Rightarrow> bool) \<Rightarrow> ('r \<Rightarrow> 's) \<Rightarrow> ('r \<Rightarrow> 'r \<Rightarrow> bool) \<Rightarrow> 'r \<Rightarrow> 'r \<Rightarrow> bool" where
  "row_progress step terminal status same r0 r \<longleftrightarrow>
     same r0 r \<and> step\<^sup>*\<^sup>* (status r0) (status r) \<and> (terminal (status r0) \<longrightarrow> r = r0)"

text \<open>\<open>r\<close> is acceptable now, given that the rows were those of \<open>st0\<close> at the start.\<close>

definition reached ::
  "(store \<Rightarrow> 'r list) \<Rightarrow> ('r \<Rightarrow> uuid) \<Rightarrow> ('r \<Rightarrow> 'r \<Rightarrow> bool) \<Rightarrow> ('r \<Rightarrow> bool) \<Rightarrow> store \<Rightarrow> 'r \<Rightarrow> bool" where
  "reached t k P ok st0 r \<longleftrightarrow> ok r \<and> list_all (\<lambda>r0. k r = k r0 \<longrightarrow> P r0 r) (t st0)"

definition all_reached ::
  "(store \<Rightarrow> 'r list) \<Rightarrow> ('r \<Rightarrow> uuid) \<Rightarrow> ('r \<Rightarrow> 'r \<Rightarrow> bool) \<Rightarrow> ('r \<Rightarrow> bool) \<Rightarrow> store \<Rightarrow> store \<Rightarrow> bool" where
  "all_reached t k P ok st0 st \<longleftrightarrow>
     list_all (reached t k P ok st0) (t st) \<and> k ` set (t st0) \<subseteq> k ` set (t st)"

definition tracking ::
  "(store \<Rightarrow> 'r list) \<Rightarrow> ('r \<Rightarrow> uuid) \<Rightarrow> ('r \<Rightarrow> 'r \<Rightarrow> bool) \<Rightarrow> ('r \<Rightarrow> bool) \<Rightarrow> store \<Rightarrow> uuid \<Rightarrow>
   session \<Rightarrow> bool" where
  "tracking t k P ok st0 n s \<longleftrightarrow> everywhere (all_reached t k P ok st0) s \<and> n \<le> next_id s"

lemma tracking_flush_commit [keeps_intro]:
  "keeps (tracking t k P ok st0 n) db_flush" "keeps (tracking t k P ok st0 n) db_commit"
  by (auto simp: keeps_def tracking_def everywhere_def db_flush_def db_commit_def)

text \<open>Writes to any other table do not matter.\<close>

lemma tracking_other:
  assumes "\<And>f st. t (u f st) = t st"
  shows "keeps (tracking t k P ok st0 n) (insert_row u mk)"
    and "keeps (tracking t k P ok st0 n) (put_row u kk r)"
    and "keeps (tracking t k P ok st0 n) (delete_rows tt u kk D)"
  using assms
  by (auto simp: keeps_def tracking_def everywhere_def insert_row_def put_row_def delete_rows_def
      all_reached_def Let_def)

lemma tracking_close:
  "tracking t k P ok st0 n s \<Longrightarrow>
     all_reached t k P ok st0 (srv_store (close_session s)) \<and> n \<le> srv_next_id (close_session s)"
  by (simp add: tracking_def everywhere_def)

lemma tracking_reopen:
  "all_reached t k P ok st0 (srv_store w) \<Longrightarrow> n \<le> srv_next_id w \<Longrightarrow>
     tracking t k P ok st0 n (open_session w)"
  by (simp add: tracking_def everywhere_def)

text \<open>Over a history of requests.\<close>

lemma tracking_requests:
  assumes h: "\<And>e. keeps (tracking t k P ok st0 n) (h e)"
    and "all_reached t k P ok st0 (srv_store w)" and "n \<le> srv_next_id w"
  shows "all_reached t k P ok st0 (srv_store (fold (\<lambda>e w. snd (run_request (h e) w)) history w))"
  using assms(2,3)
proof (induction history arbitrary: w)
  case Nil
  then show ?case by simp
next
  case (Cons e history)
  let ?w = "snd (run_request (h e) w)"
  have "tracking t k P ok st0 n (snd (h e (open_session w)))"
    by (rule keepsD[OF h tracking_reopen[OF Cons.prems]])
  from tracking_close[OF this] have "all_reached t k P ok st0 (srv_store ?w)" "n \<le> srv_next_id ?w"
    by (auto simp: run_request_def split: prod.splits)
  from Cons.IH[OF this] show ?case by simp
qed

subsection \<open>The interface of a table with a lifecycle\<close>

locale tracked_table = tenant_table t u k org + lifecycle step rank terminal
  for t :: "store \<Rightarrow> 'r list" and u and k :: "'r \<Rightarrow> uuid" and org :: "'r \<Rightarrow> uuid"
    and step :: "'s \<Rightarrow> 's \<Rightarrow> bool" and rank :: "'s \<Rightarrow> nat" and terminal :: "'s \<Rightarrow> bool" +
  fixes status :: "'r \<Rightarrow> 's" and same :: "'r \<Rightarrow> 'r \<Rightarrow> bool" and okst :: "'s \<Rightarrow> bool"
  assumes same_refl: "same r r"
    and same_trans: "same r r' \<Longrightarrow> same r' r'' \<Longrightarrow> same r r''"
    and same_key: "same r r' \<Longrightarrow> k r' = k r"
    and step_ok: "step a b \<Longrightarrow> okst b"
begin

lemma reached_self:
  assumes "wf_server w" and "r \<in> set (t (srv_store w))" and "okst (status r)"
  shows "reached t k (row_progress step terminal status same) (\<lambda>r. okst (status r)) (srv_store w) r"
proof -
  have "r = r0" if "r0 \<in> set (t (srv_store w))" "k r = k r0" for r0
    using open_distinct[OF assms(1)] assms(2) that by (auto simp: distinct_map dest: inj_onD)
  with assms(3) show ?thesis
    by (auto simp: reached_def row_progress_def list_all_iff intro: same_refl)
qed

lemma tracking_start:
  assumes "wf_server w" and "list_all (\<lambda>r. okst (status r)) (t (srv_store w))"
  shows "all_reached t k (row_progress step terminal status same) (\<lambda>r. okst (status r)) (srv_store w) (srv_store w)"
  using assms reached_self[OF assms(1)] by (auto simp: all_reached_def list_all_iff)

lemma keys_below: "wf_server w \<Longrightarrow> list_all (\<lambda>r. k r < srv_next_id w) (t (srv_store w))"
  using ids_read[of "srv_next_id w" "srv_store w"] by (simp add: wf_server_def keys_ok_def)

lemma tracking_rows:
  "tracking t k P ok st0 n s \<Longrightarrow> r \<in> set (t (live s)) \<union> set (t (flushed s)) \<Longrightarrow> reached t k P ok st0 r"
  by (auto simp: tracking_def everywhere_def all_reached_def list_all_iff)

text \<open>A new row has a key no earlier row had; a write to a row has to be progress.\<close>

lemma tracking_insert:
  assumes "\<And>i. k (mk i) = i" and "\<And>i. ok (mk i)" and "list_all (\<lambda>r. k r < n) (t st0)"
  shows "keeps (tracking t k P ok st0 n) (insert_row u mk)"
proof (rule keepsI)
  fix s assume s: "tracking t k P ok st0 n s"
  then have "reached t k P ok st0 (mk (next_id s))"
    using assms by (auto simp: reached_def list_all_iff tracking_def)
  with s show "tracking t k P ok st0 n (snd (insert_row u mk s))"
    by (auto simp: tracking_def everywhere_def insert_row_def all_reached_def read_write)
qed

lemma tracking_put:
  assumes "reached t k P ok st0 r"
  shows "keeps (tracking t k P ok st0 n) (put_row u k r)"
proof (rule keepsI)
  fix s assume s: "tracking t k P ok st0 n s"
  let ?put = "map (\<lambda>x. if k x = k r then r else x)"
  have "map k (?put rs) = map k rs" for rs by (induction rs) auto
  then have "set (map k (?put (t (live s)))) = set (map k (t (live s)))" by (rule arg_cong)
  then have ids: "k ` set (?put (t (live s))) = k ` set (t (live s))" by (simp only: set_map)
  have "list_all (reached t k P ok st0) (t (live s))"
    using s by (simp add: tracking_def everywhere_def all_reached_def)
  then have all: "list_all (reached t k P ok st0) (?put (t (live s)))"
    using assms by (auto simp: list_all_iff)
  have "all_reached t k P ok st0 (u ?put (live s))"
    using s ids all by (simp add: tracking_def everywhere_def all_reached_def read_write del: set_map)
  with s show "tracking t k P ok st0 n (snd (put_row u k r s))"
    by (simp add: tracking_def everywhere_def put_row_def)
qed

text \<open>
  A write is progress when it continues from a status the row is known to have reached:
  that of the row itself, or that of the flushed row \<open>f\<close> the query selected.
\<close>

lemma step_reached:
  assumes r: "reached t k (row_progress step terminal status same) (\<lambda>r. okst (status r)) st0 r"
    and "same r r'"
    and f: "reached t k (row_progress step terminal status same) (\<lambda>r. okst (status r)) st0 f"
    and "k f = k r"
    and move: "step (status f) (status r') \<or> status r' = status r \<and> \<not> terminal (status f)"
  shows "reached t k (row_progress step terminal status same) (\<lambda>r. okst (status r)) st0 r'"
proof -
  have key: "k r' = k r" using assms(2) by (rule same_key)
  have "row_progress step terminal status same r0 r'" if r0: "r0 \<in> set (t st0)" "k r = k r0" for r0
  proof -
    have pr: "row_progress step terminal status same r0 r" and pf: "row_progress step terminal status same r0 f"
      using r f r0 assms(4) by (auto simp: reached_def list_all_iff)
    have "step\<^sup>*\<^sup>* (status r0) (status r')"
      using move pr pf by (auto simp: row_progress_def)
    moreover have "\<not> terminal (status r0)"
      using move pf terminal_stuck source_not_terminal by (auto simp: row_progress_def)
    ultimately show ?thesis using pr assms(2) same_trans by (auto simp: row_progress_def)
  qed
  moreover have "okst (status r')" using move step_ok r by (auto simp: reached_def)
  ultimately show ?thesis using key by (auto simp: reached_def list_all_iff)
qed

lemma own_step:
  assumes "reached t k (row_progress step terminal status same) (\<lambda>r. okst (status r)) st0 r"
    and "same r r'" and "step (status r) (status r')"
  shows "keeps (tracking t k (row_progress step terminal status same) (\<lambda>r. okst (status r)) st0 n) (put_row u k r')"
proof -
  from step_reached[OF assms(1,2) assms(1) refl] assms(3) show ?thesis by (intro tracking_put) simp
qed

text \<open>A queried row has been reached, and so has the flushed row the query selected.\<close>

lemma tracking_scalar:
  assumes none: "keeps (tracking t k P ok st0 n) (f None)"
    and some: "\<And>r r0. D r0 \<Longrightarrow> reached t k P ok st0 r \<Longrightarrow> reached t k P ok st0 r0 \<Longrightarrow> k r0 = k r \<Longrightarrow>
                 keeps (tracking t k P ok st0 n) (f (Some r))"
  shows "keeps (tracking t k P ok st0 n) (andThen (gets (db_scalar t k D)) f)"
proof (rule keeps_gets_andThen)
  fix s assume s: "tracking t k P ok st0 n s"
  show "tracking t k P ok st0 n (snd (f (db_scalar t k D s) s))"
  proof (cases "db_scalar t k D s")
    case None
    with keepsD[OF none s] show ?thesis by simp
  next
    case (Some r)
    then obtain r0 where r0: "r0 \<in> set (t (flushed s))" "D r0" "r = live_row t k s r0"
      by (auto simp: db_scalar_def dest: find_SomeD)
    then have "reached t k P ok st0 r" "reached t k P ok st0 r0" "k r0 = k r"
      using tracking_rows[OF s] live_row_in[OF r0(1)] by auto
    from keepsD[OF some[OF r0(2) this] s] Some show ?thesis by simp
  qed
qed

lemma tracking_get:
  assumes "keeps (tracking t k P ok st0 n) (f None)"
    and "\<And>r. reached t k P ok st0 r \<Longrightarrow> keeps (tracking t k P ok st0 n) (f (Some r))"
  shows "keeps (tracking t k P ok st0 n) (andThen (gets (db_get t k i)) f)"
  unfolding db_get_def by (rule tracking_scalar) (rule assms, assumption?)+

text \<open>What a history leaves of a row.\<close>

lemma tracked_row:
  assumes "all_reached t k P ok st0 st" and "r0 \<in> set (t st0)"
  obtains r where "r \<in> set (t st)" and "k r = k r0" and "P r0 r"
  using assms by (force simp: all_reached_def reached_def list_all_iff image_subset_iff)

end

end
