(* ===== verification/Jobs.thy ===== *)
theory Jobs
  imports Bootstrap Tracking
begin

text \<open>
  Remote jobs: \<^verbatim>\<open>backend/app/core/jobs.py\<close>. A job is a row whose status moves through
  \<open>job_step\<close>; every change adds an event and an audit entry. The functions work on the
  session they are given and leave the commit to the handlers. The property kept through
  all of them is \<open>jobs_progress\<close>: no job disappears, changes what it is for, moves against
  the steps, or is touched again once its status is terminal.
\<close>

definition ALLOWED_JOB_TYPES :: "string list" where
  "ALLOWED_JOB_TYPES =
     [''ping'', ''refresh_inventory'', ''collect_agent_logs'', ''get_service_status'',
      ''network_discovery'', ''arp_scan'', ''dns_discovery'', ''snmp_discovery'']"

definition TERMINAL_JOB_STATUSES :: "string list" where
  "TERMINAL_JOB_STATUSES = [''succeeded'', ''failed'', ''canceled'', ''expired'']"

text \<open>The character classes \<open>[A-Za-z0-9_./:-]\<close> and \<open>[A-Za-z0-9_. -]\<close>.\<close>

definition subnet_char :: "char \<Rightarrow> bool" where
  "subnet_char c \<longleftrightarrow> is_alnum c \<or>
     c \<in> {CHR ''_'', CHR ''.'', CHR ''/'', CHR '':'', CHR ''-''}"

definition service_char :: "char \<Rightarrow> bool" where
  "service_char c \<longleftrightarrow> is_alnum c \<or> c \<in> {CHR ''_'', CHR ''.'', CHR '' '', CHR ''-''}"

definition validate_job_payload ::
  "(real \<Rightarrow> string) \<Rightarrow> string \<Rightarrow> json_dict option \<Rightarrow> error + json_dict" where
  "validate_job_payload frepr jtype payload0 =
     (let payload = (case payload0 of None \<Rightarrow> [] | Some d \<Rightarrow> d) in
      if jtype \<notin> set ALLOWED_JOB_TYPES then Inl (HTTPException 400 ''Unsupported job type'')
      else if jtype \<in> {''ping'', ''refresh_inventory''} then
        (if payload \<noteq> [] then Inl (HTTPException 400 ''Payload not allowed'') else Inr [])
      else if jtype \<in> {''network_discovery'', ''arp_scan'', ''dns_discovery'', ''snmp_discovery''} then
        (let subnet = py_str frepr (dict_get payload ''subnet'' (JStr ''local''))
         in if \<not> fullmatch_class subnet_char 1 128 subnet
            then Inl (HTTPException 400 ''Invalid subnet'')
            else Inr [(''subnet'', JStr subnet)])
      else if jtype = ''collect_agent_logs'' then
        (case py_int (dict_get payload ''line_count'' (JInt 100)) of
           None \<Rightarrow> Inl (HTTPException 400 ''Invalid line_count'')
         | Some line_count \<Rightarrow>
             if line_count < 1 \<or> line_count > 200
             then Inl (HTTPException 400 ''Invalid line_count'')
             else Inr [(''line_count'', JInt line_count)])
      else
        (let service_name = py_str frepr (dict_get payload ''service_name'' (JStr ''''))
         in if \<not> fullmatch_class service_char 1 128 service_name
            then Inl (HTTPException 400 ''Invalid service_name'')
            else Inr [(''service_name'', JStr service_name)]))"

definition add_job_event :: "datetime \<Rightarrow> agent_job \<Rightarrow> string \<Rightarrow> string \<Rightarrow> json_dict \<Rightarrow> unit db_op" where
  "add_job_event now job event_type message metadata =
     andThen (insert_row agent_job_events_update (\<lambda>i.
       \<lparr>jev_id = i, jev_organization_id = job_organization_id job, jev_job_id = job_id job,
        jev_event_type = event_type, jev_message = message, jev_metadata_json = metadata,
        jev_created_at = now\<rparr>)) (\<lambda>_. ret ())"

definition audit ::
  "datetime \<Rightarrow> uuid \<Rightarrow> string \<Rightarrow> string \<Rightarrow> string \<Rightarrow> json_dict \<Rightarrow> unit db_op" where
  "audit now organization_id action target_type target_id metadata =
     andThen (insert_row audit_logs_update (\<lambda>i.
       \<lparr>aud_id = i, aud_organization_id = organization_id, aud_actor_user_id = None,
        aud_action = action, aud_target_type = target_type, aud_target_id = Some target_id,
        aud_metadata_json = metadata, aud_created_at = now\<rparr>)) (\<lambda>_. ret ())"

definition new_job ::
  "settings \<Rightarrow> datetime \<Rightarrow> device \<Rightarrow> string \<Rightarrow> json_dict \<Rightarrow> uuid \<Rightarrow> agent_job" where
  "new_job cfg now device jtype payload i =
     \<lparr>job_id = i, job_organization_id = dev_organization_id device, job_device_id = dev_id device,
      job_assigned_agent_id = None, job_type = jtype, job_status = ''queued'',
      job_payload = payload,
      job_expires_at = now + timedelta_minutes (agent_job_timeout_minutes cfg),
      job_started_at = None, job_completed_at = None, job_result_summary = None,
      job_created_at = now\<rparr>"

definition create_job ::
  "runtime \<Rightarrow> settings \<Rightarrow> datetime \<Rightarrow> device \<Rightarrow> string \<Rightarrow> json_dict option \<Rightarrow> agent_job db_op" where
  "create_job rt cfg now device jtype payload =
     andThen (lift_sum (validate_job_payload (float_repr rt) jtype payload)) (\<lambda>safe_payload.
     andThen (insert_row agent_jobs_update (new_job cfg now device jtype safe_payload)) (\<lambda>job.
     andThen db_flush (\<lambda>_.
     andThen (add_job_event now job ''created'' (''Queued safe job '' @ jtype @ ''.'') []) (\<lambda>_.
     andThen (audit now (dev_organization_id device) ''job.created'' ''agent_job''
                (uuid_str (job_id job)) [(''job_type'', JStr jtype)]) (\<lambda>_.
     ret job)))))"

definition expire_job :: "datetime \<Rightarrow> agent_job \<Rightarrow> unit db_op" where
  "expire_job now job0 =
     (let job = job0\<lparr>job_status := ''expired'', job_completed_at := Some now\<rparr> in
      andThen (put_row agent_jobs_update job_id job) (\<lambda>_.
      andThen (add_job_event now job ''expired'' ''Job expired before completion.'' []) (\<lambda>_.
      audit now (job_organization_id job) ''job.expired'' ''agent_job'' (uuid_str (job_id job)) [])))"

definition job_overdue :: "datetime \<Rightarrow> uuid option \<Rightarrow> agent_job \<Rightarrow> bool" where
  "job_overdue now device_id job \<longleftrightarrow>
     job_status job \<in> {''queued'', ''assigned'', ''running''} \<and> job_expires_at job \<le> now \<and>
     (case device_id of None \<Rightarrow> True | Some d \<Rightarrow> job_device_id job = d)"

definition expire_jobs :: "datetime \<Rightarrow> uuid option \<Rightarrow> unit db_op" where
  "expire_jobs now device_id =
     andThen (gets (db_select agent_jobs job_id (job_overdue now device_id))) (\<lambda>jobs.
     for_each jobs (expire_job now))"

text \<open>
  For an agent without a device, \<open>AgentJob.device_id == None\<close> is \<open>IS NULL\<close>, which the
  non-null column never is, so it receives no jobs, while \<open>expire_jobs(device_id=None)\<close>
  expires the jobs of every device.
\<close>

definition assign_job :: "datetime \<Rightarrow> agent \<Rightarrow> agent_job \<Rightarrow> agent_job db_op" where
  "assign_job now agent job0 =
     (let job = job0\<lparr>job_status := ''assigned'', job_assigned_agent_id := Some (agt_id agent)\<rparr> in
      andThen (put_row agent_jobs_update job_id job) (\<lambda>_.
      andThen (add_job_event now job ''assigned'' ''Job assigned to polling agent.'' []) (\<lambda>_.
      andThen (audit now (job_organization_id job) ''job.assigned'' ''agent_job''
                 (uuid_str (job_id job)) []) (\<lambda>_. ret job))))"

definition assign_jobs_for_agent :: "datetime \<Rightarrow> agent \<Rightarrow> agent_job list db_op" where
  "assign_jobs_for_agent now agent =
     andThen (expire_jobs now (agt_device_id agent)) (\<lambda>_.
     andThen (gets (db_select_by agent_jobs job_id job_created_at
        (\<lambda>j. Some (job_device_id j) = agt_device_id agent \<and> job_status j = ''queued''))) (\<lambda>queued.
     andThen (map_each (take 5 queued) (assign_job now agent)) (\<lambda>jobs.
     andThen db_flush (\<lambda>_. ret jobs))))"

definition require_agent_job :: "agent_job \<Rightarrow> agent \<Rightarrow> unit db_op" where
  "require_agent_job job agent =
     (if Some (job_device_id job) \<noteq> agt_device_id agent \<or>
         (job_assigned_agent_id job \<noteq> None \<and> job_assigned_agent_id job \<noteq> Some (agt_id agent))
      then raise (HTTPException 403 ''Job not assigned to agent'') else ret ())"

definition start_job :: "datetime \<Rightarrow> agent_job \<Rightarrow> agent \<Rightarrow> agent_job db_op" where
  "start_job now job0 agent =
     andThen (require_agent_job job0 agent) (\<lambda>_.
     if job_status job0 \<notin> {''assigned'', ''queued''}
     then raise (HTTPException 409 ''Job cannot be started'')
     else let job = job0\<lparr>job_status := ''running'', job_assigned_agent_id := Some (agt_id agent),
                         job_started_at := Some now\<rparr> in
          andThen (put_row agent_jobs_update job_id job) (\<lambda>_.
          andThen (add_job_event now job ''started'' ''Agent started job.'' []) (\<lambda>_.
          andThen (audit now (job_organization_id job) ''job.started'' ''agent_job''
                     (uuid_str (job_id job)) []) (\<lambda>_. ret job))))"

text \<open>\<open>(output or error or job.status)[:512]\<close>\<close>

definition result_summary :: "string \<Rightarrow> string option \<Rightarrow> string \<Rightarrow> string" where
  "result_summary output err status =
     take 512 (if output \<noteq> [] then output
               else (case err of None \<Rightarrow> status | Some e \<Rightarrow> if e \<noteq> [] then e else status))"

definition new_job_result ::
  "datetime \<Rightarrow> agent_job \<Rightarrow> string \<Rightarrow> string option \<Rightarrow> int option \<Rightarrow> json_dict \<Rightarrow> uuid \<Rightarrow>
   agent_job_result" where
  "new_job_result now job output err exit_code metadata i =
     \<lparr>jrs_id = i, jrs_organization_id = job_organization_id job, jrs_job_id = job_id job,
      jrs_status = job_status job, jrs_output = take 20000 output,
      jrs_error = (case err of None \<Rightarrow> None
                   | Some e \<Rightarrow> if e \<noteq> [] then Some (take 20000 e) else None),
      jrs_exit_code = exit_code, jrs_metadata_json = metadata, jrs_created_at = now\<rparr>"

definition complete_job ::
  "datetime \<Rightarrow> agent_job \<Rightarrow> agent \<Rightarrow> bool \<Rightarrow> string \<Rightarrow> string option \<Rightarrow> int option \<Rightarrow> json_dict \<Rightarrow>
   agent_job db_op" where
  "complete_job now job0 agent succeeded output err exit_code metadata =
     andThen (require_agent_job job0 agent) (\<lambda>_.
     if job_status job0 \<noteq> ''running'' then raise (HTTPException 409 ''Job is not running'')
     else let status = (if succeeded then ''succeeded'' else ''failed'');
              job = job0\<lparr>job_status := status, job_completed_at := Some now,
                         job_result_summary := Some (result_summary output err status)\<rparr>;
              event_type = (if succeeded then ''completed'' else ''failed'') in
          andThen (put_row agent_jobs_update job_id job) (\<lambda>_.
          andThen (insert_row agent_job_results_update
                     (new_job_result now job output err exit_code metadata)) (\<lambda>_.
          andThen (add_job_event now job event_type (''Job '' @ status @ ''.'')
                     [(''exit_code'', case exit_code of None \<Rightarrow> JNull | Some c \<Rightarrow> JInt c)]) (\<lambda>_.
          andThen (audit now (job_organization_id job) (''job.'' @ event_type) ''agent_job''
                     (uuid_str (job_id job)) []) (\<lambda>_. ret job)))))"

definition cancel_job :: "datetime \<Rightarrow> agent_job \<Rightarrow> agent_job db_op" where
  "cancel_job now job0 =
     (if job_status job0 \<in> set TERMINAL_JOB_STATUSES then ret job0
      else let job = job0\<lparr>job_status := ''canceled'', job_completed_at := Some now\<rparr> in
           andThen (put_row agent_jobs_update job_id job) (\<lambda>_.
           andThen (add_job_event now job ''canceled'' ''Job canceled by operator.'' []) (\<lambda>_.
           andThen (audit now (job_organization_id job) ''job.canceled'' ''agent_job''
                      (uuid_str (job_id job)) []) (\<lambda>_. ret job))))"

subsection \<open>The status machine of a job\<close>

inductive job_step :: "string \<Rightarrow> string \<Rightarrow> bool" where
  assign: "job_step ''queued'' ''assigned''"
| start: "status \<in> {''queued'', ''assigned''} \<Longrightarrow> job_step status ''running''"
| finish: "result \<in> {''succeeded'', ''failed''} \<Longrightarrow> job_step ''running'' result"
| expire: "status \<in> {''queued'', ''assigned'', ''running''} \<Longrightarrow> job_step status ''expired''"
| cancel: "status \<in> {''queued'', ''assigned'', ''running''} \<Longrightarrow> job_step status ''canceled''"

inductive_cases job_stepE: "job_step s t"

definition job_rank :: "string \<Rightarrow> nat" where
  "job_rank s = (if s = ''queued'' then 0 else if s = ''assigned'' then 1
                 else if s = ''running'' then 2 else 3)"

definition job_terminal :: "string \<Rightarrow> bool" where
  "job_terminal s \<longleftrightarrow> s \<in> set TERMINAL_JOB_STATUSES"

lemma job_ranks [simp]:
  "job_rank ''queued'' = 0" "job_rank ''assigned'' = 1" "job_rank ''running'' = 2"
  "job_rank ''succeeded'' = 3" "job_rank ''failed'' = 3" "job_rank ''canceled'' = 3"
  "job_rank ''expired'' = 3"
  by (simp_all add: job_rank_def)

lemma job_step_rank: "job_step s t \<Longrightarrow> job_rank s < job_rank t \<and> job_rank s < 3"
  by (induction rule: job_step.induct) auto

lemma job_terminal_rank: "job_terminal s \<Longrightarrow> job_rank s = 3"
  unfolding job_terminal_def TERMINAL_JOB_STATUSES_def by (simp, elim disjE; simp)

interpretation job_lifecycle: lifecycle job_step job_rank job_terminal
  by unfold_locales (use job_step_rank job_terminal_rank in fastforce)+

definition job_status_ok :: "string \<Rightarrow> bool" where
  "job_status_ok s \<longleftrightarrow> s \<in> {''queued'', ''assigned'', ''running''} \<or> job_terminal s"

lemma job_step_ok: "job_step s t \<Longrightarrow> job_status_ok t"
  by (induction rule: job_step.induct)
    (auto simp: job_status_ok_def job_terminal_def TERMINAL_JOB_STATUSES_def)

text \<open>Only a queued job can have reached \<open>queued\<close>.\<close>

lemma reached_queued: "job_step\<^sup>*\<^sup>* s ''queued'' \<Longrightarrow> s = ''queued''"
  using job_lifecycle.steps_rank[of s "''queued''"] job_lifecycle.steps_same_rank[of s "''queued''"]
  by simp

subsection \<open>Progress of all jobs\<close>

text \<open>
  What may have become of a job: the same order for the same device of the same
  organization, its status further along the steps, nothing at all once it was terminal.
\<close>

definition same_order :: "agent_job \<Rightarrow> agent_job \<Rightarrow> bool" where
  "same_order j j' \<longleftrightarrow> job_id j' = job_id j \<and> job_organization_id j' = job_organization_id j \<and>
     job_device_id j' = job_device_id j \<and> job_type j' = job_type j \<and>
     job_payload j' = job_payload j \<and> job_expires_at j' = job_expires_at j \<and>
     job_created_at j' = job_created_at j"

interpretation job_tracking: tracked_table agent_jobs agent_jobs_update job_id job_organization_id
  job_step job_rank job_terminal job_status same_order job_status_ok
  by unfold_locales (auto simp: same_order_def dest: job_step_ok)

abbreviation job_progress :: "agent_job \<Rightarrow> agent_job \<Rightarrow> bool" where
  "job_progress \<equiv> row_progress job_step job_terminal job_status same_order"

abbreviation progress_of :: "store \<Rightarrow> agent_job \<Rightarrow> bool" where
  "progress_of \<equiv> reached agent_jobs job_id job_progress (\<lambda>j. job_status_ok (job_status j))"

abbreviation progressing :: "store \<Rightarrow> uuid \<Rightarrow> session \<Rightarrow> bool" where
  "progressing \<equiv> tracking agent_jobs job_id job_progress (\<lambda>j. job_status_ok (job_status j))"

definition jobs_ok :: "store \<Rightarrow> bool" where
  "jobs_ok st \<longleftrightarrow> list_all (\<lambda>j. job_status_ok (job_status j)) (agent_jobs st)"

subsection \<open>The operations make progress\<close>

lemma progressing_event [keeps_intro]: "keeps (progressing st0 n) (add_job_event now job e m d)"
  unfolding add_job_event_def by (intro keeps_intro tracking_other(1)) simp

lemma progressing_audit [keeps_intro]: "keeps (progressing st0 n) (audit now o' a ty i d)"
  unfolding audit_def by (intro keeps_intro tracking_other(1)) simp

lemma progressing_create:
  assumes "list_all (\<lambda>j. job_id j < n) (agent_jobs st0)"
  shows "keeps (progressing st0 n) (create_job rt cfg now device jtype payload)"
  unfolding create_job_def
  by (intro keeps_intro job_tracking.tracking_insert assms) (simp_all add: new_job_def job_status_ok_def)

lemma progressing_expire_jobs [keeps_intro]: "keeps (progressing st0 n) (expire_jobs now d)"
  unfolding expire_jobs_def
proof (rule agent_jobs_tbl.select_rows(1)[where Q = "progress_of st0"])
  fix s j assume "progressing st0 n s" "j \<in> set (agent_jobs (live s)) \<union> set (agent_jobs (flushed s))"
  then show "progress_of st0 j" by (rule job_tracking.tracking_rows)
next
  fix js assume js: "\<And>j. j \<in> set js \<Longrightarrow> progress_of st0 j \<and>
      (\<exists>f. job_overdue now d f \<and> progress_of st0 f \<and> job_id f = job_id j)"
  have "keeps (progressing st0 n) (expire_job now j)" if "j \<in> set js" for j
  proof -
    from js[OF that] obtain f where f: "progress_of st0 f" "job_id f = job_id j" "progress_of st0 j"
      and "job_step (job_status f) ''expired''"
      by (auto simp: job_overdue_def intro: job_step.expire)
    then have "progress_of st0 (j\<lparr>job_status := ''expired'', job_completed_at := Some now\<rparr>)"
      by (intro job_tracking.step_reached[OF f(3) _ f(1,2)]) (simp_all add: same_order_def)
    then show ?thesis
      unfolding expire_job_def Let_def by (intro keeps_intro job_tracking.tracking_put)
  qed
  then show "keeps (progressing st0 n) (for_each js (expire_job now))" by (rule keeps_for_each)
qed

lemma progressing_assign [keeps_intro]: "keeps (progressing st0 n) (assign_jobs_for_agent now agent)"
  unfolding assign_jobs_for_agent_def
proof (rule keeps_andThen, rule progressing_expire_jobs,
    rule agent_jobs_tbl.select_rows(2)[where Q = "progress_of st0"])
  fix s j assume "progressing st0 n s" "j \<in> set (agent_jobs (live s)) \<union> set (agent_jobs (flushed s))"
  then show "progress_of st0 j" by (rule job_tracking.tracking_rows)
next
  fix js assume js: "\<And>j. j \<in> set js \<Longrightarrow> progress_of st0 j \<and>
      (\<exists>f. (Some (job_device_id f) = agt_device_id agent \<and> job_status f = ''queued'') \<and>
         progress_of st0 f \<and> job_id f = job_id j)"
  have "keeps (progressing st0 n) (assign_job now agent j)" if "j \<in> set js" for j
  proof -
    from js[OF that] obtain f where f: "progress_of st0 f" "job_id f = job_id j" "progress_of st0 j"
      and "job_step (job_status f) ''assigned''" using job_step.assign by metis
    then have "progress_of st0 (j\<lparr>job_status := ''assigned'', job_assigned_agent_id := Some (agt_id agent)\<rparr>)"
      by (intro job_tracking.step_reached[OF f(3) _ f(1,2)]) (simp_all add: same_order_def)
    then show ?thesis
      unfolding assign_job_def Let_def by (intro keeps_intro job_tracking.tracking_put)
  qed
  then show "keeps (progressing st0 n) (andThen (map_each (take 5 js) (assign_job now agent))
      (\<lambda>jobs. andThen db_flush (\<lambda>_. ret jobs)))"
    by (intro keeps_intro) (auto dest: in_set_takeD)
qed

text \<open>The three transitions a handler makes on a job it has loaded.\<close>

lemma progressing_start:
  "progress_of st0 j \<Longrightarrow> keeps (progressing st0 n) (start_job now j agent)"
  unfolding start_job_def require_agent_job_def Let_def
  by (intro keeps_intro job_tracking.own_step)
    (auto simp: same_order_def intro: job_step.start)

lemma progressing_complete:
  "progress_of st0 j \<Longrightarrow> keeps (progressing st0 n) (complete_job now j agent ok out err code meta)"
  unfolding complete_job_def require_agent_job_def Let_def
  by (intro keeps_intro job_tracking.own_step tracking_other(1))
    (auto simp: same_order_def intro: job_step.finish)

lemma progressing_cancel:
  assumes "progress_of st0 j"
  shows "keeps (progressing st0 n) (cancel_job now j)"
proof -
  have "job_status_ok (job_status j)" using assms by (simp add: reached_def)
  then show ?thesis
    unfolding cancel_job_def Let_def
    by (intro keeps_intro job_tracking.own_step[OF assms])
      (auto simp: same_order_def job_status_ok_def job_terminal_def intro: job_step.cancel)
qed

subsection \<open>Keys\<close>

lemma wf_job_writes [keeps_intro]:
  "keeps wf_session (add_job_event now job e m d)"
  "keeps wf_session (audit now o' a ty i d)"
  "keeps wf_session (expire_job now j)"
  "keeps wf_session (assign_job now agent j)"
  unfolding add_job_event_def audit_def expire_job_def assign_job_def Let_def
  by (intro keeps_intro agent_job_events_tbl.insert_wf audit_logs_tbl.insert_wf agent_jobs_tbl.put_wf; simp)+

lemma wf_job_operations [keeps_intro]:
  "keeps wf_session (expire_jobs now dv)"
  "keeps wf_session (assign_jobs_for_agent now agent)"
  "keeps wf_session (create_job rt cfg now device jtype payload)"
  "keeps wf_session (start_job now j agent)"
  "keeps wf_session (complete_job now j agent ok out err code meta)"
  "keeps wf_session (cancel_job now j)"
  unfolding expire_jobs_def assign_jobs_for_agent_def create_job_def start_job_def complete_job_def
    cancel_job_def require_agent_job_def Let_def
  by (intro keeps_intro wf_job_writes agent_jobs_tbl.insert_wf agent_jobs_tbl.put_wf
      agent_job_results_tbl.insert_wf; simp add: new_job_def new_job_result_def)+

subsection \<open>Safe payloads\<close>

text \<open>What the agent may be handed for a job type.\<close>

definition safe_payload :: "string \<Rightarrow> json_dict \<Rightarrow> bool" where
  "safe_payload jtype d \<longleftrightarrow>
     (if jtype \<in> {''ping'', ''refresh_inventory''} then d = []
      else if jtype = ''collect_agent_logs'' then
        (case d of [(k, JInt n)] \<Rightarrow> k = ''line_count'' \<and> 1 \<le> n \<and> n \<le> 200 | _ \<Rightarrow> False)
      else if jtype = ''get_service_status'' then
        (case d of [(k, JStr s)] \<Rightarrow> k = ''service_name'' \<and> fullmatch_class service_char 1 128 s | _ \<Rightarrow> False)
      else if jtype \<in> {''network_discovery'', ''arp_scan'', ''dns_discovery'', ''snmp_discovery''} then
        (case d of [(k, JStr s)] \<Rightarrow> k = ''subnet'' \<and> fullmatch_class subnet_char 1 128 s | _ \<Rightarrow> False)
      else False)"

lemma validated_type_allowed:
  "validate_job_payload frepr jtype payload = Inr d \<Longrightarrow> jtype \<in> set ALLOWED_JOB_TYPES"
  by (simp add: validate_job_payload_def Let_def split: if_splits)

lemma allowed_typeE:
  assumes "jtype \<in> set ALLOWED_JOB_TYPES"
  obtains (plain) "jtype \<in> {''ping'', ''refresh_inventory''}" | (logs) "jtype = ''collect_agent_logs''"
    | (service) "jtype = ''get_service_status''"
    | (scan) "jtype \<in> {''network_discovery'', ''arp_scan'', ''dns_discovery'', ''snmp_discovery''}"
  using assms unfolding ALLOWED_JOB_TYPES_def list.set insert_iff empty_iff by metis

lemma single_entry:
  "(case d of [(k, JInt n)] \<Rightarrow> P k n | _ \<Rightarrow> False) \<longleftrightarrow> (\<exists>k n. d = [(k, JInt n)] \<and> P k n)"
  "(case d of [(k, JStr s)] \<Rightarrow> Q k s | _ \<Rightarrow> False) \<longleftrightarrow> (\<exists>k s. d = [(k, JStr s)] \<and> Q k s)"
  by (cases d; cases "tl d"; auto split: json.splits)+

lemma safe_plain: "jtype \<in> {''ping'', ''refresh_inventory''} \<Longrightarrow> safe_payload jtype d \<longleftrightarrow> d = []"
  unfolding safe_payload_def by simp

lemma safe_logs:
  "safe_payload ''collect_agent_logs'' d \<longleftrightarrow>
     (\<exists>k n. d = [(k, JInt n)] \<and> k = ''line_count'' \<and> 1 \<le> n \<and> n \<le> 200)"
  unfolding safe_payload_def single_entry by simp

lemma safe_service:
  "safe_payload ''get_service_status'' d \<longleftrightarrow>
     (\<exists>k s. d = [(k, JStr s)] \<and> k = ''service_name'' \<and> fullmatch_class service_char 1 128 s)"
  unfolding safe_payload_def single_entry by simp

lemma safe_scan:
  "jtype \<in> {''network_discovery'', ''arp_scan'', ''dns_discovery'', ''snmp_discovery''} \<Longrightarrow>
     safe_payload jtype d \<longleftrightarrow>
       (\<exists>k s. d = [(k, JStr s)] \<and> k = ''subnet'' \<and> fullmatch_class subnet_char 1 128 s)"
  unfolding safe_payload_def single_entry by (elim insertE emptyE; simp)

lemmas safe_payload_simps = safe_plain safe_logs safe_service safe_scan

lemma validate_plain:
  "jtype \<in> {''ping'', ''refresh_inventory''} \<Longrightarrow> validate_job_payload frepr jtype payload =
     (if payload = None \<or> payload = Some [] then Inr [] else Inl (HTTPException 400 ''Payload not allowed''))"
  by (elim insertE emptyE; cases payload; simp add: validate_job_payload_def ALLOWED_JOB_TYPES_def)

lemma validate_logs:
  "validate_job_payload frepr ''collect_agent_logs'' payload =
     (case py_int (dict_get (case payload of None \<Rightarrow> [] | Some d \<Rightarrow> d) ''line_count'' (JInt 100)) of
        None \<Rightarrow> Inl (HTTPException 400 ''Invalid line_count'')
      | Some n \<Rightarrow> if n < 1 \<or> n > 200 then Inl (HTTPException 400 ''Invalid line_count'')
                  else Inr [(''line_count'', JInt n)])"
  by (simp add: validate_job_payload_def ALLOWED_JOB_TYPES_def)

lemma validate_service:
  "validate_job_payload frepr ''get_service_status'' payload =
     (let s = py_str frepr (dict_get (case payload of None \<Rightarrow> [] | Some d \<Rightarrow> d) ''service_name'' (JStr []))
      in if \<not> fullmatch_class service_char 1 128 s then Inl (HTTPException 400 ''Invalid service_name'')
         else Inr [(''service_name'', JStr s)])"
  by (simp add: validate_job_payload_def ALLOWED_JOB_TYPES_def)

lemma validate_scan:
  "jtype \<in> {''network_discovery'', ''arp_scan'', ''dns_discovery'', ''snmp_discovery''} \<Longrightarrow>
   validate_job_payload frepr jtype payload =
     (let s = py_str frepr (dict_get (case payload of None \<Rightarrow> [] | Some d \<Rightarrow> d) ''subnet'' (JStr ''local''))
      in if \<not> fullmatch_class subnet_char 1 128 s then Inl (HTTPException 400 ''Invalid subnet'')
         else Inr [(''subnet'', JStr s)])"
  by (elim insertE emptyE; simp add: validate_job_payload_def ALLOWED_JOB_TYPES_def)

lemmas validate_simps = validate_plain validate_logs validate_service validate_scan

lemma payload_safe:
  assumes "validate_job_payload frepr jtype payload = Inr d"
  shows "safe_payload jtype d"
  using validated_type_allowed[OF assms]
proof (cases rule: allowed_typeE)
  case plain
  with assms show ?thesis by (simp add: validate_simps(1)[OF plain] safe_payload_simps(1)[OF plain] split: if_splits)
next
  case logs
  with assms show ?thesis
    by (auto simp: validate_logs safe_payload_simps(2) split: option.splits if_splits)
next
  case service
  with assms show ?thesis
    by (auto simp: validate_simps(3) safe_payload_simps(3) Let_def simp del: One_nat_def split: if_splits)
next
  case scan
  with assms show ?thesis
    by (auto simp: validate_simps(4)[OF scan] safe_payload_simps(4)[OF scan] Let_def
        simp del: One_nat_def insert_iff split: if_splits)
qed

lemma safe_payload_accepted:
  assumes "safe_payload jtype d" and "jtype \<in> set ALLOWED_JOB_TYPES"
  shows "validate_job_payload frepr jtype (Some d) = Inr d"
  using assms(2)
proof (cases rule: allowed_typeE)
  case plain
  with assms show ?thesis by (simp add: validate_simps(1)[OF plain] safe_payload_simps(1)[OF plain])
next
  case logs
  with assms show ?thesis
    by (auto simp: validate_simps(2) safe_payload_simps(2) dict_get_def py_int_def)
next
  case service
  with assms show ?thesis
    by (auto simp: validate_simps(3) safe_payload_simps(3) dict_get_def py_str_def simp del: One_nat_def)
next
  case scan
  with assms(1) show ?thesis
    by (auto simp: validate_simps(4)[OF scan] safe_payload_simps(4)[OF scan] dict_get_def py_str_def
        simp del: One_nat_def insert_iff)
qed

text \<open>C11. Whatever payload an operator sends, the job stores one of the eight known types
  with a payload of that type's fixed shape: no key the type does not have, a line count
  within 1 and 200, a subnet or service name of at most 128 harmless characters. A payload
  the agent gets is a fixed point of the validation.\<close>

theorem job_payload_safe:
  assumes "validate_job_payload frepr jtype payload = Inr d"
  shows "jtype \<in> set ALLOWED_JOB_TYPES \<and> safe_payload jtype d \<and>
     validate_job_payload frepr jtype (Some d) = Inr d"
  using payload_safe[OF assms] validated_type_allowed[OF assms] safe_payload_accepted by blast

theorem job_payload_safe_witness:
  "safe_payload ''collect_agent_logs'' [(''line_count'', JInt 42)] \<and>
   validate_job_payload (\<lambda>r. ''nan'') ''collect_agent_logs''
     (Some [(''line_count'', JStr '' 42 ''), (''path'', JStr ''/etc/shadow'')]) =
     Inr [(''line_count'', JInt 42)]"
proof -
  have "validate_job_payload (\<lambda>r. ''nan'') ''collect_agent_logs''
     (Some [(''line_count'', JStr '' 42 ''), (''path'', JStr ''/etc/shadow'')]) =
     Inr [(''line_count'', JInt 42)]"
    by (simp add: validate_job_payload_def ALLOWED_JOB_TYPES_def dict_get_def py_int_def
        py_int_of_string_def strip_by_def unsigned_value_def char_class_defs)
  from job_payload_safe[OF this] this show ?thesis by simp
qed

subsection \<open>Expiry and assignment, exactly\<close>

definition expired_job :: "datetime \<Rightarrow> agent_job \<Rightarrow> agent_job" where
  "expired_job now j = j\<lparr>job_status := ''expired'', job_completed_at := Some now\<rparr>"

definition assigned_job :: "agent \<Rightarrow> agent_job \<Rightarrow> agent_job" where
  "assigned_job agent j = j\<lparr>job_status := ''assigned'', job_assigned_agent_id := Some (agt_id agent)\<rparr>"

text \<open>Writes of events and audit entries leave the jobs and the flushed rows alone.\<close>

definition side_write :: "unit db_op \<Rightarrow> bool" where
  "side_write m \<longleftrightarrow> (\<forall>s. \<exists>s'. m s = (Inr (), s') \<and> agent_jobs (live s') = agent_jobs (live s) \<and>
      flushed s' = flushed s \<and> durable s' = durable s \<and> unique_ok (live s') = unique_ok (live s))"

lemma side_writes:
  "side_write (add_job_event now job e m d)" "side_write (audit now o' a ty i d)"
  by (simp_all add: side_write_def add_job_event_def audit_def insert_row_def andThen_run unique_ok_def)

lemma put_then_side:
  assumes "side_write m" and "side_write m'"
  shows "\<exists>s'. andThen (put_row agent_jobs_update job_id j) (\<lambda>_. andThen m (\<lambda>_. andThen m' (\<lambda>_. ret x))) s = (Inr x, s') \<and>
     agent_jobs (live s') = map (\<lambda>y. if job_id y = job_id j then j else y) (agent_jobs (live s)) \<and>
     flushed s' = flushed s \<and> durable s' = durable s \<and>
     unique_ok (live s') = unique_ok (live s)"
proof -
  let ?s = "s\<lparr>live := agent_jobs_update (map (\<lambda>y. if job_id y = job_id j then j else y)) (live s)\<rparr>"
  obtain t where t: "m ?s = (Inr (), t)" "agent_jobs (live t) = agent_jobs (live ?s)"
    "flushed t = flushed ?s" "durable t = durable ?s" "unique_ok (live t) = unique_ok (live ?s)"
    using assms(1) unfolding side_write_def by blast
  obtain t' where t': "m' t = (Inr (), t')" "agent_jobs (live t') = agent_jobs (live t)"
    "flushed t' = flushed t" "durable t' = durable t" "unique_ok (live t') = unique_ok (live t)"
    using assms(2) unfolding side_write_def by blast
  have "unique_ok (live ?s) = unique_ok (live s)" by (simp add: unique_ok_def)
  with t t' show ?thesis by (simp add: put_row_def andThen_run)
qed

text \<open>One visited job: overwritten by \<open>g j\<close>, returned as \<open>h j\<close>, everything else on the side.\<close>

definition job_visit :: "(agent_job \<Rightarrow> agent_job) \<Rightarrow> (agent_job \<Rightarrow> 'a) \<Rightarrow> (agent_job \<Rightarrow> 'a db_op) \<Rightarrow> bool" where
  "job_visit g h f \<longleftrightarrow> (\<forall>j s. \<exists>s'. f j s = (Inr (h j), s') \<and>
     agent_jobs (live s') = map (\<lambda>y. if job_id y = job_id j then g j else y) (agent_jobs (live s)) \<and>
     flushed s' = flushed s \<and> durable s' = durable s \<and> unique_ok (live s') = unique_ok (live s))"

lemma visit_expire: "job_visit (expired_job now) (\<lambda>_. ()) (expire_job now)"
  unfolding job_visit_def
proof (intro allI)
  fix j s
  have eq: "expire_job now j = andThen (put_row agent_jobs_update job_id (expired_job now j))
      (\<lambda>_. andThen (add_job_event now (expired_job now j) ''expired'' ''Job expired before completion.'' [])
      (\<lambda>_. andThen (audit now (job_organization_id j) ''job.expired'' ''agent_job'' (uuid_str (job_id j)) [])
      (\<lambda>_. ret ())))"
    by (simp add: expire_job_def expired_job_def Let_def)
  have id: "job_id (expired_job now j) = job_id j" by (simp add: expired_job_def)
  show "\<exists>s'. expire_job now j s = (Inr (), s') \<and>
     agent_jobs (live s') = map (\<lambda>y. if job_id y = job_id j then expired_job now j else y) (agent_jobs (live s)) \<and>
     flushed s' = flushed s \<and> durable s' = durable s \<and> unique_ok (live s') = unique_ok (live s)"
    unfolding eq by (rule put_then_side[OF side_writes, where j = "expired_job now j", unfolded id])
qed

lemma visit_assign: "job_visit (assigned_job agent) (assigned_job agent) (assign_job now agent)"
  unfolding job_visit_def
proof (intro allI)
  fix j s
  have eq: "assign_job now agent j = andThen (put_row agent_jobs_update job_id (assigned_job agent j))
      (\<lambda>_. andThen (add_job_event now (assigned_job agent j) ''assigned'' ''Job assigned to polling agent.'' [])
      (\<lambda>_. andThen (audit now (job_organization_id j) ''job.assigned'' ''agent_job'' (uuid_str (job_id j)) [])
      (\<lambda>_. ret (assigned_job agent j))))"
    by (simp add: assign_job_def assigned_job_def Let_def)
  have id: "job_id (assigned_job agent j) = job_id j" by (simp add: assigned_job_def)
  show "\<exists>s'. assign_job now agent j s = (Inr (assigned_job agent j), s') \<and>
     agent_jobs (live s') = map (\<lambda>y. if job_id y = job_id j then assigned_job agent j else y) (agent_jobs (live s)) \<and>
     flushed s' = flushed s \<and> durable s' = durable s \<and> unique_ok (live s') = unique_ok (live s)"
    unfolding eq by (rule put_then_side[OF side_writes, where j = "assigned_job agent j", unfolded id])
qed

lemma visit_all:
  assumes "job_visit g h f"
  shows "\<exists>s'. map_each js f s = (Inr (map h js), s') \<and>
     agent_jobs (live s') = fold (\<lambda>j. map (\<lambda>y. if job_id y = job_id j then g j else y)) js (agent_jobs (live s)) \<and>
     flushed s' = flushed s \<and> durable s' = durable s \<and> unique_ok (live s') = unique_ok (live s)"
proof (induction js arbitrary: s)
  case Nil
  then show ?case by simp
next
  case (Cons j js)
  obtain t where t: "f j s = (Inr (h j), t)" "flushed t = flushed s" "durable t = durable s"
    "agent_jobs (live t) = map (\<lambda>y. if job_id y = job_id j then g j else y) (agent_jobs (live s))"
    "unique_ok (live t) = unique_ok (live s)"
    using assms unfolding job_visit_def by blast
  obtain s' where "map_each js f t = (Inr (map h js), s')"
    "agent_jobs (live s') = fold (\<lambda>j. map (\<lambda>y. if job_id y = job_id j then g j else y)) js (agent_jobs (live t)) \<and>
     flushed s' = flushed t \<and> durable s' = durable t \<and> unique_ok (live s') = unique_ok (live t)"
    using Cons.IH[of t] by blast
  with t show ?case by (simp add: andThen_run)
qed

lemma for_each_map_each: "for_each js f = andThen (map_each js f) (\<lambda>_. ret ())"
proof (induction js)
  case Nil
  then show ?case by simp
next
  case (Cons j js)
  then show ?case by simp
qed

text \<open>After \<open>expire_jobs\<close> on synchronized data, exactly the overdue jobs are expired.\<close>

definition swept_job :: "datetime \<Rightarrow> uuid option \<Rightarrow> agent_job \<Rightarrow> agent_job" where
  "swept_job now d j = (if job_overdue now d j then expired_job now j else j)"

lemma expire_jobs_run:
  assumes "synced s" and "distinct (map job_id (agent_jobs (live s)))"
  shows "\<exists>s'. expire_jobs now d s = (Inr (), s') \<and>
     agent_jobs (live s') = map (swept_job now d) (agent_jobs (live s)) \<and>
     flushed s' = flushed s \<and> durable s' = durable s \<and> unique_ok (live s') = unique_ok (live s)"
proof -
  let ?rs = "agent_jobs (live s)"
  let ?js = "filter (job_overdue now d) ?rs"
  have sel: "db_select agent_jobs job_id (job_overdue now d) s = ?js"
    using assms by (rule agent_jobs_tbl.select_synced)
  have same: "x = r" if "r \<in> set ?rs" "x \<in> set ?rs" "job_id x = job_id r" for x r
    using assms(2) that by (auto simp: distinct_map dest: inj_onD)
  have "fold (\<lambda>j. map (\<lambda>y. if job_id y = job_id j then expired_job now j else y)) ?js ?rs =
      map (\<lambda>x. if job_id x \<in> job_id ` set ?js then expired_job now x else x) ?rs"
    using assms(2) same by (intro put_each) (auto simp: distinct_map_filter expired_job_def)
  also have "\<dots> = map (swept_job now d) ?rs"
  proof (rule map_cong[OF refl])
    fix x assume "x \<in> set ?rs"
    then have "job_id x \<in> job_id ` set ?js \<longleftrightarrow> job_overdue now d x" using same by force
    then show "(if job_id x \<in> job_id ` set ?js then expired_job now x else x) = swept_job now d x"
      by (simp add: swept_job_def)
  qed
  finally show ?thesis
    using visit_all[OF visit_expire, of ?js now s]
    by (auto simp: expire_jobs_def sel for_each_map_each andThen_run)
qed

lemma swept_id [simp]: "job_id (swept_job now d j) = job_id j"
  by (simp add: swept_job_def expired_job_def)

text \<open>The jobs one poll hands out: the five oldest queued ones of the agent's device.\<close>

definition next_jobs :: "agent \<Rightarrow> store \<Rightarrow> agent_job list" where
  "next_jobs agent st = take 5 (sort_key job_created_at
     (filter (\<lambda>j. Some (job_device_id j) = agt_device_id agent \<and> job_status j = ''queued'') (agent_jobs st)))"

lemma distinct_next:
  assumes "distinct (map job_id (agent_jobs st))"
  shows "distinct (map job_id (next_jobs agent st))"
proof -
  let ?q = "filter (\<lambda>j. Some (job_device_id j) = agt_device_id agent \<and> job_status j = ''queued'') (agent_jobs st)"
  have "distinct ?q" "inj_on job_id (set ?q)" using assms by (auto simp: distinct_map intro: inj_on_subset)
  then have "distinct (map job_id (sort_key job_created_at ?q))" by (simp add: distinct_map)
  then show ?thesis unfolding next_jobs_def by (simp only: take_map[symmetric] distinct_take)
qed

definition polled_row :: "datetime \<Rightarrow> agent \<Rightarrow> store \<Rightarrow> agent_job \<Rightarrow> agent_job" where
  "polled_row now agent st x = (let y = swept_job now (agt_device_id agent) x in
     if job_id x \<in> job_id ` set (next_jobs agent st) then assigned_job agent y else y)"

lemma next_jobs_subset: "set (next_jobs agent st) \<subseteq> set (agent_jobs st)"
  by (auto simp: next_jobs_def dest!: in_set_takeD)

lemma polled_selection:
  assumes "distinct (map job_id (agent_jobs st))" and "flushed t = st"
    and live: "agent_jobs (live t) = map (swept_job now (agt_device_id agent)) (agent_jobs st)"
  shows "take 5 (db_select_by agent_jobs job_id job_created_at
      (\<lambda>j. Some (job_device_id j) = agt_device_id agent \<and> job_status j = ''queued'') t) =
      map (swept_job now (agt_device_id agent)) (next_jobs agent st)"
proof -
  let ?f = "swept_job now (agt_device_id agent)"
  have "live_row agent_jobs job_id t j = ?f j" if "j \<in> set (agent_jobs st)" for j
  proof -
    have "List.find (\<lambda>x. job_id x = job_id j) (map ?f (agent_jobs st)) =
        map_option ?f (List.find (\<lambda>x. job_id x = job_id j) (agent_jobs st))"
      by (rule find_map_same) simp
    also have "List.find (\<lambda>x. job_id x = job_id j) (agent_jobs st) = Some j"
      using that assms(1) by (simp add: find_Some_iff_distinct)
    finally show ?thesis by (simp add: live_row_def live)
  qed
  then show ?thesis
    by (simp add: db_select_by_def assms(2) next_jobs_def take_map)
      (auto intro!: map_cong dest!: in_set_takeD)
qed

lemma polled_rows:
  assumes dist: "distinct (map job_id (agent_jobs st))"
  shows "fold (\<lambda>j. map (\<lambda>y. if job_id y = job_id j then assigned_job agent j else y))
      (map (swept_job now (agt_device_id agent)) (next_jobs agent st))
      (map (swept_job now (agt_device_id agent)) (agent_jobs st)) =
    map (polled_row now agent st) (agent_jobs st)"
proof -
  let ?f = "swept_job now (agt_device_id agent)"
  let ?js = "map ?f (next_jobs agent st)"
  have "fold (\<lambda>j. map (\<lambda>y. if job_id y = job_id j then assigned_job agent j else y)) ?js (map ?f (agent_jobs st)) =
      map (\<lambda>x. if job_id x \<in> job_id ` set ?js then assigned_job agent x else x) (map ?f (agent_jobs st))"
  proof (rule put_each)
    show "distinct (map job_id ?js)" by (simp add: comp_def distinct_next[OF dist])
    show "job_id (assigned_job agent r) = job_id r" for r by (simp add: assigned_job_def)
    fix r x assume "r \<in> set ?js" "x \<in> set (map ?f (agent_jobs st))" and id: "job_id x = job_id r"
    then obtain r' x' where "r' \<in> set (agent_jobs st)" "x' \<in> set (agent_jobs st)" "r = ?f r'" "x = ?f x'"
      using next_jobs_subset by fastforce
    with id show "x = r" using dist by (auto simp: distinct_map dest: inj_onD)
  qed
  then show ?thesis by (simp add: polled_row_def Let_def comp_def image_image)
qed

lemma assign_run_full:
  assumes "wf_server w"
  shows "\<exists>s. assign_jobs_for_agent now agent (open_session w) =
      (Inr (map (\<lambda>j. assigned_job agent (swept_job now (agt_device_id agent) j)) (next_jobs agent (srv_store w))), s) \<and>
     durable s = srv_store w \<and> unique_ok (live s) \<and>
     agent_jobs (live s) = map (polled_row now agent (srv_store w)) (agent_jobs (srv_store w))"
proof -
  let ?d = "agt_device_id agent"
  have dist: "distinct (map job_id (agent_jobs (srv_store w)))" using agent_jobs_tbl.open_distinct[OF assms] by simp
  obtain t where t: "expire_jobs now ?d (open_session w) = (Inr (), t)"
    "agent_jobs (live t) = map (swept_job now ?d) (agent_jobs (srv_store w))" "flushed t = srv_store w"
    "durable t = srv_store w" "unique_ok (live t) = unique_ok (srv_store w)"
    using expire_jobs_run[of "open_session w" now ?d] dist by auto
  let ?js = "map (swept_job now ?d) (next_jobs agent (srv_store w))"
  obtain s where s: "map_each ?js (assign_job now agent) t = (Inr (map (assigned_job agent) ?js), s)"
    "durable s = durable t" "unique_ok (live s) = unique_ok (live t)"
    "agent_jobs (live s) = fold (\<lambda>j. map (\<lambda>y. if job_id y = job_id j then assigned_job agent j else y)) ?js (agent_jobs (live t))"
    using visit_all[OF visit_assign] by blast
  have "agent_jobs (live s) = map (polled_row now agent (srv_store w)) (agent_jobs (srv_store w))"
    by (simp only: s(4) t(2) polled_rows[OF dist])
  moreover have "unique_ok (live s)" using s(3) t(5) assms by (simp add: wf_server_def)
  ultimately show ?thesis using s(1,2) t(4)
    by (simp add: assign_jobs_for_agent_def andThen_run t(1) polled_selection[OF dist t(3,2)] db_flush_def comp_def)
qed

lemma assign_run:
  assumes "wf_server w"
  shows "\<exists>s. assign_jobs_for_agent now agent (open_session w) =
      (Inr (map (\<lambda>j. assigned_job agent (swept_job now (agt_device_id agent) j)) (next_jobs agent (srv_store w))), s) \<and>
     durable s = srv_store w"
  using assign_run_full[OF assms] by blast

end
