(* ===== verification/JobsApi.thy ===== *)
theory JobsApi
  imports Jobs Schemas
begin

text \<open>
  The job endpoints: \<^verbatim>\<open>backend/app/api/jobs.py\<close> for operators and the job part of
  \<^verbatim>\<open>backend/app/api/agent.py\<close> for agents, which authenticate with their device secret.
\<close>

subsection \<open>Operators\<close>

definition event_response :: "agent_job_event \<Rightarrow> AgentJobEventResponse" where
  "event_response e =
     \<lparr>ajv_id = jev_id e, ajv_event_type = jev_event_type e, ajv_message = jev_message e,
      ajv_metadata_json = jev_metadata_json e, ajv_created_at = jev_created_at e\<rparr>"

definition result_response :: "agent_job_result \<Rightarrow> AgentJobResultResponse" where
  "result_response r =
     \<lparr>ajs_id = jrs_id r, ajs_status = jrs_status r, ajs_output = jrs_output r,
      ajs_error = jrs_error r, ajs_exit_code = jrs_exit_code r,
      ajs_metadata_json = jrs_metadata_json r, ajs_created_at = jrs_created_at r\<rparr>"

definition job_response :: "agent_job \<Rightarrow> bool \<Rightarrow> AgentJobResponse db_op" where
  "job_response job include_events =
     andThen (gets (db_scalar agent_job_results jrs_id (\<lambda>r. jrs_job_id r = job_id job))) (\<lambda>result.
     andThen (if include_events
              then gets (db_select_by agent_job_events jev_id jev_created_at (\<lambda>e. jev_job_id e = job_id job))
              else ret []) (\<lambda>events.
     ret \<lparr>ajp_id = job_id job, ajp_organization_id = job_organization_id job,
          ajp_device_id = job_device_id job, ajp_assigned_agent_id = job_assigned_agent_id job,
          ajp_job_type = job_type job, ajp_status = job_status job, ajp_payload = job_payload job,
          ajp_expires_at = job_expires_at job, ajp_created_at = job_created_at job,
          ajp_started_at = job_started_at job, ajp_completed_at = job_completed_at job,
          ajp_result_summary = job_result_summary job,
          ajp_result = map_option result_response result,
          ajp_events = map event_response events\<rparr>))"

text \<open>Both device routes load the device and hide those of other organizations.\<close>

definition own_device :: "user \<Rightarrow> uuid \<Rightarrow> device db_op" where
  "own_device current device_id =
     andThen (gets (db_get devices dev_id device_id)) (\<lambda>found.
     case found of
       None \<Rightarrow> raise (HTTPException 404 ''Device not found'')
     | Some device \<Rightarrow>
         if dev_organization_id device \<noteq> usr_organization_id current
         then raise (HTTPException 404 ''Device not found'') else ret device)"

definition own_job :: "user \<Rightarrow> uuid \<Rightarrow> agent_job db_op" where
  "own_job current i =
     andThen (gets (db_get agent_jobs job_id i)) (\<lambda>found.
     case found of
       None \<Rightarrow> raise (HTTPException 404 ''Job not found'')
     | Some job \<Rightarrow>
         if job_organization_id job \<noteq> usr_organization_id current
         then raise (HTTPException 404 ''Job not found'') else ret job)"

definition create_device_job ::
  "runtime \<Rightarrow> settings \<Rightarrow> datetime \<Rightarrow> user db_op \<Rightarrow> uuid \<Rightarrow> AgentJobCreateRequest \<Rightarrow>
   AgentJobResponse db_op" where
  "create_device_job rt cfg now auth device_id payload =
     andThen (require_permission ''jobs:create'' auth) (\<lambda>current.
     andThen (own_device current device_id) (\<lambda>device.
     andThen (create_job rt cfg now device (ajc_job_type payload) (Some (ajc_payload payload))) (\<lambda>job.
     andThen db_commit (\<lambda>_. job_response job True))))"

definition list_device_jobs ::
  "datetime \<Rightarrow> user db_op \<Rightarrow> uuid \<Rightarrow> AgentJobResponse list db_op" where
  "list_device_jobs now auth device_id =
     andThen (require_permission ''jobs:read'' auth) (\<lambda>current.
     andThen (own_device current device_id) (\<lambda>_.
     andThen (expire_jobs now (Some device_id)) (\<lambda>_.
     andThen db_commit (\<lambda>_.
     andThen (gets (db_select_by agent_jobs job_id (\<lambda>j. - job_created_at j)
        (\<lambda>j. job_device_id j = device_id \<and> job_organization_id j = usr_organization_id current)))
     (\<lambda>jobs. map_each jobs (\<lambda>job. job_response job False))))))"

definition get_job :: "datetime \<Rightarrow> user db_op \<Rightarrow> uuid \<Rightarrow> AgentJobResponse db_op" where
  "get_job now auth i =
     andThen (require_permission ''jobs:read'' auth) (\<lambda>current.
     andThen (own_job current i) (\<lambda>job.
     andThen (expire_jobs now (Some (job_device_id job))) (\<lambda>_.
     andThen db_commit (\<lambda>_.
     andThen (current_row agent_jobs job_id job) (\<lambda>job'. job_response job' True)))))"

definition cancel_agent_job :: "datetime \<Rightarrow> user db_op \<Rightarrow> uuid \<Rightarrow> AgentJobResponse db_op" where
  "cancel_agent_job now auth i =
     andThen (require_permission ''jobs:cancel'' auth) (\<lambda>current.
     andThen (own_job current i) (\<lambda>job.
     andThen (cancel_job now job) (\<lambda>job'.
     andThen db_commit (\<lambda>_. job_response job' True))))"

subsection \<open>Agents\<close>

definition authenticate_agent_jobs ::
  "runtime \<Rightarrow> settings \<Rightarrow> AgentJobPollRequest \<Rightarrow> agent db_op" where
  "authenticate_agent_jobs rt cfg payload =
     andThen (gets (db_scalar agents agt_id (\<lambda>a. agt_device_id a = Some (apr_device_id payload)))) (\<lambda>found.
     case found of
       None \<Rightarrow> raise (HTTPException 401 ''Invalid device credentials'')
     | Some agent \<Rightarrow>
         if \<not> verify_token rt cfg (apr_device_secret payload) (agt_device_secret_hash agent)
         then raise (HTTPException 401 ''Invalid device credentials'') else ret agent)"

text \<open>
  The credentials come from two headers or, failing these, from the query. Building the
  request object validates the secret's length; its ValidationError is not caught.
\<close>

definition poll_jobs ::
  "runtime \<Rightarrow> settings \<Rightarrow> datetime \<Rightarrow> uuid option \<Rightarrow> string option \<Rightarrow> uuid option \<Rightarrow>
   string option \<Rightarrow> AgentJobResponse list db_op" where
  "poll_jobs rt cfg now device_id device_secret header_id header_secret =
     (let auth_device_id = (case header_id of Some i \<Rightarrow> Some i | None \<Rightarrow> device_id);
          auth_device_secret = (case header_secret of
              Some s \<Rightarrow> if s \<noteq> [] then Some s else device_secret | None \<Rightarrow> device_secret)
      in case (auth_device_id, auth_device_secret) of
           (Some i, Some secret) \<Rightarrow>
             let payload = \<lparr>apr_device_id = i, apr_device_secret = secret\<rparr> in
             if \<not> valid_AgentJobPollRequest payload then raise (ValueError ''validation error'')
             else andThen (authenticate_agent_jobs rt cfg payload) (\<lambda>agent.
                  andThen (assign_jobs_for_agent now agent) (\<lambda>jobs.
                  andThen db_commit (\<lambda>_. map_each jobs (\<lambda>job. job_response job False))))
         | _ \<Rightarrow> raise (HTTPException 401 ''Invalid device credentials''))"

definition polled_job :: "uuid \<Rightarrow> agent_job db_op" where
  "polled_job i =
     andThen (gets (db_get agent_jobs job_id i)) (\<lambda>found.
     require_some (HTTPException 404 ''Job not found'') found)"

definition start_polled_job ::
  "runtime \<Rightarrow> settings \<Rightarrow> datetime \<Rightarrow> uuid \<Rightarrow> AgentJobPollRequest \<Rightarrow> AgentJobResponse db_op" where
  "start_polled_job rt cfg now i payload =
     andThen (authenticate_agent_jobs rt cfg payload) (\<lambda>agent.
     andThen (polled_job i) (\<lambda>job.
     andThen (start_job now job agent) (\<lambda>job'.
     andThen db_commit (\<lambda>_. job_response job' True))))"

definition complete_polled_job ::
  "runtime \<Rightarrow> settings \<Rightarrow> datetime \<Rightarrow> uuid \<Rightarrow> AgentJobCompleteRequest \<Rightarrow> AgentJobResponse db_op" where
  "complete_polled_job rt cfg now i payload =
     andThen (authenticate_agent_jobs rt cfg
        \<lparr>apr_device_id = acr_device_id payload, apr_device_secret = acr_device_secret payload\<rparr>) (\<lambda>agent.
     andThen (polled_job i) (\<lambda>job.
     andThen (complete_job now job agent (acr_succeeded payload) (acr_output payload)
                (acr_error payload) (acr_exit_code payload) (acr_metadata payload)) (\<lambda>job'.
     andThen db_commit (\<lambda>_. job_response job' True))))"

subsection \<open>Reading steps\<close>

lemma keeps_job_reads [keeps_intro]:
  "keeps I (job_response job b)" "keeps I (own_device current d)" "keeps I (own_job current i)"
  "keeps I (authenticate_agent_jobs rt cfg q)" "keeps I (polled_job i)"
  unfolding job_response_def own_device_def own_job_def authenticate_agent_jobs_def polled_job_def
  by (intro keeps_intro)+

lemma own_job_InrD:
  "own_job current i s = (Inr job, s') \<Longrightarrow>
     s' = s \<and> db_get agent_jobs job_id i s = Some job \<and> job_id job = i \<and>
     job_organization_id job = usr_organization_id current"
  using agent_jobs_tbl.get_SomeD[of i s]
  by (auto simp: own_job_def split: option.splits if_splits)

lemma own_device_InrD:
  "own_device current i s = (Inr device, s') \<Longrightarrow>
     s' = s \<and> db_get devices dev_id i s = Some device \<and> dev_id device = i \<and>
     dev_organization_id device = usr_organization_id current"
  using devices_tbl.get_SomeD[of i s]
  by (auto simp: own_device_def split: option.splits if_splits)

lemma polled_job_InrD:
  "polled_job i s = (Inr job, s') \<Longrightarrow> s' = s \<and> db_get agent_jobs job_id i s = Some job \<and> job_id job = i"
  using agent_jobs_tbl.get_SomeD[of i s]
  by (auto simp: polled_job_def dest!: require_some_InrD)

lemma authenticate_agent_open:
  assumes "wf_server w" and "authenticate_agent_jobs rt cfg q (open_session w) = (Inr agent, s)"
  shows "s = open_session w \<and> agent \<in> set (agents (srv_store w)) \<and>
     agt_device_id agent = Some (apr_device_id q) \<and>
     verify_token rt cfg (apr_device_secret q) (agt_device_secret_hash agent)"
  using assms(2)
  by (auto simp: authenticate_agent_jobs_def agents_tbl.open_scalar[OF assms(1)]
      split: option.splits if_splits dest!: find_SomeD)

subsection \<open>Requests\<close>

datatype job_request =
    CreateDeviceJob credentials uuid AgentJobCreateRequest
  | ListDeviceJobs credentials uuid
  | GetJob credentials uuid
  | CancelJob credentials uuid
  | PollJobs "uuid option" "string option" "uuid option" "string option"
  | StartJob uuid AgentJobPollRequest
  | CompleteJob uuid AgentJobCompleteRequest

text \<open>The route table, with FastAPI's validation of the bodies.\<close>

definition handle_job :: "runtime \<Rightarrow> settings \<Rightarrow> datetime \<Rightarrow> job_request \<Rightarrow> unit db_op" where
  "handle_job rt cfg now q = (let auth = require_authenticated_user rt cfg now in case q of
     CreateDeviceJob cred d p \<Rightarrow> validated (valid_AgentJobCreateRequest p)
       (discard (create_device_job rt cfg now (auth cred) d p))
   | ListDeviceJobs cred d \<Rightarrow> discard (list_device_jobs now (auth cred) d)
   | GetJob cred i \<Rightarrow> discard (get_job now (auth cred) i)
   | CancelJob cred i \<Rightarrow> discard (cancel_agent_job now (auth cred) i)
   | PollJobs d secret hdr hsecret \<Rightarrow> discard (poll_jobs rt cfg now d secret hdr hsecret)
   | StartJob i p \<Rightarrow> validated (valid_AgentJobPollRequest p)
       (discard (start_polled_job rt cfg now i p))
   | CompleteJob i p \<Rightarrow> validated (valid_AgentJobCompleteRequest p)
       (discard (complete_polled_job rt cfg now i p)))"

subsection \<open>Progress and well-formedness of every job request\<close>

lemma progressing_own_job:
  assumes "\<And>j. progress_of st0 j \<Longrightarrow> keeps (progressing st0 n) (f j)"
  shows "keeps (progressing st0 n) (andThen (own_job current i) f)"
  unfolding own_job_def andThen_assoc
proof (rule agent_jobs_tbl.get_rows[where Q = "progress_of st0"])
  fix s j assume "progressing st0 n s" "j \<in> set (agent_jobs (live s)) \<union> set (agent_jobs (flushed s))"
  then show "progress_of st0 j" by (rule job_tracking.tracking_rows)
qed (auto intro!: keeps_intro assms)

lemma progressing_polled_job:
  assumes "\<And>j. progress_of st0 j \<Longrightarrow> keeps (progressing st0 n) (f j)"
  shows "keeps (progressing st0 n) (andThen (polled_job i) f)"
  unfolding polled_job_def andThen_assoc
proof (rule agent_jobs_tbl.get_rows[where Q = "progress_of st0"])
  fix s j assume "progressing st0 n s" "j \<in> set (agent_jobs (live s)) \<union> set (agent_jobs (flushed s))"
  then show "progress_of st0 j" by (rule job_tracking.tracking_rows)
qed (auto intro!: keeps_intro assms)

lemmas job_handlers = create_device_job_def list_device_jobs_def get_job_def cancel_agent_job_def
  poll_jobs_def start_polled_job_def complete_polled_job_def

lemma progressing_requests:
  assumes "list_all (\<lambda>j. job_id j < n) (agent_jobs st0)"
  shows "keeps (progressing st0 n) (handle_job rt cfg now q)"
proof (cases q)
  case (CreateDeviceJob cred d p)
  then show ?thesis
    unfolding handle_job_def create_device_job_def
    by (simp, intro keeps_intro progressing_create assms)
next
  case (ListDeviceJobs cred d)
  then show ?thesis
    unfolding handle_job_def list_device_jobs_def by (simp, intro keeps_intro)
next
  case (GetJob cred i)
  then show ?thesis
    unfolding handle_job_def get_job_def by (simp, intro keeps_intro)
next
  case (CancelJob cred i)
  then show ?thesis
    unfolding handle_job_def cancel_agent_job_def
    by (simp, intro keeps_discard keeps_andThen[of _ "require_permission p a" for p a]
        keeps_require_permission keeps_authenticate progressing_own_job)
      (intro keeps_intro progressing_cancel)
next
  case (PollJobs d secret hdr hsecret)
  then show ?thesis
    unfolding handle_job_def poll_jobs_def
    by (auto intro!: keeps_intro simp: Let_def split: option.splits)
next
  case (StartJob i p)
  then show ?thesis
    unfolding handle_job_def start_polled_job_def
    by (simp, intro keeps_validated keeps_discard keeps_andThen[of _ "authenticate_agent_jobs r c p" for r c p]
        keeps_job_reads progressing_polled_job) (intro keeps_intro progressing_start)
next
  case (CompleteJob i p)
  then show ?thesis
    unfolding handle_job_def complete_polled_job_def
    by (simp, intro keeps_validated keeps_discard keeps_andThen[of _ "authenticate_agent_jobs r c p" for r c p]
        keeps_job_reads progressing_polled_job) (intro keeps_intro progressing_complete)
qed

lemma wf_requests: "keeps wf_session (handle_job rt cfg now q)"
  by (cases q) (auto simp: handle_job_def job_handlers Let_def intro!: keeps_intro split: option.splits)

subsection \<open>Histories of job requests\<close>

definition run_jobs :: "runtime \<Rightarrow> settings \<Rightarrow> (datetime \<times> job_request) list \<Rightarrow> server \<Rightarrow> server" where
  "run_jobs rt cfg history w =
     fold (\<lambda>(now, q) w. snd (run_request (handle_job rt cfg now q) w)) history w"

text \<open>C10. Under every history of job requests, by operators and agents, valid or not: no job
  disappears; a job keeps its organization, device, type, payload, expiry and creation time;
  its status only moves along queued, assigned, running and one of the four terminal
  statuses; and a job with a terminal status is never written again.\<close>

theorem job_lifecycle_respected:
  assumes "wf_server w" and "jobs_ok (srv_store w)" and "j0 \<in> set (agent_jobs (srv_store w))"
  shows "\<exists>j \<in> set (agent_jobs (srv_store (run_jobs rt cfg history w))).
    job_id j = job_id j0 \<and> job_organization_id j = job_organization_id j0 \<and>
    job_device_id j = job_device_id j0 \<and> job_type j = job_type j0 \<and>
    job_payload j = job_payload j0 \<and> job_expires_at j = job_expires_at j0 \<and>
    job_created_at j = job_created_at j0 \<and>
    job_step\<^sup>*\<^sup>* (job_status j0) (job_status j) \<and>
    (if job_status j0 \<in> set TERMINAL_JOB_STATUSES then j = j0 else True)"
proof -
  have "all_reached agent_jobs job_id job_progress (\<lambda>j. job_status_ok (job_status j)) (srv_store w)
      (srv_store (run_jobs rt cfg history w))"
    unfolding run_jobs_def case_prod_beta
    using assms(1,2) progressing_requests[OF job_tracking.keys_below[OF assms(1)]]
    by (intro tracking_requests job_tracking.tracking_start) (auto simp: jobs_ok_def)
  from job_tracking.tracked_row[OF this assms(3)] show ?thesis
    by (metis (no_types, lifting) job_terminal_def row_progress_def same_order_def)
qed

theorem job_lifecycle_respected_witness:
  "sample_job 14 ''succeeded'' \<in> set (agent_jobs (srv_store (run_jobs sample_runtime default_settings
     [(60, PollJobs (Some 10) (Some ''device-secret-0001'') None None),
      (70, StartJob 14 \<lparr>apr_device_id = 10, apr_device_secret = ''device-secret-0001''\<rparr>)] sample_server)))"
proof -
  have "jobs_ok (srv_store sample_server)" and "sample_job 14 ''succeeded'' \<in> set (agent_jobs (srv_store sample_server))"
    by (simp_all add: sample_defs jobs_ok_def job_status_ok_def job_terminal_def TERMINAL_JOB_STATUSES_def)
  from job_lifecycle_respected[OF sample_wf this] show ?thesis
    by (auto simp: sample_job_def TERMINAL_JOB_STATUSES_def)
qed



text \<open>C15. Expiring the jobs of a device (or of all devices) at the start of a request turns
  exactly the active jobs past their expiry into expired ones and leaves every other job as
  it was.\<close>

theorem expire_jobs_exact:
  assumes "wf_server w"
  shows "\<exists>s. expire_jobs now d (open_session w) = (Inr (), s) \<and> durable s = srv_store w \<and>
     agent_jobs (live s) = map (\<lambda>j.
       if job_status j \<in> {''queued'', ''assigned'', ''running''} \<and> job_expires_at j \<le> now \<and>
          (d = None \<or> d = Some (job_device_id j))
       then j\<lparr>job_status := ''expired'', job_completed_at := Some now\<rparr> else j) (agent_jobs (srv_store w))"
proof -
  have "swept_job now d j = (if job_status j \<in> {''queued'', ''assigned'', ''running''} \<and> job_expires_at j \<le> now \<and>
          (d = None \<or> d = Some (job_device_id j))
       then j\<lparr>job_status := ''expired'', job_completed_at := Some now\<rparr> else j)" for j
    by (cases d) (auto simp: swept_job_def job_overdue_def expired_job_def)
  then have "map (swept_job now d) js = map (\<lambda>j.
       if job_status j \<in> {''queued'', ''assigned'', ''running''} \<and> job_expires_at j \<le> now \<and>
          (d = None \<or> d = Some (job_device_id j))
       then j\<lparr>job_status := ''expired'', job_completed_at := Some now\<rparr> else j) js" for js
    by simp
  then show ?thesis
    using expire_jobs_run[of "open_session w" now d] agent_jobs_tbl.open_distinct[OF assms] by auto
qed

theorem expire_jobs_exact_witness:
  "\<exists>s. expire_jobs 60 None (open_session sample_server) = (Inr (), s) \<and>
     map job_status (agent_jobs (live s)) = [''expired'', ''expired'', ''succeeded'']"
  using expire_jobs_exact[OF sample_wf, of 60 None] by (auto simp: sample_defs)

subsection \<open>Completion\<close>

lemma audit_then: "andThen (audit now o' a ty i d) f s =
    f () (s\<lparr>live := audit_logs_update (\<lambda>rs. rs @ [\<lparr>aud_id = next_id s, aud_organization_id = o',
        aud_actor_user_id = None, aud_action = a, aud_target_type = ty, aud_target_id = Some i,
        aud_metadata_json = d, aud_created_at = now\<rparr>]) (live s), next_id := Suc (next_id s)\<rparr>)"
  by (simp add: audit_def andThen_run insert_row_def)

lemma event_then: "andThen (add_job_event now job e m d) f s =
    f () (s\<lparr>live := agent_job_events_update (\<lambda>rs. rs @ [\<lparr>jev_id = next_id s,
        jev_organization_id = job_organization_id job, jev_job_id = job_id job,
        jev_event_type = e, jev_message = m, jev_metadata_json = d, jev_created_at = now\<rparr>]) (live s),
      next_id := Suc (next_id s)\<rparr>)"
  by (simp add: add_job_event_def andThen_run insert_row_def)

lemma insert_then: "andThen (insert_row u mk) f s =
    f (mk (next_id s)) (s\<lparr>live := u (\<lambda>rs. rs @ [mk (next_id s)]) (live s), next_id := Suc (next_id s)\<rparr>)"
  by (simp add: insert_row_def andThen_run)

definition completed_job :: "datetime \<Rightarrow> bool \<Rightarrow> string \<Rightarrow> string option \<Rightarrow> agent_job \<Rightarrow> agent_job" where
  "completed_job now ok output err j =
     (let status = (if ok then ''succeeded'' else ''failed'')
      in j\<lparr>job_status := status, job_completed_at := Some now,
           job_result_summary := Some (result_summary output err status)\<rparr>)"

lemma complete_InrD:
  assumes "complete_job now j agent ok output err code meta s = (Inr j', s')"
  shows "Some (job_device_id j) = agt_device_id agent \<and>
     (job_assigned_agent_id j = None \<or> job_assigned_agent_id j = Some (agt_id agent)) \<and>
     job_status j = ''running'' \<and> j' = completed_job now ok output err j \<and>
     agent_jobs (live s') = map (\<lambda>x. if job_id x = job_id j then j' else x) (agent_jobs (live s)) \<and>
     (\<exists>k. agent_job_results (live s') = agent_job_results (live s) @ [new_job_result now j' output err code meta k])"
  using assms
  by (auto simp: complete_job_def require_agent_job_def put_row_def insert_then event_then audit_then
      completed_job_def Let_def split: if_splits)

lemma complete_polled_success:
  assumes w: "wf_server w" and run: "run_request (complete_polled_job rt cfg now i p) w = (Inr resp, w')"
  obtains j where "j \<in> set (agent_jobs (srv_store w))" and "job_id j = i" and "job_status j = ''running''"
    and "job_device_id j = acr_device_id p"
    and "agent_jobs (srv_store w') = map (\<lambda>x. if job_id x = i
           then completed_job now (acr_succeeded p) (acr_output p) (acr_error p) j else x) (agent_jobs (srv_store w))"
    and "\<exists>k. agent_job_results (srv_store w') = agent_job_results (srv_store w) @
           [new_job_result now (completed_job now (acr_succeeded p) (acr_output p) (acr_error p) j)
              (acr_output p) (acr_error p) (acr_exit_code p) (acr_metadata p) k]"
proof -
  from run obtain s where "complete_polled_job rt cfg now i p (open_session w) = (Inr resp, s)"
    and w': "w' = close_session s" by (rule run_requestE)
  then obtain agent s1 job s2 job' s3 s4 where
      a: "authenticate_agent_jobs rt cfg \<lparr>apr_device_id = acr_device_id p, apr_device_secret = acr_device_secret p\<rparr>
         (open_session w) = (Inr agent, s1)"
    and j: "polled_job i s1 = (Inr job, s2)"
    and c: "complete_job now job agent (acr_succeeded p) (acr_output p) (acr_error p) (acr_exit_code p)
         (acr_metadata p) s2 = (Inr job', s3)"
    and co: "db_commit s3 = (Inr (), s4)" and r: "job_response job' True s4 = (Inr resp, s)"
    unfolding complete_polled_job_def by (elim andThen_InrE) simp
  have s1: "s1 = open_session w" "agt_device_id agent = Some (acr_device_id p)"
    using authenticate_agent_open[OF w a] by auto
  have s2: "s2 = open_session w" "job_id job = i" "job \<in> set (agent_jobs (srv_store w))"
    using polled_job_InrD[OF j] s1 by (auto simp: agent_jobs_tbl.open_get[OF w] dest: find_SomeD)
  have "s = s4" using keepsD[OF keeps_job_reads(1), of "\<lambda>t. t = s4" s4] r by (metis snd_conv)
  then have "srv_store w' = live s3" using co w' by (auto simp: db_commit_def split: if_splits)
  with complete_InrD[OF c] s1 s2 show thesis by (intro that[of job]) auto
qed

text \<open>A job with a terminal status takes no further start or completion.\<close>

lemma terminal_job_refused:
  assumes w: "wf_server w"
    and j: "\<And>j. j \<in> set (agent_jobs (srv_store w)) \<Longrightarrow> job_id j = i \<Longrightarrow> job_terminal (job_status j)"
  shows "\<exists>e. run_request (complete_polled_job rt cfg now i p) w = (Inl e, w)"
    and "\<exists>e. run_request (start_polled_job rt cfg now i q) w = (Inl e, w)"
proof -
  have job: "job_status job \<notin> {''running'', ''assigned'', ''queued''}"
    if "polled_job i (open_session w) = (Inr job, s)" for job s
    using j[of job] polled_job_InrD[OF that]
    by (auto simp: agent_jobs_tbl.open_get[OF w] job_terminal_def TERMINAL_JOB_STATUSES_def dest: find_SomeD)
  have reads: "snd (polled_job i (open_session w)) = open_session w"
    "snd (authenticate_agent_jobs rt cfg q' (open_session w)) = open_session w" for q'
    using keepsD[OF keeps_job_reads(5), of "\<lambda>t. t = open_session w"]
      keepsD[OF keeps_job_reads(4), of "\<lambda>t. t = open_session w"] by blast+
  have complete: "\<exists>e. andThen (complete_job now j agent ok out err code meta) f s = (Inl e, s)"
    if "job_status j \<notin> {''running'', ''assigned'', ''queued''}" for j agent ok out err code meta s and f :: "agent_job \<Rightarrow> AgentJobResponse db_op"
    using that by (simp add: complete_job_def require_agent_job_def andThen_run)
  have start: "\<exists>e. andThen (start_job now j agent) f s = (Inl e, s)"
    if "job_status j \<notin> {''running'', ''assigned'', ''queued''}" for j agent s and f :: "agent_job \<Rightarrow> AgentJobResponse db_op"
    using that by (simp add: start_job_def require_agent_job_def andThen_run)
  have "\<exists>e. complete_polled_job rt cfg now i p (open_session w) = (Inl e, open_session w)"
    unfolding complete_polled_job_def
    by (rule andThen_refused, rule reads, rule andThen_refused, rule reads, rule complete, erule job)
  then show "\<exists>e. run_request (complete_polled_job rt cfg now i p) w = (Inl e, w)"
    by (auto simp: run_request_state)
  have "\<exists>e. start_polled_job rt cfg now i q (open_session w) = (Inl e, open_session w)"
    unfolding start_polled_job_def
    by (rule andThen_refused, rule reads, rule andThen_refused, rule reads, rule start, erule job)
  then show "\<exists>e. run_request (start_polled_job rt cfg now i q) w = (Inl e, w)"
    by (auto simp: run_request_state)
qed

lemma wf_complete: "keeps wf_session (complete_polled_job rt cfg now i p)"
  unfolding complete_polled_job_def by (intro keeps_intro)

text \<open>C12. A successful completion was of a running job of the reporting agent's device; it
  overwrites that job with the outcome, its completion time and a summary of at most 512
  characters, and appends one result for it with output and error cut at 20000 characters.
  It also closes the job: every later start or completion of it is refused without changing
  anything.\<close>

theorem job_completed_once:
  assumes w: "wf_server w" and run: "run_request (complete_polled_job rt cfg now i p) w = (Inr resp, w')"
  shows "\<exists>j \<in> set (agent_jobs (srv_store w)). \<exists>j' r.
       job_id j = i \<and> job_status j = ''running'' \<and> job_device_id j = acr_device_id p \<and>
       j' = completed_job now (acr_succeeded p) (acr_output p) (acr_error p) j \<and>
       (\<forall>m \<in> set_option (job_result_summary j'). length m \<le> 512) \<and>
       agent_jobs (srv_store w') = map (\<lambda>x. if job_id x = i then j' else x) (agent_jobs (srv_store w)) \<and>
       agent_job_results (srv_store w') = agent_job_results (srv_store w) @ [r] \<and>
       jrs_job_id r = i \<and> jrs_status r = (if acr_succeeded p then ''succeeded'' else ''failed'') \<and>
       jrs_output r = take 20000 (acr_output p) \<and>
       (\<forall>m \<in> set_option (jrs_error r). m \<noteq> [] \<and> length m \<le> 20000) \<and>
       jrs_exit_code r = acr_exit_code p \<and> jrs_metadata_json r = acr_metadata p \<and>
       (\<forall>now' p'. \<exists>e. run_request (complete_polled_job rt cfg now' i p') w' = (Inl e, w')) \<and>
       (\<forall>now' q. \<exists>e. run_request (start_polled_job rt cfg now' i q) w' = (Inl e, w'))"
proof -
  obtain j where j: "j \<in> set (agent_jobs (srv_store w))" "job_id j = i" "job_status j = ''running''"
      "job_device_id j = acr_device_id p"
    and jobs: "agent_jobs (srv_store w') = map (\<lambda>x. if job_id x = i
           then completed_job now (acr_succeeded p) (acr_output p) (acr_error p) j else x) (agent_jobs (srv_store w))"
    and ex: "\<exists>k. agent_job_results (srv_store w') = agent_job_results (srv_store w) @
           [new_job_result now (completed_job now (acr_succeeded p) (acr_output p) (acr_error p) j)
              (acr_output p) (acr_error p) (acr_exit_code p) (acr_metadata p) k]"
    by (rule complete_polled_success[OF w run])
  from ex obtain k where results: "agent_job_results (srv_store w') = agent_job_results (srv_store w) @
           [new_job_result now (completed_job now (acr_succeeded p) (acr_output p) (acr_error p) j)
              (acr_output p) (acr_error p) (acr_exit_code p) (acr_metadata p) k]" by (rule exE)
  have wf: "wf_server w'" using run_request_wf[OF wf_complete w] run by (metis snd_conv)
  have "job_terminal (job_status x)" if "x \<in> set (agent_jobs (srv_store w'))" "job_id x = i" for x
    using that j(2) by (auto simp: jobs completed_job_def Let_def job_terminal_def TERMINAL_JOB_STATUSES_def
        split: if_splits)
  note refused = terminal_job_refused[OF wf this]
  let ?j' = "completed_job now (acr_succeeded p) (acr_output p) (acr_error p) j"
  let ?r = "new_job_result now ?j' (acr_output p) (acr_error p) (acr_exit_code p) (acr_metadata p) k"
  have summary: "\<forall>m \<in> set_option (job_result_summary ?j'). length m \<le> 512"
    by (simp add: completed_job_def Let_def result_summary_def)
  have err: "\<forall>m \<in> set_option (jrs_error ?r). m \<noteq> [] \<and> length m \<le> 20000"
    by (auto simp: new_job_result_def split: option.splits if_splits)
  have fields: "jrs_job_id ?r = i" "jrs_status ?r = (if acr_succeeded p then ''succeeded'' else ''failed'')"
    "jrs_output ?r = take 20000 (acr_output p)" "jrs_exit_code ?r = acr_exit_code p"
    "jrs_metadata_json ?r = acr_metadata p"
    using j(2) by (simp_all add: new_job_result_def completed_job_def Let_def)
  have closed: "\<forall>now' p'. \<exists>e. run_request (complete_polled_job rt cfg now' i p') w' = (Inl e, w')"
    "\<forall>now' q. \<exists>e. run_request (start_polled_job rt cfg now' i q) w' = (Inl e, w')"
    using refused by blast+
  show ?thesis
    by (rule bexI[OF _ j(1)], rule exI[of _ ?j'], rule exI[of _ ?r])
      (intro conjI j(2-4) refl summary jobs results fields err closed)
qed

lemma job_response_Inr: "\<exists>r. job_response job b s = (Inr r, s)"
  by (simp add: job_response_def andThen_run)

lemma sample_agent_auth:
  "authenticate_agent_jobs sample_runtime default_settings
     \<lparr>apr_device_id = 10, apr_device_secret = ''device-secret-0001''\<rparr> (open_session sample_server) =
   (Inr sample_agent, open_session sample_server)"
proof -
  have "db_scalar agents agt_id (\<lambda>a. agt_device_id a = Some 10) (open_session sample_server) = Some sample_agent"
    by (simp add: agents_tbl.open_scalar[OF sample_wf]) (simp add: sample_server_def sample_store_def sample_agent_def)
  then show ?thesis
    by (simp add: authenticate_agent_jobs_def verify_token_def) (simp add: sample_agent_def)
qed

lemma sample_polled_job:
  "i = 12 \<and> st = ''queued'' \<or> i = 13 \<and> st = ''running'' \<or> i = 14 \<and> st = ''succeeded'' \<Longrightarrow>
   polled_job i (open_session sample_server) = (Inr (sample_job i st), open_session sample_server)"
  by (auto simp: polled_job_def agent_jobs_tbl.open_get[OF sample_wf])
    (simp_all add: sample_server_def sample_store_def sample_job_def)

theorem job_completed_once_witness:
  "\<exists>w'. (\<exists>j \<in> set (agent_jobs (srv_store w')). job_id j = 13 \<and> job_status j = ''failed'') \<and>
     (\<forall>p. \<exists>e. run_request (complete_polled_job sample_runtime default_settings 45 13 p) w' = (Inl e, w'))"
proof -
  let ?p = "\<lparr>acr_device_id = 10, acr_device_secret = ''device-secret-0001'', acr_succeeded = False,
     acr_output = [], acr_error = Some ''timeout'', acr_exit_code = Some 1, acr_metadata = []\<rparr>"
  let ?go = "complete_polled_job sample_runtime default_settings 40 13 ?p"
  obtain j' s where c: "complete_job 40 (sample_job 13 ''running'') sample_agent False [] (Some ''timeout'') (Some 1) []
      (open_session sample_server) = (Inr j', s)" and "unique_ok (live s)"
    by (simp add: complete_job_def require_agent_job_def put_row_def insert_then event_then audit_then Let_def
        sample_defs unique_ok_def new_job_result_def)
  then obtain resp where "?go (open_session sample_server) = (Inr resp, committed (live s) (next_id s))"
    using job_response_Inr[of j' True "committed (live s) (next_id s)"]
    by (auto simp: complete_polled_job_def andThen_run sample_agent_auth sample_polled_job commit_open)
  then have run: "run_request ?go sample_server = (Inr resp, close_session (committed (live s) (next_id s)))"
    by (rule run_request_eq)
  let ?w = "close_session (committed (live s) (next_id s))"
  obtain j j'' where "j \<in> set (agent_jobs (srv_store sample_server))" "job_id j = 13"
    and "j'' = completed_job 40 False [] (Some ''timeout'') j"
    and "agent_jobs (srv_store ?w) = map (\<lambda>x. if job_id x = 13 then j'' else x) (agent_jobs (srv_store sample_server))"
    and closed: "\<forall>now' p'. \<exists>e. run_request (complete_polled_job sample_runtime default_settings now' 13 p') ?w = (Inl e, ?w)"
    using job_completed_once[OF sample_wf run] by auto
  then have "j'' \<in> set (agent_jobs (srv_store ?w))" "job_id j'' = 13" "job_status j'' = ''failed''"
    by (auto simp: completed_job_def Let_def)
  with closed show ?thesis by blast
qed

lemma authenticate_agent_cases:
  assumes "wf_server w"
  obtains "authenticate_agent_jobs rt cfg q (open_session w) =
      (Inl (HTTPException 401 ''Invalid device credentials''), open_session w)"
  | agent where "authenticate_agent_jobs rt cfg q (open_session w) = (Inr agent, open_session w)"
    "agt_device_id agent = Some (apr_device_id q)"
    "verify_token rt cfg (apr_device_secret q) (agt_device_secret_hash agent)"
proof -
  consider "authenticate_agent_jobs rt cfg q (open_session w) =
      (Inl (HTTPException 401 ''Invalid device credentials''), open_session w)"
    | agent s where "authenticate_agent_jobs rt cfg q (open_session w) = (Inr agent, s)"
    by (cases "db_scalar agents agt_id (\<lambda>a. agt_device_id a = Some (apr_device_id q)) (open_session w)")
      (force simp: authenticate_agent_jobs_def split: if_splits)+
  then show thesis using authenticate_agent_open[OF assms] that by cases blast+
qed

text \<open>C16. An agent reaches no job of another device: a request that names a job of another
  device than the one it authenticates for, to start or to complete it, is answered 401 or
  403 and changes nothing.\<close>

theorem foreign_agent_refused:
  assumes w: "wf_server w" and job: "j \<in> set (agent_jobs (srv_store w))" "job_id j = i"
    and other: "job_device_id j \<noteq> apr_device_id q" "job_device_id j \<noteq> acr_device_id p"
  shows "(\<exists>e. e \<in> {HTTPException 401 ''Invalid device credentials'', HTTPException 403 ''Job not assigned to agent''} \<and>
       run_request (start_polled_job rt cfg now i q) w = (Inl e, w)) \<and>
    (\<exists>e. e \<in> {HTTPException 401 ''Invalid device credentials'', HTTPException 403 ''Job not assigned to agent''} \<and>
       run_request (complete_polled_job rt cfg now i p) w = (Inl e, w))"
proof -
  have polled: "polled_job i (open_session w) = (Inr j, open_session w)"
    using agent_jobs_tbl.open_find_key[OF w job(1)] job(2)
    by (simp add: polled_job_def agent_jobs_tbl.open_get[OF w])
  let ?E = "{HTTPException 401 ''Invalid device credentials'', HTTPException 403 ''Job not assigned to agent''}"
  have "\<exists>e. e \<in> ?E \<and> start_polled_job rt cfg now i q (open_session w) = (Inl e, open_session w)"
    by (rule authenticate_agent_cases[OF w, of rt cfg q])
      (use other(1) in \<open>simp_all add: start_polled_job_def andThen_run polled start_job_def require_agent_job_def\<close>)
  then have "\<exists>e. e \<in> ?E \<and> run_request (start_polled_job rt cfg now i q) w = (Inl e, w)"
    by (elim exE conjE, intro exI conjI run_request_refused)
  moreover have "\<exists>e. e \<in> ?E \<and> complete_polled_job rt cfg now i p (open_session w) = (Inl e, open_session w)"
    by (rule authenticate_agent_cases[OF w, of rt cfg
          "\<lparr>apr_device_id = acr_device_id p, apr_device_secret = acr_device_secret p\<rparr>"])
      (use other(2) in \<open>simp_all add: complete_polled_job_def andThen_run polled complete_job_def require_agent_job_def\<close>)
  then have "\<exists>e. e \<in> ?E \<and> run_request (complete_polled_job rt cfg now i p) w = (Inl e, w)"
    by (elim exE conjE, intro exI conjI run_request_refused)
  ultimately show ?thesis by (rule conjI)
qed

theorem foreign_agent_refused_witness:
  "\<exists>e. run_request (start_polled_job sample_runtime default_settings 5 12
     \<lparr>apr_device_id = 99, apr_device_secret = ''device-secret-0001''\<rparr>) sample_server = (Inl e, sample_server)"
proof -
  have "sample_job 12 ''queued'' \<in> set (agent_jobs (srv_store sample_server))"
    by (simp add: sample_server_def sample_store_def)
  from foreign_agent_refused[OF sample_wf this, where rt = sample_runtime and cfg = default_settings and
      now = 5 and i = 12 and q = "\<lparr>apr_device_id = 99, apr_device_secret = ''device-secret-0001''\<rparr>"
      and p = "\<lparr>acr_device_id = 99, acr_device_secret = ''device-secret-0001'', acr_succeeded = True,
        acr_output = [], acr_error = None, acr_exit_code = None, acr_metadata = []\<rparr>"]
  show ?thesis by (auto simp: sample_job_def)
qed

end
