(* ===== verification/Alerts.thy ===== *)
theory Alerts
  imports Notifications
begin

text \<open>
  The alert engine: \<^verbatim>\<open>backend/app/core/alerts.py\<close>. Every organization gets the nine
  default rules; a check-in evaluates all of them for one device, opens an alert where a
  condition holds and none is open, refreshes the open one, and resolves it when the
  condition has cleared. The properties: the default rules are complete and creating them
  again does nothing, and an evaluation reconciles the open alerts of the device with the
  conditions, at most one for each rule.
\<close>

definition ALERT_SEVERITIES :: "string list" where
  "ALERT_SEVERITIES = [''info'', ''warning'', ''critical'']"

definition ALERT_STATUSES :: "string list" where
  "ALERT_STATUSES = [''active'', ''acknowledged'', ''resolved'']"

record rule_definition =
  rd_key :: string
  rd_name :: string
  rd_severity :: string
  rd_description :: string
  rd_parameters :: json_dict

record rule_result =
  rr_active :: bool
  rr_title :: string
  rr_message :: string
  rr_metadata :: json_dict

definition default_rule_definitions :: "settings \<Rightarrow> rule_definition list" where
  "default_rule_definitions cfg =
    [\<lparr>rd_key = ''device_offline'', rd_name = ''Device offline'', rd_severity = ''critical'',
      rd_description = ''Device has not checked in within the configured window.'',
      rd_parameters = [(''offline_minutes'', JInt (alert_device_offline_minutes cfg))]\<rparr>,
     \<lparr>rd_key = ''low_disk_free_space'', rd_name = ''Low disk free space'', rd_severity = ''warning'',
      rd_description = ''A disk is below the configured free-space percentage.'',
      rd_parameters = [(''free_percent'', JFloat (alert_low_disk_free_percent cfg))]\<rparr>,
     \<lparr>rd_key = ''high_memory_usage'', rd_name = ''High memory usage'', rd_severity = ''warning'',
      rd_description = ''Memory usage reported by the agent exceeds the configured percentage.'',
      rd_parameters = [(''used_percent'', JFloat (alert_high_memory_percent cfg))]\<rparr>,
     \<lparr>rd_key = ''defender_disabled'', rd_name = ''Windows Defender disabled'', rd_severity = ''critical'',
      rd_description = ''Windows Defender is reported disabled.'', rd_parameters = []\<rparr>,
     \<lparr>rd_key = ''firewall_disabled'', rd_name = ''Firewall disabled'', rd_severity = ''critical'',
      rd_description = ''Endpoint firewall is reported disabled.'', rd_parameters = []\<rparr>,
     \<lparr>rd_key = ''pending_reboot'', rd_name = ''Pending reboot'', rd_severity = ''warning'',
      rd_description = ''Endpoint reports a pending reboot.'', rd_parameters = []\<rparr>,
     \<lparr>rd_key = ''windows_updates_stale'', rd_name = ''Windows updates stale'', rd_severity = ''warning'',
      rd_description = ''Windows update status is stale or reports stale updates.'',
      rd_parameters = [(''stale_days'', JInt (alert_windows_update_stale_days cfg))]\<rparr>,
     \<lparr>rd_key = ''agent_version_outdated'', rd_name = ''Agent version outdated'', rd_severity = ''warning'',
      rd_description = ''Agent version differs from the configured current version.'',
      rd_parameters = [(''current_version'', JStr (current_agent_version cfg))]\<rparr>,
     \<lparr>rd_key = ''inventory_not_refreshed'', rd_name = ''Inventory not refreshed recently'',
      rd_severity = ''warning'',
      rd_description = ''Latest inventory refresh is older than the configured window.'',
      rd_parameters = [(''stale_hours'', JInt (alert_inventory_stale_hours cfg))]\<rparr>]"

subsection \<open>The default rules of an organization\<close>

definition new_alert_rule :: "datetime \<Rightarrow> uuid \<Rightarrow> rule_definition \<Rightarrow> uuid \<Rightarrow> alert_rule" where
  "new_alert_rule now organization_id d i =
     \<lparr>alr_id = i, alr_organization_id = organization_id, alr_rule_key = rd_key d,
      alr_name = rd_name d, alr_severity = rd_severity d, alr_description = rd_description d,
      alr_enabled = True, alr_parameters = rd_parameters d, alr_created_at = now\<rparr>"

text \<open>The loop over the definitions; \<open>existing\<close> is the dictionary from rule keys to rules.\<close>

fun add_missing_rules ::
  "datetime \<Rightarrow> uuid \<Rightarrow> rule_definition list \<Rightarrow> (string \<rightharpoonup> alert_rule) \<Rightarrow>
   (string \<rightharpoonup> alert_rule) db_op" where
  "add_missing_rules now organization_id [] existing = ret existing"
| "add_missing_rules now organization_id (d # ds) existing =
     (if existing (rd_key d) \<noteq> None then add_missing_rules now organization_id ds existing
      else andThen (insert_row alert_rules_update (new_alert_rule now organization_id d)) (\<lambda>rule.
           andThen db_flush (\<lambda>_.
           add_missing_rules now organization_id ds (existing(alr_rule_key rule \<mapsto> rule)))))"

definition rules_by_key :: "alert_rule list \<Rightarrow> string \<rightharpoonup> alert_rule" where
  "rules_by_key rules = foldl (\<lambda>m rule. m(alr_rule_key rule \<mapsto> rule)) Map.empty rules"

definition ensure_default_alert_rules ::
  "settings \<Rightarrow> datetime \<Rightarrow> uuid \<Rightarrow> (string \<rightharpoonup> alert_rule) db_op" where
  "ensure_default_alert_rules cfg now organization_id =
     andThen (gets (db_select alert_rules alr_id
        (\<lambda>rule. alr_organization_id rule = organization_id))) (\<lambda>rules.
     add_missing_rules now organization_id (default_rule_definitions cfg) (rules_by_key rules))"

subsection \<open>The conditions\<close>

text \<open>\<open>int(v)\<close> and \<open>float(v)\<close> on a rule parameter.\<close>

definition int_parameter :: "json \<Rightarrow> error + int" where
  "int_parameter v =
     (case py_int v of
        Some i \<Rightarrow> Inr i
      | None \<Rightarrow> Inl (if is_JStr v then ValueError ''int'' else TypeError ''int''))"

definition json_number :: "json \<Rightarrow> real option" where
  "json_number v = (case v of
      JBool b \<Rightarrow> Some (if b then 1 else 0)
    | JInt i \<Rightarrow> Some (of_int i)
    | JFloat r \<Rightarrow> Some r
    | _ \<Rightarrow> None)"

definition float_parameter :: "runtime \<Rightarrow> json \<Rightarrow> error + real" where
  "float_parameter rt v =
     (case v of
        JStr s \<Rightarrow> (case float_parse rt s of Some r \<Rightarrow> Inr r | None \<Rightarrow> Inl (ValueError ''float''))
      | _ \<Rightarrow> (case json_number v of Some r \<Rightarrow> Inr r | None \<Rightarrow> Inl (TypeError ''float'')))"

definition json_text :: "string option \<Rightarrow> json" where
  "json_text v = (case v of None \<Rightarrow> JNull | Some s \<Rightarrow> JStr s)"

definition json_bool :: "bool option \<Rightarrow> json" where
  "json_bool v = (case v of None \<Rightarrow> JNull | Some b \<Rightarrow> JBool b)"

definition map_result :: "('a \<Rightarrow> 'b) \<Rightarrow> error + 'a \<Rightarrow> error + 'b" where
  "map_result f r = (case r of Inl e \<Rightarrow> Inl e | Inr x \<Rightarrow> Inr (f x))"

definition eval_offline ::
  "settings \<Rightarrow> device \<Rightarrow> alert_rule \<Rightarrow> datetime \<Rightarrow> error + rule_result" where
  "eval_offline cfg device rule now =
     map_result (\<lambda>minutes.
       let active = (case dev_last_seen_at device of
             None \<Rightarrow> True
           | Some last_seen \<Rightarrow> last_seen < now - timedelta_minutes minutes)
       in \<lparr>rr_active = active, rr_title = ''Device offline'',
           rr_message = dev_hostname device @ '' has not checked in within '' @ int_str minutes @ '' minutes.'',
           rr_metadata = [(''offline_minutes'', JInt minutes),
                          (''last_seen_at'', JStr (datetime_str (dev_last_seen_at device)))]\<rparr>)
     (int_parameter (dict_get (alr_parameters rule) ''offline_minutes''
        (JInt (alert_device_offline_minutes cfg))))"

text \<open>The free space of a disk in percent, for disks that report both sizes.\<close>

definition disk_free_percent :: "disk_inventory \<Rightarrow> real option" where
  "disk_free_percent disk =
     (case (dsk_size_bytes disk, dsk_free_bytes disk) of
        (Some sz, Some free) \<Rightarrow>
          if sz = 0 \<or> sz \<le> 0 then None else Some (of_int free / of_int sz * 100)
      | _ \<Rightarrow> None)"

definition low_disks :: "real \<Rightarrow> disk_inventory list \<Rightarrow> json list" where
  "low_disks threshold disks = concat (map (\<lambda>disk.
     case disk_free_percent disk of
       None \<Rightarrow> []
     | Some free_percent \<Rightarrow>
         if free_percent < threshold
         then [JObj [(''name'', JStr (dsk_name disk)), (''free_percent'', JFloat (round2 free_percent))]]
         else []) disks)"

definition eval_low_disk ::
  "runtime \<Rightarrow> settings \<Rightarrow> disk_inventory list \<Rightarrow> alert_rule \<Rightarrow> error + rule_result" where
  "eval_low_disk rt cfg disks rule =
     map_result (\<lambda>threshold.
       let low = low_disks threshold disks
       in \<lparr>rr_active = (low \<noteq> []), rr_title = ''Low disk free space'',
           rr_message = int_str (int (length low)) @ '' disk(s) are below '' @ float_repr rt threshold @
             ''% free space.'',
           rr_metadata = [(''threshold_percent'', JFloat threshold), (''disks'', JArr low)]\<rparr>)
     (float_parameter rt (dict_get (alr_parameters rule) ''free_percent''
        (JFloat (alert_low_disk_free_percent cfg))))"

definition high_memory_result :: "runtime \<Rightarrow> real \<Rightarrow> bool \<Rightarrow> real option \<Rightarrow> rule_result" where
  "high_memory_result rt threshold active percent =
     \<lparr>rr_active = active, rr_title = ''High memory usage'',
      rr_message = (case percent of
          None \<Rightarrow> ''Memory usage high.''
        | Some p \<Rightarrow>
            if p = 0 then ''Memory usage high.''
            else ''Memory usage is '' @ float_repr rt p @ ''% and exceeds '' @ float_repr rt threshold @ ''%.''),
      rr_metadata = [(''used_percent'', case percent of None \<Rightarrow> JNull | Some p \<Rightarrow> JFloat p),
                     (''threshold_percent'', JFloat threshold)]\<rparr>"

definition eval_high_memory ::
  "runtime \<Rightarrow> settings \<Rightarrow> json_dict \<Rightarrow> alert_rule \<Rightarrow> error + rule_result" where
  "eval_high_memory rt cfg payload rule =
     (case float_parameter rt (dict_get (alr_parameters rule) ''used_percent''
             (JFloat (alert_high_memory_percent cfg))) of
        Inl e \<Rightarrow> Inl e
      | Inr threshold \<Rightarrow>
          let total = dict_get payload ''memory_total_bytes'' JNull;
              used = dict_get payload ''memory_used_bytes'' JNull
          in if \<not> truthy total \<or> used = JNull then Inr (high_memory_result rt threshold False None)
             else (case json_number total of
                     None \<Rightarrow> Inl (TypeError ''memory_total_bytes'')
                   | Some t \<Rightarrow>
                       if t \<le> 0 then Inr (high_memory_result rt threshold False None)
                       else (case json_number used of
                               None \<Rightarrow> Inl (TypeError ''memory_used_bytes'')
                             | Some u \<Rightarrow> Inr (high_memory_result rt threshold (u / t * 100 > threshold)
                                                (Some (round2 (u / t * 100)))))))"

definition eval_bool_false :: "bool option \<Rightarrow> string \<Rightarrow> string \<Rightarrow> rule_result" where
  "eval_bool_false v title message =
     \<lparr>rr_active = (v = Some False), rr_title = title, rr_message = message,
      rr_metadata = [(''reported_value'', json_bool v)]\<rparr>"

definition eval_bool_true :: "bool option \<Rightarrow> string \<Rightarrow> string \<Rightarrow> rule_result" where
  "eval_bool_true v title message =
     \<lparr>rr_active = (v = Some True), rr_title = title, rr_message = message,
      rr_metadata = [(''reported_value'', json_bool v)]\<rparr>"

definition eval_updates_stale ::
  "settings \<Rightarrow> update_status option \<Rightarrow> alert_rule \<Rightarrow> datetime \<Rightarrow> error + rule_result" where
  "eval_updates_stale cfg updates rule now =
     map_result (\<lambda>days.
       case updates of
         None \<Rightarrow> \<lparr>rr_active = False, rr_title = ''Windows updates stale'',
                  rr_message = ''No update status reported.'', rr_metadata = []\<rparr>
       | Some u \<Rightarrow>
           let explicit_stale = (ups_update_status u = Some ''stale'' \<or>
                                 ups_update_status u = Some ''updates_stale'');
               stale_by_time = (case ups_last_update_check_at u of
                   None \<Rightarrow> False
                 | Some last_check \<Rightarrow> last_check < now - timedelta_days days)
           in \<lparr>rr_active = (explicit_stale \<or> stale_by_time), rr_title = ''Windows updates stale'',
               rr_message = ''Windows update status is stale for more than '' @ int_str days @ '' days.'',
               rr_metadata = [(''stale_days'', JInt days),
                              (''update_status'', json_text (ups_update_status u))]\<rparr>)
     (int_parameter (dict_get (alr_parameters rule) ''stale_days''
        (JInt (alert_windows_update_stale_days cfg))))"

definition eval_agent_version :: "runtime \<Rightarrow> settings \<Rightarrow> device \<Rightarrow> alert_rule \<Rightarrow> rule_result" where
  "eval_agent_version rt cfg device rule =
     (let current = py_str (float_repr rt) (dict_get (alr_parameters rule) ''current_version''
                      (JStr (current_agent_version cfg)));
          active = (case dev_agent_version device of
              None \<Rightarrow> False
            | Some v \<Rightarrow> v \<noteq> [] \<and> v \<noteq> current);
          shown = (case dev_agent_version device of
              None \<Rightarrow> ''unknown''
            | Some v \<Rightarrow> if v = [] then ''unknown'' else v)
      in \<lparr>rr_active = active, rr_title = ''Agent version outdated'',
          rr_message = ''Agent version '' @ shown @ '' is not '' @ current @ ''.'',
          rr_metadata = [(''current_version'', JStr current),
                         (''agent_version'', json_text (dev_agent_version device))]\<rparr>)"

definition eval_inventory_stale ::
  "settings \<Rightarrow> device_inventory option \<Rightarrow> alert_rule \<Rightarrow> datetime \<Rightarrow> error + rule_result" where
  "eval_inventory_stale cfg inventory rule now =
     map_result (\<lambda>hours.
       let refreshed = map_option inv_inventory_refreshed_at inventory;
           active = (case refreshed of None \<Rightarrow> True | Some r \<Rightarrow> r < now - timedelta_hours hours)
       in \<lparr>rr_active = active, rr_title = ''Inventory not refreshed recently'',
           rr_message = ''Inventory has not refreshed within '' @ int_str hours @ '' hours.'',
           rr_metadata = [(''stale_hours'', JInt hours),
                          (''inventory_refreshed_at'', JStr (datetime_str refreshed))]\<rparr>)
     (int_parameter (dict_get (alr_parameters rule) ''stale_hours''
        (JInt (alert_inventory_stale_hours cfg))))"

text \<open>
  The dictionary of results, in its order; the first evaluation that raises ends it, and a
  missing rule would be a KeyError.
\<close>

fun collect_results :: "(string \<times> (error + rule_result)) list \<Rightarrow> error + (string \<times> rule_result) list" where
  "collect_results [] = Inr []"
| "collect_results ((key, r) # rs) =
     (case r of Inl e \<Rightarrow> Inl e | Inr res \<Rightarrow> map_result (\<lambda>ys. (key, res) # ys) (collect_results rs))"

definition with_rule ::
  "(string \<rightharpoonup> alert_rule) \<Rightarrow> string \<Rightarrow> (alert_rule \<Rightarrow> error + rule_result) \<Rightarrow> string \<times> (error + rule_result)" where
  "with_rule rules key f = (key, case rules key of None \<Rightarrow> Inl (KeyError key) | Some rule \<Rightarrow> f rule)"

definition rule_results ::
  "runtime \<Rightarrow> settings \<Rightarrow> datetime \<Rightarrow> device \<Rightarrow> json_dict \<Rightarrow> (string \<rightharpoonup> alert_rule) \<Rightarrow>
   device_inventory option \<Rightarrow> disk_inventory list \<Rightarrow> security_status option \<Rightarrow>
   update_status option \<Rightarrow> error + (string \<times> rule_result) list" where
  "rule_results rt cfg now device payload rules inventory disks security updates =
     collect_results
      [with_rule rules ''device_offline'' (\<lambda>rule. eval_offline cfg device rule now),
       with_rule rules ''low_disk_free_space'' (eval_low_disk rt cfg disks),
       with_rule rules ''high_memory_usage'' (eval_high_memory rt cfg payload),
       (''defender_disabled'', Inr (eval_bool_false (Option.bind security sec_defender_enabled)
          ''Windows Defender disabled'' ''Windows Defender is disabled or unhealthy.'')),
       (''firewall_disabled'', Inr (eval_bool_false (Option.bind security sec_firewall_enabled)
          ''Firewall disabled'' ''Endpoint firewall is disabled.'')),
       (''pending_reboot'', Inr (eval_bool_true (Option.bind updates ups_pending_reboot)
          ''Pending reboot'' ''Endpoint reports a pending reboot.'')),
       with_rule rules ''windows_updates_stale'' (\<lambda>rule. eval_updates_stale cfg updates rule now),
       with_rule rules ''agent_version_outdated'' (\<lambda>rule. Inr (eval_agent_version rt cfg device rule)),
       with_rule rules ''inventory_not_refreshed'' (\<lambda>rule. eval_inventory_stale cfg inventory rule now)]"

subsection \<open>Applying the results\<close>

definition add_alert_event :: "datetime \<Rightarrow> alert \<Rightarrow> string \<Rightarrow> string \<Rightarrow> json_dict \<Rightarrow> unit db_op" where
  "add_alert_event now a event_type message metadata =
     andThen (insert_row alert_events_update (\<lambda>i.
       \<lparr>ale_id = i, ale_organization_id = alt_organization_id a, ale_alert_id = alt_id a,
        ale_event_type = event_type, ale_message = message, ale_metadata_json = metadata,
        ale_created_at = now\<rparr>)) (\<lambda>_. ret ())"

definition open_alert :: "uuid \<Rightarrow> uuid \<Rightarrow> alert \<Rightarrow> bool" where
  "open_alert device_id rule_id a \<longleftrightarrow> alt_device_id a = device_id \<and> alt_rule_id a = rule_id \<and>
     alt_status a \<in> {''active'', ''acknowledged''}"

definition new_alert :: "datetime \<Rightarrow> device \<Rightarrow> alert_rule \<Rightarrow> rule_result \<Rightarrow> uuid \<Rightarrow> alert" where
  "new_alert now device rule result i =
     \<lparr>alt_id = i, alt_organization_id = dev_organization_id device, alt_device_id = dev_id device,
      alt_rule_id = alr_id rule, alt_severity = alr_severity rule, alt_status = ''active'',
      alt_title = rr_title result, alt_message = rr_message result, alt_first_seen_at = now,
      alt_last_seen_at = now, alt_acknowledged_at = None, alt_resolved_at = None,
      alt_created_at = now\<rparr>"

definition apply_result :: "datetime \<Rightarrow> device \<Rightarrow> alert_rule \<Rightarrow> rule_result \<Rightarrow> unit db_op" where
  "apply_result now device rule result =
     andThen (gets (db_scalar alerts alt_id (open_alert (dev_id device) (alr_id rule)))) (\<lambda>found.
     if rr_active result then
       (case found of
          None \<Rightarrow>
            andThen (insert_row alerts_update (new_alert now device rule result)) (\<lambda>a.
            andThen db_flush (\<lambda>_.
            andThen (add_alert_event now a ''created'' (rr_message result) (rr_metadata result)) (\<lambda>_.
            enqueue_alert_notifications now a)))
        | Some a0 \<Rightarrow>
            let a = a0\<lparr>alt_last_seen_at := now, alt_message := rr_message result\<rparr> in
            andThen (put_row alerts_update alt_id a) (\<lambda>_.
            add_alert_event now a ''repeated'' (rr_message result) (rr_metadata result)))
     else
       (case found of
          None \<Rightarrow> ret ()
        | Some a0 \<Rightarrow>
            let a = a0\<lparr>alt_status := ''resolved'', alt_resolved_at := Some now,
                       alt_last_seen_at := now\<rparr> in
            andThen (put_row alerts_update alt_id a) (\<lambda>_.
            add_alert_event now a ''resolved'' ''Alert condition cleared automatically.''
              (rr_metadata result))))"

definition apply_keyed_result ::
  "datetime \<Rightarrow> device \<Rightarrow> (string \<rightharpoonup> alert_rule) \<Rightarrow> string \<times> rule_result \<Rightarrow> unit db_op" where
  "apply_keyed_result now device rules kr =
     andThen (require_some (KeyError (fst kr)) (rules (fst kr))) (\<lambda>rule.
     if alr_enabled rule then apply_result now device rule (snd kr) else ret ())"

definition evaluate_device_alerts ::
  "runtime \<Rightarrow> settings \<Rightarrow> datetime \<Rightarrow> device \<Rightarrow> json_dict \<Rightarrow> unit db_op" where
  "evaluate_device_alerts rt cfg now device checkin_payload =
     andThen (ensure_default_alert_rules cfg now (dev_organization_id device)) (\<lambda>rules.
     andThen (gets (db_scalar device_inventories inv_id (\<lambda>i. inv_device_id i = dev_id device))) (\<lambda>inventory.
     andThen (gets (db_select disk_inventories dsk_id (\<lambda>d. dsk_device_id d = dev_id device))) (\<lambda>disks.
     andThen (gets (db_scalar security_statuses sec_id (\<lambda>x. sec_device_id x = dev_id device))) (\<lambda>security.
     andThen (gets (db_scalar update_statuses ups_id (\<lambda>x. ups_device_id x = dev_id device))) (\<lambda>updates.
     andThen (lift_sum (rule_results rt cfg now device checkin_payload rules inventory disks security updates))
       (\<lambda>results. for_each results (apply_keyed_result now device rules)))))))"


subsection \<open>The default rules are complete\<close>

lemma rules_by_key_snoc: "rules_by_key (rows @ [r]) = (rules_by_key rows)(alr_rule_key r \<mapsto> r)"
  by (simp add: rules_by_key_def)

lemma rules_by_key_SomeD: "rules_by_key rows key = Some r \<Longrightarrow> r \<in> set rows \<and> alr_rule_key r = key"
  by (induction rows rule: rev_induct)
    (auto simp: rules_by_key_snoc rules_by_key_def[of "[]"] split: if_splits)

lemma rules_by_key_None: "rules_by_key rows key = None \<longleftrightarrow> key \<notin> alr_rule_key ` set rows"
  by (induction rows rule: rev_induct) (auto simp: rules_by_key_snoc rules_by_key_def[of "[]"])

definition missing_keys :: "settings \<Rightarrow> alert_rule list \<Rightarrow> string list" where
  "missing_keys cfg rows = filter (\<lambda>key. key \<notin> alr_rule_key ` set rows) (map rd_key (default_rule_definitions cfg))"

lemma default_keys:
  "map rd_key (default_rule_definitions cfg) =
     [''device_offline'', ''low_disk_free_space'', ''high_memory_usage'', ''defender_disabled'',
      ''firewall_disabled'', ''pending_reboot'', ''windows_updates_stale'',
      ''agent_version_outdated'', ''inventory_not_refreshed'']"
  by (simp add: default_rule_definitions_def)

lemma default_keys_distinct: "distinct (map rd_key (default_rule_definitions cfg))"
  unfolding default_keys by simp

definition rules_added :: "alert_rule list \<Rightarrow> session \<Rightarrow> session \<Rightarrow> bool" where
  "rules_added new s s' \<longleftrightarrow> live s' = alert_rules_update (\<lambda>rs. rs @ new) (live s) \<and>
     flushed s' = (if new = [] then flushed s else live s') \<and> durable s' = durable s \<and>
     (new = [] \<longrightarrow> s' = s)"

lemma add_missing_run:
  assumes "unique_ok (live s)" and "distinct (map rd_key ds)"
  shows "\<exists>s' new. add_missing_rules now o' ds (rules_by_key rows) s = (Inr (rules_by_key (rows @ new)), s') \<and>
     rules_added new s s' \<and> list_all (\<lambda>r. alr_organization_id r = o' \<and> alr_enabled r) new \<and>
     map alr_rule_key new = filter (\<lambda>key. key \<notin> alr_rule_key ` set rows) (map rd_key ds)"
  using assms
proof (induction ds arbitrary: rows s)
  case Nil
  then show ?case by (intro exI[of _ s] exI[of _ "[]"]) (simp add: rules_added_def)
next
  case (Cons d ds)
  show ?case
  proof (cases "rules_by_key rows (rd_key d) = None")
    case False
    with Cons.IH[OF Cons.prems(1), of rows] Cons.prems(2) show ?thesis
      by (simp add: rules_by_key_None)
  next
    case True
    let ?r = "new_alert_rule now o' d (next_id s)"
    let ?live = "alert_rules_update (\<lambda>rs. rs @ [?r]) (live s)"
    let ?s = "s\<lparr>live := ?live, next_id := Suc (next_id s), flushed := ?live\<rparr>"
    have key: "alr_rule_key ?r = rd_key d" "alr_organization_id ?r = o'" "alr_enabled ?r"
      by (simp_all add: new_alert_rule_def)
    have unique: "unique_ok ?live" using Cons.prems(1) by (simp add: unique_ok_def)
    have step: "add_missing_rules now o' (d # ds) (rules_by_key rows) s =
        add_missing_rules now o' ds (rules_by_key (rows @ [?r])) ?s"
      using True unique key by (simp add: insert_row_def andThen_run db_flush_def rules_by_key_snoc)
    obtain s' new where rest: "add_missing_rules now o' ds (rules_by_key (rows @ [?r])) ?s =
        (Inr (rules_by_key ((rows @ [?r]) @ new)), s')" "rules_added new ?s s'"
      "list_all (\<lambda>r. alr_organization_id r = o' \<and> alr_enabled r) new"
      "map alr_rule_key new = filter (\<lambda>key. key \<notin> alr_rule_key ` set (rows @ [?r])) (map rd_key ds)"
      using Cons.IH[of ?s "rows @ [?r]"] unique Cons.prems(2) by (auto simp: rules_added_def)
    have added: "rules_added (?r # new) s s'"
      using rest(2) by (auto simp: rules_added_def)
    have "filter (\<lambda>k. k \<notin> alr_rule_key ` set (rows @ [?r])) (map rd_key ds) =
        filter (\<lambda>k. k \<notin> alr_rule_key ` set rows) (map rd_key ds)"
      using Cons.prems(2) key by (intro filter_cong) (auto, metis imageI)
    then have "map alr_rule_key (?r # new) = filter (\<lambda>k. k \<notin> alr_rule_key ` set rows) (map rd_key (d # ds))"
      using rest(4) True key by (simp add: rules_by_key_None)
    with rest(1,3) added key step show ?thesis
      by (intro exI[of _ s'] exI[of _ "?r # new"]) simp
  qed
qed


lemma wf_rules [keeps_intro]:
  "keeps wf_session (add_missing_rules now o' ds existing)"
proof (induction ds arbitrary: existing)
  case Nil
  show ?case by (simp only: add_missing_rules.simps keeps_ret)
next
  case (Cons d ds)
  show ?case
    by (simp only: add_missing_rules.simps)
      (intro keeps_intro alert_rules_tbl.insert_wf Cons.IH; simp add: new_alert_rule_def)
qed

lemma wf_ensure [keeps_intro]: "keeps wf_session (ensure_default_alert_rules cfg now o')"
  unfolding ensure_default_alert_rules_def by (intro keeps_intro)

lemma wf_session_distinct:
  "wf_session s \<Longrightarrow> distinct (map alr_id (alert_rules (live s)))"
  "wf_session s \<Longrightarrow> distinct (map alt_id (alerts (live s)))"
  by (simp_all add: wf_session_def ids_ok_def keys_ok_def)

definition org_rules :: "uuid \<Rightarrow> store \<Rightarrow> alert_rule list" where
  "org_rules o' st = filter (\<lambda>r. alr_organization_id r = o') (alert_rules st)"

lemma ensure_run:
  assumes "wf_session s" and "synced s" and "unique_ok (live s)"
  shows "\<exists>s' new. ensure_default_alert_rules cfg now o' s = (Inr (rules_by_key (org_rules o' (live s'))), s') \<and>
     rules_added new s s' \<and> wf_session s' \<and> synced s' \<and> unique_ok (live s') \<and>
     list_all (\<lambda>r. alr_organization_id r = o' \<and> alr_enabled r) new \<and>
     map alr_rule_key new = missing_keys cfg (org_rules o' (live s))"
proof -
  let ?rows = "org_rules o' (live s)"
  have sel: "db_select alert_rules alr_id (\<lambda>rule. alr_organization_id rule = o') s = ?rows"
    unfolding org_rules_def
    by (rule alert_rules_tbl.select_synced[OF assms(2) wf_session_distinct(1)[OF assms(1)]])
  obtain s' new where run: "add_missing_rules now o' (default_rule_definitions cfg) (rules_by_key ?rows) s =
      (Inr (rules_by_key (?rows @ new)), s')" "rules_added new s s'"
    "list_all (\<lambda>r. alr_organization_id r = o' \<and> alr_enabled r) new"
    "map alr_rule_key new = filter (\<lambda>key. key \<notin> alr_rule_key ` set ?rows) (map rd_key (default_rule_definitions cfg))"
    using add_missing_run[OF assms(3) default_keys_distinct] by blast
  have "org_rules o' (live s') = ?rows @ new"
    using run(2,3) by (simp add: org_rules_def rules_added_def list_all_iff)
  moreover have ensure: "ensure_default_alert_rules cfg now o' s = (Inr (rules_by_key (?rows @ new)), s')"
    by (simp add: ensure_default_alert_rules_def sel run(1))
  moreover have "wf_session s'" using keeps_runD[OF wf_ensure assms(1) ensure] .
  moreover have "synced s'" "unique_ok (live s')"
    using run(2) assms(2,3) by (auto simp: rules_added_def synced_def unique_ok_def)
  ultimately show ?thesis using run(2-4) by (auto simp: missing_keys_def)
qed

lemma ensured_keys:
  assumes "alert_rules (live s') = alert_rules (live s) @ new"
    and "list_all (\<lambda>r. alr_organization_id r = o' \<and> alr_enabled r) new"
    and "map alr_rule_key new = missing_keys cfg (org_rules o' (live s))"
    and "key \<in> rd_key ` set (default_rule_definitions cfg)"
  shows "\<exists>r \<in> set (org_rules o' (live s')). alr_rule_key r = key \<and>
    rules_by_key (org_rules o' (live s')) key = Some r"
proof -
  have "org_rules o' (live s') = org_rules o' (live s) @ new"
    using assms(1,2) by (simp add: org_rules_def list_all_iff)
  moreover have "key \<in> alr_rule_key ` set (org_rules o' (live s)) \<or> key \<in> set (map alr_rule_key new)"
    unfolding assms(3) using assms(4) by (auto simp: missing_keys_def)
  ultimately have "key \<in> alr_rule_key ` set (org_rules o' (live s'))" by auto
  then obtain r where "rules_by_key (org_rules o' (live s')) key = Some r"
    using rules_by_key_None[of "org_rules o' (live s')" key] by auto
  with rules_by_key_SomeD[OF this] show ?thesis by blast
qed




subsection \<open>An evaluation reconciles the alerts of the device\<close>

definition concerns :: "uuid \<Rightarrow> uuid \<Rightarrow> alert \<Rightarrow> bool" where
  "concerns device_id rule_id a \<longleftrightarrow> alt_device_id a = device_id \<and> alt_rule_id a = rule_id"

text \<open>What one result does to the list of alerts.\<close>

definition settled :: "datetime \<Rightarrow> rule_result \<Rightarrow> alert \<Rightarrow> alert" where
  "settled now result a =
     (if rr_active result then a\<lparr>alt_last_seen_at := now, alt_message := rr_message result\<rparr>
      else a\<lparr>alt_status := ''resolved'', alt_resolved_at := Some now, alt_last_seen_at := now\<rparr>)"

definition reconcile ::
  "datetime \<Rightarrow> device \<Rightarrow> alert_rule \<Rightarrow> rule_result \<Rightarrow> uuid \<Rightarrow> alert list \<Rightarrow> alert list" where
  "reconcile now device rule result i rows =
     (case List.find (open_alert (dev_id device) (alr_id rule)) rows of
        None \<Rightarrow> if rr_active result then rows @ [new_alert now device rule result i] else rows
      | Some a \<Rightarrow> map (\<lambda>x. if alt_id x = alt_id a then settled now result a else x) rows)"

lemma settled_simps [simp]:
  "alt_id (settled now result a) = alt_id a"
  "concerns d r (settled now result a) = concerns d r a"
  "open_alert d r (settled now result a) \<longleftrightarrow> rr_active result \<and> open_alert d r a"
  by (simp_all add: settled_def concerns_def open_alert_def)

lemma new_alert_simps [simp]:
  "alt_id (new_alert now device rule result i) = i"
  "concerns d r (new_alert now device rule result i) \<longleftrightarrow> d = dev_id device \<and> r = alr_id rule"
  "open_alert d r (new_alert now device rule result i) \<longleftrightarrow> d = dev_id device \<and> r = alr_id rule"
  by (auto simp: new_alert_def concerns_def open_alert_def)

lemma open_concerns: "open_alert d r a \<Longrightarrow> concerns d r a"
  by (simp add: open_alert_def concerns_def)

lemma find_open_concerns:
  "List.find (open_alert d r) (filter (concerns d r) rows) = List.find (open_alert d r) rows"
proof -
  have "(\<lambda>a. concerns d r a \<and> open_alert d r a) = open_alert d r" using open_concerns by blast
  then show ?thesis by (simp add: find_filter)
qed

lemma filter_open_concerns:
  "filter (open_alert d r) rows = filter (open_alert d r) (filter (concerns d r) rows)"
  by (auto intro!: filter_cong dest: open_concerns)

definition aligned :: "session \<Rightarrow> uuid \<Rightarrow> uuid \<Rightarrow> bool" where
  "aligned s d r \<longleftrightarrow> filter (concerns d r) (alerts (flushed s)) = filter (concerns d r) (alerts (live s))"

lemma scalar_aligned:
  assumes "wf_session s" and "aligned s d r"
  shows "db_scalar alerts alt_id (open_alert d r) s = List.find (open_alert d r) (alerts (live s))"
proof -
  let ?found = "List.find (open_alert d r)"
  have same: "?found (alerts (flushed s)) = ?found (alerts (live s))"
    using find_open_concerns[of d r "alerts (flushed s)"] find_open_concerns[of d r "alerts (live s)"]
      assms(2) by (simp add: aligned_def)
  show ?thesis
  proof (cases "?found (alerts (live s))")
    case None
    then show ?thesis by (simp add: db_scalar_def same)
  next
    case (Some a)
    then have "a \<in> set (alerts (live s))" by (simp add: find_SomeD)
    then have "live_row alerts alt_id s a = a"
      using find_Some_iff_distinct[OF wf_session_distinct(2)[OF assms(1)], of "alt_id a" a]
      by (simp add: live_row_def)
    with Some show ?thesis by (simp add: db_scalar_def same)
  qed
qed

lemma quiet_alert_event [intro]: "quiet (add_alert_event now a e m d)"
  unfolding add_alert_event_def by (intro quiet_insert quiet_ret) simp

lemma core_alerts: "core (alerts_update f st) = alerts_update f (core st)"
  by (simp add: core_def)

text \<open>What a call on one result does: it reconciles the alerts, and only adds to the logs.\<close>

definition reconciled ::
  "datetime \<Rightarrow> device \<Rightarrow> alert_rule \<Rightarrow> rule_result \<Rightarrow> session \<Rightarrow> session \<Rightarrow> bool" where
  "reconciled now device rule result s s' \<longleftrightarrow>
     core (live s') = alerts_update (reconcile now device rule result (next_id s)) (core (live s)) \<and>
     (flushed s' = flushed s \<or> alerts (flushed s') = alerts (live s')) \<and> durable s' = durable s"

lemma apply_result_opens:
  assumes "unique_ok (live s)" and None: "List.find (open_alert (dev_id device) (alr_id rule)) (alerts (live s)) = None"
    and query: "db_scalar alerts alt_id (open_alert (dev_id device) (alr_id rule)) s = None" and True: "rr_active result"
  shows "\<exists>s'. apply_result now device rule result s = (Inr (), s') \<and> reconciled now device rule result s s'"
proof -
  let ?a = "new_alert now device rule result (next_id s)"
  let ?live = "alerts_update (\<lambda>rs. rs @ [?a]) (live s)"
  let ?s = "s\<lparr>live := ?live, next_id := Suc (next_id s), flushed := ?live\<rparr>"
  have "quiet (andThen (add_alert_event now ?a ''created'' (rr_message result) (rr_metadata result))
          (\<lambda>_. enqueue_alert_notifications now ?a))" by auto
  then obtain s' where s': "andThen (add_alert_event now ?a ''created'' (rr_message result) (rr_metadata result))
          (\<lambda>_. enqueue_alert_notifications now ?a) ?s = (Inr (), s')" "core (live s') = core ?live"
    "flushed s' = ?live" "durable s' = durable s"
    by (rule quietD[where s = ?s]) simp_all
  have "unique_ok ?live" using assms(1) by (simp add: unique_ok_def)
  then have "apply_result now device rule result s = (Inr (), s')"
    using True s'(1) by (simp add: apply_result_def query insert_row_def andThen_run db_flush_def)
  moreover have "core (live s') = alerts_update (reconcile now device rule result (next_id s)) (core (live s))"
    using None True s'(2) by (simp add: core_alerts reconcile_def cong: store.unfold_congs)
  moreover have "alerts (flushed s') = alerts (live s')" using s'(2,3) core_tables(15)[of "live s'" ?live] by simp
  ultimately show ?thesis using s'(4) by (auto simp: reconciled_def)
qed

lemma apply_result_settles:
  assumes Some: "List.find (open_alert (dev_id device) (alr_id rule)) (alerts (live s)) = Some a0"
    and query: "db_scalar alerts alt_id (open_alert (dev_id device) (alr_id rule)) s = Some a0"
  shows "\<exists>s'. apply_result now device rule result s = (Inr (), s') \<and> reconciled now device rule result s s'"
proof -
  let ?a = "settled now result a0"
  let ?ev = "if rr_active result
             then add_alert_event now ?a ''repeated'' (rr_message result) (rr_metadata result)
             else add_alert_event now ?a ''resolved'' ''Alert condition cleared automatically.'' (rr_metadata result)"
  let ?live = "alerts_update (map (\<lambda>x. if alt_id x = alt_id a0 then ?a else x)) (live s)"
  have "quiet ?ev" by auto
  then obtain s' where s': "?ev (s\<lparr>live := ?live\<rparr>) = (Inr (), s')" "core (live s') = core ?live"
    "flushed s' = flushed s" "durable s' = durable s"
    by (rule quietD[where s = "s\<lparr>live := ?live\<rparr>"]) simp_all
  have "apply_result now device rule result s = (Inr (), s')"
    using s'(1) by (cases "rr_active result")
      (simp_all add: apply_result_def query put_row_def settled_def Let_def cong: if_cong)
  moreover have "core (live s') = alerts_update (reconcile now device rule result (next_id s)) (core (live s))"
    using Some s'(2) by (simp add: core_alerts reconcile_def cong: store.unfold_congs)
  ultimately show ?thesis using s'(3,4) by (auto simp: reconciled_def)
qed

lemma apply_result_run:
  assumes "wf_session s" and "unique_ok (live s)" and "aligned s (dev_id device) (alr_id rule)"
  shows "\<exists>s'. apply_result now device rule result s = (Inr (), s') \<and>
     core (live s') = alerts_update (reconcile now device rule result (next_id s)) (core (live s)) \<and>
     (flushed s' = flushed s \<or> alerts (flushed s') = alerts (live s')) \<and> durable s' = durable s"
proof (cases "List.find (open_alert (dev_id device) (alr_id rule)) (alerts (live s))")
  case None
  note query = scalar_aligned[OF assms(1,3), unfolded None]
  show ?thesis
  proof (cases "rr_active result")
    case False
    with None show ?thesis
      by (simp add: apply_result_def query reconcile_def core_def cong: store.unfold_congs)
  next
    case True
    from apply_result_opens[OF assms(2) None query True] show ?thesis by (simp add: reconciled_def)
  qed
next
  case (Some a0)
  from apply_result_settles[OF Some scalar_aligned[OF assms(1,3), unfolded Some]]
  show ?thesis by (simp add: reconciled_def)
qed


text \<open>What it means for the rows of a rule: its own are reconciled, all others stay.\<close>

lemma reconcile_own:
  assumes "distinct (map alt_id rows)"
  shows "filter (concerns (dev_id device) (alr_id rule)) (reconcile now device rule result i rows) =
    reconcile now device rule result i (filter (concerns (dev_id device) (alr_id rule)) rows)"
proof (cases "List.find (open_alert (dev_id device) (alr_id rule)) rows")
  case None
  then show ?thesis by (simp add: reconcile_def find_open_concerns)
next
  case (Some a)
  let ?c = "concerns (dev_id device) (alr_id rule)"
  have a: "a \<in> set rows" "?c a" using Some open_concerns by (auto dest!: find_SomeD)
  have "filter ?c (map (\<lambda>x. if alt_id x = alt_id a then settled now result a else x) rs) =
      map (\<lambda>x. if alt_id x = alt_id a then settled now result a else x) (filter ?c rs)"
    if "set rs \<subseteq> set rows" for rs
    using that
  proof (induction rs)
    case (Cons x rs)
    have "alt_id x = alt_id a \<Longrightarrow> x = a"
      using Cons.prems a assms by (auto simp: distinct_map dest: inj_onD)
    with Cons a show ?case by auto
  qed simp
  with Some show ?thesis by (simp add: reconcile_def find_open_concerns)
qed

lemma reconcile_others:
  assumes "distinct (map alt_id rows)"
    and "\<And>a. P a \<Longrightarrow> \<not> concerns (dev_id device) (alr_id rule) a"
  shows "filter P (reconcile now device rule result i rows) = filter P rows"
proof (cases "List.find (open_alert (dev_id device) (alr_id rule)) rows")
  case None
  have "\<not> P (new_alert now device rule result i)" using assms(2) by fastforce
  with None show ?thesis by (simp add: reconcile_def)
next
  case (Some a)
  then have a: "a \<in> set rows" "concerns (dev_id device) (alr_id rule) a"
    using open_concerns by (auto dest!: find_SomeD)
  then have not: "\<not> P (settled now result a)" "\<not> P a"
    using assms(2)[of "settled now result a"] assms(2)[of a] by auto
  have "x = a" if "x \<in> set rows" "alt_id x = alt_id a" for x
    using that a assms(1) by (auto simp: distinct_map dest: inj_onD)
  with not have "filter P (map (\<lambda>x. if alt_id x = alt_id a then settled now result a else x) rows) = filter P rows"
    by (intro filter_map_unchanged) (auto split: if_splits)
  with Some show ?thesis by (simp add: reconcile_def)
qed

definition open_count :: "uuid \<Rightarrow> uuid \<Rightarrow> alert list \<Rightarrow> nat" where
  "open_count d r rows = length (filter (open_alert d r) rows)"

lemma open_count_map_one:
  assumes "distinct (map alt_id rows)" and "a \<in> set rows" and "open_alert d r a"
  shows "open_count d r (map (\<lambda>x. if alt_id x = alt_id a then b else x) rows) =
    open_count d r rows - 1 + (if open_alert d r b then 1 else 0)"
proof -
  have same: "x = a" if "x \<in> set rows" "alt_id x = alt_id a" for x
    using that assms(1,2) by (auto simp: distinct_map dest: inj_onD)
  obtain us vs where rows: "rows = us @ a # vs" using assms(2) by (meson split_list)
  have "alt_id a \<notin> alt_id ` (set us \<union> set vs)" using assms(1) by (auto simp: rows)
  then have "alt_id x \<noteq> alt_id a" if "x \<in> set us \<union> set vs" for x
    using that by (metis imageI)
  then have "map (\<lambda>x. if alt_id x = alt_id a then b else x) us = us"
    "map (\<lambda>x. if alt_id x = alt_id a then b else x) vs = vs"
    by (auto intro: map_idI)
  then show ?thesis using assms(3) by (simp add: open_count_def rows)
qed

lemma reconcile_open_count:
  assumes "distinct (map alt_id rows)" and "open_count (dev_id device) (alr_id rule) rows \<le> 1"
  shows "open_count (dev_id device) (alr_id rule) (reconcile now device rule result i rows) =
    (if rr_active result then 1 else 0)"
proof (cases "List.find (open_alert (dev_id device) (alr_id rule)) rows")
  case None
  then have "open_count (dev_id device) (alr_id rule) rows = 0"
    by (simp add: open_count_def find_None_iff filter_empty_conv)
  with None show ?thesis by (simp add: reconcile_def open_count_def)
next
  case (Some a)
  then have a: "a \<in> set rows" "open_alert (dev_id device) (alr_id rule) a" by (auto dest: find_SomeD)
  then have "a \<in> set (filter (open_alert (dev_id device) (alr_id rule)) rows)" by simp
  then have "0 < open_count (dev_id device) (alr_id rule) rows"
    unfolding open_count_def by (rule length_pos_if_in_set)
  with assms(2) have "open_count (dev_id device) (alr_id rule) rows = 1" by simp
  with Some a show ?thesis
    by (simp add: reconcile_def open_count_map_one[OF assms(1) a])
qed

lemma open_count_cong:
  assumes "filter (concerns d r) rows = filter (concerns d r) rows'"
  shows "open_count d r rows = open_count d r rows'"
  using assms filter_open_concerns[of d r rows] filter_open_concerns[of d r rows']
  unfolding open_count_def by (metis (no_types))


lemma wf_notifications [keeps_intro]:
  "keeps wf_session (notification_audit now o' a' ty i d)"
  "keeps wf_session (enqueue_channel now a c)"
  "keeps wf_session (enqueue_alert_notifications now a)"
proof -
  show audit: "keeps wf_session (notification_audit now o' a' ty i d)" for o' a' ty i d
    unfolding notification_audit_def by (intro keeps_intro audit_logs_tbl.insert_wf; simp)
  show channel: "keeps wf_session (enqueue_channel now a c)" for c
    unfolding enqueue_channel_def get_enabled_channel_def
    by (intro keeps_intro audit notification_deliveries_tbl.insert_wf; simp add: new_delivery_def)
  show "keeps wf_session (enqueue_alert_notifications now a)"
    unfolding enqueue_alert_notifications_def by (intro keeps_intro channel)
qed

lemma wf_alerts [keeps_intro]:
  "keeps wf_session (add_alert_event now a e m d)"
  "keeps wf_session (apply_result now device rule result)"
  "keeps wf_session (apply_keyed_result now device rules kr)"
proof -
  show event: "keeps wf_session (add_alert_event now a e m d)" for a e m d
    unfolding add_alert_event_def by (intro keeps_intro alert_events_tbl.insert_wf; simp)
  show res: "keeps wf_session (apply_result now device rule result)" for rule result
    unfolding apply_result_def Let_def
    by (intro keeps_intro event alerts_tbl.insert_wf alerts_tbl.put_wf; simp add: new_alert_def)
  show "keeps wf_session (apply_keyed_result now device rules kr)"
    unfolding apply_keyed_result_def by (intro keeps_intro res)
qed

lemma wf_evaluate [keeps_intro]: "keeps wf_session (evaluate_device_alerts rt cfg now device payload)"
  unfolding evaluate_device_alerts_def by (intro keeps_intro)

text \<open>One result of the loop, for an enabled rule or a disabled one.\<close>

definition keyed_rule :: "(string \<rightharpoonup> alert_rule) \<Rightarrow> string \<times> rule_result \<Rightarrow> alert_rule" where
  "keyed_rule rules kr = the (rules (fst kr))"

lemma apply_keyed_run:
  assumes "wf_session s" and "unique_ok (live s)" and "rules (fst kr) \<noteq> None"
    and "aligned s (dev_id device) (alr_id (keyed_rule rules kr))"
  shows "\<exists>s'. apply_keyed_result now device rules kr s = (Inr (), s') \<and>
     wf_session s' \<and> unique_ok (live s') \<and> durable s' = durable s \<and>
     core (live s') = alerts_update (if alr_enabled (keyed_rule rules kr)
       then reconcile now device (keyed_rule rules kr) (snd kr) (next_id s) else (\<lambda>rows. rows)) (core (live s)) \<and>
     (flushed s' = flushed s \<or> alerts (flushed s') = alerts (live s'))"
proof -
  obtain rule where rule: "rules (fst kr) = Some rule" "keyed_rule rules kr = rule"
    using assms(3) by (auto simp: keyed_rule_def)
  show ?thesis
  proof (cases "alr_enabled rule")
    case False
    with assms rule show ?thesis by (simp add: apply_keyed_result_def)
  next
    case True
    obtain s' where s': "apply_result now device rule (snd kr) s = (Inr (), s')"
      "core (live s') = alerts_update (reconcile now device rule (snd kr) (next_id s)) (core (live s))"
      "flushed s' = flushed s \<or> alerts (flushed s') = alerts (live s')" "durable s' = durable s"
      using apply_result_run[OF assms(1,2), of device rule] assms(4) rule(2) by blast
    moreover have "apply_keyed_result now device rules kr s = (Inr (), s')"
      using rule True s'(1) by (simp add: apply_keyed_result_def)
    moreover have "wf_session s'" using keeps_runD[OF wf_alerts(2) assms(1) s'(1)] .
    moreover have "unique_ok (live s')"
      using s'(2) assms(2) unique_core[of "live s'"] unique_core[of "live s"] by (simp add: unique_ok_def)
    ultimately show ?thesis using rule True by simp
  qed
qed


definition settled_count :: "(string \<rightharpoonup> alert_rule) \<Rightarrow> string \<times> rule_result \<Rightarrow> nat \<Rightarrow> nat" where
  "settled_count rules kr n =
     (if \<not> alr_enabled (keyed_rule rules kr) then n else if rr_active (snd kr) then 1 else 0)"

text \<open>
  What the loop does to the rows of alerts: those that concern none of the rules stay, and
  each rule that had at most one open alert is settled.
\<close>

definition settles ::
  "(string \<rightharpoonup> alert_rule) \<Rightarrow> uuid \<Rightarrow> (string \<times> rule_result) list \<Rightarrow> alert list \<Rightarrow> alert list \<Rightarrow> bool" where
  "settles rules d results rows rows' \<longleftrightarrow>
     (\<forall>P. (\<forall>kr \<in> set results. \<forall>a. P a \<longrightarrow> \<not> concerns d (alr_id (keyed_rule rules kr)) a) \<longrightarrow>
        filter P rows' = filter P rows) \<and>
     (\<forall>kr \<in> set results. open_count d (alr_id (keyed_rule rules kr)) rows \<le> 1 \<longrightarrow>
        open_count d (alr_id (keyed_rule rules kr)) rows' =
        settled_count rules kr (open_count d (alr_id (keyed_rule rules kr)) rows))"

lemma settlesD:
  assumes "settles rules d results rows rows'"
  shows "(\<And>kr a. kr \<in> set results \<Longrightarrow> P a \<Longrightarrow> \<not> concerns d (alr_id (keyed_rule rules kr)) a) \<Longrightarrow>
      filter P rows' = filter P rows"
    and "kr \<in> set results \<Longrightarrow> open_count d (alr_id (keyed_rule rules kr)) rows \<le> 1 \<Longrightarrow>
      open_count d (alr_id (keyed_rule rules kr)) rows' =
      settled_count rules kr (open_count d (alr_id (keyed_rule rules kr)) rows)"
  using assms unfolding settles_def by blast+

definition settle_one ::
  "datetime \<Rightarrow> device \<Rightarrow> (string \<rightharpoonup> alert_rule) \<Rightarrow> string \<times> rule_result \<Rightarrow> uuid \<Rightarrow> alert list \<Rightarrow> alert list" where
  "settle_one now device rules kr i =
     (if alr_enabled (keyed_rule rules kr)
      then reconcile now device (keyed_rule rules kr) (snd kr) i else (\<lambda>rows. rows))"

lemma settle_one_others:
  assumes "distinct (map alt_id rows)" and "\<And>a. P a \<Longrightarrow> \<not> concerns (dev_id device) (alr_id (keyed_rule rules kr)) a"
  shows "filter P (settle_one now device rules kr i rows) = filter P rows"
  using reconcile_others[OF assms] by (simp add: settle_one_def)

lemma concerns_differ:
  assumes "distinct (map (\<lambda>kr. alr_id (keyed_rule rules kr)) (kr # results))" and "kr' \<in> set results"
    and "concerns d (alr_id (keyed_rule rules kr')) a"
  shows "\<not> concerns d (alr_id (keyed_rule rules kr)) a"
  using assms by (auto simp: concerns_def) (metis imageI)

lemma settles_Cons:
  assumes dist: "distinct (map alt_id rows)"
    and keys: "distinct (map (\<lambda>kr. alr_id (keyed_rule rules kr)) (kr # results))"
    and rest: "settles rules (dev_id device) results (settle_one now device rules kr i rows) rows'"
  shows "settles rules (dev_id device) (kr # results) rows rows'"
proof -
  let ?d = "dev_id device"
  let ?r = "\<lambda>kr. alr_id (keyed_rule rules kr)"
  let ?rows1 = "settle_one now device rules kr i rows"
  note differ = concerns_differ[OF keys]
  have "filter P rows' = filter P rows"
    if P: "\<forall>k \<in> set (kr # results). \<forall>a. P a \<longrightarrow> \<not> concerns ?d (?r k) a" for P
  proof -
    have "filter P rows' = filter P ?rows1" by (rule settlesD(1)[OF rest]) (use P in auto)
    also have "\<dots> = filter P rows" by (rule settle_one_others[OF dist]) (use P in auto)
    finally show ?thesis .
  qed
  moreover have "open_count ?d (?r k) rows' = settled_count rules k (open_count ?d (?r k) rows)"
    if "k \<in> set (kr # results)" "open_count ?d (?r k) rows \<le> 1" for k
  proof (cases "k \<in> set results")
    case True
    have "open_count ?d (?r k) ?rows1 = open_count ?d (?r k) rows"
      by (rule open_count_cong, rule settle_one_others[OF dist]) (rule differ[OF True])
    then show ?thesis using settlesD(2)[OF rest True] that(2) by simp
  next
    case False
    have "filter (concerns ?d (?r kr)) rows' = filter (concerns ?d (?r kr)) ?rows1"
      by (rule settlesD(1)[OF rest]) (use differ in blast)
    then have "open_count ?d (?r kr) rows' = open_count ?d (?r kr) ?rows1" by (rule open_count_cong)
    with reconcile_open_count[OF dist] that False show ?thesis
      by (auto simp: settle_one_def settled_count_def)
  qed
  ultimately show ?thesis unfolding settles_def by blast
qed

lemma apply_all_run:
  assumes "wf_session s" and "unique_ok (live s)"
    and "\<And>kr. kr \<in> set results \<Longrightarrow> rules (fst kr) \<noteq> None"
    and "distinct (map (\<lambda>kr. alr_id (keyed_rule rules kr)) results)"
    and "\<And>kr. kr \<in> set results \<Longrightarrow> aligned s (dev_id device) (alr_id (keyed_rule rules kr))"
  shows "\<exists>s'. for_each results (apply_keyed_result now device rules) s = (Inr (), s') \<and>
     wf_session s' \<and> unique_ok (live s') \<and> durable s' = durable s \<and>
     core (live s') = alerts_update (\<lambda>_. alerts (live s')) (core (live s)) \<and>
     settles rules (dev_id device) results (alerts (live s)) (alerts (live s'))"
  using assms
proof (induction results arbitrary: s)
  case Nil
  have "core (live s) = alerts_update (\<lambda>_. alerts (live s)) (core (live s))" by (simp add: core_def)
  with Nil show ?case by (simp add: settles_def)
next
  case (Cons kr results)
  let ?d = "dev_id device"
  obtain s1 where s1: "apply_keyed_result now device rules kr s = (Inr (), s1)"
    "wf_session s1" "unique_ok (live s1)" "durable s1 = durable s"
    and core1: "core (live s1) = alerts_update (settle_one now device rules kr (next_id s)) (core (live s))"
    and flushed1: "flushed s1 = flushed s \<or> alerts (flushed s1) = alerts (live s1)"
    using apply_keyed_run[of s rules kr device now] Cons.prems by (auto simp: settle_one_def)
  have alerts1: "alerts (live s1) = settle_one now device rules kr (next_id s) (alerts (live s))"
    using arg_cong[OF core1, of alerts] by simp
  have dist: "distinct (map alt_id (alerts (live s)))" by (rule wf_session_distinct(2)) (rule Cons.prems(1))
  have ali: "aligned s1 ?d (alr_id (keyed_rule rules kr'))" if kr': "kr' \<in> set results" for kr'
  proof -
    have "filter (concerns ?d (alr_id (keyed_rule rules kr'))) (alerts (live s1)) =
        filter (concerns ?d (alr_id (keyed_rule rules kr'))) (alerts (live s))"
      unfolding alerts1 by (rule settle_one_others[OF dist]) (rule concerns_differ[OF Cons.prems(4) kr'])
    then show ?thesis using flushed1 Cons.prems(5)[of kr'] kr' by (auto simp: aligned_def)
  qed
  have "rules (fst k) \<noteq> None" if "k \<in> set results" for k using Cons.prems(3) that by simp
  moreover have "distinct (map (\<lambda>kr. alr_id (keyed_rule rules kr)) results)" using Cons.prems(4) by simp
  ultimately obtain s' where s': "for_each results (apply_keyed_result now device rules) s1 = (Inr (), s')"
    "wf_session s'" "unique_ok (live s')" "durable s' = durable s1"
    "core (live s') = alerts_update (\<lambda>_. alerts (live s')) (core (live s1))"
    and rest: "settles rules ?d results (alerts (live s1)) (alerts (live s'))"
    using Cons.IH[OF s1(2,3)] ali by blast
  have run: "for_each (kr # results) (apply_keyed_result now device rules) s = (Inr (), s')"
    using s1(1) s'(1) by (simp add: andThen_run)
  have core': "core (live s') = alerts_update (\<lambda>_. alerts (live s')) (core (live s))"
    using s'(5) unfolding core1 by (simp only: alerts_tbl.write_write)
  show ?case
    using run s'(2-4) s1(4) core' settles_Cons[OF dist Cons.prems(4) rest[unfolded alerts1]] by metis
qed

definition one_open :: "store \<Rightarrow> bool" where
  "one_open st \<longleftrightarrow> list_all (\<lambda>a. open_count (alt_device_id a) (alt_rule_id a) (alerts st) \<le> 1) (alerts st)"

lemma one_open_iff: "one_open st \<longleftrightarrow> (\<forall>d r. open_count d r (alerts st) \<le> 1)"
proof
  assume one: "one_open st"
  show "\<forall>d r. open_count d r (alerts st) \<le> 1"
  proof (intro allI)
    fix d r
    show "open_count d r (alerts st) \<le> 1"
    proof (cases "filter (open_alert d r) (alerts st)")
      case (Cons a rest)
      then have "a \<in> set (filter (open_alert d r) (alerts st))" by simp
      then have "a \<in> set (alerts st)" "alt_device_id a = d" "alt_rule_id a = r"
        by (auto simp: open_alert_def)
      with one show ?thesis by (auto simp: one_open_def list_all_iff)
    qed (simp add: open_count_def)
  qed
qed (simp add: one_open_def list_all_iff)

text \<open>The conditions of a device as the data of a store has them.\<close>

definition conditions ::
  "runtime \<Rightarrow> settings \<Rightarrow> datetime \<Rightarrow> device \<Rightarrow> json_dict \<Rightarrow> store \<Rightarrow> error + (string \<times> rule_result) list" where
  "conditions rt cfg now device payload st =
     rule_results rt cfg now device payload
       (rules_by_key (org_rules (dev_organization_id device) st))
       (List.find (\<lambda>i. inv_device_id i = dev_id device) (device_inventories st))
       (filter (\<lambda>d. dsk_device_id d = dev_id device) (disk_inventories st))
       (List.find (\<lambda>x. sec_device_id x = dev_id device) (security_statuses st))
       (List.find (\<lambda>x. ups_device_id x = dev_id device) (update_statuses st))"

lemma conditions_core:
  "core st = alerts_update f (core st') \<Longrightarrow> conditions rt cfg now device payload st = conditions rt cfg now device payload st'"
  by (drule arg_cong[of _ _ "conditions rt cfg now device payload"]) (simp add: conditions_def org_rules_def)

lemma collect_keys: "collect_results rs = Inr ys \<Longrightarrow> map fst ys = map fst rs"
  by (induction rs arbitrary: ys rule: collect_results.induct)
    (auto simp: map_result_def split: sum.splits)

lemma conditions_keys:
  "conditions rt cfg now device payload st = Inr results \<Longrightarrow>
     map fst results = map rd_key (default_rule_definitions cfg)"
  unfolding conditions_def rule_results_def by (drule collect_keys) (simp add: default_keys with_rule_def)

lemma synced_reads:
  assumes "wf_session s" and "synced s"
  shows "db_scalar device_inventories inv_id P s = List.find P (device_inventories (live s))"
    and "db_select disk_inventories dsk_id Q s = filter Q (disk_inventories (live s))"
    and "db_scalar security_statuses sec_id R s = List.find R (security_statuses (live s))"
    and "db_scalar update_statuses ups_id S s = List.find S (update_statuses (live s))"
  using assms
  by (auto intro!: device_inventories_tbl.scalar_synced disk_inventories_tbl.select_synced
      security_statuses_tbl.scalar_synced update_statuses_tbl.scalar_synced
      simp: wf_session_def ids_ok_def keys_ok_def)


lemma keyed_distinct:
  assumes "distinct (map alr_id rows)" and "distinct (map fst results)"
    and "\<And>kr. kr \<in> set results \<Longrightarrow> rules_by_key rows (fst kr) \<noteq> None"
  shows "distinct (map (\<lambda>kr. alr_id (keyed_rule (rules_by_key rows) kr)) results)"
proof -
  have rule: "keyed_rule (rules_by_key rows) kr \<in> set rows \<and> alr_rule_key (keyed_rule (rules_by_key rows) kr) = fst kr"
    if "kr \<in> set results" for kr
    using assms(3)[OF that] rules_by_key_SomeD by (fastforce simp: keyed_rule_def)
  have "kr = kr'" if "kr \<in> set results" "kr' \<in> set results"
    "alr_id (keyed_rule (rules_by_key rows) kr) = alr_id (keyed_rule (rules_by_key rows) kr')" for kr kr'
  proof -
    have "keyed_rule (rules_by_key rows) kr = keyed_rule (rules_by_key rows) kr'"
      using rule[OF that(1)] rule[OF that(2)] that(3) assms(1) by (auto simp: distinct_map dest: inj_onD)
    then have "fst kr = fst kr'" using rule[OF that(1)] rule[OF that(2)] by metis
    then show ?thesis using assms(2) that(1,2) by (auto simp: distinct_map dest: inj_onD)
  qed
  then show ?thesis using assms(2) by (auto simp: distinct_map intro: inj_onI)
qed

lemma settles_one_open:
  assumes settles: "settles rules d results rows rows'" and bound: "\<And>d r. open_count d r rows \<le> 1"
  shows "open_count d' r rows' \<le> 1"
proof (cases "\<exists>kr \<in> set results. d' = d \<and> r = alr_id (keyed_rule rules kr)")
  case True
  then obtain kr where "kr \<in> set results" "d' = d" "r = alr_id (keyed_rule rules kr)" by blast
  with settlesD(2)[OF settles] bound show ?thesis by (simp add: settled_count_def)
next
  case False
  then have "filter (concerns d' r) rows' = filter (concerns d' r) rows"
    by (intro settlesD(1)[OF settles]) (auto simp: concerns_def)
  then have "open_count d' r rows' = open_count d' r rows" by (rule open_count_cong)
  with bound show ?thesis by simp
qed

text \<open>The rules an evaluation has ensured, and the loop it then runs on them.\<close>

lemma ensured_rule:
  assumes t: "rules_added new s t" and new: "list_all (\<lambda>r. alr_organization_id r = o' \<and> alr_enabled r) new"
      "map alr_rule_key new = missing_keys cfg (org_rules o' (live s))"
    and results: "conditions rt cfg now device payload (live t) = Inr results"
    and kr: "kr \<in> set results" and o': "o' = dev_organization_id device"
  shows "\<exists>rule \<in> set (org_rules o' (live t)). alr_rule_key rule = fst kr \<and>
    rules_by_key (org_rules o' (live t)) (fst kr) = Some rule"
proof -
  have "fst kr \<in> set (map rd_key (default_rule_definitions cfg))"
    using kr by (simp flip: conditions_keys[OF results])
  then have "fst kr \<in> rd_key ` set (default_rule_definitions cfg)" by simp
  from ensured_keys[OF _ new this, of t] t show ?thesis by (auto simp: rules_added_def)
qed

lemma evaluation_loop:
  assumes t: "wf_session t" "synced t" "unique_ok (live t)"
    and results: "conditions rt cfg now device payload (live t) = Inr results"
    and rule: "\<And>kr. kr \<in> set results \<Longrightarrow> \<exists>rule \<in> set rows. alr_rule_key rule = fst kr \<and>
        rules_by_key rows (fst kr) = Some rule"
    and rows: "rows = org_rules (dev_organization_id device) (live t)"
  obtains s1 where "for_each results (apply_keyed_result now device (rules_by_key rows)) t = (Inr (), s1)"
    "core (live s1) = alerts_update (\<lambda>_. alerts (live s1)) (core (live t))"
    "settles (rules_by_key rows) (dev_id device) results (alerts (live t)) (alerts (live s1))"
proof -
  have "distinct (map alr_id rows)"
    using wf_session_distinct(1)[OF t(1)] by (simp add: rows org_rules_def distinct_map_filter)
  moreover have "distinct (map fst results)"
    unfolding conditions_keys[OF results] by (rule default_keys_distinct)
  ultimately have distinct: "distinct (map (\<lambda>kr. alr_id (keyed_rule (rules_by_key rows) kr)) results)"
    by (rule keyed_distinct) (use rule in force)
  have ali: "aligned t d r" for d r using t(2) by (simp add: aligned_def synced_def)
  have some: "rules_by_key rows (fst kr) \<noteq> None" if "kr \<in> set results" for kr using rule[OF that] by auto
  show thesis using apply_all_run[OF t(1,3) some distinct ali, where device = device and now = now] that by blast
qed

lemma evaluation_run:
  assumes s: "wf_session s" "synced s" "unique_ok (live s)" and one: "one_open (live s)"
    and run: "evaluate_device_alerts rt cfg now device payload s = (r, s')"
  shows "one_open (live s') \<and>
    filter (\<lambda>a. alt_device_id a \<noteq> dev_id device) (alerts (live s')) =
      filter (\<lambda>a. alt_device_id a \<noteq> dev_id device) (alerts (live s)) \<and>
    (case conditions rt cfg now device payload (live s') of
       Inl e \<Rightarrow> r = Inl e \<and> alerts (live s') = alerts (live s)
     | Inr results \<Rightarrow> r = Inr () \<and>
         map fst results = map rd_key (default_rule_definitions cfg) \<and>
         list_all (\<lambda>kr. \<exists>rule \<in> set (org_rules (dev_organization_id device) (live s')).
             alr_rule_key rule = fst kr \<and>
             open_count (dev_id device) (alr_id rule) (alerts (live s')) =
               (if \<not> alr_enabled rule then open_count (dev_id device) (alr_id rule) (alerts (live s))
                else if rr_active (snd kr) then 1 else 0)) results)"
proof -
  let ?o = "dev_organization_id device"
  let ?d = "dev_id device"
  obtain t new where t: "ensure_default_alert_rules cfg now ?o s = (Inr (rules_by_key (org_rules ?o (live t))), t)"
    "rules_added new s t" "wf_session t" "synced t" "unique_ok (live t)"
    and new: "list_all (\<lambda>r. alr_organization_id r = ?o \<and> alr_enabled r) new"
      "map alr_rule_key new = missing_keys cfg (org_rules ?o (live s))"
    using ensure_run[OF s] by blast
  let ?rows = "org_rules ?o (live t)"
  let ?rules = "rules_by_key ?rows"
  have alerts_t: "alerts (live t) = alerts (live s)" using t(2) by (simp add: rules_added_def)
  have run': "andThen (lift_sum (conditions rt cfg now device payload (live t)))
      (\<lambda>results. for_each results (apply_keyed_result now device ?rules)) t = (r, s')"
    using run by (simp add: evaluate_device_alerts_def andThen_run t(1) synced_reads[OF t(3,4)] conditions_def)
  show ?thesis
  proof (cases "conditions rt cfg now device payload (live t)")
    case (Inl e)
    with run' have "r = Inl e" "s' = t" by simp_all
    with Inl alerts_t one show ?thesis by (simp add: one_open_def)
  next
    case (Inr results)
    note rule = ensured_rule[OF t(2) new Inr _ refl]
    obtain s1 where s1: "for_each results (apply_keyed_result now device ?rules) t = (Inr (), s1)"
      "core (live s1) = alerts_update (\<lambda>_. alerts (live s1)) (core (live t))"
      and settles: "settles ?rules ?d results (alerts (live s)) (alerts (live s1))"
      using evaluation_loop[OF t(3-5) Inr rule refl] unfolding alerts_t by blast
    have r: "r = Inr ()" "s' = s1" using run' Inr s1(1) by simp_all
    have bound: "open_count d r (alerts (live s)) \<le> 1" for d r using one by (simp add: one_open_iff)
    have one': "one_open (live s1)" using settles_one_open[OF settles bound] by (simp add: one_open_iff)
    have other: "filter (\<lambda>a. alt_device_id a \<noteq> ?d) (alerts (live s1)) =
        filter (\<lambda>a. alt_device_id a \<noteq> ?d) (alerts (live s))"
      by (rule settlesD(1)[OF settles]) (simp add: concerns_def)
    have rows: "org_rules ?o (live s1) = ?rows"
      using arg_cong[OF s1(2), of alert_rules] by (simp add: org_rules_def)
    have "\<exists>rule \<in> set (org_rules ?o (live s1)). alr_rule_key rule = fst kr \<and>
        open_count ?d (alr_id rule) (alerts (live s1)) =
          (if \<not> alr_enabled rule then open_count ?d (alr_id rule) (alerts (live s))
           else if rr_active (snd kr) then 1 else 0)" if kr: "kr \<in> set results" for kr
    proof -
      obtain rule where "rule \<in> set ?rows" "alr_rule_key rule = fst kr" "keyed_rule ?rules kr = rule"
        using rule[OF kr] by (auto simp: keyed_rule_def)
      with settlesD(2)[OF settles kr bound] show ?thesis unfolding rows settled_count_def by auto
    qed
    with one' other r conditions_keys[OF Inr] show ?thesis
      by (simp add: conditions_core[OF s1(2)] Inr list_all_iff)
  qed
qed

text \<open>C30. An evaluation of the alert rules for a device reconciles its alerts with its
  conditions: it fails only where computing a condition fails, before any alert is touched;
  otherwise it settles all nine default rules, and for each enabled rule the device has
  exactly one open alert if the condition holds and none if it does not. A disabled rule's
  alerts and those of other devices are left alone, and no device ever has two open alerts
  for one rule.\<close>

theorem evaluation_reconciles:
  assumes s: "wf_session s" "synced s" "unique_ok (live s)" and one: "one_open (live s)"
    and run: "evaluate_device_alerts rt cfg now device payload s = (r, s')"
  shows "one_open (live s') \<and>
    filter (\<lambda>a. alt_device_id a \<noteq> dev_id device) (alerts (live s')) =
      filter (\<lambda>a. alt_device_id a \<noteq> dev_id device) (alerts (live s)) \<and>
    (case conditions rt cfg now device payload (live s') of
       Inl e \<Rightarrow> r = Inl e \<and> alerts (live s') = alerts (live s)
     | Inr results \<Rightarrow> r = Inr () \<and>
         map fst results = map rd_key (default_rule_definitions cfg) \<and>
         list_all (\<lambda>kr. \<exists>rule \<in> set (org_rules (dev_organization_id device) (live s')).
             alr_rule_key rule = fst kr \<and>
             open_count (dev_id device) (alr_id rule) (alerts (live s')) =
               (if \<not> alr_enabled rule then open_count (dev_id device) (alr_id rule) (alerts (live s))
                else if rr_active (snd kr) then 1 else 0)) results)"
  by (rule evaluation_run[OF assms])

theorem evaluation_reconciles_witness:
  "one_open (live (snd (evaluate_device_alerts sample_runtime default_settings 100 sample_device []
     (open_session sample_server))))"
proof -
  have "one_open (live (open_session sample_server))"
    by (simp add: one_open_def open_count_def open_alert_def sample_defs)
  moreover have "wf_session (open_session sample_server)" using sample_wf by simp
  moreover have "unique_ok (live (open_session sample_server))" using sample_wf by (simp add: wf_server_def)
  ultimately show ?thesis
    using evaluation_reconciles[OF _ synced_open _ _ surjective_pairing] by blast
qed

end
