(* ===== verification/DeviceSchemas.thy ===== *)
theory DeviceSchemas
  imports Schemas
begin

text \<open>
  The request and response bodies of \<^verbatim>\<open>backend/app/api/schemas.py\<close> about devices: what an
  agent reports, and what the dashboard shows of devices, alerts, notifications and remote
  access. A class that extends another repeats its fields.
\<close>

subsection \<open>What an agent reports\<close>

record DiskInventoryPayload =
  dip_name :: string
  dip_filesystem :: "string option"
  dip_size_bytes :: "int option"
  dip_free_bytes :: "int option"

definition valid_DiskInventoryPayload :: "DiskInventoryPayload \<Rightarrow> bool" where
  "valid_DiskInventoryPayload p \<longleftrightarrow> len_between 1 255 (dip_name p) \<and> opt_max 64 (dip_filesystem p) \<and>
     opt_ge0 (dip_size_bytes p) \<and> opt_ge0 (dip_free_bytes p)"

record NetworkInterfaceInventoryPayload =
  nip_name :: string
  nip_mac_address :: "string option"
  nip_ip_addresses :: "string list"

definition valid_NetworkInterfaceInventoryPayload :: "NetworkInterfaceInventoryPayload \<Rightarrow> bool" where
  "valid_NetworkInterfaceInventoryPayload p \<longleftrightarrow> len_between 1 255 (nip_name p) \<and>
     opt_max 64 (nip_mac_address p)"

record InstalledSoftwarePayload =
  isp_name :: string
  isp_version :: "string option"
  isp_publisher :: "string option"
  isp_installed_at :: "datetime option"

definition valid_InstalledSoftwarePayload :: "InstalledSoftwarePayload \<Rightarrow> bool" where
  "valid_InstalledSoftwarePayload p \<longleftrightarrow> len_between 1 255 (isp_name p) \<and> opt_max 128 (isp_version p) \<and>
     opt_max 255 (isp_publisher p)"

record SecurityStatusPayload =
  ssp_antivirus_product :: "string option"
  ssp_antivirus_enabled :: "bool option"
  ssp_antivirus_up_to_date :: "bool option"
  ssp_defender_enabled :: "bool option"
  ssp_firewall_enabled :: "bool option"
  ssp_details :: json_dict

definition valid_SecurityStatusPayload :: "SecurityStatusPayload \<Rightarrow> bool" where
  "valid_SecurityStatusPayload p \<longleftrightarrow> opt_max 255 (ssp_antivirus_product p)"

record UpdateStatusPayload =
  uup_pending_reboot :: "bool option"
  uup_update_status :: "string option"
  uup_last_update_check_at :: "datetime option"
  uup_details :: json_dict

definition valid_UpdateStatusPayload :: "UpdateStatusPayload \<Rightarrow> bool" where
  "valid_UpdateStatusPayload p \<longleftrightarrow> opt_max 128 (uup_update_status p)"

record DeviceInventoryPayload =
  dvp_os_version :: "string option"
  dvp_os_build :: "string option"
  dvp_cpu_model :: "string option"
  dvp_cpu_cores :: "int option"
  dvp_memory_total_bytes :: "int option"
  dvp_bios_vendor :: "string option"
  dvp_bios_version :: "string option"
  dvp_system_manufacturer :: "string option"
  dvp_system_model :: "string option"
  dvp_disks :: "DiskInventoryPayload list"
  dvp_network_interfaces :: "NetworkInterfaceInventoryPayload list"
  dvp_installed_software :: "InstalledSoftwarePayload list"
  dvp_security :: "SecurityStatusPayload option"
  dvp_updates :: "UpdateStatusPayload option"

definition valid_DeviceInventoryPayload :: "DeviceInventoryPayload \<Rightarrow> bool" where
  "valid_DeviceInventoryPayload p \<longleftrightarrow>
     opt_max 128 (dvp_os_version p) \<and> opt_max 128 (dvp_os_build p) \<and> opt_max 255 (dvp_cpu_model p) \<and>
     opt_ge0 (dvp_cpu_cores p) \<and> opt_ge0 (dvp_memory_total_bytes p) \<and>
     opt_max 255 (dvp_bios_vendor p) \<and> opt_max 255 (dvp_bios_version p) \<and>
     opt_max 255 (dvp_system_manufacturer p) \<and> opt_max 255 (dvp_system_model p) \<and>
     length (dvp_disks p) \<le> 128 \<and> list_all valid_DiskInventoryPayload (dvp_disks p) \<and>
     length (dvp_network_interfaces p) \<le> 128 \<and>
     list_all valid_NetworkInterfaceInventoryPayload (dvp_network_interfaces p) \<and>
     length (dvp_installed_software p) \<le> 2048 \<and>
     list_all valid_InstalledSoftwarePayload (dvp_installed_software p) \<and>
     (case dvp_security p of None \<Rightarrow> True | Some x \<Rightarrow> valid_SecurityStatusPayload x) \<and>
     (case dvp_updates p of None \<Rightarrow> True | Some x \<Rightarrow> valid_UpdateStatusPayload x)"

record RemoteAccessPayload =
  rap_provider_type :: string
  rap_installed :: bool
  rap_device_id :: "string option"
  rap_status :: string

definition valid_RemoteAccessPayload :: "RemoteAccessPayload \<Rightarrow> bool" where
  "valid_RemoteAccessPayload p \<longleftrightarrow> rap_provider_type p = ''rustdesk_oss'' \<and>
     opt_max 128 (rap_device_id p) \<and> length (rap_status p) \<le> 64"

record AgentCheckinRequest =
  aci_device_id :: uuid
  aci_device_secret :: string
  aci_hostname :: string
  aci_operating_system :: string
  aci_architecture :: "string option"
  aci_agent_version :: string
  aci_ip_address :: "string option"
  aci_local_ips :: "string list"
  aci_uptime_seconds :: "int option"
  aci_cpu_count :: "int option"
  aci_memory_total_bytes :: "int option"
  aci_memory_used_bytes :: "int option"
  aci_health_status :: string
  aci_inventory :: "DeviceInventoryPayload option"
  aci_remote_access :: "RemoteAccessPayload option"

definition valid_AgentCheckinRequest :: "AgentCheckinRequest \<Rightarrow> bool" where
  "valid_AgentCheckinRequest p \<longleftrightarrow>
     16 \<le> length (aci_device_secret p) \<and> len_between 1 255 (aci_hostname p) \<and>
     len_between 1 128 (aci_operating_system p) \<and> opt_max 64 (aci_architecture p) \<and>
     len_between 1 64 (aci_agent_version p) \<and> opt_max 64 (aci_ip_address p) \<and>
     opt_ge0 (aci_uptime_seconds p) \<and> opt_ge0 (aci_cpu_count p) \<and>
     opt_ge0 (aci_memory_total_bytes p) \<and> opt_ge0 (aci_memory_used_bytes p) \<and>
     length (aci_health_status p) \<le> 64 \<and>
     (case aci_inventory p of None \<Rightarrow> True | Some x \<Rightarrow> valid_DeviceInventoryPayload x) \<and>
     (case aci_remote_access p of None \<Rightarrow> True | Some x \<Rightarrow> valid_RemoteAccessPayload x)"

record AgentCheckinResponse =
  acs_status :: string
  acs_device_id :: uuid
  acs_checked_in_at :: datetime

subsection \<open>Devices on the dashboard\<close>

record CheckinSummary =
  csm_checked_in_at :: datetime
  csm_status :: string
  csm_ip_address :: "string option"
  csm_agent_version :: "string option"
  csm_payload :: json_dict

record DeviceSummary =
  dsm_id :: uuid
  dsm_hostname :: string
  dsm_operating_system :: string
  dsm_architecture :: "string option"
  dsm_ip_address :: "string option"
  dsm_agent_version :: "string option"
  dsm_health_status :: string
  dsm_status :: string
  dsm_is_online :: bool
  dsm_last_seen_at :: "datetime option"

record DeviceDetail = DeviceSummary +
  ddt_machine_identifier :: string
  ddt_latest_checkin :: "CheckinSummary option"

record DiskInventoryResponse = DiskInventoryPayload +
  dir_id :: uuid

record NetworkInterfaceInventoryResponse = NetworkInterfaceInventoryPayload +
  nir_id :: uuid

record DeviceInventoryResponse =
  dvr_device_id :: uuid
  dvr_hostname :: string
  dvr_operating_system :: string
  dvr_os_version :: "string option"
  dvr_os_build :: "string option"
  dvr_architecture :: "string option"
  dvr_agent_version :: "string option"
  dvr_cpu_model :: "string option"
  dvr_cpu_cores :: "int option"
  dvr_memory_total_bytes :: "int option"
  dvr_bios_vendor :: "string option"
  dvr_bios_version :: "string option"
  dvr_system_manufacturer :: "string option"
  dvr_system_model :: "string option"
  dvr_inventory_refreshed_at :: datetime
  dvr_disks :: "DiskInventoryResponse list"
  dvr_network_interfaces :: "NetworkInterfaceInventoryResponse list"

record InstalledSoftwareResponse = InstalledSoftwarePayload +
  isr_id :: uuid

record SoftwareInventoryResponse =
  sir_device_id :: uuid
  sir_inventory_refreshed_at :: "datetime option"
  sir_software :: "InstalledSoftwareResponse list"

record SecurityStatusResponse = SecurityStatusPayload +
  ssr_device_id :: uuid
  ssr_refreshed_at :: datetime

record UpdateStatusResponse = UpdateStatusPayload +
  uur_device_id :: uuid
  uur_refreshed_at :: datetime

subsection \<open>Alerts\<close>

record AlertEventResponse =
  aer_id :: uuid
  aer_event_type :: string
  aer_message :: string
  aer_metadata_json :: json_dict
  aer_created_at :: datetime

record AlertResponse =
  arp_id :: uuid
  arp_organization_id :: uuid
  arp_device_id :: uuid
  arp_rule_id :: uuid
  arp_severity :: string
  arp_status :: string
  arp_title :: string
  arp_message :: string
  arp_first_seen_at :: datetime
  arp_last_seen_at :: datetime
  arp_acknowledged_at :: "datetime option"
  arp_resolved_at :: "datetime option"
  arp_device_hostname :: "string option"
  arp_rule_key :: "string option"
  arp_events :: "AlertEventResponse list"

record DashboardSummaryResponse =
  dbs_total_devices :: nat
  dbs_online_devices :: nat
  dbs_offline_devices :: nat
  dbs_active_warning_alerts :: nat
  dbs_active_critical_alerts :: nat
  dbs_devices_needing_attention :: nat
  dbs_recent_alerts :: "AlertResponse list"

subsection \<open>Notifications\<close>

record NotificationChannelCreateRequest =
  ncc_organization_id :: uuid
  ncc_name :: string
  ncc_channel_type :: string
  ncc_enabled :: bool
  ncc_config :: json_dict

definition valid_NotificationChannelCreateRequest :: "NotificationChannelCreateRequest \<Rightarrow> bool" where
  "valid_NotificationChannelCreateRequest p \<longleftrightarrow> len_between 1 255 (ncc_name p) \<and>
     ncc_channel_type p \<in> {''email'', ''webhook''}"

record NotificationChannelPatchRequest =
  npt_name :: "string option"
  npt_enabled :: "bool option"
  npt_config :: "json_dict option"

definition valid_NotificationChannelPatchRequest :: "NotificationChannelPatchRequest \<Rightarrow> bool" where
  "valid_NotificationChannelPatchRequest p =
     (case npt_name p of None \<Rightarrow> True | Some s \<Rightarrow> len_between 1 255 s)"

record NotificationChannelResponse =
  ncr_id :: uuid
  ncr_organization_id :: uuid
  ncr_name :: string
  ncr_channel_type :: string
  ncr_enabled :: bool
  ncr_config :: json_dict
  ncr_created_at :: datetime

record NotificationRuleCreateRequest =
  nrc_organization_id :: uuid
  nrc_name :: string
  nrc_enabled :: bool
  nrc_severity_filter :: "string list"
  nrc_alert_rule_type_filter :: "string list"
  nrc_channel_ids :: "uuid list"

definition valid_NotificationRuleCreateRequest :: "NotificationRuleCreateRequest \<Rightarrow> bool" where
  "valid_NotificationRuleCreateRequest p \<longleftrightarrow> len_between 1 255 (nrc_name p) \<and> nrc_channel_ids p \<noteq> []"

record NotificationRulePatchRequest =
  nrt_name :: "string option"
  nrt_enabled :: "bool option"
  nrt_severity_filter :: "string list option"
  nrt_alert_rule_type_filter :: "string list option"
  nrt_channel_ids :: "uuid list option"

definition valid_NotificationRulePatchRequest :: "NotificationRulePatchRequest \<Rightarrow> bool" where
  "valid_NotificationRulePatchRequest p =
     (case nrt_name p of None \<Rightarrow> True | Some s \<Rightarrow> len_between 1 255 s)"

record NotificationRuleResponse =
  nrr_id :: uuid
  nrr_organization_id :: uuid
  nrr_name :: string
  nrr_enabled :: bool
  nrr_severity_filter :: "string list"
  nrr_alert_rule_type_filter :: "string list"
  nrr_channel_ids :: "uuid list"
  nrr_created_at :: datetime

record NotificationDeliveryResponse =
  ndr_id :: uuid
  ndr_organization_id :: uuid
  ndr_alert_id :: uuid
  ndr_channel_id :: uuid
  ndr_channel_name :: "string option"
  ndr_channel_type :: "string option"
  ndr_status :: string
  ndr_attempts :: int
  ndr_last_error :: "string option"
  ndr_created_at :: datetime
  ndr_sent_at :: "datetime option"

subsection \<open>Remote access\<close>

record RemoteProviderCreateRequest =
  rpq_name :: string
  rpq_provider_type :: string
  rpq_host :: string
  rpq_relay_host :: "string option"
  rpq_public_key :: "string option"
  rpq_enabled :: bool

definition valid_RemoteProviderCreateRequest :: "RemoteProviderCreateRequest \<Rightarrow> bool" where
  "valid_RemoteProviderCreateRequest p \<longleftrightarrow> len_between 1 255 (rpq_name p) \<and>
     rpq_provider_type p = ''rustdesk_oss'' \<and> len_between 1 255 (rpq_host p) \<and>
     opt_max 255 (rpq_relay_host p) \<and> opt_max 1024 (rpq_public_key p)"

record RemoteProviderResponse =
  rpr_id :: uuid
  rpr_organization_id :: uuid
  rpr_provider_type :: string
  rpr_name :: string
  rpr_host :: string
  rpr_relay_host :: "string option"
  rpr_public_key :: "string option"
  rpr_enabled :: bool
  rpr_created_at :: datetime

record RemoteDeviceLinkResponse =
  rlr_id :: "uuid option"
  rlr_organization_id :: uuid
  rlr_device_id :: uuid
  rlr_provider_config_id :: "uuid option"
  rlr_provider_type :: string
  rlr_rustdesk_id :: "string option"
  rlr_installed :: bool
  rlr_last_status :: string
  rlr_last_reported_at :: "datetime option"
  rlr_provider :: "RemoteProviderResponse option"

record RemoteLaunchResponse =
  rln_launch_url :: string
  rln_rustdesk_id :: string
  rln_provider_type :: string
  rln_audit_id :: uuid
  rln_manual_instructions :: string

record RemoteSessionAuditResponse =
  rsr_id :: uuid
  rsr_organization_id :: uuid
  rsr_device_id :: uuid
  rsr_provider_config_id :: "uuid option"
  rsr_actor_user_id :: "uuid option"
  rsr_provider_type :: string
  rsr_action :: string
  rsr_launch_url :: "string option"
  rsr_metadata_json :: json_dict
  rsr_created_at :: datetime

end
