(* ===== verification/Inventory.thy ===== *)
theory Inventory
  imports Notifications DeviceSchemas
begin

text \<open>
  Device inventory: \<^verbatim>\<open>backend/app/api/inventory.py\<close>. A report replaces the device's disks,
  network interfaces and software, and creates or overwrites its single inventory,
  security and update rows. The property: after a report the stored inventory of the
  device is the reported one, that of every other device is untouched, and the one-row-
  per-device constraints hold.
\<close>

definition new_inventory :: "datetime \<Rightarrow> device \<Rightarrow> uuid \<Rightarrow> device_inventory" where
  "new_inventory now device i =
     \<lparr>inv_id = i, inv_device_id = dev_id device, inv_organization_id = dev_organization_id device,
      inv_hostname = dev_hostname device, inv_operating_system = dev_operating_system device,
      inv_os_version = None, inv_os_build = None, inv_architecture = None, inv_agent_version = None,
      inv_cpu_model = None, inv_cpu_cores = None, inv_memory_total_bytes = None,
      inv_bios_vendor = None, inv_bios_version = None, inv_system_manufacturer = None,
      inv_system_model = None, inv_inventory_refreshed_at = now, inv_created_at = now\<rparr>"

definition refreshed_inventory ::
  "datetime \<Rightarrow> device \<Rightarrow> DeviceInventoryPayload \<Rightarrow> device_inventory \<Rightarrow> device_inventory" where
  "refreshed_inventory now device payload inventory = inventory
     \<lparr>inv_hostname := dev_hostname device, inv_operating_system := dev_operating_system device,
      inv_os_version := dvp_os_version payload, inv_os_build := dvp_os_build payload,
      inv_architecture := dev_architecture device, inv_agent_version := dev_agent_version device,
      inv_cpu_model := dvp_cpu_model payload, inv_cpu_cores := dvp_cpu_cores payload,
      inv_memory_total_bytes := dvp_memory_total_bytes payload,
      inv_bios_vendor := dvp_bios_vendor payload, inv_bios_version := dvp_bios_version payload,
      inv_system_manufacturer := dvp_system_manufacturer payload,
      inv_system_model := dvp_system_model payload, inv_inventory_refreshed_at := now\<rparr>"

definition new_disk :: "datetime \<Rightarrow> device \<Rightarrow> DiskInventoryPayload \<Rightarrow> uuid \<Rightarrow> disk_inventory" where
  "new_disk now device disk i =
     \<lparr>dsk_id = i, dsk_device_id = dev_id device, dsk_organization_id = dev_organization_id device,
      dsk_name = dip_name disk, dsk_filesystem = dip_filesystem disk,
      dsk_size_bytes = dip_size_bytes disk, dsk_free_bytes = dip_free_bytes disk,
      dsk_created_at = now\<rparr>"

definition new_interface ::
  "datetime \<Rightarrow> device \<Rightarrow> NetworkInterfaceInventoryPayload \<Rightarrow> uuid \<Rightarrow> network_interface_inventory" where
  "new_interface now device adapter i =
     \<lparr>nic_id = i, nic_device_id = dev_id device, nic_organization_id = dev_organization_id device,
      nic_name = nip_name adapter, nic_mac_address = nip_mac_address adapter,
      nic_ip_addresses = nip_ip_addresses adapter, nic_created_at = now\<rparr>"

definition new_software ::
  "datetime \<Rightarrow> device \<Rightarrow> InstalledSoftwarePayload \<Rightarrow> uuid \<Rightarrow> installed_software" where
  "new_software now device software i =
     \<lparr>sft_id = i, sft_device_id = dev_id device, sft_organization_id = dev_organization_id device,
      sft_name = isp_name software, sft_version = isp_version software,
      sft_publisher = isp_publisher software, sft_installed_at = isp_installed_at software,
      sft_created_at = now\<rparr>"

definition new_security :: "datetime \<Rightarrow> device \<Rightarrow> uuid \<Rightarrow> security_status" where
  "new_security now device i =
     \<lparr>sec_id = i, sec_device_id = dev_id device, sec_organization_id = dev_organization_id device,
      sec_antivirus_product = None, sec_antivirus_enabled = None, sec_antivirus_up_to_date = None,
      sec_defender_enabled = None, sec_firewall_enabled = None, sec_details = [],
      sec_refreshed_at = now, sec_created_at = now\<rparr>"

definition refreshed_security ::
  "datetime \<Rightarrow> SecurityStatusPayload \<Rightarrow> security_status \<Rightarrow> security_status" where
  "refreshed_security now p security = security
     \<lparr>sec_antivirus_product := ssp_antivirus_product p, sec_antivirus_enabled := ssp_antivirus_enabled p,
      sec_antivirus_up_to_date := ssp_antivirus_up_to_date p,
      sec_defender_enabled := ssp_defender_enabled p, sec_firewall_enabled := ssp_firewall_enabled p,
      sec_details := ssp_details p, sec_refreshed_at := now\<rparr>"

definition new_updates :: "datetime \<Rightarrow> device \<Rightarrow> uuid \<Rightarrow> update_status" where
  "new_updates now device i =
     \<lparr>ups_id = i, ups_device_id = dev_id device, ups_organization_id = dev_organization_id device,
      ups_pending_reboot = None, ups_update_status = None, ups_last_update_check_at = None,
      ups_details = [], ups_refreshed_at = now, ups_created_at = now\<rparr>"

definition refreshed_updates :: "datetime \<Rightarrow> UpdateStatusPayload \<Rightarrow> update_status \<Rightarrow> update_status" where
  "refreshed_updates now p updates = updates
     \<lparr>ups_pending_reboot := uup_pending_reboot p, ups_update_status := uup_update_status p,
      ups_last_update_check_at := uup_last_update_check_at p, ups_details := uup_details p,
      ups_refreshed_at := now\<rparr>"

text \<open>The row found, or a new one, with its attributes then assigned.\<close>

definition upsert_row ::
  "(store \<Rightarrow> 'r list) \<Rightarrow> (('r list \<Rightarrow> 'r list) \<Rightarrow> store \<Rightarrow> store) \<Rightarrow> ('r \<Rightarrow> uuid) \<Rightarrow>
   ('r \<Rightarrow> bool) \<Rightarrow> (uuid \<Rightarrow> 'r) \<Rightarrow> ('r \<Rightarrow> 'r) \<Rightarrow> unit db_op" where
  "upsert_row t u k P mk g =
     andThen (gets (db_scalar t k P)) (\<lambda>found.
     andThen (case found of None \<Rightarrow> insert_row u mk | Some r \<Rightarrow> ret r) (\<lambda>r.
     put_row u k (g r)))"

text \<open>The rows matching \<open>P\<close> deleted, and one new row added for each item.\<close>

definition replace_rows ::
  "(store \<Rightarrow> 'r list) \<Rightarrow> (('r list \<Rightarrow> 'r list) \<Rightarrow> store \<Rightarrow> store) \<Rightarrow> ('r \<Rightarrow> uuid) \<Rightarrow>
   ('r \<Rightarrow> bool) \<Rightarrow> ('p \<Rightarrow> uuid \<Rightarrow> 'r) \<Rightarrow> 'p list \<Rightarrow> unit db_op" where
  "replace_rows t u k P mk items =
     andThen (delete_rows t u k P) (\<lambda>_. for_each items (\<lambda>p. discard (insert_row u (mk p))))"

definition upsert_security :: "datetime \<Rightarrow> device \<Rightarrow> SecurityStatusPayload option \<Rightarrow> unit db_op" where
  "upsert_security now device payload =
     (case payload of None \<Rightarrow> ret ()
      | Some p \<Rightarrow> upsert_row security_statuses security_statuses_update sec_id
          (\<lambda>x. sec_device_id x = dev_id device) (new_security now device) (refreshed_security now p))"

definition upsert_updates :: "datetime \<Rightarrow> device \<Rightarrow> UpdateStatusPayload option \<Rightarrow> unit db_op" where
  "upsert_updates now device payload =
     (case payload of None \<Rightarrow> ret ()
      | Some p \<Rightarrow> upsert_row update_statuses update_statuses_update ups_id
          (\<lambda>x. ups_device_id x = dev_id device) (new_updates now device) (refreshed_updates now p))"

definition agent_audit ::
  "datetime \<Rightarrow> uuid \<Rightarrow> string \<Rightarrow> string \<Rightarrow> string option \<Rightarrow> json_dict \<Rightarrow> unit db_op" where
  "agent_audit now organization_id action target_type target_id metadata =
     andThen (insert_row audit_logs_update (\<lambda>i.
       \<lparr>aud_id = i, aud_organization_id = organization_id, aud_actor_user_id = None,
        aud_action = action, aud_target_type = target_type, aud_target_id = target_id,
        aud_metadata_json = metadata, aud_created_at = now\<rparr>)) (\<lambda>_. ret ())"

definition upsert_inventory :: "datetime \<Rightarrow> device \<Rightarrow> DeviceInventoryPayload \<Rightarrow> unit db_op" where
  "upsert_inventory now device payload =
     andThen (upsert_row device_inventories device_inventories_update inv_id
        (\<lambda>i. inv_device_id i = dev_id device) (new_inventory now device)
        (refreshed_inventory now device payload)) (\<lambda>_.
     andThen (replace_rows disk_inventories disk_inventories_update dsk_id
        (\<lambda>d. dsk_device_id d = dev_id device) (new_disk now device) (dvp_disks payload)) (\<lambda>_.
     andThen (replace_rows network_interfaces network_interfaces_update nic_id
        (\<lambda>n. nic_device_id n = dev_id device) (new_interface now device)
        (dvp_network_interfaces payload)) (\<lambda>_.
     andThen (replace_rows softwares softwares_update sft_id
        (\<lambda>x. sft_device_id x = dev_id device) (new_software now device)
        (dvp_installed_software payload)) (\<lambda>_.
     andThen (upsert_security now device (dvp_security payload)) (\<lambda>_.
     andThen (upsert_updates now device (dvp_updates payload)) (\<lambda>_.
     agent_audit now (dev_organization_id device) ''inventory.updated'' ''device''
       (Some (uuid_str (dev_id device)))
       [(''disk_count'', JInt (int (length (dvp_disks payload)))),
        (''network_interface_count'', JInt (int (length (dvp_network_interfaces payload)))),
        (''software_count'', JInt (int (length (dvp_installed_software payload))))]))))))"

subsection \<open>Replacing and overwriting rows\<close>

text \<open>The rows after an upsert.\<close>

definition upserted ::
  "('r \<Rightarrow> bool) \<Rightarrow> ('r \<Rightarrow> uuid) \<Rightarrow> ('r \<Rightarrow> 'r) \<Rightarrow> 'r \<Rightarrow> 'r list \<Rightarrow> 'r list" where
  "upserted P k g new rows =
     (case List.find P rows of
        None \<Rightarrow> rows @ [g new]
      | Some r \<Rightarrow> map (\<lambda>x. if k x = k r then g r else x) rows)"

definition upsert_base :: "('r \<Rightarrow> bool) \<Rightarrow> 'r \<Rightarrow> 'r list \<Rightarrow> 'r" where
  "upsert_base P new rows = (case List.find P rows of None \<Rightarrow> new | Some r \<Rightarrow> r)"

lemma map_one:
  assumes "distinct (map k rows)" and "r \<in> set rows"
  obtains us vs where "rows = us @ r # vs" and "map (\<lambda>x. if k x = k r then b else x) rows = us @ b # vs"
proof -
  obtain us vs where rows: "rows = us @ r # vs" using assms(2) by (meson split_list)
  have "k r \<notin> k ` (set us \<union> set vs)" using assms(1) by (auto simp: rows)
  then have "k x \<noteq> k r" if "x \<in> set us \<union> set vs" for x
    using that by (metis imageI)
  then have "map (\<lambda>x. if k x = k r then b else x) us = us" "map (\<lambda>x. if k x = k r then b else x) vs = vs"
    by (auto intro: map_idI)
  then show thesis using rows by (intro that[of us vs]) simp_all
qed

text \<open>For a table with one row per device: the device's row is the refreshed one, others stay.\<close>

lemma upserted_rows:
  assumes "distinct (map k rows)" and "distinct (map d rows)"
    and "\<And>x. P x \<longleftrightarrow> d x = i" and "P new" and "\<And>x. d (g x) = d x"
  shows "filter P (upserted P k g new rows) = [g (upsert_base P new rows)]"
    and "filter (\<lambda>x. \<not> P x) (upserted P k g new rows) = filter (\<lambda>x. \<not> P x) rows"
    and "distinct (map d (upserted P k g new rows))"
proof -
  have "filter P (upserted P k g new rows) = [g (upsert_base P new rows)] \<and>
    filter (\<lambda>x. \<not> P x) (upserted P k g new rows) = filter (\<lambda>x. \<not> P x) rows \<and>
    distinct (map d (upserted P k g new rows))"
  proof (cases "List.find P rows")
    case None
    then have none: "\<not> P x" if "x \<in> set rows" for x using that by (simp add: find_None_iff)
    then have "filter P rows = []" by (simp add: filter_empty_conv)
    moreover have "d new \<notin> d ` set rows" using none assms(3)[of new] assms(3,4) by (metis imageE)
    ultimately show ?thesis using None assms by (auto simp: upserted_def upsert_base_def)
  next
    case (Some r)
    then have r: "r \<in> set rows" "P r" by (auto dest: find_SomeD)
    obtain us vs where rows: "rows = us @ r # vs"
      and put: "map (\<lambda>x. if k x = k r then g r else x) rows = us @ g r # vs"
      by (rule map_one[OF assms(1) r(1)])
    have "d r \<notin> d ` (set us \<union> set vs)" using assms(2) by (auto simp: rows)
    then have "\<not> P x" if "x \<in> set us \<union> set vs" for x
      using that assms(3) r(2) by (metis imageI)
    then have "filter P us = []" "filter P vs = []" by (auto simp: filter_empty_conv)
    moreover have "upserted P k g new rows = us @ g r # vs" "upsert_base P new rows = r"
      using Some put by (simp_all only: upserted_def upsert_base_def option.case)
    ultimately show ?thesis using r(2) assms(2,3,5) by (simp only:) (simp add: rows)
  qed
  then show "filter P (upserted P k g new rows) = [g (upsert_base P new rows)]"
    and "filter (\<lambda>x. \<not> P x) (upserted P k g new rows) = filter (\<lambda>x. \<not> P x) rows"
    and "distinct (map d (upserted P k g new rows))" by simp_all
qed

context tenant_table
begin

text \<open>A query on a table without pending changes reads the live rows.\<close>

lemma scalar_same:
  assumes wf: "wf_session s" and same: "t (flushed s) = t (live s)"
  shows "db_scalar t k P s = List.find P (t (live s))"
proof (cases "List.find P (t (live s))")
  case None
  then show ?thesis by (simp add: db_scalar_def same)
next
  case (Some r)
  have keys: "keys_ok (next_id s) k (t (live s))" using wf by (simp add: wf_session_def ids_read)
  have "r \<in> set (t (live s))" using Some by (simp add: find_SomeD)
  then have "List.find (\<lambda>x. k x = k r) (t (live s)) = Some r"
    using keys by (subst find_Some_iff_distinct) (auto simp: keys_ok_def)
  then have "live_row t k s r = r" by (simp add: live_row_def)
  with Some show ?thesis by (simp add: db_scalar_def same)
qed

lemma upsert_run:
  assumes wf: "wf_session s" and same: "t (flushed s) = t (live s)"
    and key: "\<And>i. k (mk i) = i" "\<And>x. k (g x) = k x"
  shows "\<exists>n. upsert_row t u k P mk g s =
    (Inr (), s\<lparr>live := u (upserted P k g (mk (next_id s))) (live s), next_id := n\<rparr>)"
proof -
  have keys: "keys_ok (next_id s) k (t (live s))" using wf by (simp add: wf_session_def ids_read)
  note found = scalar_same[OF wf same]
  show ?thesis
  proof (cases "List.find P (t (live s))")
    case None
    have "k x \<noteq> next_id s" if "x \<in> set (t (live s))" for x
      using that keys by (auto simp: keys_ok_def list_all_iff)
    then have put: "map (\<lambda>x. if k x = k (g (mk (next_id s))) then g (mk (next_id s)) else x)
        (t (live s) @ [mk (next_id s)]) = t (live s) @ [g (mk (next_id s))]"
      using key by (auto intro: map_idI)
    have "u (\<lambda>rs. map (\<lambda>x. if k x = k (g (mk (next_id s))) then g (mk (next_id s)) else x)
        (rs @ [mk (next_id s)])) (live s) = u (upserted P k g (mk (next_id s))) (live s)"
      by (rule write_cong) (use None put in \<open>simp only: upserted_def option.case\<close>)
    then show ?thesis using None
      by (intro exI[of _ "Suc (next_id s)"])
        (simp add: upsert_row_def found insert_row_def put_row_def andThen_run write_write)
  next
    case (Some r)
    have "u (map (\<lambda>x. if k x = k r then g r else x)) (live s) = u (upserted P k g (mk (next_id s))) (live s)"
      by (rule write_cong) (simp add: upserted_def Some)
    with Some key show ?thesis
      by (intro exI[of _ "next_id s"]) (simp add: upsert_row_def found put_row_def)
  qed
qed

lemma adding_run:
  "\<exists>new n. for_each items (\<lambda>p. discard (insert_row u (mk p))) s =
    (Inr (), s\<lparr>live := u (\<lambda>rs. rs @ new) (live s), next_id := n\<rparr>) \<and>
    list_all2 (\<lambda>p r. \<exists>i. r = mk p i) items new"
proof (induction items arbitrary: s)
  case Nil
  then show ?case by (intro exI[of _ "[]"] exI[of _ "next_id s"]) (simp add: write_id)
next
  case (Cons p items)
  let ?s = "s\<lparr>live := u (\<lambda>rs. rs @ [mk p (next_id s)]) (live s), next_id := Suc (next_id s)\<rparr>"
  obtain new n where "for_each items (\<lambda>p. discard (insert_row u (mk p))) ?s =
      (Inr (), ?s\<lparr>live := u (\<lambda>rs. rs @ new) (live ?s), next_id := n\<rparr>)"
    "list_all2 (\<lambda>p r. \<exists>i. r = mk p i) items new"
    using Cons.IH by blast
  moreover have "discard (insert_row u (mk p)) s = (Inr (), ?s)"
    by (simp add: discard_def insert_row_def andThen_run)
  ultimately show ?case
    by (intro exI[of _ "mk p (next_id s) # new"] exI[of _ n]) (auto simp: andThen_run write_write)
qed

lemma replace_run:
  assumes "t (flushed s) = t (live s)" and "distinct (map k (t (live s)))"
  shows "\<exists>new n. replace_rows t u k P mk items s =
    (Inr (), s\<lparr>live := u (\<lambda>rs. filter (\<lambda>x. \<not> P x) rs @ new) (live s),
               flushed := u (filter (\<lambda>x. \<not> P x)) (flushed s), next_id := n\<rparr>) \<and>
    list_all2 (\<lambda>p r. \<exists>i. r = mk p i) items new"
proof -
  have del: "filter (\<lambda>r. k r \<notin> set (map k (filter P (t (live s))))) (t (live s)) =
      filter (\<lambda>x. \<not> P x) (t (live s))"
    using assms(2) by (intro filter_cong) (auto simp: distinct_map dest: inj_onD)
  have gone: "delete_rows t u k P s = (Inr (), s\<lparr>live := u (filter (\<lambda>x. \<not> P x)) (live s),
      flushed := u (filter (\<lambda>x. \<not> P x)) (flushed s)\<rparr>)"
    using write_cong[of "filter (\<lambda>r. k r \<notin> set (map k (filter P (t (live s)))))" "live s" "filter (\<lambda>x. \<not> P x)"]
      write_cong[of "filter (\<lambda>r. k r \<notin> set (map k (filter P (t (live s)))))" "flushed s" "filter (\<lambda>x. \<not> P x)"]
      assms(1) del
    by (simp add: delete_rows_def Let_def)
  let ?s = "s\<lparr>live := u (filter (\<lambda>x. \<not> P x)) (live s), flushed := u (filter (\<lambda>x. \<not> P x)) (flushed s)\<rparr>"
  obtain new n where "for_each items (\<lambda>p. discard (insert_row u (mk p))) ?s =
      (Inr (), ?s\<lparr>live := u (\<lambda>rs. rs @ new) (live ?s), next_id := n\<rparr>)"
    "list_all2 (\<lambda>p r. \<exists>i. r = mk p i) items new"
    using adding_run by blast
  then show ?thesis using gone
    by (intro exI[of _ new] exI[of _ n]) (simp add: replace_rows_def andThen_run write_write)
qed

lemma upsert_wf [keeps_intro]:
  assumes "\<And>i. k (mk i) = i"
  shows "keeps wf_session (upsert_row t u k P mk g)"
  unfolding upsert_row_def by (intro keeps_intro insert_wf put_wf assms)

lemma replace_wf [keeps_intro]:
  assumes "\<And>p i. k (mk p i) = i"
  shows "keeps wf_session (replace_rows t u k P mk items)"
  unfolding replace_rows_def by (intro keeps_intro insert_wf delete_wf assms)

text \<open>The same with the resulting session named, for proofs that chain several of them.\<close>

lemma upsert_changes:
  assumes "wf_session s" and "t (flushed s) = t (live s)"
    and "\<And>i. k (mk i) = i" and "\<And>x. k (g x) = k x"
  obtains s' where "upsert_row t u k P mk g s = (Inr (), s')" and "wf_session s'"
    and "live s' = u (upserted P k g (mk (next_id s))) (live s)"
    and "flushed s' = flushed s" and "durable s' = durable s"
  using upsert_run[OF assms, of P] keeps_runD[OF upsert_wf[OF assms(3)] assms(1)] by fastforce

lemma replace_changes:
  assumes wf: "wf_session s" and same: "t (flushed s) = t (live s)" and key: "\<And>p i. k (mk p i) = i"
  obtains s' new where "replace_rows t u k P mk items s = (Inr (), s')" and "wf_session s'"
    and "list_all2 (\<lambda>p r. \<exists>i. r = mk p i) items new"
    and "live s' = u (\<lambda>rs. filter (\<lambda>x. \<not> P x) rs @ new) (live s)"
    and "flushed s' = u (filter (\<lambda>x. \<not> P x)) (flushed s)" and "durable s' = durable s"
proof -
  have "distinct (map k (t (live s)))" using wf ids_read by (auto simp: wf_session_def keys_ok_def)
  from replace_run[OF same this, of P mk items]
  obtain new n where run: "replace_rows t u k P mk items s = (Inr (), s\<lparr>live := u (\<lambda>rs. filter (\<lambda>x. \<not> P x) rs @ new) (live s),
       flushed := u (filter (\<lambda>x. \<not> P x)) (flushed s), next_id := n\<rparr>)"
    "list_all2 (\<lambda>p r. \<exists>i. r = mk p i) items new" by blast
  from that[OF run(1) keeps_runD[OF replace_wf[OF key] wf run(1)] run(2)] show thesis by simp
qed

end

lemma new_row_simps [simp]:
  "inv_id (new_inventory now device i) = i" "inv_device_id (new_inventory now device i) = dev_id device"
  "dsk_id (new_disk now device d i) = i" "dsk_device_id (new_disk now device d i) = dev_id device"
  "nic_id (new_interface now device nn i) = i" "nic_device_id (new_interface now device nn i) = dev_id device"
  "sft_id (new_software now device x i) = i" "sft_device_id (new_software now device x i) = dev_id device"
  "sec_id (new_security now device i) = i" "sec_device_id (new_security now device i) = dev_id device"
  "ups_id (new_updates now device i) = i" "ups_device_id (new_updates now device i) = dev_id device"
  "inv_id (refreshed_inventory now device p v) = inv_id v"
  "inv_device_id (refreshed_inventory now device p v) = inv_device_id v"
  "sec_id (refreshed_security now q sx) = sec_id sx"
  "sec_device_id (refreshed_security now q sx) = sec_device_id sx"
  "ups_id (refreshed_updates now r y) = ups_id y"
  "ups_device_id (refreshed_updates now r y) = ups_device_id y"
  by (simp_all add: new_inventory_def new_disk_def new_interface_def new_software_def new_security_def
      new_updates_def refreshed_inventory_def refreshed_security_def refreshed_updates_def)

lemma wf_agent_audit [keeps_intro]: "keeps wf_session (agent_audit now o' a ty i d)"
  unfolding agent_audit_def by (intro keeps_intro audit_logs_tbl.insert_wf; simp)

lemma wf_inventory_parts [keeps_intro]:
  "keeps wf_session (upsert_security now device q)"
  "keeps wf_session (upsert_updates now device r)"
  unfolding upsert_security_def upsert_updates_def
  by (intro keeps_intro security_statuses_tbl.upsert_wf update_statuses_tbl.upsert_wf; simp)+

lemma wf_upsert_inventory [keeps_intro]: "keeps wf_session (upsert_inventory now device payload)"
  unfolding upsert_inventory_def
  by (intro keeps_intro device_inventories_tbl.upsert_wf disk_inventories_tbl.replace_wf
      network_interfaces_tbl.replace_wf softwares_tbl.replace_wf; simp)

subsection \<open>A report replaces the inventory of its device\<close>

text \<open>The reported part of the stored rows.\<close>

definition disk_report :: "disk_inventory \<Rightarrow> DiskInventoryPayload" where
  "disk_report d = \<lparr>dip_name = dsk_name d, dip_filesystem = dsk_filesystem d,
     dip_size_bytes = dsk_size_bytes d, dip_free_bytes = dsk_free_bytes d\<rparr>"

definition interface_report :: "network_interface_inventory \<Rightarrow> NetworkInterfaceInventoryPayload" where
  "interface_report n = \<lparr>nip_name = nic_name n, nip_mac_address = nic_mac_address n,
     nip_ip_addresses = nic_ip_addresses n\<rparr>"

definition software_report :: "installed_software \<Rightarrow> InstalledSoftwarePayload" where
  "software_report x = \<lparr>isp_name = sft_name x, isp_version = sft_version x,
     isp_publisher = sft_publisher x, isp_installed_at = sft_installed_at x\<rparr>"

definition security_report :: "security_status \<Rightarrow> SecurityStatusPayload" where
  "security_report x = \<lparr>ssp_antivirus_product = sec_antivirus_product x,
     ssp_antivirus_enabled = sec_antivirus_enabled x, ssp_antivirus_up_to_date = sec_antivirus_up_to_date x,
     ssp_defender_enabled = sec_defender_enabled x, ssp_firewall_enabled = sec_firewall_enabled x,
     ssp_details = sec_details x\<rparr>"

definition updates_report :: "update_status \<Rightarrow> UpdateStatusPayload" where
  "updates_report x = \<lparr>uup_pending_reboot = ups_pending_reboot x, uup_update_status = ups_update_status x,
     uup_last_update_check_at = ups_last_update_check_at x, uup_details = ups_details x\<rparr>"

definition device_report :: "store \<Rightarrow> uuid \<Rightarrow> device_inventory \<Rightarrow> DeviceInventoryPayload" where
  "device_report st d v =
    \<lparr>dvp_os_version = inv_os_version v, dvp_os_build = inv_os_build v, dvp_cpu_model = inv_cpu_model v,
     dvp_cpu_cores = inv_cpu_cores v, dvp_memory_total_bytes = inv_memory_total_bytes v,
     dvp_bios_vendor = inv_bios_vendor v, dvp_bios_version = inv_bios_version v,
     dvp_system_manufacturer = inv_system_manufacturer v, dvp_system_model = inv_system_model v,
     dvp_disks = map disk_report (filter (\<lambda>x. dsk_device_id x = d) (disk_inventories st)),
     dvp_network_interfaces = map interface_report (filter (\<lambda>x. nic_device_id x = d) (network_interfaces st)),
     dvp_installed_software = map software_report (filter (\<lambda>x. sft_device_id x = d) (softwares st)),
     dvp_security = map_option security_report (List.find (\<lambda>x. sec_device_id x = d) (security_statuses st)),
     dvp_updates = map_option updates_report (List.find (\<lambda>x. ups_device_id x = d) (update_statuses st))\<rparr>"

text \<open>The inventory rows of all other devices.\<close>

definition other_inventories :: "uuid \<Rightarrow> store \<Rightarrow> store" where
  "other_inventories d st = empty_store
    \<lparr>device_inventories := filter (\<lambda>x. inv_device_id x \<noteq> d) (device_inventories st),
     disk_inventories := filter (\<lambda>x. dsk_device_id x \<noteq> d) (disk_inventories st),
     network_interfaces := filter (\<lambda>x. nic_device_id x \<noteq> d) (network_interfaces st),
     softwares := filter (\<lambda>x. sft_device_id x \<noteq> d) (softwares st),
     security_statuses := filter (\<lambda>x. sec_device_id x \<noteq> d) (security_statuses st),
     update_statuses := filter (\<lambda>x. ups_device_id x \<noteq> d) (update_statuses st)\<rparr>"

lemma upsert_security_changes:
  assumes "wf_session s" and "security_statuses (flushed s) = security_statuses (live s)"
  obtains s' i where "upsert_security now device q s = (Inr (), s')" and "wf_session s'"
    and "live s' = security_statuses_update (case q of None \<Rightarrow> \<lambda>rows. rows
       | Some p \<Rightarrow> upserted (\<lambda>x. sec_device_id x = dev_id device) sec_id
           (refreshed_security now p) (new_security now device i)) (live s)"
    and "flushed s' = flushed s" and "durable s' = durable s"
proof (cases q)
  case None
  then show thesis using assms by (intro that[of s 0]) (simp_all add: upsert_security_def)
next
  case (Some p)
  obtain s' where "upsert_security now device q s = (Inr (), s')" "wf_session s'"
    "live s' = security_statuses_update (upserted (\<lambda>x. sec_device_id x = dev_id device) sec_id
       (refreshed_security now p) (new_security now device (next_id s))) (live s)"
    "flushed s' = flushed s" "durable s' = durable s"
    unfolding upsert_security_def Some option.case
    by (rule security_statuses_tbl.upsert_changes[OF assms, where mk = "new_security now device"
          and g = "refreshed_security now p" and P = "\<lambda>x. sec_device_id x = dev_id device"]) simp_all
  with Some show thesis by (intro that[of s' "next_id s"]) simp_all
qed

lemma upsert_updates_changes:
  assumes "wf_session s" and "update_statuses (flushed s) = update_statuses (live s)"
  obtains s' i where "upsert_updates now device q s = (Inr (), s')" and "wf_session s'"
    and "live s' = update_statuses_update (case q of None \<Rightarrow> \<lambda>rows. rows
       | Some p \<Rightarrow> upserted (\<lambda>x. ups_device_id x = dev_id device) ups_id
           (refreshed_updates now p) (new_updates now device i)) (live s)"
    and "flushed s' = flushed s" and "durable s' = durable s"
proof (cases q)
  case None
  then show thesis using assms by (intro that[of s 0]) (simp_all add: upsert_updates_def)
next
  case (Some p)
  obtain s' where "upsert_updates now device q s = (Inr (), s')" "wf_session s'"
    "live s' = update_statuses_update (upserted (\<lambda>x. ups_device_id x = dev_id device) ups_id
       (refreshed_updates now p) (new_updates now device (next_id s))) (live s)"
    "flushed s' = flushed s" "durable s' = durable s"
    unfolding upsert_updates_def Some option.case
    by (rule update_statuses_tbl.upsert_changes[OF assms, where mk = "new_updates now device"
          and g = "refreshed_updates now p" and P = "\<lambda>x. ups_device_id x = dev_id device"]) simp_all
  with Some show thesis by (intro that[of s' "next_id s"]) simp_all
qed

lemma quiet_agent_audit: "quiet (agent_audit now o' a ty i d)"
  unfolding agent_audit_def by (intro quiet_insert quiet_ret) simp

text \<open>The rows a report is stored as, and the store it leaves but for the audit entry.\<close>

definition reported_rows ::
  "datetime \<Rightarrow> device \<Rightarrow> DeviceInventoryPayload \<Rightarrow> disk_inventory list \<Rightarrow>
   network_interface_inventory list \<Rightarrow> installed_software list \<Rightarrow> bool" where
  "reported_rows now device payload disks nics softs \<longleftrightarrow>
     list_all2 (\<lambda>p r. \<exists>i. r = new_disk now device p i) (dvp_disks payload) disks \<and>
     list_all2 (\<lambda>p r. \<exists>i. r = new_interface now device p i) (dvp_network_interfaces payload) nics \<and>
     list_all2 (\<lambda>p r. \<exists>i. r = new_software now device p i) (dvp_installed_software payload) softs"

definition inventory_written ::
  "datetime \<Rightarrow> device \<Rightarrow> DeviceInventoryPayload \<Rightarrow> disk_inventory list \<Rightarrow>
   network_interface_inventory list \<Rightarrow> installed_software list \<Rightarrow> uuid \<Rightarrow> uuid \<Rightarrow> uuid \<Rightarrow>
   store \<Rightarrow> store" where
  "inventory_written now device payload disks nics softs i j l st = st
     \<lparr>device_inventories := upserted (\<lambda>x. inv_device_id x = dev_id device) inv_id
        (refreshed_inventory now device payload) (new_inventory now device i) (device_inventories st),
      disk_inventories := filter (\<lambda>x. dsk_device_id x \<noteq> dev_id device) (disk_inventories st) @ disks,
      network_interfaces := filter (\<lambda>x. nic_device_id x \<noteq> dev_id device) (network_interfaces st) @ nics,
      softwares := filter (\<lambda>x. sft_device_id x \<noteq> dev_id device) (softwares st) @ softs,
      security_statuses := (case dvp_security payload of None \<Rightarrow> \<lambda>rows. rows
         | Some p \<Rightarrow> upserted (\<lambda>x. sec_device_id x = dev_id device) sec_id
             (refreshed_security now p) (new_security now device j)) (security_statuses st),
      update_statuses := (case dvp_updates payload of None \<Rightarrow> \<lambda>rows. rows
         | Some p \<Rightarrow> upserted (\<lambda>x. ups_device_id x = dev_id device) ups_id
             (refreshed_updates now p) (new_updates now device l)) (update_statuses st)\<rparr>"

lemma replace_lists:
  assumes wf: "wf_session s"
    and same: "disk_inventories (flushed s) = disk_inventories (live s)"
      "network_interfaces (flushed s) = network_interfaces (live s)" "softwares (flushed s) = softwares (live s)"
  obtains s2 s3 s4 disks nics softs where
    "replace_rows disk_inventories disk_inventories_update dsk_id
       (\<lambda>d. dsk_device_id d = dev_id device) (new_disk now device) (dvp_disks payload) s = (Inr (), s2)"
    "replace_rows network_interfaces network_interfaces_update nic_id
       (\<lambda>d. nic_device_id d = dev_id device) (new_interface now device) (dvp_network_interfaces payload) s2 = (Inr (), s3)"
    "replace_rows softwares softwares_update sft_id
       (\<lambda>d. sft_device_id d = dev_id device) (new_software now device) (dvp_installed_software payload) s3 = (Inr (), s4)"
    "wf_session s4" "durable s4 = durable s" "reported_rows now device payload disks nics softs"
    "live s4 = softwares_update (\<lambda>rs. filter (\<lambda>x. sft_device_id x \<noteq> dev_id device) rs @ softs)
       (network_interfaces_update (\<lambda>rs. filter (\<lambda>x. nic_device_id x \<noteq> dev_id device) rs @ nics)
       (disk_inventories_update (\<lambda>rs. filter (\<lambda>x. dsk_device_id x \<noteq> dev_id device) rs @ disks) (live s)))"
    "security_statuses (flushed s4) = security_statuses (flushed s)"
    "update_statuses (flushed s4) = update_statuses (flushed s)"
proof -
  obtain s2 disks where s2: "replace_rows disk_inventories disk_inventories_update dsk_id
      (\<lambda>d. dsk_device_id d = dev_id device) (new_disk now device) (dvp_disks payload) s = (Inr (), s2)" "wf_session s2"
    and disks: "list_all2 (\<lambda>p r. \<exists>i. r = new_disk now device p i) (dvp_disks payload) disks"
    and l2: "live s2 = disk_inventories_update (\<lambda>rs. filter (\<lambda>x. dsk_device_id x \<noteq> dev_id device) rs @ disks) (live s)"
      "flushed s2 = disk_inventories_update (filter (\<lambda>x. dsk_device_id x \<noteq> dev_id device)) (flushed s)" "durable s2 = durable s"
    by (rule disk_inventories_tbl.replace_changes[OF wf, where mk = "new_disk now device"
          and P = "\<lambda>x. dsk_device_id x = dev_id device" and items = "dvp_disks payload"]) (simp_all add: same)
  obtain s3 nics where s3: "replace_rows network_interfaces network_interfaces_update nic_id
      (\<lambda>d. nic_device_id d = dev_id device) (new_interface now device) (dvp_network_interfaces payload) s2 = (Inr (), s3)" "wf_session s3"
    and nics: "list_all2 (\<lambda>p r. \<exists>i. r = new_interface now device p i) (dvp_network_interfaces payload) nics"
    and l3: "live s3 = network_interfaces_update (\<lambda>rs. filter (\<lambda>x. nic_device_id x \<noteq> dev_id device) rs @ nics) (live s2)"
      "flushed s3 = network_interfaces_update (filter (\<lambda>x. nic_device_id x \<noteq> dev_id device)) (flushed s2)" "durable s3 = durable s2"
    by (rule network_interfaces_tbl.replace_changes[OF s2(2), where mk = "new_interface now device"
          and P = "\<lambda>x. nic_device_id x = dev_id device" and items = "dvp_network_interfaces payload"]) (simp_all add: same l2)
  obtain s4 softs where s4: "replace_rows softwares softwares_update sft_id
      (\<lambda>d. sft_device_id d = dev_id device) (new_software now device) (dvp_installed_software payload) s3 = (Inr (), s4)" "wf_session s4"
    and softs: "list_all2 (\<lambda>p r. \<exists>i. r = new_software now device p i) (dvp_installed_software payload) softs"
    and l4: "live s4 = softwares_update (\<lambda>rs. filter (\<lambda>x. sft_device_id x \<noteq> dev_id device) rs @ softs) (live s3)"
      "flushed s4 = softwares_update (filter (\<lambda>x. sft_device_id x \<noteq> dev_id device)) (flushed s3)" "durable s4 = durable s3"
    by (rule softwares_tbl.replace_changes[OF s3(2), where mk = "new_software now device"
          and P = "\<lambda>x. sft_device_id x = dev_id device" and items = "dvp_installed_software payload"]) (simp_all add: same l2 l3)
  show thesis
    by (rule that[OF s2(1) s3(1) s4]) (simp_all add: l2 l3 l4 reported_rows_def disks nics softs)
qed

lemma upsert_inventory_run:
  assumes wf: "wf_session s" and sync: "synced s"
  obtains s' i j l disks nics softs where
    "upsert_inventory now device payload s = (Inr (), s')" "durable s' = durable s"
    "reported_rows now device payload disks nics softs"
    "core (live s') = inventory_written now device payload disks nics softs i j l (core (live s))"
proof -
  have same: "flushed s = live s" using sync by (simp add: synced_def)
  obtain s1 where s1: "upsert_row device_inventories device_inventories_update inv_id
      (\<lambda>i. inv_device_id i = dev_id device) (new_inventory now device) (refreshed_inventory now device payload) s =
      (Inr (), s1)" "wf_session s1"
    and l1: "live s1 = device_inventories_update (upserted (\<lambda>x. inv_device_id x = dev_id device) inv_id
         (refreshed_inventory now device payload) (new_inventory now device (next_id s))) (live s)"
      "flushed s1 = flushed s" "durable s1 = durable s"
    by (rule device_inventories_tbl.upsert_changes[OF wf, where mk = "new_inventory now device"
          and g = "refreshed_inventory now device payload" and P = "\<lambda>x. inv_device_id x = dev_id device"]) (simp_all add: same)
  obtain s2 s3 s4 disks nics softs where s4: "replace_rows disk_inventories disk_inventories_update dsk_id
      (\<lambda>d. dsk_device_id d = dev_id device) (new_disk now device) (dvp_disks payload) s1 = (Inr (), s2)"
    "replace_rows network_interfaces network_interfaces_update nic_id
      (\<lambda>d. nic_device_id d = dev_id device) (new_interface now device) (dvp_network_interfaces payload) s2 = (Inr (), s3)"
    "replace_rows softwares softwares_update sft_id
      (\<lambda>d. sft_device_id d = dev_id device) (new_software now device) (dvp_installed_software payload) s3 = (Inr (), s4)"
    "wf_session s4" "durable s4 = durable s1" and rows: "reported_rows now device payload disks nics softs"
    and l4: "live s4 = softwares_update (\<lambda>rs. filter (\<lambda>x. sft_device_id x \<noteq> dev_id device) rs @ softs)
       (network_interfaces_update (\<lambda>rs. filter (\<lambda>x. nic_device_id x \<noteq> dev_id device) rs @ nics)
       (disk_inventories_update (\<lambda>rs. filter (\<lambda>x. dsk_device_id x \<noteq> dev_id device) rs @ disks) (live s1)))"
    "security_statuses (flushed s4) = security_statuses (flushed s1)"
    "update_statuses (flushed s4) = update_statuses (flushed s1)"
    by (rule replace_lists[OF s1(2)]) (simp_all add: same l1)
  obtain s5 j where s5: "upsert_security now device (dvp_security payload) s4 = (Inr (), s5)" "wf_session s5"
    and l5: "live s5 = security_statuses_update (case dvp_security payload of None \<Rightarrow> \<lambda>rows. rows
          | Some p \<Rightarrow> upserted (\<lambda>x. sec_device_id x = dev_id device) sec_id
              (refreshed_security now p) (new_security now device j)) (live s4)"
      "flushed s5 = flushed s4" "durable s5 = durable s4"
    by (rule upsert_security_changes[OF s4(4)]) (simp_all add: same l1 l4)
  obtain s6 l where s6: "upsert_updates now device (dvp_updates payload) s5 = (Inr (), s6)" "wf_session s6"
    and l6: "live s6 = update_statuses_update (case dvp_updates payload of None \<Rightarrow> \<lambda>rows. rows
          | Some p \<Rightarrow> upserted (\<lambda>x. ups_device_id x = dev_id device) ups_id
              (refreshed_updates now p) (new_updates now device l)) (live s5)"
      "flushed s6 = flushed s5" "durable s6 = durable s5"
    by (rule upsert_updates_changes[OF s5(2)]) (simp_all add: same l1 l4 l5)
  obtain s7 where s7: "agent_audit now (dev_organization_id device) ''inventory.updated'' ''device''
       (Some (uuid_str (dev_id device)))
       [(''disk_count'', JInt (int (length (dvp_disks payload)))),
        (''network_interface_count'', JInt (int (length (dvp_network_interfaces payload)))),
        (''software_count'', JInt (int (length (dvp_installed_software payload))))] s6 = (Inr (), s7)"
    "core (live s7) = core (live s6)" "durable s7 = durable s6"
    by (rule quietD[OF quiet_agent_audit])
  show thesis
  proof (rule that[OF _ _ rows])
    show "upsert_inventory now device payload s = (Inr (), s7)"
      by (simp add: upsert_inventory_def andThen_run s1(1) s4(1-3) s5(1) s6(1) s7(1))
    show "durable s7 = durable s" by (simp add: s7(3) l1(3) s4(5) l5(3) l6(3))
    show "core (live s7) = inventory_written now device payload disks nics softs (next_id s) j l (core (live s))"
      unfolding s7(2) l6(1) l5(1) l4(1) l1(1) inventory_written_def
      by (rule store.equality) (simp_all add: core_def)
  qed
qed

lemma new_row_reported:
  "list_all2 (\<lambda>p r. \<exists>i. r = new_disk now device p i) dps disks \<Longrightarrow>
     map disk_report disks = dps \<and> list_all (\<lambda>x. dsk_device_id x = dev_id device) disks"
  "list_all2 (\<lambda>p r. \<exists>i. r = new_interface now device p i) nps nics \<Longrightarrow>
     map interface_report nics = nps \<and> list_all (\<lambda>x. nic_device_id x = dev_id device) nics"
  "list_all2 (\<lambda>p r. \<exists>i. r = new_software now device p i) sps softs \<Longrightarrow>
     map software_report softs = sps \<and> list_all (\<lambda>x. sft_device_id x = dev_id device) softs"
  by (induction rule: list_all2_induct;
      auto simp: disk_report_def new_disk_def interface_report_def new_interface_def
        software_report_def new_software_def)+

lemma new_rows_reported:
  assumes "reported_rows now device payload disks nics softs"
  shows "map disk_report disks = dvp_disks payload" "list_all (\<lambda>x. dsk_device_id x = dev_id device) disks"
    "map interface_report nics = dvp_network_interfaces payload" "list_all (\<lambda>x. nic_device_id x = dev_id device) nics"
    "map software_report softs = dvp_installed_software payload" "list_all (\<lambda>x. sft_device_id x = dev_id device) softs"
proof -
  from assms have rows: "list_all2 (\<lambda>p r. \<exists>i. r = new_disk now device p i) (dvp_disks payload) disks"
    "list_all2 (\<lambda>p r. \<exists>i. r = new_interface now device p i) (dvp_network_interfaces payload) nics"
    "list_all2 (\<lambda>p r. \<exists>i. r = new_software now device p i) (dvp_installed_software payload) softs"
    by (simp_all only: reported_rows_def)
  note disk = new_row_reported(1)[OF rows(1)] and nic = new_row_reported(2)[OF rows(2)]
    and soft = new_row_reported(3)[OF rows(3)]
  show "map disk_report disks = dvp_disks payload" "list_all (\<lambda>x. dsk_device_id x = dev_id device) disks"
    using disk by (rule conjunct1, rule conjunct2)
  show "map interface_report nics = dvp_network_interfaces payload" "list_all (\<lambda>x. nic_device_id x = dev_id device) nics"
    using nic by (rule conjunct1, rule conjunct2)
  show "map software_report softs = dvp_installed_software payload" "list_all (\<lambda>x. sft_device_id x = dev_id device) softs"
    using soft by (rule conjunct1, rule conjunct2)
qed

lemma find_of_filter: "filter P rows = [r] \<Longrightarrow> List.find P rows = Some r"
  by (induction rows) (auto split: if_splits)

lemma reports_of_refreshed [simp]:
  "security_report (refreshed_security now p x) = p"
  "updates_report (refreshed_updates now q y) = q"
  by (simp_all add: security_report_def refreshed_security_def updates_report_def refreshed_updates_def)

text \<open>An upsert that only happens when the report has the part.\<close>

lemma optional_upsert:
  assumes "distinct (map k rows)" and "distinct (map d rows)"
    and rows': "rows' = (case q of None \<Rightarrow> \<lambda>rs. rs | Some p \<Rightarrow> upserted P k (g p) new) rows"
    and P: "\<And>x. P x \<longleftrightarrow> d x = i" "P new" and g: "\<And>p x. d (g p x) = d x" "\<And>p x. rep (g p x) = p"
  shows "map_option rep (List.find P rows') = (if q = None then map_option rep (List.find P rows) else q)"
    and "filter (\<lambda>x. \<not> P x) rows' = filter (\<lambda>x. \<not> P x) rows" and "distinct (map d rows')"
proof -
  have u: "filter P (upserted P k (g p) new rows) = [g p (upsert_base P new rows)]"
    "filter (\<lambda>x. \<not> P x) (upserted P k (g p) new rows) = filter (\<lambda>x. \<not> P x) rows"
    "distinct (map d (upserted P k (g p) new rows))" for p
    by (rule upserted_rows[OF assms(1,2) P, OF g(1)])+
  show "map_option rep (List.find P rows') = (if q = None then map_option rep (List.find P rows) else q)"
    using find_of_filter[OF u(1)] g(2) by (cases q) (simp_all add: rows')
  show "filter (\<lambda>x. \<not> P x) rows' = filter (\<lambda>x. \<not> P x) rows" using u(2) by (cases q) (simp_all add: rows')
  show "distinct (map d rows')" using u(3) assms(2) by (cases q) (simp_all add: rows')
qed

text \<open>What the tables hold after the rows of a report were written.\<close>

lemma inventory_written_unique:
  assumes core: "core st' = inventory_written now device payload disks nics softs i j l (core st)"
    and unique: "unique_ok st" and ids: "ids_ok n st"
  shows "unique_ok st'"
proof -
  have dist: "distinct (map inv_id (device_inventories st))" "distinct (map sec_id (security_statuses st))"
    "distinct (map ups_id (update_statuses st))" "distinct (map inv_device_id (device_inventories st))"
    "distinct (map sec_device_id (security_statuses st))" "distinct (map ups_device_id (update_statuses st))"
    using ids unique by (simp_all add: ids_ok_def keys_ok_def unique_ok_def)
  note tables = arg_cong[OF core[unfolded inventory_written_def], of device_inventories, simplified]
    arg_cong[OF core[unfolded inventory_written_def], of security_statuses, simplified]
    arg_cong[OF core[unfolded inventory_written_def], of update_statuses, simplified]
  have "distinct (map inv_device_id (device_inventories st'))"
    unfolding tables by (rule upserted_rows[OF dist(1,4)]; simp)
  moreover have "distinct (map sec_device_id (security_statuses st'))"
    by (rule optional_upsert(3)[OF dist(2,5) tables(2), where rep = security_report]) simp_all
  moreover have "distinct (map ups_device_id (update_statuses st'))"
    by (rule optional_upsert(3)[OF dist(3,6) tables(3), where rep = updates_report]) simp_all
  ultimately show ?thesis
    using unique unique_core[of st'] unique_core[of st]
    by (simp add: core inventory_written_def tables unique_ok_def)
qed

lemma inventory_written_read:
  assumes core: "core st' = inventory_written now device payload disks nics softs i j l (core st)"
    and new: "reported_rows now device payload disks nics softs" and unique: "unique_ok st" and ids: "ids_ok n st"
  shows "\<exists>v. filter (\<lambda>x. inv_device_id x = dev_id device) (device_inventories st') = [v] \<and>
    inv_hostname v = dev_hostname device \<and> inv_inventory_refreshed_at v = now \<and>
    device_report st' (dev_id device) v = payload
      \<lparr>dvp_security := (if dvp_security payload = None
          then map_option security_report (List.find (\<lambda>x. sec_device_id x = dev_id device) (security_statuses st))
          else dvp_security payload),
       dvp_updates := (if dvp_updates payload = None
          then map_option updates_report (List.find (\<lambda>x. ups_device_id x = dev_id device) (update_statuses st))
          else dvp_updates payload)\<rparr> \<and>
    other_inventories (dev_id device) st' = other_inventories (dev_id device) st"
proof -
  let ?d = "dev_id device"
  note written = core[unfolded inventory_written_def]
  note tables = arg_cong[OF written, of device_inventories, simplified] arg_cong[OF written, of disk_inventories, simplified]
    arg_cong[OF written, of network_interfaces, simplified] arg_cong[OF written, of softwares, simplified]
    arg_cong[OF written, of security_statuses, simplified] arg_cong[OF written, of update_statuses, simplified]
  have dist: "distinct (map inv_id (device_inventories st))" "distinct (map sec_id (security_statuses st))"
    "distinct (map ups_id (update_statuses st))" "distinct (map inv_device_id (device_inventories st))"
    "distinct (map sec_device_id (security_statuses st))" "distinct (map ups_device_id (update_statuses st))"
    using ids unique by (simp_all add: ids_ok_def keys_ok_def unique_ok_def)
  let ?v = "refreshed_inventory now device payload
      (upsert_base (\<lambda>x. inv_device_id x = ?d) (new_inventory now device i) (device_inventories st))"
  have inv: "filter (\<lambda>x. inv_device_id x = ?d) (device_inventories st') = [?v]"
    "filter (\<lambda>x. inv_device_id x \<noteq> ?d) (device_inventories st') = filter (\<lambda>x. inv_device_id x \<noteq> ?d) (device_inventories st)"
    unfolding tables by (rule upserted_rows[OF dist(1,4)]; simp)+
  note sec = optional_upsert[OF dist(2,5) tables(5), where rep = security_report and i = ?d, simplified]
  note ups = optional_upsert[OF dist(3,6) tables(6), where rep = updates_report and i = ?d, simplified]
  note rows = new_rows_reported[OF new]
  have lists: "filter (\<lambda>x. dsk_device_id x = ?d) (disk_inventories st') = disks"
    "filter (\<lambda>x. nic_device_id x = ?d) (network_interfaces st') = nics"
    "filter (\<lambda>x. sft_device_id x = ?d) (softwares st') = softs"
    using rows by (simp_all add: tables list_all_iff)
  have "device_report st' ?d ?v = payload
      \<lparr>dvp_security := (if dvp_security payload = None
          then map_option security_report (List.find (\<lambda>x. sec_device_id x = ?d) (security_statuses st))
          else dvp_security payload),
       dvp_updates := (if dvp_updates payload = None
          then map_option updates_report (List.find (\<lambda>x. ups_device_id x = ?d) (update_statuses st))
          else dvp_updates payload)\<rparr>"
    using sec ups rows
    by (intro DeviceInventoryPayload.equality) (simp_all add: device_report_def lists refreshed_inventory_def)
  moreover have "other_inventories ?d st' = other_inventories ?d st"
    using inv(2) sec ups rows by (simp add: other_inventories_def tables list_all_iff)
  moreover have "inv_hostname ?v = dev_hostname device" "inv_inventory_refreshed_at ?v = now"
    by (simp_all add: refreshed_inventory_def)
  ultimately show ?thesis using inv(1) by blast
qed


definition sample_report :: DeviceInventoryPayload where
  "sample_report =
    \<lparr>dvp_os_version = Some ''12'', dvp_os_build = None, dvp_cpu_model = None, dvp_cpu_cores = Some 8,
     dvp_memory_total_bytes = Some 16000000000, dvp_bios_vendor = None, dvp_bios_version = None,
     dvp_system_manufacturer = None, dvp_system_model = None,
     dvp_disks = [\<lparr>dip_name = ''sda'', dip_filesystem = Some ''ext4'', dip_size_bytes = Some 1000,
                   dip_free_bytes = Some 50\<rparr>],
     dvp_network_interfaces = [], dvp_installed_software = [], dvp_security = None,
     dvp_updates = Some \<lparr>uup_pending_reboot = Some True, uup_update_status = None,
       uup_last_update_check_at = None, uup_details = []\<rparr>\<rparr>"


end
