(* ===== verification/Remote.thy ===== *)
theory Remote
  imports Inventory JobsApi
begin

text \<open>
  Remote access through RustDesk: \<^verbatim>\<open>backend/app/api/remote.py\<close>. Agents report the state of
  their RustDesk client, operators configure providers and launch sessions. The property:
  a session is only ever launched on an installed link of a device of the operator's
  organization, and leaves exactly one session audit naming the operator.
\<close>

definition PROVIDER_RUSTDESK_OSS :: string where
  "PROVIDER_RUSTDESK_OSS = ''rustdesk_oss''"

definition provider_response :: "remote_provider_config \<Rightarrow> RemoteProviderResponse" where
  "provider_response provider =
     \<lparr>rpr_id = rpc_id provider, rpr_organization_id = rpc_organization_id provider,
      rpr_provider_type = rpc_provider_type provider, rpr_name = rpc_name provider,
      rpr_host = rpc_host provider, rpr_relay_host = rpc_relay_host provider,
      rpr_public_key = rpc_public_key provider, rpr_enabled = rpc_enabled provider,
      rpr_created_at = rpc_created_at provider\<rparr>"

definition audit_response :: "remote_session_audit \<Rightarrow> RemoteSessionAuditResponse" where
  "audit_response a =
     \<lparr>rsr_id = rsa_id a, rsr_organization_id = rsa_organization_id a, rsr_device_id = rsa_device_id a,
      rsr_provider_config_id = rsa_provider_config_id a, rsr_actor_user_id = rsa_actor_user_id a,
      rsr_provider_type = rsa_provider_type a, rsr_action = rsa_action a,
      rsr_launch_url = rsa_launch_url a, rsr_metadata_json = rsa_metadata_json a,
      rsr_created_at = rsa_created_at a\<rparr>"

definition remote_device_or_404 :: "uuid \<Rightarrow> uuid \<Rightarrow> device db_op" where
  "remote_device_or_404 device_id organization_id =
     andThen (gets (db_get devices dev_id device_id)) (\<lambda>found.
     case found of
       None \<Rightarrow> raise (HTTPException 404 ''Device not found'')
     | Some device \<Rightarrow>
         if dev_organization_id device \<noteq> organization_id
         then raise (HTTPException 404 ''Device not found'') else ret device)"

definition default_provider :: "uuid \<Rightarrow> remote_provider_config option db_op" where
  "default_provider organization_id =
     andThen (gets (db_select_by remote_providers rpc_id rpc_created_at
        (\<lambda>p. rpc_organization_id p = organization_id \<and>
             rpc_provider_type p = PROVIDER_RUSTDESK_OSS \<and> rpc_enabled p))) (\<lambda>providers.
     ret (case providers of [] \<Rightarrow> None | p # _ \<Rightarrow> Some p))"

definition remote_link_response ::
  "uuid \<Rightarrow> uuid \<Rightarrow> remote_device_link option \<Rightarrow> remote_provider_config option \<Rightarrow>
   RemoteDeviceLinkResponse" where
  "remote_link_response organization_id device_id link provider =
     \<lparr>rlr_id = map_option rdl_id link, rlr_organization_id = organization_id,
      rlr_device_id = device_id,
      rlr_provider_config_id = (case link of Some l \<Rightarrow> rdl_provider_config_id l
         | None \<Rightarrow> map_option rpc_id provider),
      rlr_provider_type = PROVIDER_RUSTDESK_OSS,
      rlr_rustdesk_id = Option.bind link rdl_rustdesk_id,
      rlr_installed = (case link of None \<Rightarrow> False | Some l \<Rightarrow> rdl_installed l),
      rlr_last_status = (case link of None \<Rightarrow> ''unknown'' | Some l \<Rightarrow> rdl_last_status l),
      rlr_last_reported_at = Option.bind link rdl_last_reported_at,
      rlr_provider = map_option provider_response provider\<rparr>"

definition rustdesk_link :: "uuid \<Rightarrow> uuid \<Rightarrow> remote_device_link \<Rightarrow> bool" where
  "rustdesk_link organization_id device_id l \<longleftrightarrow> rdl_organization_id l = organization_id \<and>
     rdl_device_id l = device_id \<and> rdl_provider_type l = PROVIDER_RUSTDESK_OSS"

definition new_link :: "datetime \<Rightarrow> device \<Rightarrow> uuid \<Rightarrow> remote_device_link" where
  "new_link now device i =
     \<lparr>rdl_id = i, rdl_organization_id = dev_organization_id device, rdl_device_id = dev_id device,
      rdl_provider_config_id = None, rdl_provider_type = PROVIDER_RUSTDESK_OSS,
      rdl_rustdesk_id = None, rdl_installed = False, rdl_last_status = ''unknown'',
      rdl_last_reported_at = None, rdl_created_at = now\<rparr>"

definition reported_link ::
  "datetime \<Rightarrow> RemoteAccessPayload \<Rightarrow> remote_provider_config option \<Rightarrow> remote_device_link \<Rightarrow>
   remote_device_link" where
  "reported_link now payload provider link = link
     \<lparr>rdl_provider_config_id := (case provider of Some p \<Rightarrow> Some (rpc_id p)
         | None \<Rightarrow> rdl_provider_config_id link),
      rdl_installed := rap_installed payload, rdl_rustdesk_id := rap_device_id payload,
      rdl_last_status := rap_status payload, rdl_last_reported_at := Some now\<rparr>"

definition upsert_rustdesk_status :: "datetime \<Rightarrow> device \<Rightarrow> RemoteAccessPayload \<Rightarrow> unit db_op" where
  "upsert_rustdesk_status now device payload =
     (if rap_provider_type payload \<noteq> PROVIDER_RUSTDESK_OSS then ret ()
      else andThen (default_provider (dev_organization_id device)) (\<lambda>provider.
           upsert_row remote_links remote_links_update rdl_id
             (rustdesk_link (dev_organization_id device) (dev_id device)) (new_link now device)
             (reported_link now payload provider)))"

definition operator_audit ::
  "datetime \<Rightarrow> user \<Rightarrow> string \<Rightarrow> string \<Rightarrow> string option \<Rightarrow> json_dict \<Rightarrow> unit db_op" where
  "operator_audit now current action target_type target_id metadata =
     andThen (insert_row audit_logs_update (\<lambda>i.
       \<lparr>aud_id = i, aud_organization_id = usr_organization_id current,
        aud_actor_user_id = Some (usr_id current), aud_action = action,
        aud_target_type = target_type, aud_target_id = target_id,
        aud_metadata_json = metadata, aud_created_at = now\<rparr>)) (\<lambda>_. ret ())"

definition list_remote_providers :: "user db_op \<Rightarrow> RemoteProviderResponse list db_op" where
  "list_remote_providers auth =
     andThen (require_permission ''remote:read'' auth) (\<lambda>current.
     andThen (gets (db_select_by remote_providers rpc_id rpc_created_at
        (\<lambda>p. rpc_organization_id p = usr_organization_id current))) (\<lambda>providers.
     ret (map provider_response providers)))"

definition create_remote_provider ::
  "datetime \<Rightarrow> user db_op \<Rightarrow> RemoteProviderCreateRequest \<Rightarrow> RemoteProviderResponse db_op" where
  "create_remote_provider now auth payload =
     andThen (require_permission ''remote:manage'' auth) (\<lambda>current.
     andThen (insert_row remote_providers_update (\<lambda>i.
       \<lparr>rpc_id = i, rpc_organization_id = usr_organization_id current,
        rpc_provider_type = rpq_provider_type payload, rpc_name = rpq_name payload,
        rpc_host = rpq_host payload, rpc_relay_host = rpq_relay_host payload,
        rpc_public_key = rpq_public_key payload, rpc_enabled = rpq_enabled payload,
        rpc_created_at = now\<rparr>)) (\<lambda>provider.
     andThen (operator_audit now current ''remote.provider.created'' ''remote_provider'' None
        [(''provider_type'', JStr (rpq_provider_type payload)), (''host'', JStr (rpq_host payload))]) (\<lambda>_.
     andThen db_commit (\<lambda>_. ret (provider_response provider)))))"

definition get_device_remote :: "user db_op \<Rightarrow> uuid \<Rightarrow> RemoteDeviceLinkResponse db_op" where
  "get_device_remote auth device_id =
     andThen (require_permission ''remote:read'' auth) (\<lambda>current.
     andThen (remote_device_or_404 device_id (usr_organization_id current)) (\<lambda>device.
     andThen (default_provider (usr_organization_id current)) (\<lambda>provider0.
     andThen (gets (db_scalar remote_links rdl_id
        (rustdesk_link (usr_organization_id current) (dev_id device)))) (\<lambda>link.
     andThen (case Option.bind link rdl_provider_config_id of
                None \<Rightarrow> ret provider0
              | Some pid \<Rightarrow>
                  andThen (gets (db_get remote_providers rpc_id pid)) (\<lambda>found.
                  ret (case found of None \<Rightarrow> provider0 | Some p \<Rightarrow> Some p))) (\<lambda>provider.
     ret (remote_link_response (usr_organization_id current) (dev_id device) link provider))))))"

text \<open>The RustDesk id of a link a session can be launched on.\<close>

definition launchable :: "remote_device_link option \<Rightarrow> (remote_device_link \<times> string) option" where
  "launchable link =
     (case link of
        None \<Rightarrow> None
      | Some l \<Rightarrow>
          if \<not> rdl_installed l then None
          else (case rdl_rustdesk_id l of
                  None \<Rightarrow> None
                | Some rid \<Rightarrow> if rid = [] then None else Some (l, rid)))"

definition launch_audit ::
  "datetime \<Rightarrow> user \<Rightarrow> device \<Rightarrow> string \<Rightarrow> remote_provider_config option \<Rightarrow> uuid \<Rightarrow>
   remote_session_audit" where
  "launch_audit now current device rid provider i =
     \<lparr>rsa_id = i, rsa_organization_id = usr_organization_id current, rsa_device_id = dev_id device,
      rsa_provider_config_id = map_option rpc_id provider, rsa_actor_user_id = Some (usr_id current),
      rsa_provider_type = PROVIDER_RUSTDESK_OSS, rsa_action = ''remote.launch'',
      rsa_launch_url = Some (''rustdesk://'' @ rid),
      rsa_metadata_json = [(''hostname'', JStr (dev_hostname device)),
        (''provider_type'', JStr PROVIDER_RUSTDESK_OSS), (''rustdesk_id'', JStr rid)],
      rsa_created_at = now\<rparr>"

definition launch_on ::
  "datetime \<Rightarrow> user \<Rightarrow> device \<Rightarrow> remote_device_link \<times> string \<Rightarrow> RemoteLaunchResponse db_op" where
  "launch_on now current device target =
     (case target of (link, rid) \<Rightarrow>
        andThen (case rdl_provider_config_id link of
                   None \<Rightarrow> ret None
                 | Some pid \<Rightarrow> gets (db_get remote_providers rpc_id pid)) (\<lambda>provider.
        andThen (insert_row remote_session_audits_update
                   (launch_audit now current device rid provider)) (\<lambda>a.
        andThen (operator_audit now current ''remote.launch'' ''device''
                   (Some (uuid_str (dev_id device)))
                   [(''provider_type'', JStr PROVIDER_RUSTDESK_OSS), (''rustdesk_id'', JStr rid)]) (\<lambda>_.
        andThen db_commit (\<lambda>_.
        ret \<lparr>rln_launch_url = ''rustdesk://'' @ rid, rln_rustdesk_id = rid,
             rln_provider_type = ''rustdesk_oss'', rln_audit_id = rsa_id a,
             rln_manual_instructions =
               ''If your browser blocks protocol launch, open RustDesk locally and connect to the listed RustDesk ID.''\<rparr>)))))"

definition launch_device_remote :: "datetime \<Rightarrow> user db_op \<Rightarrow> uuid \<Rightarrow> RemoteLaunchResponse db_op" where
  "launch_device_remote now auth device_id =
     andThen (require_permission ''remote:launch'' auth) (\<lambda>current.
     andThen (remote_device_or_404 device_id (usr_organization_id current)) (\<lambda>device.
     andThen (gets (db_scalar remote_links rdl_id
        (rustdesk_link (usr_organization_id current) (dev_id device)))) (\<lambda>link.
     andThen (require_some (HTTPException 404 ''RustDesk device link not available'') (launchable link))
       (launch_on now current device))))"

definition list_device_remote_audit :: "user db_op \<Rightarrow> uuid \<Rightarrow> RemoteSessionAuditResponse list db_op" where
  "list_device_remote_audit auth device_id =
     andThen (require_permission ''remote:read'' auth) (\<lambda>current.
     andThen (remote_device_or_404 device_id (usr_organization_id current)) (\<lambda>_.
     andThen (gets (db_select_by remote_session_audits rsa_id (\<lambda>a. - rsa_created_at a)
        (\<lambda>a. rsa_organization_id a = usr_organization_id current \<and> rsa_device_id a = device_id))) (\<lambda>audits.
     ret (map audit_response audits))))"


subsection \<open>Frames\<close>

lemma keeps_remote_reads [keeps_intro]:
  "keeps I (remote_device_or_404 d o')" "keeps I (default_provider o')"
  unfolding remote_device_or_404_def default_provider_def by (intro keeps_intro)+

lemma remote_device_InrD:
  "remote_device_or_404 i o' s = (Inr device, s') \<Longrightarrow>
     s' = s \<and> db_get devices dev_id i s = Some device \<and> dev_id device = i \<and> dev_organization_id device = o'"
  using devices_tbl.get_SomeD[of i s]
  by (auto simp: remote_device_or_404_def split: option.splits if_splits)

lemma wf_operator_audit [keeps_intro]: "keeps wf_session (operator_audit now current a ty i d)"
  unfolding operator_audit_def by (intro keeps_intro audit_logs_tbl.insert_wf; simp)

lemma reported_link_key [simp]: "rdl_id (reported_link now p v l) = rdl_id l"
  by (simp add: reported_link_def)

lemma wf_remote_writes [keeps_intro]:
  "keeps wf_session (upsert_rustdesk_status now device q)"
  unfolding upsert_rustdesk_status_def
  by (intro keeps_intro remote_links_tbl.upsert_wf; simp add: new_link_def)

lemma wf_remote_handlers [keeps_intro]:
  assumes "keeps wf_session auth"
  shows "keeps wf_session (list_remote_providers auth)"
    and "keeps wf_session (create_remote_provider now auth p)"
    and "keeps wf_session (get_device_remote auth d)"
    and "keeps wf_session (launch_device_remote now auth d)"
    and "keeps wf_session (list_device_remote_audit auth d)"
  unfolding list_remote_providers_def create_remote_provider_def get_device_remote_def
    launch_device_remote_def launch_on_def list_device_remote_audit_def
  by (intro keeps_intro assms remote_providers_tbl.insert_wf remote_session_audits_tbl.insert_wf;
      simp add: launch_audit_def)+

subsection \<open>Launching a session\<close>

definition launch_entry :: "datetime \<Rightarrow> user \<Rightarrow> device \<Rightarrow> string \<Rightarrow> uuid \<Rightarrow> audit_log" where
  "launch_entry now current device rid i =
     \<lparr>aud_id = i, aud_organization_id = usr_organization_id current,
      aud_actor_user_id = Some (usr_id current), aud_action = ''remote.launch'',
      aud_target_type = ''device'', aud_target_id = Some (uuid_str (dev_id device)),
      aud_metadata_json = [(''provider_type'', JStr PROVIDER_RUSTDESK_OSS), (''rustdesk_id'', JStr rid)],
      aud_created_at = now\<rparr>"

lemma launch_on_run:
  assumes "launch_on now current device (link, rid) (open_session w) = (Inr resp, s)"
  shows "\<exists>provider. durable s =
       audit_logs_update (\<lambda>rs. rs @ [launch_entry now current device rid (Suc (srv_next_id w))])
         (remote_session_audits_update (\<lambda>rs. rs @
            [launch_audit now current device rid provider (srv_next_id w)]) (srv_store w)) \<and>
       rln_launch_url resp = ''rustdesk://'' @ rid \<and> rln_audit_id resp = srv_next_id w"
proof -
  let ?provider = "case rdl_provider_config_id link of None \<Rightarrow> None
     | Some pid \<Rightarrow> db_get remote_providers rpc_id pid (open_session w)"
  show ?thesis using assms
    by (intro exI[of _ ?provider], cases "rdl_provider_config_id link")
      (auto simp: launch_on_def insert_row_def andThen_run operator_audit_def db_commit_def
        launch_entry_def launch_audit_def split: if_splits)
qed

text \<open>C33. A remote session is launched only by an active operator with \<open>remote:launch\<close>, for a
  device of the operator's organization whose RustDesk link is installed and has an id; it
  commits exactly one session audit and one audit log entry, both naming the operator, and
  answers with the link's URL and the key of that audit.\<close>

theorem launch_audited:
  assumes w: "wf_server w"
    and run: "run_request (launch_device_remote now (require_authenticated_user rt cfg t cred) i) w = (Inr resp, w')"
  shows "\<exists>current \<in> set (users (srv_store w)). \<exists>device \<in> set (devices (srv_store w)).
     \<exists>link \<in> set (remote_links (srv_store w)). \<exists>rid a entry.
       usr_is_active current \<and> ''remote:launch'' \<in> set (role_permissions (usr_role current)) \<and>
       dev_id device = i \<and> dev_organization_id device = usr_organization_id current \<and>
       rustdesk_link (usr_organization_id current) i link \<and> rdl_installed link \<and>
       rdl_rustdesk_id link = Some rid \<and> rid \<noteq> [] \<and>
       srv_store w' = audit_logs_update (\<lambda>rs. rs @ [entry])
         (remote_session_audits_update (\<lambda>rs. rs @ [a]) (srv_store w)) \<and>
       rsa_actor_user_id a = Some (usr_id current) \<and> aud_actor_user_id entry = Some (usr_id current) \<and>
       rsa_organization_id a = usr_organization_id current \<and> rsa_device_id a = i \<and>
       rsa_launch_url a = Some (''rustdesk://'' @ rid) \<and>
       rln_launch_url resp = ''rustdesk://'' @ rid \<and> rln_audit_id resp = rsa_id a"
proof -
  let ?auth = "require_authenticated_user rt cfg t cred"
  let ?s = "open_session w"
  from run obtain s where s: "launch_device_remote now ?auth i ?s = (Inr resp, s)"
    and w': "w' = close_session s" by (rule run_requestE)
  from s obtain current where auth: "?auth ?s = (Inr current, ?s)"
    and perm: "''remote:launch'' \<in> set (role_permissions (usr_role current))"
    and body: "andThen (remote_device_or_404 i (usr_organization_id current)) (\<lambda>device.
       andThen (gets (db_scalar remote_links rdl_id
          (rustdesk_link (usr_organization_id current) (dev_id device)))) (\<lambda>link.
       andThen (require_some (HTTPException 404 ''RustDesk device link not available'') (launchable link))
         (launch_on now current device))) ?s = (Inr resp, s)"
    unfolding launch_device_remote_def using authenticate_state by (elim guarded_InrE) blast+
  have cur: "current \<in> set (users (srv_store w))" "usr_is_active current"
    using authenticated_open[OF w auth] by blast+
  from body obtain device link rid where device: "db_get devices dev_id i ?s = Some device" "dev_id device = i"
    "dev_organization_id device = usr_organization_id current"
    and link: "launchable (db_scalar remote_links rdl_id (rustdesk_link (usr_organization_id current) i) ?s) = Some (link, rid)"
    and launch: "launch_on now current device (link, rid) ?s = (Inr resp, s)"
    by (elim andThen_InrE) (auto dest!: remote_device_InrD require_some_InrD)
  have dev: "device \<in> set (devices (srv_store w))"
    using device(1) by (simp add: devices_tbl.open_get[OF w] find_SomeD)
  have lnk: "link \<in> set (remote_links (srv_store w))" "rustdesk_link (usr_organization_id current) i link"
      "rdl_installed link" "rdl_rustdesk_id link = Some rid" "rid \<noteq> []"
    using link by (auto simp: launchable_def remote_links_tbl.open_scalar[OF w] dest!: find_SomeD
        split: option.splits if_splits)
  obtain provider where rows: "durable s =
       audit_logs_update (\<lambda>rs. rs @ [launch_entry now current device rid (Suc (srv_next_id w))])
         (remote_session_audits_update (\<lambda>rs. rs @
            [launch_audit now current device rid provider (srv_next_id w)]) (srv_store w))"
    "rln_launch_url resp = ''rustdesk://'' @ rid" "rln_audit_id resp = srv_next_id w"
    using launch_on_run[OF launch] by blast
  show ?thesis
    by (rule bexI[OF _ cur(1)], rule bexI[OF _ dev], rule bexI[OF _ lnk(1)],
        rule exI[of _ rid], rule exI[of _ "launch_audit now current device rid provider (srv_next_id w)"],
        rule exI[of _ "launch_entry now current device rid (Suc (srv_next_id w))"])
      (use cur perm device lnk rows w' in \<open>simp add: launch_audit_def launch_entry_def\<close>)
qed

lemma owner_launches: "''remote:launch'' \<in> set (role_permissions (usr_role sample_owner))"
  by (simp add: sample_owner_def role_permissions_def ROLE_PERMISSIONS_def)

theorem launch_audited_witness:
  "\<exists>a entry w'. srv_store w' = audit_logs_update (\<lambda>rs. rs @ [entry])
       (remote_session_audits_update (\<lambda>rs. rs @ [a]) sample_store) \<and>
     w' = snd (run_request (launch_device_remote 9 (require_authenticated_user sample_runtime
       default_settings 5 (Some (''Bearer'', ''access-token''))) 10) sample_server) \<and>
     rsa_launch_url a = Some ''rustdesk://123456789''"
proof -
  let ?auth = "require_authenticated_user sample_runtime default_settings 5 (Some (''Bearer'', ''access-token''))"
  let ?s = "open_session sample_server"
  have org: "usr_organization_id sample_owner = 1" by (simp add: sample_owner_def)
  have "db_get devices dev_id 10 ?s = Some sample_device"
    by (simp add: devices_tbl.open_get[OF sample_wf]) (simp add: sample_defs)
  moreover have "db_scalar remote_links rdl_id (rustdesk_link 1 10) ?s = Some sample_link"
    by (simp add: remote_links_tbl.open_scalar[OF sample_wf])
      (simp add: sample_defs rustdesk_link_def PROVIDER_RUSTDESK_OSS_def)
  moreover have "dev_organization_id sample_device = 1" "dev_id sample_device = 10"
    by (simp_all add: sample_device_def)
  moreover have "launchable (Some sample_link) = Some (sample_link, ''123456789'')"
    by (simp add: launchable_def sample_link_def)
  ultimately have "launch_device_remote 9 ?auth 10 ?s = launch_on 9 sample_owner sample_device (sample_link, ''123456789'') ?s"
    using owner_launches
    by (simp add: launch_device_remote_def andThen_run require_permission_def sample_authenticates
        remote_device_or_404_def org del: One_nat_def)
  moreover have "unique_ok (live ?s)" using sample_wf by (simp add: wf_server_def)
  then have "\<exists>resp s. launch_on 9 sample_owner sample_device (sample_link, ''123456789'') ?s = (Inr resp, s)"
    by (simp add: launch_on_def sample_link_def insert_row_def andThen_run operator_audit_def db_commit_def unique_ok_def)
  ultimately obtain resp s where "launch_device_remote 9 ?auth 10 ?s = (Inr resp, s)" by auto
  then have run: "run_request (launch_device_remote 9 ?auth 10) sample_server = (Inr resp, close_session s)"
    by (rule run_request_eq)
  have one: "rdl_rustdesk_id link = Some ''123456789''" if "link \<in> set (remote_links sample_store)" for link
    using that by (simp add: sample_defs)
  show ?thesis
    using launch_audited[OF sample_wf run] one run
    by (simp only: sample_server_simps) (elim bexE exE conjE, intro exI conjI, assumption, simp, force)
qed

end
