(* ===== verification/AgentApi.thy ===== *)
theory AgentApi
  imports Alerts Remote
begin

text \<open>
  Enrollment and check-in of agents: \<^verbatim>\<open>backend/app/api/agent.py\<close> (its job endpoints are in
  the theory JobsApi). The address of the client and the drawn device secret are
  arguments. The properties: an enrollment token is used at most as often as it allows, an
  enrolled agent authenticates with the secret it was handed and with no other, and a
  check-in with wrong credentials changes nothing.
\<close>

subsection \<open>Enrollment\<close>

definition enrollment_refused :: "datetime \<Rightarrow> enrollment_token \<Rightarrow> bool" where
  "enrollment_refused now tok \<longleftrightarrow> ent_revoked_at tok \<noteq> None \<or> ent_expires_at tok \<le> now \<or>
     ent_max_uses tok \<le> ent_uses tok"

definition enrolled_device ::
  "datetime \<Rightarrow> string option \<Rightarrow> enrollment_token \<Rightarrow> AgentEnrollRequest \<Rightarrow> uuid \<Rightarrow> device" where
  "enrolled_device now client tok payload i =
     \<lparr>dev_id = i, dev_organization_id = ent_organization_id tok, dev_hostname = enr_hostname payload,
      dev_operating_system = enr_operating_system payload,
      dev_architecture = Some (enr_architecture payload),
      dev_machine_identifier = enr_machine_identifier payload, dev_ip_address = client,
      dev_agent_version = Some (enr_agent_version payload), dev_health_status = ''enrolled'',
      dev_status = ''online'', dev_is_online = True, dev_last_seen_at = Some now,
      dev_created_at = now\<rparr>"

definition reenrolled_device ::
  "datetime \<Rightarrow> string option \<Rightarrow> AgentEnrollRequest \<Rightarrow> device \<Rightarrow> device" where
  "reenrolled_device now client payload device = device
     \<lparr>dev_hostname := enr_hostname payload, dev_operating_system := enr_operating_system payload,
      dev_architecture := Some (enr_architecture payload),
      dev_agent_version := Some (enr_agent_version payload),
      dev_ip_address := (case client of None \<Rightarrow> dev_ip_address device | Some h \<Rightarrow> Some h),
      dev_status := ''online'', dev_is_online := True, dev_health_status := ''enrolled'',
      dev_last_seen_at := Some now\<rparr>"

definition enroll_device ::
  "datetime \<Rightarrow> string option \<Rightarrow> enrollment_token \<Rightarrow> AgentEnrollRequest \<Rightarrow> device db_op" where
  "enroll_device now client tok payload =
     andThen (gets (db_scalar devices dev_id (\<lambda>d. dev_organization_id d = ent_organization_id tok \<and>
        dev_machine_identifier d = enr_machine_identifier payload))) (\<lambda>found.
     case found of
       None \<Rightarrow>
         andThen (insert_row devices_update (enrolled_device now client tok payload)) (\<lambda>device.
         andThen db_flush (\<lambda>_. ret device))
     | Some device0 \<Rightarrow>
         let device = reenrolled_device now client payload device0 in
         andThen (put_row devices_update dev_id device) (\<lambda>_. ret device))"

definition enrolled_agent ::
  "runtime \<Rightarrow> settings \<Rightarrow> datetime \<Rightarrow> enrollment_token \<Rightarrow> device \<Rightarrow> AgentEnrollRequest \<Rightarrow> string \<Rightarrow>
   uuid \<Rightarrow> agent" where
  "enrolled_agent rt cfg now tok device payload secret i =
     \<lparr>agt_id = i, agt_organization_id = ent_organization_id tok, agt_device_id = Some (dev_id device),
      agt_version = enr_agent_version payload, agt_install_id = enr_machine_identifier payload,
      agt_device_secret_hash = hash_token rt cfg secret, agt_last_seen_at = Some now,
      agt_created_at = now\<rparr>"

definition reenrolled_agent ::
  "runtime \<Rightarrow> settings \<Rightarrow> datetime \<Rightarrow> enrollment_token \<Rightarrow> device \<Rightarrow> AgentEnrollRequest \<Rightarrow> string \<Rightarrow>
   agent \<Rightarrow> agent" where
  "reenrolled_agent rt cfg now tok device payload secret a = a
     \<lparr>agt_organization_id := ent_organization_id tok, agt_device_id := Some (dev_id device),
      agt_version := enr_agent_version payload,
      agt_device_secret_hash := hash_token rt cfg secret, agt_last_seen_at := Some now\<rparr>"

definition enroll_agent_row ::
  "runtime \<Rightarrow> settings \<Rightarrow> datetime \<Rightarrow> enrollment_token \<Rightarrow> device \<Rightarrow> AgentEnrollRequest \<Rightarrow> string \<Rightarrow>
   unit db_op" where
  "enroll_agent_row rt cfg now tok device payload secret =
     andThen (gets (db_scalar agents agt_id (\<lambda>a. agt_install_id a = enr_machine_identifier payload))) (\<lambda>found.
     case found of
       None \<Rightarrow> discard (insert_row agents_update (enrolled_agent rt cfg now tok device payload secret))
     | Some a \<Rightarrow> put_row agents_update agt_id (reenrolled_agent rt cfg now tok device payload secret a))"

definition usable_token :: "runtime \<Rightarrow> settings \<Rightarrow> datetime \<Rightarrow> string \<Rightarrow> enrollment_token db_op" where
  "usable_token rt cfg now text =
     andThen (gets (db_scalar enrollment_tokens ent_id (\<lambda>t. ent_token_hash t = hash_token rt cfg text))) (\<lambda>found.
     case found of
       None \<Rightarrow> raise (HTTPException 401 ''Invalid enrollment token'')
     | Some tok \<Rightarrow>
         if enrollment_refused now tok then raise (HTTPException 401 ''Invalid enrollment token'')
         else ret tok)"

definition enroll_agent ::
  "runtime \<Rightarrow> settings \<Rightarrow> datetime \<Rightarrow> string option \<Rightarrow> string \<Rightarrow> AgentEnrollRequest \<Rightarrow>
   AgentEnrollResponse db_op" where
  "enroll_agent rt cfg now client secret payload =
     andThen (usable_token rt cfg now (enr_enrollment_token payload)) (\<lambda>tok.
     andThen (enroll_device now client tok payload) (\<lambda>device.
     andThen (enroll_agent_row rt cfg now tok device payload secret) (\<lambda>_.
     andThen (put_row enrollment_tokens_update ent_id (tok\<lparr>ent_uses := ent_uses tok + 1\<rparr>)) (\<lambda>_.
     andThen (agent_audit now (ent_organization_id tok) ''agent.enrolled'' ''device''
        (Some (uuid_str (dev_id device)))
        [(''hostname'', JStr (enr_hostname payload)),
         (''agent_version'', JStr (enr_agent_version payload))]) (\<lambda>_.
     andThen db_commit (\<lambda>_.
     ret \<lparr>ens_device_id = dev_id device, ens_device_secret = secret\<rparr>))))))"

subsection \<open>Check-in\<close>

definition checkin_auth :: "runtime \<Rightarrow> settings \<Rightarrow> AgentCheckinRequest \<Rightarrow> (agent \<times> device) db_op" where
  "checkin_auth rt cfg payload =
     andThen (gets (db_scalar agents agt_id (\<lambda>a. agt_device_id a = Some (aci_device_id payload)))) (\<lambda>found.
     case found of
       None \<Rightarrow> raise (HTTPException 401 ''Invalid device credentials'')
     | Some agent \<Rightarrow>
         if \<not> verify_token rt cfg (aci_device_secret payload) (agt_device_secret_hash agent)
         then raise (HTTPException 401 ''Invalid device credentials'')
         else andThen (gets (db_get devices dev_id (aci_device_id payload))) (\<lambda>found_device.
              case found_device of
                None \<Rightarrow> raise (HTTPException 401 ''Invalid device credentials'')
              | Some device \<Rightarrow>
                  if dev_organization_id device \<noteq> agt_organization_id agent
                  then raise (HTTPException 401 ''Invalid device credentials'')
                  else ret (agent, device)))"

definition checked_in_device ::
  "datetime \<Rightarrow> string option \<Rightarrow> AgentCheckinRequest \<Rightarrow> device \<Rightarrow> device" where
  "checked_in_device now ip payload device = device
     \<lparr>dev_hostname := aci_hostname payload, dev_operating_system := aci_operating_system payload,
      dev_architecture := aci_architecture payload, dev_ip_address := ip,
      dev_agent_version := Some (aci_agent_version payload),
      dev_health_status := aci_health_status payload, dev_status := ''online'',
      dev_is_online := True, dev_last_seen_at := Some now\<rparr>"

definition json_int :: "int option \<Rightarrow> json" where
  "json_int v = (case v of None \<Rightarrow> JNull | Some i \<Rightarrow> JInt i)"

definition checkin_payload :: "AgentCheckinRequest \<Rightarrow> json_dict" where
  "checkin_payload payload =
     [(''local_ips'', JArr (map JStr (aci_local_ips payload))),
      (''uptime_seconds'', json_int (aci_uptime_seconds payload)),
      (''cpu_count'', json_int (aci_cpu_count payload)),
      (''memory_total_bytes'', json_int (aci_memory_total_bytes payload)),
      (''architecture'', json_text (aci_architecture payload)),
      (''inventory_refreshed'', JBool (aci_inventory payload \<noteq> None)),
      (''remote_access_reported'', JBool (aci_remote_access payload \<noteq> None))]"

definition new_checkin ::
  "datetime \<Rightarrow> string option \<Rightarrow> AgentCheckinRequest \<Rightarrow> device \<Rightarrow> agent \<Rightarrow> uuid \<Rightarrow> device_checkin" where
  "new_checkin now ip payload device agent i =
     \<lparr>chk_id = i, chk_organization_id = dev_organization_id device, chk_device_id = dev_id device,
      chk_agent_id = agt_id agent, chk_status = aci_health_status payload, chk_ip_address = ip,
      chk_agent_version = Some (aci_agent_version payload), chk_payload = checkin_payload payload,
      chk_checked_in_at = now\<rparr>"

definition store_checkin ::
  "datetime \<Rightarrow> string option \<Rightarrow> AgentCheckinRequest \<Rightarrow> agent \<Rightarrow> device \<Rightarrow> device_checkin db_op" where
  "store_checkin now client payload agent device0 =
     (let ip = (case aci_ip_address payload of
                  Some a \<Rightarrow> if a = [] then client else Some a | None \<Rightarrow> client);
          device = checked_in_device now ip payload device0
      in andThen (put_row devices_update dev_id device) (\<lambda>_.
         andThen (put_row agents_update agt_id
           (agent\<lparr>agt_version := aci_agent_version payload, agt_last_seen_at := Some now\<rparr>)) (\<lambda>_.
         andThen (insert_row device_checkins_update (new_checkin now ip payload device agent)) (\<lambda>checkin.
         andThen (case aci_inventory payload of None \<Rightarrow> ret ()
                  | Some p \<Rightarrow> upsert_inventory now device p) (\<lambda>_.
         andThen (case aci_remote_access payload of None \<Rightarrow> ret ()
                  | Some p \<Rightarrow> upsert_rustdesk_status now device p) (\<lambda>_.
         andThen db_flush (\<lambda>_. ret checkin)))))))"

definition finish_checkin ::
  "runtime \<Rightarrow> settings \<Rightarrow> datetime \<Rightarrow> AgentCheckinRequest \<Rightarrow> device \<Rightarrow> device_checkin \<Rightarrow>
   AgentCheckinResponse db_op" where
  "finish_checkin rt cfg now payload device0 checkin =
     andThen (current_row devices dev_id device0) (\<lambda>device.
     andThen (evaluate_device_alerts rt cfg now device (checkin_payload payload)) (\<lambda>_.
     andThen (agent_audit now (dev_organization_id device) ''agent.checkin'' ''device''
        (Some (uuid_str (dev_id device)))
        [(''status'', JStr (aci_health_status payload)),
         (''agent_version'', JStr (aci_agent_version payload))]) (\<lambda>_.
     andThen db_commit (\<lambda>_.
     ret \<lparr>acs_status = ''accepted'', acs_device_id = dev_id device,
          acs_checked_in_at = chk_checked_in_at checkin\<rparr>))))"

definition checkin_agent ::
  "runtime \<Rightarrow> settings \<Rightarrow> datetime \<Rightarrow> string option \<Rightarrow> AgentCheckinRequest \<Rightarrow>
   AgentCheckinResponse db_op" where
  "checkin_agent rt cfg now client payload =
     andThen (checkin_auth rt cfg payload) (\<lambda>(agent, device0).
     andThen (store_checkin now client payload agent device0)
       (finish_checkin rt cfg now payload device0))"

subsection \<open>Enrollment, exactly\<close>

lemma enroll_rows [simp]:
  "dev_id (enrolled_device now client tok payload i) = i"
  "reenrolled_device now client payload (enrolled_device now client tok payload i) =
     enrolled_device now client tok payload i"
  "dev_id (reenrolled_device now client payload d) = dev_id d"
  "dev_organization_id (reenrolled_device now client payload d) = dev_organization_id d"
  "dev_machine_identifier (reenrolled_device now client payload d) = dev_machine_identifier d"
  "agt_id (enrolled_agent rt cfg now tok device payload secret i) = i"
  "agt_install_id (enrolled_agent rt cfg now tok device payload secret i) = enr_machine_identifier payload"
  "reenrolled_agent rt cfg now tok device payload secret
     (enrolled_agent rt cfg now tok device payload secret i) =
     enrolled_agent rt cfg now tok device payload secret i"
  "agt_id (reenrolled_agent rt cfg now tok device payload secret a) = agt_id a"
  "agt_install_id (reenrolled_agent rt cfg now tok device payload secret a) = agt_install_id a"
  by (simp_all add: enrolled_device_def reenrolled_device_def enrolled_agent_def reenrolled_agent_def
      split: option.splits)

lemma wf_enroll_parts [keeps_intro]:
  "keeps wf_session (usable_token rt cfg now text)"
  "keeps wf_session (enroll_device now client tok payload)"
  "keeps wf_session (enroll_agent_row rt cfg now tok device payload secret)"
  unfolding usable_token_def enroll_device_def enroll_agent_row_def Let_def
  by (intro keeps_intro devices_tbl.insert_wf devices_tbl.put_wf agents_tbl.insert_wf agents_tbl.put_wf; simp)+

lemma wf_enroll [keeps_intro]: "keeps wf_session (enroll_agent rt cfg now client secret payload)"
  unfolding enroll_agent_def by (intro keeps_intro enrollment_tokens_tbl.put_wf)

definition device_key :: "enrollment_token \<Rightarrow> AgentEnrollRequest \<Rightarrow> device \<Rightarrow> bool" where
  "device_key tok payload d \<longleftrightarrow> dev_organization_id d = ent_organization_id tok \<and>
     dev_machine_identifier d = enr_machine_identifier payload"

lemma enroll_device_changes:
  assumes wf: "wf_session s" and same: "devices (flushed s) = devices (live s)" and unique: "unique_ok (live s)"
  obtains s' where "enroll_device now client tok payload s =
      (Inr (reenrolled_device now client payload (upsert_base (device_key tok payload)
         (enrolled_device now client tok payload (next_id s)) (devices (live s)))), s')"
    and "live s' = devices_update (upserted (device_key tok payload) dev_id (reenrolled_device now client payload)
         (enrolled_device now client tok payload (next_id s))) (live s)"
    and "flushed s' = flushed s \<or> flushed s' = live s'" and "durable s' = durable s"
proof -
  have key: "(\<lambda>d. dev_organization_id d = ent_organization_id tok \<and>
      dev_machine_identifier d = enr_machine_identifier payload) = device_key tok payload"
    by (simp add: device_key_def fun_eq_iff)
  have unique': "unique_ok (devices_update f (live s))" for f using unique by (simp add: unique_ok_def)
  note found = devices_tbl.scalar_same[OF wf same, of "device_key tok payload"]
  show thesis
  proof (cases "List.find (device_key tok payload) (devices (live s))")
    case None
    let ?new = "enrolled_device now client tok payload (next_id s)"
    have "devices_update (\<lambda>rs. rs @ [?new]) (live s) = devices_update (upserted (device_key tok payload) dev_id
        (reenrolled_device now client payload) ?new) (live s)"
      by (rule devices_tbl.write_cong) (simp add: upserted_def None)
    then show thesis using None unique'
      by (intro that[of "s\<lparr>live := devices_update (\<lambda>rs. rs @ [?new]) (live s), next_id := Suc (next_id s),
            flushed := devices_update (\<lambda>rs. rs @ [?new]) (live s)\<rparr>"])
        (simp_all add: enroll_device_def key found insert_row_def andThen_run db_flush_def upsert_base_def)
  next
    case (Some d)
    have "devices_update (map (\<lambda>x. if dev_id x = dev_id d then reenrolled_device now client payload d else x)) (live s) =
      devices_update (upserted (device_key tok payload) dev_id (reenrolled_device now client payload)
        (enrolled_device now client tok payload (next_id s))) (live s)"
      by (rule devices_tbl.write_cong) (simp add: upserted_def Some)
    then show thesis using Some
      by (intro that[of "s\<lparr>live := devices_update (map (\<lambda>x. if dev_id x = dev_id d
            then reenrolled_device now client payload d else x)) (live s)\<rparr>"])
        (simp_all add: enroll_device_def key found put_row_def andThen_run upsert_base_def Let_def)
  qed
qed

lemma enroll_agent_changes:
  assumes wf: "wf_session s" and same: "agents (flushed s) = agents (live s)"
  obtains s' where "enroll_agent_row rt cfg now tok device payload secret s = (Inr (), s')"
    and "live s' = agents_update (upserted (\<lambda>a. agt_install_id a = enr_machine_identifier payload) agt_id
         (reenrolled_agent rt cfg now tok device payload secret)
         (enrolled_agent rt cfg now tok device payload secret (next_id s))) (live s)"
    and "flushed s' = flushed s" and "durable s' = durable s"
proof -
  let ?P = "\<lambda>a. agt_install_id a = enr_machine_identifier payload"
  let ?new = "enrolled_agent rt cfg now tok device payload secret (next_id s)"
  note found = agents_tbl.scalar_same[OF wf same, of ?P]
  show thesis
  proof (cases "List.find ?P (agents (live s))")
    case None
    have "agents_update (\<lambda>rs. rs @ [?new]) (live s) = agents_update (upserted ?P agt_id
        (reenrolled_agent rt cfg now tok device payload secret) ?new) (live s)"
      by (rule agents_tbl.write_cong) (simp add: upserted_def None)
    then show thesis using None
      by (intro that[of "s\<lparr>live := agents_update (\<lambda>rs. rs @ [?new]) (live s), next_id := Suc (next_id s)\<rparr>"])
        (simp_all add: enroll_agent_row_def found insert_row_def andThen_run discard_def)
  next
    case (Some a)
    let ?a = "reenrolled_agent rt cfg now tok device payload secret a"
    have "agents_update (map (\<lambda>x. if agt_id x = agt_id a then ?a else x)) (live s) =
      agents_update (upserted ?P agt_id (reenrolled_agent rt cfg now tok device payload secret) ?new) (live s)"
      by (rule agents_tbl.write_cong) (simp add: upserted_def Some)
    then show thesis using Some
      by (intro that[of "s\<lparr>live := agents_update (map (\<lambda>x. if agt_id x = agt_id a then ?a else x)) (live s)\<rparr>"])
        (simp_all add: enroll_agent_row_def found put_row_def andThen_run)
  qed
qed


definition find_token :: "runtime \<Rightarrow> settings \<Rightarrow> string \<Rightarrow> store \<Rightarrow> enrollment_token option" where
  "find_token rt cfg text st =
     List.find (\<lambda>t. ent_token_hash t = hash_token rt cfg text) (enrollment_tokens st)"

text \<open>The device a usable token enrolls on a store, and the store it leaves (\<open>i\<close> and \<open>j\<close> the
  keys for a new device and a new agent).\<close>

definition target_device ::
  "datetime \<Rightarrow> string option \<Rightarrow> enrollment_token \<Rightarrow> AgentEnrollRequest \<Rightarrow> uuid \<Rightarrow> store \<Rightarrow> device" where
  "target_device now client tok payload i st =
     reenrolled_device now client payload (upsert_base (device_key tok payload)
       (enrolled_device now client tok payload i) (devices st))"

definition spent_token :: "enrollment_token \<Rightarrow> enrollment_token list \<Rightarrow> enrollment_token list" where
  "spent_token tok rows =
     map (\<lambda>t. if ent_id t = ent_id tok then tok\<lparr>ent_uses := ent_uses tok + 1\<rparr> else t) rows"

definition enrolled_store ::
  "runtime \<Rightarrow> settings \<Rightarrow> datetime \<Rightarrow> string option \<Rightarrow> string \<Rightarrow> AgentEnrollRequest \<Rightarrow>
   enrollment_token \<Rightarrow> uuid \<Rightarrow> uuid \<Rightarrow> store \<Rightarrow> store" where
  "enrolled_store rt cfg now client secret payload tok i j st =
     st\<lparr>devices := upserted (device_key tok payload) dev_id (reenrolled_device now client payload)
          (enrolled_device now client tok payload i) (devices st),
        agents := upserted (\<lambda>a. agt_install_id a = enr_machine_identifier payload) agt_id
          (reenrolled_agent rt cfg now tok (target_device now client tok payload i st) payload secret)
          (enrolled_agent rt cfg now tok (target_device now client tok payload i st) payload secret j)
          (agents st),
        enrollment_tokens := spent_token tok (enrollment_tokens st)\<rparr>"

lemma core_enrolled:
  "core (enrolled_store rt cfg now client secret payload tok i j st) =
     enrolled_store rt cfg now client secret payload tok i j (core st)"
  by (simp add: enrolled_store_def target_device_def core_def)

lemma enrolled_unique:
  assumes "unique_ok st" and "keys_ok n agt_id (agents st)" and "keys_ok m ent_id (enrollment_tokens st)"
    and "tok \<in> set (enrollment_tokens st)"
  shows "unique_ok (enrolled_store rt cfg now client secret payload tok i j st)"
proof -
  let ?device = "target_device now client tok payload i st"
  have "distinct (map agt_install_id (upserted (\<lambda>a. agt_install_id a = enr_machine_identifier payload) agt_id
      (reenrolled_agent rt cfg now tok ?device payload secret)
      (enrolled_agent rt cfg now tok ?device payload secret j) (agents st)))"
    using assms(1,2) by (intro upserted_rows(3)[where i = "enr_machine_identifier payload"])
      (simp_all add: unique_ok_def keys_ok_def)
  moreover have "map ent_token_hash (spent_token tok (enrollment_tokens st)) = map ent_token_hash (enrollment_tokens st)"
    using keys_ok_row[OF assms(3) _ assms(4)] by (auto simp: spent_token_def)
  ultimately show ?thesis using assms(1) by (simp add: unique_ok_def enrolled_store_def)
qed

lemma usable_token_open:
  assumes w: "wf_server w"
  shows "usable_token rt cfg now text (open_session w) =
    (case find_token rt cfg text (srv_store w) of
       None \<Rightarrow> (Inl (HTTPException 401 ''Invalid enrollment token''), open_session w)
     | Some tok \<Rightarrow> if enrollment_refused now tok
         then (Inl (HTTPException 401 ''Invalid enrollment token''), open_session w)
         else (Inr tok, open_session w))"
  by (simp add: usable_token_def enrollment_tokens_tbl.open_scalar[OF w] find_token_def split: option.splits)

lemma enroll_run:
  assumes w: "wf_server w"
    and tok: "find_token rt cfg (enr_enrollment_token payload) (srv_store w) = Some tok"
    and usable: "\<not> enrollment_refused now tok"
  shows "\<exists>w' j. run_request (enroll_agent rt cfg now client secret payload) w =
      (Inr \<lparr>ens_device_id = dev_id (target_device now client tok payload (srv_next_id w) (srv_store w)),
            ens_device_secret = secret\<rparr>, w') \<and>
    core (srv_store w') = core (enrolled_store rt cfg now client secret payload tok (srv_next_id w) j (srv_store w))"
proof -
  let ?s = "open_session w"
  let ?device = "target_device now client tok payload (srv_next_id w) (srv_store w)"
  have wf: "wf_session ?s" "unique_ok (live ?s)" using w by (simp_all add: wf_server_def)
  have mem: "tok \<in> set (enrollment_tokens (srv_store w))" using tok by (auto simp: find_token_def dest: find_SomeD)
  obtain s1 where s1: "enroll_device now client tok payload ?s = (Inr ?device, s1)"
    and l1: "live s1 = devices_update (upserted (device_key tok payload) dev_id (reenrolled_device now client payload)
         (enrolled_device now client tok payload (srv_next_id w))) (srv_store w)"
    and f1: "flushed s1 = srv_store w \<or> flushed s1 = live s1"
    using enroll_device_changes[OF wf(1) _ wf(2), of now client tok payload] by (auto simp: target_device_def)
  have wf1: "wf_session s1" by (rule keeps_runD[OF wf_enroll_parts(2) wf(1) s1])
  obtain s2 where s2: "enroll_agent_row rt cfg now tok ?device payload secret s1 = (Inr (), s2)"
    and l2: "live s2 = agents_update (upserted (\<lambda>a. agt_install_id a = enr_machine_identifier payload) agt_id
         (reenrolled_agent rt cfg now tok ?device payload secret)
         (enrolled_agent rt cfg now tok ?device payload secret (next_id s1))) (live s1)"
    by (rule enroll_agent_changes[OF wf1]) (use f1 l1 in auto)
  let ?s3 = "s2\<lparr>live := enrollment_tokens_update (spent_token tok) (live s2)\<rparr>"
  let ?audit = "agent_audit now (ent_organization_id tok) ''agent.enrolled'' ''device''
        (Some (uuid_str (dev_id ?device)))
        [(''hostname'', JStr (enr_hostname payload)), (''agent_version'', JStr (enr_agent_version payload))]"
  obtain s4 where s4: "?audit ?s3 = (Inr (), s4)" "core (live s4) = core (live ?s3)"
    by (rule quietD[OF quiet_agent_audit])
  let ?st = "enrolled_store rt cfg now client secret payload tok (srv_next_id w) (next_id s1) (srv_store w)"
  have l3: "live ?s3 = ?st"
    by (rule store.equality) (simp_all add: l1 l2 enrolled_store_def)
  have "unique_ok ?st"
    using w mem by (intro enrolled_unique) (auto simp: wf_server_def ids_ok_def)
  then have ok: "unique_ok (live s4)" using core_unique[OF s4(2)] l3 by simp
  have spent: "map (\<lambda>x. if ent_id x = ent_id tok then tok\<lparr>ent_uses := ent_uses tok + 1\<rparr> else x) = spent_token tok"
    by (simp add: spent_token_def fun_eq_iff)
  have "enroll_agent rt cfg now client secret payload ?s =
      (Inr \<lparr>ens_device_id = dev_id ?device, ens_device_secret = secret\<rparr>, committed (live s4) (next_id s4))"
    using tok usable s4(1) ok
    by (simp add: enroll_agent_def andThen_run usable_token_open[OF w] s1 s2 put_row_def commit_open
        spent)
  from run_request_eq[of "enroll_agent rt cfg now client secret payload", OF this] show ?thesis
    using s4(2) l3 by auto
qed



definition sample_enrollment :: AgentEnrollRequest where
  "sample_enrollment =
    \<lparr>enr_enrollment_token = ''enrollment-token-1'', enr_hostname = ''db-1'', enr_operating_system = ''linux'',
     enr_architecture = ''arm64'', enr_agent_version = ''0.3.0'', enr_machine_identifier = ''machine-2''\<rparr>"

lemma sample_find_token:
  "find_token sample_runtime default_settings (enr_enrollment_token sample_enrollment) (srv_store sample_server) =
     Some sample_token"
  by (simp add: find_token_def sample_enrollment_def sample_server_simps) (simp add: sample_store_def sample_token_def)

lemma sample_token_usable: "\<not> enrollment_refused 5 sample_token"
  by (simp add: enrollment_refused_def sample_token_def)


subsection \<open>Bounded use of enrollment tokens\<close>

text \<open>A history of enrollment requests, with the number of accepted ones for a token hash.\<close>

type_synonym enrollment_history = "(datetime \<times> string option \<times> string \<times> AgentEnrollRequest) list"

fun accepted ::
  "runtime \<Rightarrow> settings \<Rightarrow> string \<Rightarrow> enrollment_history \<Rightarrow> server \<Rightarrow> nat \<times> server" where
  "accepted rt cfg h [] w = (0, w)"
| "accepted rt cfg h ((now, client, secret, payload) # hist) w =
     (case run_request (enroll_agent rt cfg now client secret payload) w of
        (r, w1) \<Rightarrow> (case accepted rt cfg h hist w1 of
          (n, w') \<Rightarrow> (if isl r \<or> hash_token rt cfg (enr_enrollment_token payload) \<noteq> h then n else Suc n, w')))"

lemma wf_token_rows:
  assumes "wf_server w"
  shows "distinct (map ent_id (enrollment_tokens (srv_store w)))"
    and "distinct (map ent_token_hash (enrollment_tokens (srv_store w)))"
  using assms by (simp_all add: wf_server_def ids_ok_def keys_ok_def unique_ok_def)

lemma find_token_hash:
  assumes w: "wf_server w" and tok: "tok \<in> set (enrollment_tokens (srv_store w))"
  shows "find_token rt cfg text (srv_store w) = Some tok \<longleftrightarrow> hash_token rt cfg text = ent_token_hash tok"
proof
  assume "find_token rt cfg text (srv_store w) = Some tok"
  then show "hash_token rt cfg text = ent_token_hash tok" by (auto simp: find_token_def dest!: find_SomeD)
next
  assume "hash_token rt cfg text = ent_token_hash tok"
  then show "find_token rt cfg text (srv_store w) = Some tok"
    using tok wf_token_rows(2)[OF w] unfolding find_token_def
    by (intro find_unique[where f = ent_token_hash]) simp_all
qed

text \<open>What one request does to a token row.\<close>

lemma enroll_step:
  assumes w: "wf_server w" and tok: "tok \<in> set (enrollment_tokens (srv_store w))"
    and run: "run_request (enroll_agent rt cfg now client secret payload) w = (r, w1)"
  shows "wf_server w1 \<and>
    (if isl r \<or> hash_token rt cfg (enr_enrollment_token payload) \<noteq> ent_token_hash tok
     then tok \<in> set (enrollment_tokens (srv_store w1))
     else tok\<lparr>ent_uses := ent_uses tok + 1\<rparr> \<in> set (enrollment_tokens (srv_store w1)) \<and>
       ent_uses tok < ent_max_uses tok)"
proof -
  have wf1: "wf_server w1" using run_request_wf[OF wf_enroll w] run by (metis snd_conv)
  let ?found = "find_token rt cfg (enr_enrollment_token payload) (srv_store w)"
  show ?thesis
  proof (cases "\<exists>t. ?found = Some t \<and> \<not> enrollment_refused now t")
    case False
    then have "usable_token rt cfg now (enr_enrollment_token payload) (open_session w) =
        (Inl (HTTPException 401 ''Invalid enrollment token''), open_session w)"
      by (auto simp: usable_token_open[OF w] split: option.splits)
    then have "run_request (enroll_agent rt cfg now client secret payload) w =
        (Inl (HTTPException 401 ''Invalid enrollment token''), w)"
      by (intro run_request_refused) (simp add: enroll_agent_def andThen_run)
    with run have "isl r" "w1 = w" by auto
    with tok wf1 show ?thesis by simp
  next
    case True
    then obtain t where t: "?found = Some t" "\<not> enrollment_refused now t" by blast
    then have t_in: "t \<in> set (enrollment_tokens (srv_store w))" by (auto simp: find_token_def dest: find_SomeD)
    obtain j where r: "r = Inr \<lparr>ens_device_id = dev_id (target_device now client t payload (srv_next_id w) (srv_store w)),
            ens_device_secret = secret\<rparr>"
      and core: "core (srv_store w1) = core (enrolled_store rt cfg now client secret payload t (srv_next_id w) j (srv_store w))"
      using enroll_run[OF w t, of client secret] run by auto
    have rows: "enrollment_tokens (srv_store w1) = spent_token t (enrollment_tokens (srv_store w))"
      using core_tables(4)[OF core] by (simp add: enrolled_store_def)
    have same: "t = tok \<longleftrightarrow> hash_token rt cfg (enr_enrollment_token payload) = ent_token_hash tok"
      using find_token_hash[OF w tok, of rt cfg "enr_enrollment_token payload"] t(1) by auto
    have key: "ent_id tok = ent_id t \<longleftrightarrow> t = tok"
      using wf_token_rows(1)[OF w] tok t_in by (auto simp: distinct_map dest: inj_onD)
    have "(if t = tok then tok\<lparr>ent_uses := ent_uses tok + 1\<rparr> else tok) \<in> set (enrollment_tokens (srv_store w1))"
      using tok key by (auto simp: rows spent_token_def image_iff intro!: bexI[of _ tok])
    with wf1 r t(2) same show ?thesis by (auto simp: enrollment_refused_def)
  qed
qed

text \<open>C26. However many agents enroll, a token is spent exactly once for each accepted request
  that presents it, and never beyond its limit: the number of accepted requests is at most
  what the token had left.\<close>

theorem enrollment_bounded:
  assumes "wf_server w" and "tok \<in> set (enrollment_tokens (srv_store w))"
    and "accepted rt cfg (ent_token_hash tok) hist w = (n, w')"
  shows "tok\<lparr>ent_uses := ent_uses tok + int n\<rparr> \<in> set (enrollment_tokens (srv_store w')) \<and>
    int n \<le> max 0 (ent_max_uses tok - ent_uses tok)"
  using assms
proof (induction hist arbitrary: w tok n)
  case Nil
  then show ?case by simp
next
  case (Cons e hist)
  obtain now client secret payload where e: "e = (now, client, secret, payload)" by (metis prod_cases4)
  obtain r w1 where r: "run_request (enroll_agent rt cfg now client secret payload) w = (r, w1)"
    by (cases "run_request (enroll_agent rt cfg now client secret payload) w")
  obtain m w2 where m: "accepted rt cfg (ent_token_hash tok) hist w1 = (m, w2)"
    by (cases "accepted rt cfg (ent_token_hash tok) hist w1")
  have w2: "w2 = w'" using Cons.prems(3) r m by (auto simp: e split: if_splits)
  note step = enroll_step[OF Cons.prems(1,2) r]
  show ?case
  proof (cases "isl r \<or> hash_token rt cfg (enr_enrollment_token payload) \<noteq> ent_token_hash tok")
    case True
    then have "n = m" "w' = w2" using Cons.prems(3) r m by (auto simp: e)
    with Cons.IH[of w1 tok m] step True m show ?thesis by auto
  next
    case False
    let ?tok = "tok\<lparr>ent_uses := ent_uses tok + 1\<rparr>"
    have n: "n = Suc m" "w' = w2" using Cons.prems(3) r m False by (auto simp: e)
    have hash: "ent_token_hash ?tok = ent_token_hash tok" by simp
    have "?tok\<lparr>ent_uses := ent_uses ?tok + int m\<rparr> \<in> set (enrollment_tokens (srv_store w')) \<and>
        int m \<le> max 0 (ent_max_uses ?tok - ent_uses ?tok)"
      by (rule Cons.IH[of w1 ?tok m]) (use step False m in \<open>simp_all add: w2\<close>)
    moreover have "?tok\<lparr>ent_uses := ent_uses ?tok + int m\<rparr> = tok\<lparr>ent_uses := ent_uses tok + int n\<rparr>"
      using n by simp
    ultimately show ?thesis using n step False by (auto simp: add.assoc)
  qed
qed

theorem enrollment_bounded_witness:
  "int (fst (accepted sample_runtime default_settings (ent_token_hash sample_token)
      [(5, None, ''fresh-device-secret'', sample_enrollment), (6, None, ''other-device-secret'', sample_enrollment)]
      sample_server)) \<le> 1"
proof -
  have "sample_token \<in> set (enrollment_tokens (srv_store sample_server))"
    by (simp add: sample_server_simps) (simp add: sample_store_def)
  from conjunct2[OF enrollment_bounded[OF sample_wf this surjective_pairing]] show ?thesis
    by (rule order_trans) (simp add: sample_token_def)
qed


subsection \<open>The secret of an enrolled agent\<close>

text \<open>Every agent belongs to the device of its own machine, in its own organization.\<close>

definition agent_linked :: "store \<Rightarrow> agent \<Rightarrow> bool" where
  "agent_linked st a =
     (case agt_device_id a of
        None \<Rightarrow> True
      | Some d \<Rightarrow> list_ex (\<lambda>x. dev_id x = d \<and> dev_machine_identifier x = agt_install_id a \<and>
          dev_organization_id x = agt_organization_id a) (devices st))"

definition agents_linked :: "store \<Rightarrow> bool" where
  "agents_linked st \<longleftrightarrow> list_all (agent_linked st) (agents st)"

lemma upserted_cases:
  assumes "x \<in> set (upserted P k g new rows)"
    and "distinct (map k rows)" and "distinct (map d rows)"
    and "\<And>x. P x \<longleftrightarrow> d x = i" and "P new" and "\<And>x. d (g x) = d x"
  obtains (target) "x = g (upsert_base P new rows)" | (other) "x \<in> set rows" and "\<not> P x"
proof (cases "P x")
  case True
  with assms(1) have "x \<in> set (filter P (upserted P k g new rows))" by simp
  with upserted_rows(1)[OF assms(2-6)] target show thesis by simp
next
  case False
  with assms(1) have "x \<in> set (filter (\<lambda>x. \<not> P x) (upserted P k g new rows))" by simp
  with upserted_rows(2)[OF assms(2-6)] other show thesis by simp
qed

lemma upserted_target: "g (upsert_base P new rows) \<in> set (upserted P k g new rows)"
proof (cases "List.find P rows")
  case (Some r)
  then have "r \<in> set rows" by (simp add: find_SomeD)
  then have "(\<lambda>x. if k x = k r then g r else x) r \<in> set (upserted P k g new rows)"
    unfolding upserted_def Some option.case set_map by (rule imageI)
  with Some show ?thesis by (simp add: upsert_base_def)
qed (simp add: upserted_def upsert_base_def)

lemma upserted_keeps:
  assumes "x \<in> set rows" and "distinct (map k rows)"
  shows "x \<in> set (upserted P k g new rows) \<or> g x \<in> set (upserted P k g new rows)"
proof (cases "List.find P rows")
  case (Some r)
  show ?thesis
  proof (cases "k x = k r")
    case True
    with assms Some have "x = r" by (auto simp: distinct_map dest!: find_SomeD dest: inj_onD)
    with assms(1) Some show ?thesis by (force simp: upserted_def image_iff)
  next
    case False
    with assms(1) Some show ?thesis by (force simp: upserted_def image_iff)
  qed
qed (use assms in \<open>simp add: upserted_def\<close>)

text \<open>The agents an enrollment leaves: the target, and the agents of other machines.\<close>

lemma enrolled_agents:
  assumes w: "wf_server w"
    and core: "core st' = core (enrolled_store rt cfg now client secret payload tok i j (srv_store w))"
  obtains a where "a \<in> set (agents st')" and "agt_install_id a = enr_machine_identifier payload"
    and "agt_device_id a = Some (dev_id (target_device now client tok payload i (srv_store w)))"
    and "agt_organization_id a = ent_organization_id tok"
    and "agt_device_secret_hash a = hash_token rt cfg secret"
    and "\<And>b. b \<in> set (agents st') \<Longrightarrow> b = a \<or>
       (b \<in> set (agents (srv_store w)) \<and> agt_install_id b \<noteq> enr_machine_identifier payload)"
proof -
  let ?P = "\<lambda>a. agt_install_id a = enr_machine_identifier payload"
  let ?device = "target_device now client tok payload i (srv_store w)"
  let ?g = "reenrolled_agent rt cfg now tok ?device payload secret"
  let ?new = "enrolled_agent rt cfg now tok ?device payload secret j"
  let ?rows = "agents (srv_store w)"
  have rows: "agents st' = upserted ?P agt_id ?g ?new ?rows"
    using core_tables(6)[OF core] by (simp add: enrolled_store_def)
  have dist: "distinct (map agt_id ?rows)" "distinct (map agt_install_id ?rows)"
    using w by (simp_all add: wf_server_def ids_ok_def keys_ok_def unique_ok_def)
  have "?P (upsert_base ?P ?new ?rows)"
    by (cases "List.find ?P ?rows") (auto simp: upsert_base_def dest: find_SomeD)
  then show thesis
    using upserted_target[of ?g ?P ?new ?rows agt_id]
      upserted_cases[OF _ dist, of _ ?P ?g ?new "enr_machine_identifier payload"]
    by (intro that[of "?g (upsert_base ?P ?new ?rows)"])
      (auto simp: rows reenrolled_agent_def)
qed


lemma linkedD:
  "agents_linked st \<Longrightarrow> b \<in> set (agents st) \<Longrightarrow> agt_device_id b = Some d \<Longrightarrow>
    \<exists>x \<in> set (devices st). dev_id x = d \<and> dev_machine_identifier x = agt_install_id b \<and>
      dev_organization_id x = agt_organization_id b"
  by (auto simp: agents_linked_def agent_linked_def list_all_iff list_ex_iff split: option.splits)

lemma linkedI:
  assumes "\<And>b d. b \<in> set (agents st) \<Longrightarrow> agt_device_id b = Some d \<Longrightarrow>
    \<exists>x \<in> set (devices st). dev_id x = d \<and> dev_machine_identifier x = agt_install_id b \<and>
      dev_organization_id x = agt_organization_id b"
  shows "agents_linked st"
  using assms by (auto simp: agents_linked_def agent_linked_def list_all_iff list_ex_iff split: option.splits)

lemma target_device_key:
  "dev_machine_identifier (target_device now client tok payload i st) = enr_machine_identifier payload"
  "dev_organization_id (target_device now client tok payload i st) = ent_organization_id tok"
  by (cases "List.find (device_key tok payload) (devices st)";
      auto simp: target_device_def upsert_base_def device_key_def enrolled_device_def reenrolled_device_def
        dest!: find_SomeD)+

lemma enrolled_devices:
  assumes w: "wf_server w"
    and core: "core st' = core (enrolled_store rt cfg now client secret payload tok i j (srv_store w))"
  shows "target_device now client tok payload i (srv_store w) \<in> set (devices st')"
    and "x \<in> set (devices (srv_store w)) \<Longrightarrow> \<exists>y \<in> set (devices st'). dev_id y = dev_id x \<and>
      dev_machine_identifier y = dev_machine_identifier x \<and> dev_organization_id y = dev_organization_id x"
proof -
  let ?g = "reenrolled_device now client payload"
  let ?new = "enrolled_device now client tok payload i"
  have rows: "devices st' = upserted (device_key tok payload) dev_id ?g ?new (devices (srv_store w))"
    using core_tables(5)[OF core] by (simp add: enrolled_store_def)
  have dist: "distinct (map dev_id (devices (srv_store w)))"
    using w by (simp add: wf_server_def ids_ok_def keys_ok_def)
  show "target_device now client tok payload i (srv_store w) \<in> set (devices st')"
    unfolding rows target_device_def by (rule upserted_target)
  show "\<exists>y \<in> set (devices st'). dev_id y = dev_id x \<and> dev_machine_identifier y = dev_machine_identifier x \<and>
      dev_organization_id y = dev_organization_id x" if "x \<in> set (devices (srv_store w))"
    using upserted_keeps[OF that dist, of "device_key tok payload" ?g ?new] unfolding rows[symmetric]
    by (elim disjE) (rule bexI[of _ x] bexI[of _ "?g x"]; simp)+
qed

lemma enroll_success:
  assumes w: "wf_server w"
    and run: "run_request (enroll_agent rt cfg now client secret payload) w = (Inr resp, w')"
  obtains tok j where "find_token rt cfg (enr_enrollment_token payload) (srv_store w) = Some tok"
    and "\<not> enrollment_refused now tok"
    and "ens_device_id resp = dev_id (target_device now client tok payload (srv_next_id w) (srv_store w))"
    and "core (srv_store w') = core (enrolled_store rt cfg now client secret payload tok (srv_next_id w) j (srv_store w))"
proof (cases "\<exists>t. find_token rt cfg (enr_enrollment_token payload) (srv_store w) = Some t \<and> \<not> enrollment_refused now t")
  case False
  then have "usable_token rt cfg now (enr_enrollment_token payload) (open_session w) =
      (Inl (HTTPException 401 ''Invalid enrollment token''), open_session w)"
    by (auto simp: usable_token_open[OF w] split: option.splits)
  with run show thesis by (simp add: run_request_def enroll_agent_def andThen_run)
next
  case True
  then obtain t where t: "find_token rt cfg (enr_enrollment_token payload) (srv_store w) = Some t"
    "\<not> enrollment_refused now t" by blast
  from enroll_run[OF w t, of client secret] run that[OF t] show thesis by auto
qed

text \<open>The agent an enrollment leaves behind, and the agents and devices beside it.\<close>

lemma enrolled_agent:
  assumes w: "wf_server w"
    and run: "run_request (enroll_agent rt cfg now client secret payload) w = (Inr resp, w')"
  obtains a d where "a \<in> set (agents (srv_store w'))" and "agt_install_id a = enr_machine_identifier payload"
    and "agt_device_id a = Some (ens_device_id resp)" and "agt_device_secret_hash a = hash_token rt cfg secret"
    and "\<forall>b \<in> set (agents (srv_store w')). b = a \<or> b \<in> set (agents (srv_store w))"
    and "\<forall>b \<in> set (agents (srv_store w')). agt_install_id b = enr_machine_identifier payload \<longrightarrow> b = a"
    and "d \<in> set (devices (srv_store w'))" and "dev_id d = ens_device_id resp"
    and "dev_machine_identifier d = enr_machine_identifier payload"
    and "dev_organization_id d = agt_organization_id a"
    and "\<forall>x \<in> set (devices (srv_store w)). \<exists>y \<in> set (devices (srv_store w')). dev_id y = dev_id x \<and>
       dev_machine_identifier y = dev_machine_identifier x \<and> dev_organization_id y = dev_organization_id x"
proof -
  obtain tok j where id: "ens_device_id resp = dev_id (target_device now client tok payload (srv_next_id w) (srv_store w))"
    and core: "core (srv_store w') = core (enrolled_store rt cfg now client secret payload tok (srv_next_id w) j (srv_store w))"
    by (rule enroll_success[OF w run])
  let ?device = "target_device now client tok payload (srv_next_id w) (srv_store w)"
  obtain a where a: "a \<in> set (agents (srv_store w'))" "agt_install_id a = enr_machine_identifier payload"
    "agt_device_id a = Some (dev_id ?device)" "agt_organization_id a = ent_organization_id tok"
    "agt_device_secret_hash a = hash_token rt cfg secret"
    and others: "\<And>b. b \<in> set (agents (srv_store w')) \<Longrightarrow> b = a \<or>
       (b \<in> set (agents (srv_store w)) \<and> agt_install_id b \<noteq> enr_machine_identifier payload)"
    using enrolled_agents[OF w core] by metis
  note devs = enrolled_devices[OF w core]
  show thesis
  proof (rule that[of a ?device])
    show "\<forall>x \<in> set (devices (srv_store w)). \<exists>y \<in> set (devices (srv_store w')). dev_id y = dev_id x \<and>
        dev_machine_identifier y = dev_machine_identifier x \<and> dev_organization_id y = dev_organization_id x"
      using devs(2) by metis
  qed (use a others devs(1) id in \<open>auto simp: target_device_key\<close>)
qed

lemma enroll_linked:
  assumes w: "wf_server w" and linked: "agents_linked (srv_store w)"
    and run: "run_request (enroll_agent rt cfg now client secret payload) w = (Inr resp, w')"
  shows "agents_linked (srv_store w') \<and>
    (\<exists>a \<in> set (agents (srv_store w')). agt_device_id a = Some (ens_device_id resp) \<and>
       agt_device_secret_hash a = hash_token rt cfg secret \<and>
       (\<forall>b \<in> set (agents (srv_store w')). agt_device_id b = Some (ens_device_id resp) \<longrightarrow> b = a) \<and>
       (\<exists>d \<in> set (devices (srv_store w')). dev_id d = ens_device_id resp \<and>
          dev_organization_id d = agt_organization_id a \<and>
          dev_machine_identifier d = enr_machine_identifier payload))"
proof -
  have wf': "wf_server w'" using run_request_wf[OF wf_enroll w] run by (metis snd_conv)
  obtain a d where a: "a \<in> set (agents (srv_store w'))" "agt_install_id a = enr_machine_identifier payload"
      "agt_device_id a = Some (ens_device_id resp)" "agt_device_secret_hash a = hash_token rt cfg secret"
    and others: "\<forall>b \<in> set (agents (srv_store w')). b = a \<or> b \<in> set (agents (srv_store w))"
    and own: "\<forall>b \<in> set (agents (srv_store w')). agt_install_id b = enr_machine_identifier payload \<longrightarrow> b = a"
    and d: "d \<in> set (devices (srv_store w'))" "dev_id d = ens_device_id resp"
      "dev_machine_identifier d = enr_machine_identifier payload" "dev_organization_id d = agt_organization_id a"
    and devs: "\<forall>x \<in> set (devices (srv_store w)). \<exists>y \<in> set (devices (srv_store w')). dev_id y = dev_id x \<and>
       dev_machine_identifier y = dev_machine_identifier x \<and> dev_organization_id y = dev_organization_id x"
    by (rule enrolled_agent[OF w run]) (rule that)
  have linked': "agents_linked (srv_store w')"
  proof (rule linkedI)
    fix b e assume b: "b \<in> set (agents (srv_store w'))" "agt_device_id b = Some e"
    show "\<exists>x \<in> set (devices (srv_store w')). dev_id x = e \<and> dev_machine_identifier x = agt_install_id b \<and>
      dev_organization_id x = agt_organization_id b"
    proof (cases "b = a")
      case True
      with a b d show ?thesis by (intro bexI[of _ d]) simp_all
    next
      case False
      with others b(1) have "b \<in> set (agents (srv_store w))" by blast
      from linkedD[OF linked this b(2)] obtain x where "x \<in> set (devices (srv_store w))" "dev_id x = e"
        "dev_machine_identifier x = agt_install_id b" "dev_organization_id x = agt_organization_id b" by blast
      with devs show ?thesis by metis
    qed
  qed
  have "b = a" if b: "b \<in> set (agents (srv_store w'))" "agt_device_id b = Some (ens_device_id resp)" for b
  proof -
    obtain x where x: "x \<in> set (devices (srv_store w'))" "dev_id x = ens_device_id resp"
      "dev_machine_identifier x = agt_install_id b" using linkedD[OF linked' b] by blast
    then have "x = d" using wf' d(1,2) by (auto simp: wf_server_def ids_ok_def dest: keys_ok_row)
    with x d own b(1) show ?thesis by simp
  qed
  then show ?thesis using linked' a d by blast
qed

text \<open>C28. The secret handed out by an enrollment is the only one its device can check in with:
  right after it, a check-in for the device is authenticated as the device if its secret
  has the hash of the issued one, and is refused with 401 otherwise, so that enrolling a
  machine again revokes its old secret. The enrollment keeps every agent linked to the
  device of its own machine and organization.\<close>

theorem enrolled_agent_authenticates:
  assumes w: "wf_server w" and linked: "agents_linked (srv_store w)"
    and run: "run_request (enroll_agent rt cfg now client secret payload) w = (Inr resp, w')"
    and device: "aci_device_id q = ens_device_id resp"
  shows "agents_linked (srv_store w') \<and>
    (if hash_token rt cfg (aci_device_secret q) = hash_token rt cfg secret
     then \<exists>agent device. checkin_auth rt cfg q (open_session w') = (Inr (agent, device), open_session w') \<and>
       dev_id device = ens_device_id resp \<and>
       dev_machine_identifier device = enr_machine_identifier payload \<and>
       agt_device_id agent = Some (ens_device_id resp)
     else checkin_auth rt cfg q (open_session w') =
       (Inl (HTTPException 401 ''Invalid device credentials''), open_session w'))"
proof -
  have wf': "wf_server w'" using run_request_wf[OF wf_enroll w] run by (metis snd_conv)
  obtain a d where linked': "agents_linked (srv_store w')"
    and a: "a \<in> set (agents (srv_store w'))" "agt_device_id a = Some (ens_device_id resp)"
      "agt_device_secret_hash a = hash_token rt cfg secret"
      "\<forall>b \<in> set (agents (srv_store w')). agt_device_id b = Some (ens_device_id resp) \<longrightarrow> b = a"
    and d: "d \<in> set (devices (srv_store w'))" "dev_id d = ens_device_id resp"
      "dev_organization_id d = agt_organization_id a" "dev_machine_identifier d = enr_machine_identifier payload"
    using enroll_linked[OF w linked run] by (elim conjE bexE) (rule that)
  have "distinct (map agt_id (agents (srv_store w')))" using wf' by (simp add: wf_server_def ids_ok_def keys_ok_def)
  then have found: "List.find (\<lambda>x. agt_device_id x = Some (ens_device_id resp)) (agents (srv_store w')) = Some a"
    using a(1,2) by (rule find_unique[where f = agt_id]) (use a(4) in blast)
  have found_device: "List.find (\<lambda>x. dev_id x = ens_device_id resp) (devices (srv_store w')) = Some d"
    using devices_tbl.open_find_key[OF wf' d(1)] unfolding d(2) .
  have auth: "checkin_auth rt cfg q (open_session w') =
      (if hash_token rt cfg (aci_device_secret q) = hash_token rt cfg secret then (Inr (a, d), open_session w')
       else (Inl (HTTPException 401 ''Invalid device credentials''), open_session w'))"
    by (simp add: checkin_auth_def agents_tbl.open_scalar[OF wf'] devices_tbl.open_get[OF wf'] verify_token_def
        device found found_device a(3) d(3))
  show ?thesis unfolding auth using linked' d(2,4) a(2) by (cases "hash_token rt cfg (aci_device_secret q) = hash_token rt cfg secret") simp_all
qed


definition sample_checkin :: AgentCheckinRequest where
  "sample_checkin =
    \<lparr>aci_device_id = 100, aci_device_secret = ''fresh-device-secret'', aci_hostname = ''db-1'',
     aci_operating_system = ''linux'', aci_architecture = None, aci_agent_version = ''0.3.0'',
     aci_ip_address = None, aci_local_ips = [], aci_uptime_seconds = None, aci_cpu_count = None,
     aci_memory_total_bytes = None, aci_memory_used_bytes = None, aci_health_status = ''healthy'',
     aci_inventory = None, aci_remote_access = None\<rparr>"

lemma sample_linked: "agents_linked (srv_store sample_server)"
  by (simp add: sample_server_simps) (simp add: agents_linked_def agent_linked_def sample_defs)

theorem enrolled_agent_authenticates_witness:
  "\<exists>w' agent device. w' = snd (run_request (enroll_agent sample_runtime default_settings 5 None
       ''fresh-device-secret'' sample_enrollment) sample_server) \<and>
     checkin_auth sample_runtime default_settings sample_checkin (open_session w') =
       (Inr (agent, device), open_session w') \<and> dev_id device = 100"
proof -
  have target: "target_device 5 None sample_token sample_enrollment (srv_next_id sample_server) (srv_store sample_server) =
      enrolled_device 5 None sample_token sample_enrollment 100"
    by (simp add: target_device_def upsert_base_def sample_server_simps)
      (simp add: sample_defs device_key_def sample_enrollment_def enrolled_device_def reenrolled_device_def)
  obtain w' where w': "run_request (enroll_agent sample_runtime default_settings 5 None ''fresh-device-secret'' sample_enrollment)
      sample_server = (Inr \<lparr>ens_device_id = 100, ens_device_secret = ''fresh-device-secret''\<rparr>, w')"
    using enroll_run[OF sample_wf sample_find_token sample_token_usable, of None "''fresh-device-secret''"]
    unfolding target by auto
  have "aci_device_id sample_checkin = 100" "aci_device_secret sample_checkin = ''fresh-device-secret''"
    by (simp_all add: sample_checkin_def)
  with enrolled_agent_authenticates[OF sample_wf sample_linked w', of sample_checkin] w' show ?thesis by auto
qed

subsection \<open>Check-ins\<close>

lemma wf_store_checkin [keeps_intro]: "keeps wf_session (store_checkin now client q agent device)"
  unfolding store_checkin_def Let_def
  by (intro keeps_intro devices_tbl.put_wf agents_tbl.put_wf device_checkins_tbl.insert_wf;
      simp add: new_checkin_def)

lemma wf_checkin [keeps_intro]: "keeps wf_session (checkin_agent rt cfg now client q)"
  unfolding checkin_agent_def finish_checkin_def checkin_auth_def by (intro keeps_intro)

lemma keeps_checkin_auth [keeps_intro]: "keeps I (checkin_auth rt cfg q)"
  unfolding checkin_auth_def by (intro keeps_intro)

lemma durable_alert_parts [keeps_intro]:
  "keeps (\<lambda>s. durable s = d) (notification_audit now o' a' ty i e)"
  "keeps (\<lambda>s. durable s = d) (enqueue_channel now a c)"
  "keeps (\<lambda>s. durable s = d) (enqueue_alert_notifications now a)"
  "keeps (\<lambda>s. durable s = d) (add_alert_event now a ev m e)"
  "keeps (\<lambda>s. durable s = d) (agent_audit now o' ac ty ti e)"
  unfolding enqueue_alert_notifications_def enqueue_channel_def get_enabled_channel_def notification_audit_def
    add_alert_event_def agent_audit_def
  by (intro keeps_intro)+

lemma durable_rules [keeps_intro]: "keeps (\<lambda>s. durable s = d) (add_missing_rules now o' ds existing)"
proof (induction ds arbitrary: existing)
  case Nil
  show ?case by (simp only: add_missing_rules.simps keeps_ret)
next
  case (Cons x ds)
  show ?case by (simp only: add_missing_rules.simps) (intro keeps_intro Cons.IH)
qed

lemma durable_checkin_parts [keeps_intro]:
  "keeps (\<lambda>s. durable s = d) (evaluate_device_alerts rt cfg now device e)"
  "keeps (\<lambda>s. durable s = d) (store_checkin now client q agent device)"
  unfolding evaluate_device_alerts_def ensure_default_alert_rules_def apply_keyed_result_def apply_result_def
    store_checkin_def upsert_inventory_def upsert_security_def upsert_updates_def upsert_row_def
    replace_rows_def upsert_rustdesk_status_def Let_def
  by (intro keeps_intro)+

lemma atomic_checkin: "atomic (checkin_agent rt cfg now client q)"
  unfolding checkin_agent_def finish_checkin_def by (intro atomic_intro uncommittedI keeps_intro)


text \<open>What a check-in writes leaves the alerts alone, and everything but the alerts and their
  rules is written before the alert rules are evaluated.\<close>

lemma live_store_checkin:
  "keeps (\<lambda>s. alerts (live s) = v) (store_checkin now client q agent device)"
  unfolding store_checkin_def upsert_inventory_def upsert_security_def upsert_updates_def upsert_row_def
    replace_rows_def upsert_rustdesk_status_def default_provider_def agent_audit_def Let_def
  by (intro keeps_intro frame_live; simp)

lemma live_evaluate:
  "keeps (\<lambda>s. devices (live s) = v) (evaluate_device_alerts rt cfg now device e)"
proof -
  have rules: "keeps (\<lambda>s. devices (live s) = v) (add_missing_rules now o' ds existing)" for ds o' existing
  proof (induction ds arbitrary: existing)
    case Nil
    show ?case by (simp only: add_missing_rules.simps keeps_ret)
  next
    case (Cons x ds)
    show ?case by (simp only: add_missing_rules.simps) (intro keeps_intro frame_live Cons.IH; simp)
  qed
  show ?thesis
    unfolding evaluate_device_alerts_def ensure_default_alert_rules_def apply_keyed_result_def apply_result_def
      enqueue_alert_notifications_def enqueue_channel_def get_enabled_channel_def notification_audit_def
      add_alert_event_def Let_def
    by (intro keeps_intro frame_live rules; simp)
qed

lemma store_checkin_flushed:
  assumes "store_checkin now client q agent device s = (Inr c, s')"
  shows "synced s' \<and> unique_ok (live s')"
  using assms unfolding store_checkin_def Let_def
  by (elim andThen_InrE) (auto simp: db_flush_def synced_def split: if_splits)

text \<open>What follows the update of the device leaves the devices alone.\<close>

definition checkin_rest ::
  "datetime \<Rightarrow> string option \<Rightarrow> AgentCheckinRequest \<Rightarrow> agent \<Rightarrow> device \<Rightarrow> device_checkin db_op" where
  "checkin_rest now ip q agent device =
     andThen (put_row agents_update agt_id
       (agent\<lparr>agt_version := aci_agent_version q, agt_last_seen_at := Some now\<rparr>)) (\<lambda>_.
     andThen (insert_row device_checkins_update (new_checkin now ip q device agent)) (\<lambda>checkin.
     andThen (case aci_inventory q of None \<Rightarrow> ret () | Some p \<Rightarrow> upsert_inventory now device p) (\<lambda>_.
     andThen (case aci_remote_access q of None \<Rightarrow> ret () | Some p \<Rightarrow> upsert_rustdesk_status now device p) (\<lambda>_.
     andThen db_flush (\<lambda>_. ret checkin)))))"

lemma checkin_rest_devices: "keeps (\<lambda>s. devices (live s) = v) (checkin_rest now ip q agent device)"
  unfolding checkin_rest_def upsert_inventory_def upsert_security_def upsert_updates_def upsert_row_def
    replace_rows_def upsert_rustdesk_status_def default_provider_def agent_audit_def Let_def
  by (intro keeps_intro frame_live; simp)

lemma checkin_rest_time:
  "checkin_rest now ip q agent device s = (Inr c, s') \<Longrightarrow> chk_checked_in_at c = now"
  unfolding checkin_rest_def
  by (elim andThen_InrE) (auto simp: insert_row_def new_checkin_def)

lemma store_checkin_device:
  assumes run: "store_checkin now client q agent device s = (Inr c, s')" and d: "device \<in> set (devices (live s))"
  shows "chk_checked_in_at c = now \<and> (\<exists>d \<in> set (devices (live s')). dev_id d = dev_id device \<and>
    dev_is_online d \<and> dev_last_seen_at d = Some now \<and> dev_hostname d = aci_hostname q \<and>
    dev_health_status d = aci_health_status q)"
proof -
  let ?ip = "case aci_ip_address q of Some a \<Rightarrow> if a = [] then client else Some a | None \<Rightarrow> client"
  let ?d = "checked_in_device now ?ip q device"
  have rest: "checkin_rest now ?ip q agent ?d
      (s\<lparr>live := devices_update (map (\<lambda>x. if dev_id x = dev_id ?d then ?d else x)) (live s)\<rparr>) = (Inr c, s')"
    using run by (simp add: store_checkin_def checkin_rest_def put_row_def Let_def)
  have "devices (live s') = map (\<lambda>x. if dev_id x = dev_id ?d then ?d else x) (devices (live s))"
    by (rule keeps_runD[OF checkin_rest_devices _ rest]) simp
  then have "?d \<in> set (devices (live s'))"
    using d by (auto simp: image_iff checked_in_device_def intro!: bexI[of _ device])
  moreover have "dev_id ?d = dev_id device \<and> dev_is_online ?d \<and> dev_last_seen_at ?d = Some now \<and>
      dev_hostname ?d = aci_hostname q \<and> dev_health_status ?d = aci_health_status q"
    by (simp add: checked_in_device_def)
  ultimately show ?thesis using checkin_rest_time[OF rest] by blast
qed

lemma live_row_key: "k (live_row t k s r) = k r"
  by (auto simp: live_row_def dest!: find_SomeD split: option.splits)

lemma checkin_auth_open:
  assumes w: "wf_server w" and "checkin_auth rt cfg q (open_session w) = (Inr (agent, device), s)"
  shows "s = open_session w" and "dev_id device = aci_device_id q" and "device \<in> set (devices (srv_store w))"
    and "agent \<in> set (agents (srv_store w))" and "agt_device_id agent = Some (aci_device_id q)"
    and "agt_device_secret_hash agent = hash_token rt cfg (aci_device_secret q)"
  using assms(2)
  by (auto simp: checkin_auth_def agents_tbl.open_scalar[OF w] devices_tbl.open_get[OF w] verify_token_def
      dest!: find_SomeD split: option.splits if_splits)

lemma finish_checkin_run:
  assumes "finish_checkin rt cfg now q device0 c s1 = (Inr resp, s)"
  obtains s2 where "evaluate_device_alerts rt cfg now (live_row devices dev_id s1 device0) (checkin_payload q) s1 =
      (Inr (), s2)"
    and "core (durable s) = core (live s2)"
    and "acs_device_id resp = dev_id device0" and "acs_checked_in_at resp = chk_checked_in_at c"
proof -
  let ?device = "live_row devices dev_id s1 device0"
  let ?audit = "agent_audit now (dev_organization_id ?device) ''agent.checkin'' ''device''
        (Some (uuid_str (dev_id ?device)))
        [(''status'', JStr (aci_health_status q)), (''agent_version'', JStr (aci_agent_version q))]"
  let ?resp = "\<lparr>acs_status = ''accepted'', acs_device_id = dev_id ?device, acs_checked_in_at = chk_checked_in_at c\<rparr>"
  obtain s2 where s2: "evaluate_device_alerts rt cfg now ?device (checkin_payload q) s1 = (Inr (), s2)"
    and after: "andThen ?audit (\<lambda>_. andThen db_commit (\<lambda>_. ret ?resp)) s2 = (Inr resp, s)"
    using assms by (auto simp: finish_checkin_def current_row_def elim: andThen_InrE)
  obtain s3 where s3: "?audit s2 = (Inr (), s3)" "core (live s3) = core (live s2)"
    by (rule quietD[OF quiet_agent_audit])
  have "andThen db_commit (\<lambda>_. ret ?resp) s3 = (Inr resp, s)"
    using after by (simp only: andThen_Inr[where m = ?audit, OF s3(1)])
  then have "durable s = live s3" "resp = ?resp" by (auto simp: db_commit_def andThen_run split: if_splits)
  with s2 s3(2) show thesis by (intro that[of s2]) (simp_all add: live_row_key)
qed

text \<open>The steps of an accepted check-in.\<close>

lemma checkin_InrE:
  assumes w: "wf_server w" and run: "checkin_agent rt cfg now client q (open_session w) = (Inr resp, s)"
  obtains agent device c s1 s2 where "device \<in> set (devices (srv_store w))" and "dev_id device = aci_device_id q"
    and "agent \<in> set (agents (srv_store w))" and "agt_device_id agent = Some (aci_device_id q)"
    and "agt_device_secret_hash agent = hash_token rt cfg (aci_device_secret q)"
    and "store_checkin now client q agent device (open_session w) = (Inr c, s1)"
    and "evaluate_device_alerts rt cfg now (live_row devices dev_id s1 device) (checkin_payload q) s1 = (Inr (), s2)"
    and "core (durable s) = core (live s2)"
    and "acs_device_id resp = aci_device_id q" and "acs_checked_in_at resp = chk_checked_in_at c"
proof -
  obtain agent device s0 where auth: "checkin_auth rt cfg q (open_session w) = (Inr (agent, device), s0)"
    and after: "andThen (store_checkin now client q agent device) (finish_checkin rt cfg now q device) s0 = (Inr resp, s)"
    using run unfolding checkin_agent_def by (elim andThen_InrE) (auto split: prod.splits)
  note a = checkin_auth_open[OF w auth]
  obtain c s1 where s1: "store_checkin now client q agent device (open_session w) = (Inr c, s1)"
    and finish: "finish_checkin rt cfg now q device c s1 = (Inr resp, s)"
    using after a(1) by (auto elim: andThen_InrE)
  from finish_checkin_run[OF finish] a s1 that show thesis by metis
qed

lemma one_open_request:
  assumes "atomic h" and one: "one_open (srv_store w)"
    and ok: "\<And>resp s. h (open_session w) = (Inr resp, s) \<Longrightarrow> one_open (durable s)"
  shows "one_open (srv_store (snd (run_request h w)))"
proof (cases "run_request h w")
  case (Pair r w')
  show ?thesis
  proof (cases r)
    case (Inl e)
    with Pair one run_request_atomic[OF assms(1)] show ?thesis by fastforce
  next
    case (Inr resp)
    with Pair obtain s where "h (open_session w) = (Inr resp, s)" "w' = close_session s" by (auto elim: run_requestE)
    with Pair ok show ?thesis by simp
  qed
qed

lemma checkin_one_open:
  assumes w: "wf_server w" and one: "one_open (srv_store w)"
  shows "one_open (srv_store (snd (run_request (checkin_agent rt cfg now client q) w)))"
proof (rule one_open_request[OF atomic_checkin one])
  fix resp s
  assume "checkin_agent rt cfg now client q (open_session w) = (Inr resp, s)"
  then obtain agent device c s1 s2 where s1: "store_checkin now client q agent device (open_session w) = (Inr c, s1)"
    and s2: "evaluate_device_alerts rt cfg now (live_row devices dev_id s1 device) (checkin_payload q) s1 = (Inr (), s2)"
    and core: "core (durable s) = core (live s2)"
    by (rule checkin_InrE[OF w])
  have wf1: "wf_session s1" using keeps_runD[OF wf_store_checkin _ s1] w by simp
  have "alerts (live s1) = alerts (srv_store w)"
    by (rule keeps_runD[OF live_store_checkin _ s1]) simp
  then have "one_open (live s1)" using one by (simp add: one_open_def)
  then have "one_open (live s2)"
    using evaluation_run[OF wf1 _ _ _ s2] store_checkin_flushed[OF s1] by blast
  with core_tables(15)[OF core] show "one_open (durable s)" by (simp add: one_open_def)
qed

text \<open>C29. A check-in, accepted or not, never breaks the tables and never leaves two open alerts
  for one device and rule. A check-in that fails, for whatever reason and at whatever point,
  leaves the stored data as it was. An accepted one presented the secret of the agent of
  the device it names, is answered with its time, and leaves that device online, seen now,
  with the reported host name and health.\<close>

theorem checkin_served:
  assumes w: "wf_server w" and one: "one_open (srv_store w)"
    and run: "run_request (checkin_agent rt cfg now client q) w = (r, w')"
  shows "wf_server w' \<and> one_open (srv_store w') \<and>
    (case r of
       Inl e \<Rightarrow> srv_store w' = srv_store w
     | Inr resp \<Rightarrow> acs_device_id resp = aci_device_id q \<and> acs_checked_in_at resp = now \<and>
         (\<exists>a \<in> set (agents (srv_store w)). agt_device_id a = Some (aci_device_id q) \<and>
            agt_device_secret_hash a = hash_token rt cfg (aci_device_secret q)) \<and>
         (\<exists>d \<in> set (devices (srv_store w')). dev_id d = aci_device_id q \<and> dev_is_online d \<and>
            dev_last_seen_at d = Some now \<and> dev_hostname d = aci_hostname q \<and>
            dev_health_status d = aci_health_status q))"
proof -
  have wf': "wf_server w'" using run_request_wf[OF wf_checkin w, of rt cfg now client q] run by simp
  have one': "one_open (srv_store w')" using checkin_one_open[OF w one, of rt cfg now client q] run by simp
  show ?thesis
  proof (cases r)
    case (Inl e)
    with run atomic_checkin have "srv_store w' = srv_store w" by (metis run_request_atomic)
    with Inl wf' one' show ?thesis by simp
  next
    case (Inr resp)
    obtain s where run_s: "checkin_agent rt cfg now client q (open_session w) = (Inr resp, s)" "w' = close_session s"
      using run Inr by (auto elim: run_requestE)
    obtain agent device c s1 s2 where a: "device \<in> set (devices (srv_store w))" "dev_id device = aci_device_id q"
        "agent \<in> set (agents (srv_store w))" "agt_device_id agent = Some (aci_device_id q)"
        "agt_device_secret_hash agent = hash_token rt cfg (aci_device_secret q)"
      and s1: "store_checkin now client q agent device (open_session w) = (Inr c, s1)"
      and s2: "evaluate_device_alerts rt cfg now (live_row devices dev_id s1 device) (checkin_payload q) s1 = (Inr (), s2)"
      and core: "core (durable s) = core (live s2)"
      and final: "acs_device_id resp = aci_device_id q" "acs_checked_in_at resp = chk_checked_in_at c"
      by (rule checkin_InrE[OF w run_s(1)])
    have "devices (live s2) = devices (live s1)"
      by (rule keeps_runD[OF live_evaluate _ s2]) simp
    then have "devices (srv_store w') = devices (live s1)"
      using core_tables(5)[OF core] run_s(2) by simp
    with Inr wf' one' final a store_checkin_device[OF s1] show ?thesis by auto
  qed
qed

theorem checkin_served_witness:
  "one_open (srv_store (snd (run_request (checkin_agent sample_runtime default_settings 90 None
     (sample_checkin\<lparr>aci_device_id := 10, aci_device_secret := ''device-secret-0001''\<rparr>)) sample_server)))"
proof -
  have "one_open (srv_store sample_server)"
    by (simp add: sample_server_simps) (simp add: one_open_def open_count_def open_alert_def sample_defs)
  from checkin_served[OF sample_wf this surjective_pairing] show ?thesis by blast
qed

end
