(* ===== verification/AlertsApi.thy ===== *)
theory AlertsApi
  imports AgentApi Tracking
begin

text \<open>
  The operators' view of alerts: \<^verbatim>\<open>backend/app/api/alerts.py\<close>. Operators list, read,
  acknowledge and resolve alerts; the evaluation at each agent check-in opens and resolves
  them too. The properties: what an acknowledgement and a resolution change, exactly, and
  that under every history of operator requests and check-ins an alert only moves from
  active over acknowledged to resolved.
\<close>

definition alert_event_response :: "alert_event \<Rightarrow> AlertEventResponse" where
  "alert_event_response event =
     \<lparr>aer_id = ale_id event, aer_event_type = ale_event_type event, aer_message = ale_message event,
      aer_metadata_json = ale_metadata_json event, aer_created_at = ale_created_at event\<rparr>"

definition alert_response :: "alert \<Rightarrow> bool \<Rightarrow> AlertResponse db_op" where
  "alert_response a include_events =
     andThen (gets (db_get devices dev_id (alt_device_id a))) (\<lambda>device.
     andThen (gets (db_get alert_rules alr_id (alt_rule_id a))) (\<lambda>rule.
     andThen (if include_events
              then gets (db_select_by alert_events ale_id ale_created_at (\<lambda>e. ale_alert_id e = alt_id a))
              else ret []) (\<lambda>events.
     ret \<lparr>arp_id = alt_id a, arp_organization_id = alt_organization_id a,
          arp_device_id = alt_device_id a, arp_rule_id = alt_rule_id a,
          arp_severity = alt_severity a, arp_status = alt_status a, arp_title = alt_title a,
          arp_message = alt_message a, arp_first_seen_at = alt_first_seen_at a,
          arp_last_seen_at = alt_last_seen_at a, arp_acknowledged_at = alt_acknowledged_at a,
          arp_resolved_at = alt_resolved_at a,
          arp_device_hostname = map_option dev_hostname device,
          arp_rule_key = map_option alr_rule_key rule,
          arp_events = map alert_event_response events\<rparr>)))"

definition list_alerts ::
  "user db_op \<Rightarrow> string option \<Rightarrow> string option \<Rightarrow> uuid option \<Rightarrow> AlertResponse list db_op" where
  "list_alerts auth severity status_filter device_id =
     andThen (require_permission ''alerts:read'' auth) (\<lambda>current.
     andThen (gets (db_select_by alerts alt_id (\<lambda>a. - alt_last_seen_at a) (\<lambda>a.
        alt_organization_id a = usr_organization_id current \<and>
        (case severity of None \<Rightarrow> True | Some v \<Rightarrow> v = [] \<or> alt_severity a = v) \<and>
        (case status_filter of None \<Rightarrow> True | Some v \<Rightarrow> v = [] \<or> alt_status a = v) \<and>
        (case device_id of None \<Rightarrow> True | Some i \<Rightarrow> alt_device_id a = i)))) (\<lambda>rows.
     map_each rows (\<lambda>a. alert_response a False)))"

text \<open>\<open>db.get(Alert, alert_id)\<close> and the scope check the three handlers share.\<close>

definition own_alert :: "user \<Rightarrow> uuid \<Rightarrow> alert db_op" where
  "own_alert current alert_id =
     andThen (gets (db_get alerts alt_id alert_id)) (\<lambda>found.
     case found of
       None \<Rightarrow> raise (HTTPException 404 ''Alert not found'')
     | Some a \<Rightarrow>
         if alt_organization_id a \<noteq> usr_organization_id current
         then raise (HTTPException 404 ''Alert not found'') else ret a)"

definition get_alert :: "user db_op \<Rightarrow> uuid \<Rightarrow> AlertResponse db_op" where
  "get_alert auth alert_id =
     andThen (require_permission ''alerts:read'' auth) (\<lambda>current.
     andThen (own_alert current alert_id) (\<lambda>a. alert_response a True))"

definition acknowledge_on :: "datetime \<Rightarrow> alert \<Rightarrow> AlertResponse db_op" where
  "acknowledge_on now a =
     (if alt_status a = ''active'' then
       let a' = a\<lparr>alt_status := ''acknowledged'', alt_acknowledged_at := Some now\<rparr> in
       andThen (put_row alerts_update alt_id a') (\<lambda>_.
       andThen (add_alert_event now a' ''acknowledged'' ''Alert acknowledged by operator.'' []) (\<lambda>_.
       andThen db_commit (\<lambda>_. alert_response a' True)))
     else alert_response a True)"

definition acknowledge_alert :: "datetime \<Rightarrow> user db_op \<Rightarrow> uuid \<Rightarrow> AlertResponse db_op" where
  "acknowledge_alert now auth alert_id =
     andThen (require_permission ''alerts:acknowledge'' auth) (\<lambda>current.
     andThen (own_alert current alert_id) (acknowledge_on now))"

definition resolve_on :: "datetime \<Rightarrow> alert \<Rightarrow> AlertResponse db_op" where
  "resolve_on now a =
     (if alt_status a \<noteq> ''resolved'' then
       let a' = a\<lparr>alt_status := ''resolved'', alt_resolved_at := Some now\<rparr> in
       andThen (put_row alerts_update alt_id a') (\<lambda>_.
       andThen (add_alert_event now a' ''resolved'' ''Alert resolved by operator.'' []) (\<lambda>_.
       andThen db_commit (\<lambda>_. alert_response a' True)))
     else alert_response a True)"

definition resolve_alert :: "datetime \<Rightarrow> user db_op \<Rightarrow> uuid \<Rightarrow> AlertResponse db_op" where
  "resolve_alert now auth alert_id =
     andThen (require_permission ''alerts:acknowledge'' auth) (\<lambda>current.
     andThen (own_alert current alert_id) (resolve_on now))"

subsection \<open>Reading steps and keys\<close>

lemma keeps_alert_reads [keeps_intro]:
  "keeps I (alert_response a b)" "keeps I (own_alert current i)"
  unfolding alert_response_def own_alert_def by (intro keeps_intro)+

lemma own_alert_InrD:
  "own_alert current i s = (Inr a, s') \<Longrightarrow>
     s' = s \<and> db_get alerts alt_id i s = Some a \<and> alt_id a = i \<and>
     alt_organization_id a = usr_organization_id current"
  using alerts_tbl.get_SomeD[of i s]
  by (auto simp: own_alert_def split: option.splits if_splits)

lemma wf_alert_handlers [keeps_intro]:
  assumes "keeps wf_session auth"
  shows "keeps wf_session (list_alerts auth sv st d)" and "keeps wf_session (get_alert auth i)"
    and "keeps wf_session (acknowledge_alert now auth i)" and "keeps wf_session (resolve_alert now auth i)"
  unfolding list_alerts_def get_alert_def acknowledge_alert_def acknowledge_on_def resolve_alert_def
    resolve_on_def Let_def
  by (intro keeps_intro assms alerts_tbl.put_wf)+

lemma alert_response_state: "\<exists>r. alert_response a b s = (Inr r, s)"
  by (auto simp: alert_response_def)

subsection \<open>The lifecycle of an alert\<close>

inductive alert_step :: "string \<Rightarrow> string \<Rightarrow> bool" where
  acknowledge: "alert_step ''active'' ''acknowledged''"
| resolve: "status \<in> {''active'', ''acknowledged''} \<Longrightarrow> alert_step status ''resolved''"

definition alert_rank :: "string \<Rightarrow> nat" where
  "alert_rank st = (if st = ''active'' then 0 else if st = ''acknowledged'' then 1 else 2)"

definition alert_status_ok :: "string \<Rightarrow> bool" where
  "alert_status_ok st \<longleftrightarrow> st \<in> set ALERT_STATUSES"

text \<open>What no request changes of an alert.\<close>

definition same_alert :: "alert \<Rightarrow> alert \<Rightarrow> bool" where
  "same_alert a a' \<longleftrightarrow> alt_id a' = alt_id a \<and> alt_organization_id a' = alt_organization_id a \<and>
     alt_device_id a' = alt_device_id a \<and> alt_rule_id a' = alt_rule_id a \<and>
     alt_severity a' = alt_severity a \<and> alt_title a' = alt_title a \<and>
     alt_first_seen_at a' = alt_first_seen_at a \<and> alt_created_at a' = alt_created_at a"

inductive_cases alert_stepE: "alert_step s t"

lemma alert_step_simps:
  "alert_step s t \<Longrightarrow> s \<noteq> ''resolved'' \<and> alert_rank s < alert_rank t \<and> alert_status_ok t"
  by (induction rule: alert_step.induct) (auto simp: alert_rank_def alert_status_ok_def ALERT_STATUSES_def)

interpretation alert_tracking: tracked_table alerts alerts_update alt_id alt_organization_id
  alert_step alert_rank "\<lambda>st. st = ''resolved''" alt_status same_alert alert_status_ok
  by unfold_locales (auto simp: same_alert_def dest: alert_step_simps)

abbreviation alerts_progressing :: "store \<Rightarrow> uuid \<Rightarrow> session \<Rightarrow> bool" where
  "alerts_progressing \<equiv> tracking alerts alt_id
     (row_progress alert_step (\<lambda>st. st = ''resolved'') alt_status same_alert)
     (\<lambda>a. alert_status_ok (alt_status a))"

abbreviation alert_reached :: "store \<Rightarrow> alert \<Rightarrow> bool" where
  "alert_reached \<equiv> reached alerts alt_id
     (row_progress alert_step (\<lambda>st. st = ''resolved'') alt_status same_alert)
     (\<lambda>a. alert_status_ok (alt_status a))"

subsection \<open>Every request lets alerts progress\<close>

lemma alerts_logs [keeps_intro]:
  "keeps (alerts_progressing st0 n) (add_alert_event now a e m d)"
  "keeps (alerts_progressing st0 n) (notification_audit now o' ac ty i d)"
  "keeps (alerts_progressing st0 n) (agent_audit now o' ac ty ti d)"
  "keeps (alerts_progressing st0 n) (enqueue_channel now a c)"
  "keeps (alerts_progressing st0 n) (enqueue_alert_notifications now a)"
  unfolding add_alert_event_def notification_audit_def agent_audit_def enqueue_channel_def
    get_enabled_channel_def enqueue_alert_notifications_def
  by (intro keeps_intro tracking_other; simp)+

lemma alerts_rules [keeps_intro]:
  "keeps (alerts_progressing st0 n) (add_missing_rules now o' ds existing)"
  "keeps (alerts_progressing st0 n) (ensure_default_alert_rules cfg now o')"
proof -
  show *: "keeps (alerts_progressing st0 n) (add_missing_rules now o' ds existing)" for ds existing
  proof (induction ds arbitrary: existing)
    case Nil
    show ?case by (simp only: add_missing_rules.simps keeps_ret)
  next
    case (Cons d ds)
    show ?case by (simp only: add_missing_rules.simps) (intro keeps_intro tracking_other Cons.IH; simp)
  qed
  show "keeps (alerts_progressing st0 n) (ensure_default_alert_rules cfg now o')"
    unfolding ensure_default_alert_rules_def by (intro keeps_intro *)
qed

lemma alerts_inventory [keeps_intro]:
  "keeps (alerts_progressing st0 n) (upsert_inventory now device p)"
  "keeps (alerts_progressing st0 n) (upsert_rustdesk_status now device q)"
  unfolding upsert_inventory_def upsert_rustdesk_status_def upsert_security_def upsert_updates_def
    upsert_row_def replace_rows_def Let_def
  by (intro keeps_intro tracking_other; simp)+

text \<open>Applying a rule's result continues from the open status the query selected.\<close>

lemma alerts_apply_result [keeps_intro]:
  assumes "list_all (\<lambda>a. alt_id a < n) (alerts st0)"
  shows "keeps (alerts_progressing st0 n) (apply_result now device rule result)"
  unfolding apply_result_def
proof (rule alert_tracking.tracking_scalar)
  show "keeps (alerts_progressing st0 n)
     (if rr_active result then case None of
        None \<Rightarrow>
          andThen (insert_row alerts_update (new_alert now device rule result)) (\<lambda>a.
          andThen db_flush (\<lambda>_.
          andThen (add_alert_event now a ''created'' (rr_message result) (rr_metadata result)) (\<lambda>_.
          enqueue_alert_notifications now a)))
      | Some a0 \<Rightarrow> m a0 else (case None of None \<Rightarrow> ret () | Some a0 \<Rightarrow> m' a0))" for m m'
    unfolding option.case
    by (intro keeps_intro alert_tracking.tracking_insert assms)
      (simp_all add: new_alert_def alert_status_ok_def ALERT_STATUSES_def)
next
  fix a f
  assume f: "open_alert (dev_id device) (alr_id rule) f" and reached: "alert_reached st0 a" "alert_reached st0 f"
    and key: "alt_id f = alt_id a"
  have put: "keeps (alerts_progressing st0 n) (put_row alerts_update alt_id a')"
    if "same_alert a a'" "alt_status a' = ''resolved'' \<or> alt_status a' = alt_status a" for a'
  proof -
    have "alert_step (alt_status f) ''resolved''" "alt_status f \<noteq> ''resolved''"
      using f by (auto simp: open_alert_def intro: alert_step.resolve)
    with that show ?thesis
      by (intro alert_tracking.tracking_put alert_tracking.step_reached[OF reached(1) _ reached(2) key]) auto
  qed
  show "keeps (alerts_progressing st0 n)
     (if rr_active result then case Some a of None \<Rightarrow> m
      | Some a0 \<Rightarrow>
          let a = a0\<lparr>alt_last_seen_at := now, alt_message := rr_message result\<rparr> in
          andThen (put_row alerts_update alt_id a) (\<lambda>_.
          add_alert_event now a ''repeated'' (rr_message result) (rr_metadata result))
      else (case Some a of None \<Rightarrow> ret ()
      | Some a0 \<Rightarrow>
          let a = a0\<lparr>alt_status := ''resolved'', alt_resolved_at := Some now, alt_last_seen_at := now\<rparr> in
          andThen (put_row alerts_update alt_id a) (\<lambda>_.
          add_alert_event now a ''resolved'' ''Alert condition cleared automatically.''
            (rr_metadata result))))" for m
    unfolding Let_def option.case by (intro keeps_intro put) (simp_all add: same_alert_def)
qed

lemma alerts_checkin:
  assumes "list_all (\<lambda>a. alt_id a < n) (alerts st0)"
  shows "keeps (alerts_progressing st0 n) (checkin_agent rt cfg now client q)"
  unfolding checkin_agent_def store_checkin_def finish_checkin_def evaluate_device_alerts_def
    apply_keyed_result_def Let_def
  by (intro keeps_intro tracking_other alerts_apply_result[OF assms]; simp)

lemma alerts_own_alert:
  assumes "\<And>a. alert_reached st0 a \<Longrightarrow> keeps (alerts_progressing st0 n) (f a)"
  shows "keeps (alerts_progressing st0 n) (andThen (own_alert current i) f)"
  unfolding own_alert_def andThen_assoc
  by (rule alert_tracking.tracking_get) (auto intro!: keeps_intro assms)

lemma alerts_operator_step:
  assumes "alert_reached st0 a" and "same_alert a a'" and "alert_step (alt_status a) (alt_status a')"
  shows "keeps (alerts_progressing st0 n) (andThen (put_row alerts_update alt_id a') (\<lambda>_.
     andThen (add_alert_event now a' e m d) (\<lambda>_. andThen db_commit (\<lambda>_. alert_response a' True))))"
  by (intro keeps_intro alert_tracking.own_step[OF assms])

text \<open>The requests that read or write alerts: those of operators and the agents' check-ins.\<close>

datatype alert_request =
    ListAlerts credentials "string option" "string option" "uuid option"
  | GetAlert credentials uuid
  | AcknowledgeAlert credentials uuid
  | ResolveAlert credentials uuid
  | Checkin "string option" AgentCheckinRequest

definition handle_alert :: "runtime \<Rightarrow> settings \<Rightarrow> datetime \<Rightarrow> alert_request \<Rightarrow> unit db_op" where
  "handle_alert rt cfg now q = (let auth = require_authenticated_user rt cfg now in case q of
     ListAlerts cred severity st d \<Rightarrow> discard (list_alerts (auth cred) severity st d)
   | GetAlert cred i \<Rightarrow> discard (get_alert (auth cred) i)
   | AcknowledgeAlert cred i \<Rightarrow> discard (acknowledge_alert now (auth cred) i)
   | ResolveAlert cred i \<Rightarrow> discard (resolve_alert now (auth cred) i)
   | Checkin client p \<Rightarrow> validated (valid_AgentCheckinRequest p)
       (discard (checkin_agent rt cfg now client p)))"

definition run_alerts :: "runtime \<Rightarrow> settings \<Rightarrow> (datetime \<times> alert_request) list \<Rightarrow> server \<Rightarrow> server" where
  "run_alerts rt cfg history w =
     fold (\<lambda>(now, q) w. snd (run_request (handle_alert rt cfg now q) w)) history w"

lemma alerts_requests:
  assumes "list_all (\<lambda>a. alt_id a < n) (alerts st0)"
  shows "keeps (alerts_progressing st0 n) (handle_alert rt cfg now q)"
proof (cases q)
  case (AcknowledgeAlert cred i)
  show ?thesis
    unfolding AcknowledgeAlert handle_alert_def acknowledge_alert_def acknowledge_on_def Let_def alert_request.case
    by (intro keeps_discard keeps_andThen[of _ "require_permission p a" for p a]
        keeps_require_permission keeps_authenticate alerts_own_alert keeps_if
        alerts_operator_step keeps_alert_reads) (auto simp: same_alert_def intro: alert_step.acknowledge)
next
  case (ResolveAlert cred i)
  have open_status: "alert_step (alt_status a) ''resolved''"
    if "alert_reached st0 a" "alt_status a \<noteq> ''resolved''" for a
    using that by (auto simp: reached_def alert_status_ok_def ALERT_STATUSES_def intro: alert_step.resolve)
  show ?thesis
    unfolding ResolveAlert handle_alert_def resolve_alert_def resolve_on_def Let_def alert_request.case
    by (intro keeps_discard keeps_andThen[of _ "require_permission p a" for p a]
        keeps_require_permission keeps_authenticate alerts_own_alert keeps_if
        alerts_operator_step keeps_alert_reads) (auto simp: same_alert_def intro: open_status)
qed (auto simp: handle_alert_def list_alerts_def get_alert_def intro!: keeps_intro alerts_checkin[OF assms])

text \<open>C35. Under every history of operator requests on alerts and of agent check-ins: no alert
  disappears; an alert keeps its organization, device, rule, severity, title, first
  appearance and creation time; its status only moves from active over acknowledged to
  resolved; and a resolved alert is never written again.\<close>

theorem alert_lifecycle_respected:
  assumes "wf_server w" and "list_all (\<lambda>a. alt_status a \<in> set ALERT_STATUSES) (alerts (srv_store w))"
    and "a0 \<in> set (alerts (srv_store w))"
  shows "\<exists>a \<in> set (alerts (srv_store (run_alerts rt cfg history w))).
    same_alert a0 a \<and> alert_step\<^sup>*\<^sup>* (alt_status a0) (alt_status a) \<and>
    (if alt_status a0 = ''resolved'' then a = a0 else True)"
proof -
  have "all_reached alerts alt_id (row_progress alert_step (\<lambda>st. st = ''resolved'') alt_status same_alert)
      (\<lambda>a. alert_status_ok (alt_status a)) (srv_store w) (srv_store (run_alerts rt cfg history w))"
    unfolding run_alerts_def case_prod_beta
    using assms(1,2) alerts_requests[OF alert_tracking.keys_below[OF assms(1)]]
    by (intro tracking_requests alert_tracking.tracking_start) (auto simp: alert_status_ok_def)
  then obtain a where "a \<in> set (alerts (srv_store (run_alerts rt cfg history w)))"
    "row_progress alert_step (\<lambda>st. st = ''resolved'') alt_status same_alert a0 a"
    using assms(3) by (rule alert_tracking.tracked_row)
  then show ?thesis by (intro bexI[of _ a]) (simp_all add: row_progress_def)
qed

theorem alert_lifecycle_respected_witness:
  "\<exists>a \<in> set (alerts (srv_store (run_alerts sample_runtime default_settings
     [(60, AcknowledgeAlert (Some (''Bearer'', ''access-token'')) 21),
      (70, ResolveAlert (Some (''Bearer'', ''access-token'')) 21)] sample_server))).
     same_alert (sample_alert 21 ''active'') a"
proof -
  have "list_all (\<lambda>a. alt_status a \<in> set ALERT_STATUSES) (alerts (srv_store sample_server))"
    and "sample_alert 21 ''active'' \<in> set (alerts (srv_store sample_server))"
    by (simp_all add: sample_defs ALERT_STATUSES_def)
  from alert_lifecycle_respected[OF sample_wf this] show ?thesis by blast
qed

subsection \<open>What an operator's action changes\<close>

definition acknowledged_alert :: "datetime \<Rightarrow> alert \<Rightarrow> alert" where
  "acknowledged_alert now a = a\<lparr>alt_status := ''acknowledged'', alt_acknowledged_at := Some now\<rparr>"

definition resolved_alert :: "datetime \<Rightarrow> alert \<Rightarrow> alert" where
  "resolved_alert now a = a\<lparr>alt_status := ''resolved'', alt_resolved_at := Some now\<rparr>"

text \<open>The store with alert \<open>i\<close> replaced by \<open>a\<close> and the event \<open>e\<close> of the action logged.\<close>

definition acted :: "alert \<Rightarrow> alert_event \<Rightarrow> store \<Rightarrow> store" where
  "acted a e st = alert_events_update (\<lambda>es. es @ [e])
     (alerts_update (map (\<lambda>x. if alt_id x = alt_id a then a else x)) st)"

lemma operator_step_run:
  assumes "andThen (put_row alerts_update alt_id a') (\<lambda>_. andThen (add_alert_event now a' ev m [])
      (\<lambda>_. andThen db_commit (\<lambda>_. alert_response a' True))) (open_session w) = (Inr resp, s)"
  shows "durable s = acted a' \<lparr>ale_id = srv_next_id w, ale_organization_id = alt_organization_id a',
      ale_alert_id = alt_id a', ale_event_type = ev, ale_message = m, ale_metadata_json = [],
      ale_created_at = now\<rparr> (srv_store w) \<and> arp_status resp = alt_status a'"
  using assms
  by (auto simp: put_row_def andThen_run add_alert_event_def insert_row_def db_commit_def acted_def
      alert_response_def split: if_splits)

lemma own_alert_open:
  assumes "wf_server w" and "own_alert current i (open_session w) = (Inr a, s)"
  shows "s = open_session w \<and> a \<in> set (alerts (srv_store w)) \<and> alt_id a = i \<and>
     alt_organization_id a = usr_organization_id current"
  using own_alert_InrD[OF assms(2)] by (auto simp: alerts_tbl.open_get[OF assms(1)] dest: find_SomeD)

lemma alert_action_InrD:
  assumes w: "wf_server w"
    and run: "andThen (require_permission perm (require_authenticated_user rt cfg t cred)) (\<lambda>current.
       andThen (own_alert current i) f) (open_session w) = (Inr resp, s)"
  obtains current a where "current \<in> set (users (srv_store w))" and "usr_is_active current"
    and "perm \<in> set (role_permissions (usr_role current))" and "a \<in> set (alerts (srv_store w))"
    and "alt_id a = i" and "alt_organization_id a = usr_organization_id current"
    and "f a (open_session w) = (Inr resp, s)"
proof -
  from run obtain current where auth: "require_authenticated_user rt cfg t cred (open_session w) = (Inr current, open_session w)"
    and perm: "perm \<in> set (role_permissions (usr_role current))"
    and rest: "andThen (own_alert current i) f (open_session w) = (Inr resp, s)"
    using authenticate_state by (elim guarded_InrE) blast+
  from rest obtain a s1 where a: "own_alert current i (open_session w) = (Inr a, s1)"
    and fin: "f a s1 = (Inr resp, s)" by (rule andThen_InrE)
  show thesis
    using that[of current a] authenticated_open[OF w auth] perm own_alert_open[OF w a] fin by blast
qed

lemma acknowledge_on_run:
  assumes "acknowledge_on now a (open_session w) = (Inr resp, s)"
  shows "if alt_status a = ''active''
    then \<exists>e. durable s = acted (acknowledged_alert now a) e (srv_store w) \<and>
           ale_alert_id e = alt_id a \<and> ale_event_type e = ''acknowledged'' \<and> arp_status resp = ''acknowledged''
    else s = open_session w \<and> arp_status resp = alt_status a"
proof (cases "alt_status a = ''active''")
  case True
  show ?thesis
    using operator_step_run[OF assms[unfolded acknowledge_on_def Let_def if_P[OF True]]] True
    by (simp only: if_True simp_thms) (intro exI conjI, auto simp: acknowledged_alert_def)
next
  case False
  then show ?thesis using assms by (auto simp: acknowledge_on_def alert_response_def)
qed

lemma resolve_on_run:
  assumes "resolve_on now a (open_session w) = (Inr resp, s)"
  shows "arp_status resp = ''resolved'' \<and>
    (if alt_status a = ''resolved'' then s = open_session w
     else \<exists>e. durable s = acted (resolved_alert now a) e (srv_store w) \<and>
            ale_alert_id e = alt_id a \<and> ale_event_type e = ''resolved'')"
proof (cases "alt_status a = ''resolved''")
  case True
  then show ?thesis using assms by (auto simp: resolve_on_def alert_response_def)
next
  case False
  show ?thesis
    using operator_step_run[OF assms[unfolded resolve_on_def Let_def if_P[OF False]]] False
    by (simp only: if_False simp_thms) (intro exI conjI, auto simp: resolved_alert_def)
qed

lemma server_unchanged: "close_session (open_session w) = w"
  by (simp add: close_session_def)

text \<open>C36. A successful acknowledgement or resolution is by an active operator holding
  \<open>alerts:acknowledge\<close>, of an alert of the operator's organization. Acknowledging an active
  alert, and resolving one that is not resolved yet, stores exactly the new status with its
  time and one event; on any other alert they change nothing. The answer shows the status
  the alert then has.\<close>

theorem alert_actions_exact:
  assumes "wf_server w"
    and "run_request (acknowledge_alert now (require_authenticated_user rt cfg t cred) i) w = (Inr resp, w1)"
    and "run_request (resolve_alert now (require_authenticated_user rt cfg t cred) i) w = (Inr resp2, w2)"
  shows "\<exists>current \<in> set (users (srv_store w)). \<exists>a \<in> set (alerts (srv_store w)).
     usr_is_active current \<and> ''alerts:acknowledge'' \<in> set (role_permissions (usr_role current)) \<and>
     alt_id a = i \<and> alt_organization_id a = usr_organization_id current \<and>
     (if alt_status a = ''active''
      then \<exists>e. srv_store w1 = acted (acknowledged_alert now a) e (srv_store w) \<and>
             ale_alert_id e = i \<and> ale_event_type e = ''acknowledged'' \<and> arp_status resp = ''acknowledged''
      else w1 = w \<and> arp_status resp = alt_status a) \<and>
     (if alt_status a = ''resolved'' then w2 = w
      else \<exists>e. srv_store w2 = acted (resolved_alert now a) e (srv_store w) \<and>
             ale_alert_id e = i \<and> ale_event_type e = ''resolved'') \<and>
     arp_status resp2 = ''resolved''"
proof -
  obtain s1 where s1: "acknowledge_alert now (require_authenticated_user rt cfg t cred) i (open_session w) = (Inr resp, s1)"
    "w1 = close_session s1" using assms(2) by (rule run_requestE)
  obtain s2 where s2: "resolve_alert now (require_authenticated_user rt cfg t cred) i (open_session w) = (Inr resp2, s2)"
    "w2 = close_session s2" using assms(3) by (rule run_requestE)
  obtain current a where cur: "current \<in> set (users (srv_store w))" "usr_is_active current"
      "''alerts:acknowledge'' \<in> set (role_permissions (usr_role current))"
    and a: "a \<in> set (alerts (srv_store w))" "alt_id a = i" "alt_organization_id a = usr_organization_id current"
    and ack: "acknowledge_on now a (open_session w) = (Inr resp, s1)"
    by (rule alert_action_InrD[OF assms(1) s1(1)[unfolded acknowledge_alert_def]])
  obtain b where b: "b \<in> set (alerts (srv_store w))" "alt_id b = i"
    and res: "resolve_on now b (open_session w) = (Inr resp2, s2)"
    by (rule alert_action_InrD[OF assms(1) s2(1)[unfolded resolve_alert_def]])
  have "b = a" using alerts_tbl.open_distinct[OF assms(1)] a b by (auto simp: distinct_map dest: inj_onD)
  then show ?thesis
    using cur a acknowledge_on_run[OF ack] resolve_on_run[OF res] s1(2) s2(2) server_unchanged
    by (intro bexI[OF _ cur(1)] bexI[OF _ a(1)]) (auto split: if_splits)
qed

lemma sample_own_alert:
  "own_alert sample_owner 21 (open_session sample_server) = (Inr (sample_alert 21 ''active''), open_session sample_server)"
proof -
  have "db_get alerts alt_id 21 (open_session sample_server) = Some (sample_alert 21 ''active'')"
    by (simp add: alerts_tbl.open_get[OF sample_wf]) (simp add: sample_defs)
  then show ?thesis by (simp add: own_alert_def) (simp add: sample_alert_def sample_owner_def)
qed

lemma sample_alert_action:
  "andThen (require_permission ''alerts:acknowledge'' (require_authenticated_user sample_runtime
      default_settings 5 (Some (''Bearer'', ''access-token'')))) (\<lambda>current. andThen (own_alert current 21) f)
      (open_session sample_server) = f (sample_alert 21 ''active'') (open_session sample_server)"
proof -
  have "''alerts:acknowledge'' \<in> set (role_permissions (usr_role sample_owner))"
    by (simp add: sample_owner_def role_permissions_def ROLE_PERMISSIONS_def)
  then show ?thesis
    by (simp add: andThen_run require_permission_def sample_authenticates sample_own_alert)
qed

lemma operator_step_commits:
  assumes "unique_ok (srv_store w)"
  shows "\<exists>resp s. andThen (put_row alerts_update alt_id a') (\<lambda>_. andThen (add_alert_event now a' ev m [])
      (\<lambda>_. andThen db_commit (\<lambda>_. alert_response a' True))) (open_session w) = (Inr resp, s)"
proof -
  have "unique_ok (alert_events_update f (alerts_update g (srv_store w)))" for f g
    using assms by (simp add: unique_ok_def)
  then show ?thesis
    by (simp add: put_row_def andThen_run add_alert_event_def insert_row_def db_commit_def alert_response_def)
qed

theorem alert_actions_exact_witness:
  "(\<exists>e. srv_store (snd (run_request (acknowledge_alert 9 (require_authenticated_user sample_runtime
       default_settings 5 (Some (''Bearer'', ''access-token''))) 21) sample_server)) =
     acted (acknowledged_alert 9 (sample_alert 21 ''active'')) e sample_store) \<and>
   (\<exists>e. srv_store (snd (run_request (resolve_alert 9 (require_authenticated_user sample_runtime
       default_settings 5 (Some (''Bearer'', ''access-token''))) 21) sample_server)) =
     acted (resolved_alert 9 (sample_alert 21 ''active'')) e sample_store)"
proof -
  let ?auth = "require_authenticated_user sample_runtime default_settings 5 (Some (''Bearer'', ''access-token''))"
  have unique: "unique_ok (srv_store sample_server)" using sample_wf by (simp add: wf_server_def)
  have "alt_status (sample_alert 21 ''active'') = ''active''" by (simp add: sample_alert_def)
  then have "\<exists>resp s. acknowledge_alert 9 ?auth 21 (open_session sample_server) = (Inr resp, s)"
    "\<exists>resp s. resolve_alert 9 ?auth 21 (open_session sample_server) = (Inr resp, s)"
    unfolding acknowledge_alert_def resolve_alert_def sample_alert_action
    using operator_step_commits[OF unique] by (simp_all add: acknowledge_on_def resolve_on_def Let_def)
  then obtain resp1 s1 resp2 s2 where "acknowledge_alert 9 ?auth 21 (open_session sample_server) = (Inr resp1, s1)"
    "resolve_alert 9 ?auth 21 (open_session sample_server) = (Inr resp2, s2)" by blast
  then have runs: "run_request (acknowledge_alert 9 ?auth 21) sample_server = (Inr resp1, close_session s1)"
    "run_request (resolve_alert 9 ?auth 21) sample_server = (Inr resp2, close_session s2)"
    by (simp_all add: run_request_def)
  have only: "alerts sample_store = [sample_alert 21 ''active'']"
    and status: "alt_status (sample_alert 21 ''active'') = ''active''"
    by (simp_all add: sample_store_def empty_store_def sample_alert_def)
  show ?thesis
    using alert_actions_exact[OF sample_wf runs, unfolded sample_server_simps only] status
    unfolding runs snd_conv by auto
qed

end
