(* ===== verification/NotificationsApi.thy ===== *)
theory NotificationsApi
  imports AlertsApi
begin

text \<open>
  The configuration of notifications: \<^verbatim>\<open>backend/app/api/notifications.py\<close>. Channels are
  validated when they are created or patched, rules only refer to channels of their own
  organization. The properties: both facts are invariants of every stored row, under every
  history of requests, and the deliveries an alert enqueues are exactly the wanted ones.
\<close>

subsection \<open>Responses\<close>

definition channel_response :: "notification_channel \<Rightarrow> NotificationChannelResponse db_op" where
  "channel_response channel =
     andThen (lift_sum (mask_channel_config channel)) (\<lambda>config.
     ret \<lparr>ncr_id = ncl_id channel, ncr_organization_id = ncl_organization_id channel,
          ncr_name = ncl_name channel, ncr_channel_type = ncl_channel_type channel,
          ncr_enabled = ncl_enabled channel, ncr_config = config,
          ncr_created_at = ncl_created_at channel\<rparr>)"

text \<open>\<open>UUID(text)\<close>: anything that is not the text of a UUID is a ValueError.\<close>

definition parse_channel_id :: "string \<Rightarrow> uuid db_op" where
  "parse_channel_id text =
     require_some (ValueError ''badly formed hexadecimal UUID string'') (uuid_parse text)"

definition rule_response :: "notification_rule \<Rightarrow> NotificationRuleResponse db_op" where
  "rule_response rule =
     andThen (map_each (nrl_channel_ids rule) parse_channel_id) (\<lambda>channel_ids.
     ret \<lparr>nrr_id = nrl_id rule, nrr_organization_id = nrl_organization_id rule,
          nrr_name = nrl_name rule, nrr_enabled = nrl_enabled rule,
          nrr_severity_filter = nrl_severity_filter rule,
          nrr_alert_rule_type_filter = nrl_alert_rule_type_filter rule,
          nrr_channel_ids = channel_ids, nrr_created_at = nrl_created_at rule\<rparr>)"

definition delivery_response :: "notification_delivery \<Rightarrow> NotificationDeliveryResponse db_op" where
  "delivery_response delivery =
     andThen (gets (db_get notification_channels ncl_id (ndl_channel_id delivery))) (\<lambda>channel.
     ret \<lparr>ndr_id = ndl_id delivery, ndr_organization_id = ndl_organization_id delivery,
          ndr_alert_id = ndl_alert_id delivery, ndr_channel_id = ndl_channel_id delivery,
          ndr_channel_name = map_option ncl_name channel,
          ndr_channel_type = map_option ncl_channel_type channel,
          ndr_status = ndl_status delivery, ndr_attempts = ndl_attempts delivery,
          ndr_last_error = ndl_last_error delivery, ndr_created_at = ndl_created_at delivery,
          ndr_sent_at = ndl_sent_at delivery\<rparr>)"

subsection \<open>Guards\<close>

definition require_org :: "uuid \<Rightarrow> unit db_op" where
  "require_org organization_id =
     andThen (gets (db_get organizations org_id organization_id)) (\<lambda>found.
     require (HTTPException 404 ''Organization not found'') (found \<noteq> None))"

definition validate_rule_channel :: "uuid \<Rightarrow> uuid \<Rightarrow> unit db_op" where
  "validate_rule_channel organization_id channel_id =
     andThen (gets (db_get notification_channels ncl_id channel_id)) (\<lambda>found.
     case found of
       None \<Rightarrow> raise (HTTPException 400 ''Invalid notification channel'')
     | Some channel \<Rightarrow>
         if ncl_organization_id channel \<noteq> organization_id
         then raise (HTTPException 400 ''Invalid notification channel'') else ret ())"

definition validate_rule_filters :: "string list \<Rightarrow> uuid list \<Rightarrow> uuid \<Rightarrow> string list db_op" where
  "validate_rule_filters severities channel_ids organization_id =
     (let invalid = filter (\<lambda>severity. severity \<notin> set ALERT_SEVERITIES) severities
      in if invalid \<noteq> [] then raise (HTTPException 400 ''Invalid severity filter'')
         else andThen (for_each channel_ids (validate_rule_channel organization_id)) (\<lambda>_.
              ret (map uuid_str channel_ids)))"

text \<open>\<open>db.get(T, id)\<close> and the scope check of the two PATCH handlers.\<close>

definition own_channel :: "user \<Rightarrow> uuid \<Rightarrow> notification_channel db_op" where
  "own_channel current channel_id =
     andThen (gets (db_get notification_channels ncl_id channel_id)) (\<lambda>found.
     case found of
       None \<Rightarrow> raise (HTTPException 404 ''Notification channel not found'')
     | Some channel \<Rightarrow>
         if ncl_organization_id channel \<noteq> usr_organization_id current
         then raise (HTTPException 404 ''Notification channel not found'') else ret channel)"

definition own_rule :: "user \<Rightarrow> uuid \<Rightarrow> notification_rule db_op" where
  "own_rule current rule_id =
     andThen (gets (db_get notification_rules nrl_id rule_id)) (\<lambda>found.
     case found of
       None \<Rightarrow> raise (HTTPException 404 ''Notification rule not found'')
     | Some rule \<Rightarrow>
         if nrl_organization_id rule \<noteq> usr_organization_id current
         then raise (HTTPException 404 ''Notification rule not found'') else ret rule)"

subsection \<open>Channels\<close>

definition list_channels :: "user db_op \<Rightarrow> NotificationChannelResponse list db_op" where
  "list_channels auth =
     andThen (require_permission ''notifications:manage'' auth) (\<lambda>current.
     andThen (gets (db_select_by notification_channels ncl_id (\<lambda>c. - ncl_created_at c)
        (\<lambda>c. ncl_organization_id c = usr_organization_id current))) (\<lambda>channels.
     map_each channels channel_response))"

definition create_channel ::
  "runtime \<Rightarrow> datetime \<Rightarrow> user db_op \<Rightarrow> NotificationChannelCreateRequest \<Rightarrow>
   NotificationChannelResponse db_op" where
  "create_channel rt now auth payload =
     andThen (require_permission ''notifications:manage'' auth) (\<lambda>current.
     if ncc_organization_id payload \<noteq> usr_organization_id current
     then raise (HTTPException 403 ''Invalid organization scope'')
     else andThen (require_org (usr_organization_id current)) (\<lambda>_.
          andThen (value_error_as_400 (lift_sum
             (validate_channel_config (float_repr rt) (ncc_channel_type payload) (ncc_config payload)))) (\<lambda>config.
          andThen (insert_row notification_channels_update (\<lambda>i.
             \<lparr>ncl_id = i, ncl_organization_id = ncc_organization_id payload,
              ncl_name = ncc_name payload, ncl_channel_type = ncc_channel_type payload,
              ncl_enabled = ncc_enabled payload, ncl_config = config, ncl_created_at = now\<rparr>)) (\<lambda>channel.
          andThen db_commit (\<lambda>_. channel_response channel)))))"

definition renamed_channel :: "NotificationChannelPatchRequest \<Rightarrow> notification_channel \<Rightarrow> notification_channel" where
  "renamed_channel payload channel = channel
     \<lparr>ncl_name := (case npt_name payload of None \<Rightarrow> ncl_name channel | Some v \<Rightarrow> v),
      ncl_enabled := (case npt_enabled payload of None \<Rightarrow> ncl_enabled channel | Some v \<Rightarrow> v)\<rparr>"

definition patch_channel ::
  "runtime \<Rightarrow> user db_op \<Rightarrow> uuid \<Rightarrow> NotificationChannelPatchRequest \<Rightarrow>
   NotificationChannelResponse db_op" where
  "patch_channel rt auth channel_id payload =
     andThen (require_permission ''notifications:manage'' auth) (\<lambda>current.
     andThen (own_channel current channel_id) (\<lambda>channel0.
     let channel1 = renamed_channel payload channel0 in
     andThen (put_row notification_channels_update ncl_id channel1) (\<lambda>_.
     andThen (case npt_config payload of
                None \<Rightarrow> ret channel1
              | Some c \<Rightarrow>
                  andThen (value_error_as_400 (lift_sum
                     (validate_channel_config (float_repr rt) (ncl_channel_type channel1) c))) (\<lambda>config.
                  andThen (put_row notification_channels_update ncl_id (channel1\<lparr>ncl_config := config\<rparr>)) (\<lambda>_.
                  ret (channel1\<lparr>ncl_config := config\<rparr>)))) (\<lambda>channel.
     andThen db_commit (\<lambda>_. channel_response channel)))))"

subsection \<open>Rules\<close>

definition list_rules :: "user db_op \<Rightarrow> NotificationRuleResponse list db_op" where
  "list_rules auth =
     andThen (require_permission ''notifications:manage'' auth) (\<lambda>current.
     andThen (gets (db_select_by notification_rules nrl_id (\<lambda>r. - nrl_created_at r)
        (\<lambda>r. nrl_organization_id r = usr_organization_id current))) (\<lambda>rules.
     map_each rules rule_response))"

definition create_rule ::
  "datetime \<Rightarrow> user db_op \<Rightarrow> NotificationRuleCreateRequest \<Rightarrow> NotificationRuleResponse db_op" where
  "create_rule now auth payload =
     andThen (require_permission ''notifications:manage'' auth) (\<lambda>current.
     if nrc_organization_id payload \<noteq> usr_organization_id current
     then raise (HTTPException 403 ''Invalid organization scope'')
     else andThen (require_org (usr_organization_id current)) (\<lambda>_.
          andThen (validate_rule_filters (nrc_severity_filter payload) (nrc_channel_ids payload)
                     (nrc_organization_id payload)) (\<lambda>channel_ids.
          andThen (insert_row notification_rules_update (\<lambda>i.
             \<lparr>nrl_id = i, nrl_organization_id = nrc_organization_id payload,
              nrl_name = nrc_name payload, nrl_enabled = nrc_enabled payload,
              nrl_severity_filter = nrc_severity_filter payload,
              nrl_alert_rule_type_filter = nrc_alert_rule_type_filter payload,
              nrl_channel_ids = channel_ids, nrl_created_at = now\<rparr>)) (\<lambda>rule.
          andThen db_commit (\<lambda>_. rule_response rule)))))"

definition patched_rule ::
  "NotificationRulePatchRequest \<Rightarrow> string list \<Rightarrow> notification_rule \<Rightarrow> notification_rule" where
  "patched_rule payload channel_ids rule = rule
     \<lparr>nrl_name := (case nrt_name payload of None \<Rightarrow> nrl_name rule | Some v \<Rightarrow> v),
      nrl_enabled := (case nrt_enabled payload of None \<Rightarrow> nrl_enabled rule | Some v \<Rightarrow> v),
      nrl_severity_filter :=
        (case nrt_severity_filter payload of None \<Rightarrow> nrl_severity_filter rule | Some v \<Rightarrow> v),
      nrl_alert_rule_type_filter :=
        (case nrt_alert_rule_type_filter payload of None \<Rightarrow> nrl_alert_rule_type_filter rule | Some v \<Rightarrow> v),
      nrl_channel_ids :=
        (case nrt_channel_ids payload of None \<Rightarrow> nrl_channel_ids rule | Some _ \<Rightarrow> channel_ids)\<rparr>"

definition patch_rule ::
  "user db_op \<Rightarrow> uuid \<Rightarrow> NotificationRulePatchRequest \<Rightarrow> NotificationRuleResponse db_op" where
  "patch_rule auth rule_id payload =
     andThen (require_permission ''notifications:manage'' auth) (\<lambda>current.
     andThen (own_rule current rule_id) (\<lambda>rule.
     let severities = (case nrt_severity_filter payload of Some v \<Rightarrow> v | None \<Rightarrow> nrl_severity_filter rule) in
     andThen (case nrt_channel_ids payload of
                Some v \<Rightarrow> ret v
              | None \<Rightarrow> map_each (nrl_channel_ids rule) parse_channel_id) (\<lambda>channels.
     andThen (validate_rule_filters severities channels (nrl_organization_id rule)) (\<lambda>channel_ids.
     let rule' = patched_rule payload channel_ids rule in
     andThen (put_row notification_rules_update nrl_id rule') (\<lambda>_.
     andThen db_commit (\<lambda>_. rule_response rule'))))))"

definition list_deliveries :: "user db_op \<Rightarrow> NotificationDeliveryResponse list db_op" where
  "list_deliveries auth =
     andThen (require_permission ''notifications:manage'' auth) (\<lambda>current.
     andThen (gets (db_select_by notification_deliveries ndl_id (\<lambda>d. - ndl_created_at d)
        (\<lambda>d. ndl_organization_id d = usr_organization_id current))) (\<lambda>deliveries.
     map_each (take 100 deliveries) delivery_response))"

subsection \<open>Which deliveries an alert enqueues\<close>

text \<open>
  The reference definition: the channel texts named by the enabled, matching rules of the
  alert's organization, in the order of the rules; a text that is no UUID is skipped.
\<close>

definition wanted_channels :: "store \<Rightarrow> alert_rule \<Rightarrow> alert \<Rightarrow> string list" where
  "wanted_channels st rule a =
     filter (\<lambda>text. uuid_parse text \<noteq> None)
       (concat (map nrl_channel_ids (filter (\<lambda>r. nrl_organization_id r = alt_organization_id a \<and>
          nrl_enabled r \<and> rule_matches rule a r) (notification_rules st))))"

definition usable_channel :: "store \<Rightarrow> uuid \<Rightarrow> uuid \<Rightarrow> notification_channel option" where
  "usable_channel st organization_id i =
     (case List.find (\<lambda>c. ncl_id c = i) (notification_channels st) of
        None \<Rightarrow> None
      | Some c \<Rightarrow> if ncl_organization_id c = organization_id \<and> ncl_enabled c then Some c else None)"

text \<open>The delivery made for one channel text: pending for a usable channel, else skipped.\<close>

definition delivery_for :: "store \<Rightarrow> datetime \<Rightarrow> alert \<Rightarrow> string \<Rightarrow> notification_delivery \<Rightarrow> bool" where
  "delivery_for st now a text d \<longleftrightarrow>
     (\<exists>c. uuid_parse text = Some c \<and>
        d = new_delivery now a c (usable_channel st (alt_organization_id a) c) (ndl_id d))"

text \<open>What enqueueing for \<open>texts\<close> makes of a session: deliveries and audit entries appended.\<close>

definition enqueued :: "store \<Rightarrow> datetime \<Rightarrow> alert \<Rightarrow> string list \<Rightarrow> session \<Rightarrow> session \<Rightarrow> bool" where
  "enqueued st now a texts s s' \<longleftrightarrow>
     (\<exists>new logs. live s' = audit_logs_update (\<lambda>es. es @ logs)
          (notification_deliveries_update (\<lambda>ds. ds @ new) (live s)) \<and>
        list_all2 (delivery_for st now a) texts new) \<and>
     flushed s' = flushed s \<and> durable s' = durable s"

lemma enqueued_refl: "enqueued st now a [] s s"
  unfolding enqueued_def by (intro conjI exI[of _ "[]"]) simp_all

lemma enqueued_trans:
  assumes "enqueued st now a xs s t" and "enqueued st now a ys t u"
  shows "enqueued st now a (xs @ ys) s u"
proof -
  obtain new logs where s: "live t = audit_logs_update (\<lambda>es. es @ logs)
      (notification_deliveries_update (\<lambda>ds. ds @ new) (live s))" "list_all2 (delivery_for st now a) xs new"
    using assms(1) unfolding enqueued_def by blast
  obtain new' logs' where t: "live u = audit_logs_update (\<lambda>es. es @ logs')
      (notification_deliveries_update (\<lambda>ds. ds @ new') (live t))" "list_all2 (delivery_for st now a) ys new'"
    using assms(2) unfolding enqueued_def by blast
  show ?thesis
    unfolding enqueued_def
  proof (intro conjI exI)
    show "live u = audit_logs_update (\<lambda>es. es @ (logs @ logs'))
        (notification_deliveries_update (\<lambda>ds. ds @ (new @ new')) (live s))"
      by (simp add: s(1) t(1) comp_def)
    show "list_all2 (delivery_for st now a) (xs @ ys) (new @ new')"
      by (rule list_all2_appendI[OF s(2) t(2)])
    show "flushed u = flushed s" "durable u = durable s"
      using assms by (simp_all add: enqueued_def)
  qed
qed

text \<open>A session whose queries on channels see the rows of \<open>st\<close>.\<close>

definition sees_channels :: "store \<Rightarrow> session \<Rightarrow> bool" where
  "sees_channels st s \<longleftrightarrow> notification_channels (flushed s) = notification_channels st \<and>
     notification_channels (live s) = notification_channels st \<and>
     distinct (map ncl_id (notification_channels st))"

lemma sees_enqueued: "sees_channels st s \<Longrightarrow> enqueued st now a xs s s' \<Longrightarrow> sees_channels st s'"
  by (auto simp: sees_channels_def enqueued_def)

lemma sees_get:
  assumes "sees_channels st s"
  shows "db_get notification_channels ncl_id i s = List.find (\<lambda>c. ncl_id c = i) (notification_channels st)"
proof (cases "List.find (\<lambda>c. ncl_id c = i) (notification_channels st)")
  case None
  then show ?thesis using assms by (simp add: db_get_def db_scalar_def sees_channels_def)
next
  case (Some c)
  then have "c \<in> set (notification_channels st)" by (auto dest: find_SomeD)
  with Some assms show ?thesis
    by (simp add: db_get_def db_scalar_def sees_channels_def live_row_def find_Some_iff_distinct[THEN iffD2])
qed

lemma enqueue_channel_run:
  assumes "sees_channels st s"
  shows "\<exists>s'. enqueue_channel now a text s = (Inr (), s') \<and>
     enqueued st now a (if uuid_parse text = None then [] else [text]) s s'"
proof (cases "uuid_parse text")
  case None
  then show ?thesis by (simp add: enqueue_channel_def enqueued_refl)
next
  case (Some c)
  let ?d = "new_delivery now a c (usable_channel st (alt_organization_id a) c) (next_id s)"
  have "get_enabled_channel (alt_organization_id a) text s = (Inr (usable_channel st (alt_organization_id a) c), s)"
    using Some by (auto simp: get_enabled_channel_def usable_channel_def sees_get[OF assms] split: option.splits)
  then have run: "enqueue_channel now a text s =
     andThen (insert_row notification_deliveries_update (new_delivery now a c (usable_channel st (alt_organization_id a) c)))
       (\<lambda>delivery. notification_audit now (alt_organization_id a) ''notification.enqueued'' ''alert'' (uuid_str (alt_id a))
          [(''channel_id'', JStr text), (''status'', JStr (ndl_status delivery))]) s"
    using Some by (simp add: enqueue_channel_def andThen_run)
  have "delivery_for st now a text ?d"
    using Some by (simp add: delivery_for_def) (simp add: new_delivery_def)
  then show ?thesis
    unfolding run
    by (auto simp: insert_row_def andThen_run notification_audit_def enqueued_def Some
        intro!: exI[of _ "[?d]"])
qed

lemma enqueue_loop:
  assumes "sees_channels st s"
    and "\<And>x s. sees_channels st s \<Longrightarrow> \<exists>s'. f x s = (Inr (), s') \<and> enqueued st now a (g x) s s'"
  shows "\<exists>s'. for_each xs f s = (Inr (), s') \<and> enqueued st now a (concat (map g xs)) s s'"
  using assms(1)
proof (induction xs arbitrary: s)
  case Nil
  then show ?case by (simp add: enqueued_refl)
next
  case (Cons x xs)
  obtain t where t: "f x s = (Inr (), t)" "enqueued st now a (g x) s t"
    using assms(2)[OF Cons.prems] by blast
  obtain s' where "for_each xs f t = (Inr (), s')" "enqueued st now a (concat (map g xs)) t s'"
    using Cons.IH[OF sees_enqueued[OF Cons.prems t(2)]] by blast
  with t show ?case by (auto simp: andThen_run intro: enqueued_trans)
qed

lemma wanted_concat:
  "wanted_channels st rule a =
     concat (map (\<lambda>r. if rule_matches rule a r
         then concat (map (\<lambda>text. if uuid_parse text = None then [] else [text]) (nrl_channel_ids r)) else [])
       (filter (\<lambda>r. nrl_organization_id r = alt_organization_id a \<and> nrl_enabled r) (notification_rules st)))"
proof -
  have ids: "concat (map (\<lambda>text. if uuid_parse text = None then [] else [text]) xs) =
      filter (\<lambda>text. uuid_parse text \<noteq> None) xs" for xs by (induction xs) auto
  have "filter p (concat (map ids (filter (\<lambda>r. P r \<and> Q r) rs))) =
      concat (map (\<lambda>r. if Q r then filter p (ids r) else []) (filter P rs))"
    for p Q P and ids :: "notification_rule \<Rightarrow> string list" and rs by (induction rs) auto
  from this[of _ _ "\<lambda>r. nrl_organization_id r = alt_organization_id a \<and> nrl_enabled r"] show ?thesis
    by (simp only: wanted_channels_def ids conj_assoc)
qed

lemma enqueue_run:
  assumes "wf_session s" and "synced s" and rule: "db_get alert_rules alr_id (alt_rule_id a) s = Some rule"
  shows "\<exists>s'. enqueue_alert_notifications now a s = (Inr (), s') \<and>
     enqueued (live s) now a (wanted_channels (live s) rule a) s s'"
proof -
  have "distinct (map ncl_id (notification_channels (live s)))" "distinct (map nrl_id (notification_rules (live s)))"
    using assms(1) notification_channels_tbl.ids_read notification_rules_tbl.ids_read
    by (auto simp: wf_session_def keys_ok_def)
  then have sees: "sees_channels (live s) s"
    and rules: "db_select notification_rules nrl_id P s = filter P (notification_rules (live s))" for P
    using assms(2) by (simp_all add: sees_channels_def synced_def notification_rules_tbl.select_synced[OF assms(2)])
  have body: "\<exists>s'. (if \<not> rule_matches rule a r then ret ()
        else for_each (nrl_channel_ids r) (enqueue_channel now a)) t = (Inr (), s') \<and>
      enqueued (live s) now a (if rule_matches rule a r
        then concat (map (\<lambda>text. if uuid_parse text = None then [] else [text]) (nrl_channel_ids r)) else []) t s'"
    if "sees_channels (live s) t" for r t
    using enqueue_loop[OF that enqueue_channel_run] that by (auto simp: enqueued_refl)
  from enqueue_loop[OF sees body] show ?thesis
    by (simp add: enqueue_alert_notifications_def rule rules wanted_concat)
qed


text \<open>A session of the sample store with a channel and a rule for critical alerts and warnings.\<close>

definition sample_channel :: notification_channel where
  "sample_channel =
    \<lparr>ncl_id = 24, ncl_organization_id = 1, ncl_name = ''on-call'', ncl_channel_type = ''email'',
     ncl_enabled = True, ncl_config = [(''recipients'', JArr [JStr ''ops@example.com''])], ncl_created_at = 0\<rparr>"

definition sample_notification_rule :: notification_rule where
  "sample_notification_rule =
    \<lparr>nrl_id = 25, nrl_organization_id = 1, nrl_name = ''warnings'', nrl_enabled = True,
     nrl_severity_filter = [''warning'', ''critical''], nrl_alert_rule_type_filter = [],
     nrl_channel_ids = [uuid_str 24], nrl_created_at = 0\<rparr>"

definition notified_store :: store where
  "notified_store = sample_store
     \<lparr>notification_channels := [sample_channel], notification_rules := [sample_notification_rule]\<rparr>"

lemma notified_wf: "wf_session (committed notified_store 100)"
  using sample_wf
  by (simp add: wf_session_def wf_server_def sample_server_simps notified_store_def ids_ok_def unique_ok_def
      keys_ok_def sample_channel_def sample_notification_rule_def)


subsection \<open>The configuration stays valid\<close>

text \<open>
  What any request of this file makes of the committed store: nothing, a validated channel
  added or written, or a rule with valid filters added or written.
\<close>

definition valid_filters :: "store \<Rightarrow> uuid \<Rightarrow> string list \<Rightarrow> string list \<Rightarrow> bool" where
  "valid_filters st organization_id severities channel_texts \<longleftrightarrow>
     list_all (\<lambda>v. v \<in> set ALERT_SEVERITIES) severities \<and>
     list_all (\<lambda>text. list_ex (\<lambda>c. text = uuid_str (ncl_id c) \<and> ncl_organization_id c = organization_id)
        (notification_channels st)) channel_texts"

definition valid_config :: "(real \<Rightarrow> string) \<Rightarrow> notification_channel \<Rightarrow> bool" where
  "valid_config frepr c \<longleftrightarrow> validate_channel_config frepr (ncl_channel_type c) (ncl_config c) = Inr (ncl_config c)"

inductive notification_change :: "(real \<Rightarrow> string) \<Rightarrow> store \<Rightarrow> store \<Rightarrow> bool" for frepr where
  same: "notification_change frepr st st"
| add_channel: "valid_config frepr c \<Longrightarrow>
     notification_change frepr st (notification_channels_update (\<lambda>cs. cs @ [c]) st)"
| edit_channel: "c0 \<in> set (notification_channels st) \<Longrightarrow> ncl_id c = ncl_id c0 \<Longrightarrow>
     ncl_organization_id c = ncl_organization_id c0 \<Longrightarrow> ncl_channel_type c = ncl_channel_type c0 \<Longrightarrow>
     ncl_config c = ncl_config c0 \<or> valid_config frepr c \<Longrightarrow>
     notification_change frepr st
       (notification_channels_update (map (\<lambda>x. if ncl_id x = ncl_id c then c else x)) st)"
| add_rule: "valid_filters st (nrl_organization_id r) (nrl_severity_filter r) (nrl_channel_ids r) \<Longrightarrow>
     notification_change frepr st (notification_rules_update (\<lambda>rs. rs @ [r]) st)"
| edit_rule: "r0 \<in> set (notification_rules st) \<Longrightarrow> nrl_id r = nrl_id r0 \<Longrightarrow>
     nrl_organization_id r = nrl_organization_id r0 \<Longrightarrow>
     valid_filters st (nrl_organization_id r) (nrl_severity_filter r) [] \<Longrightarrow>
     nrl_channel_ids r = nrl_channel_ids r0 \<or>
       valid_filters st (nrl_organization_id r) (nrl_severity_filter r) (nrl_channel_ids r) \<Longrightarrow>
     notification_change frepr st
       (notification_rules_update (map (\<lambda>x. if nrl_id x = nrl_id r then r else x)) st)"

text \<open>The invariant: every channel is validated, every rule has valid filters.\<close>

definition notifications_ok :: "(real \<Rightarrow> string) \<Rightarrow> store \<Rightarrow> bool" where
  "notifications_ok frepr st \<longleftrightarrow>
     list_all (valid_config frepr) (notification_channels st) \<and>
     list_all (\<lambda>r. valid_filters st (nrl_organization_id r) (nrl_severity_filter r) (nrl_channel_ids r))
       (notification_rules st)"

lemma valid_filters_cong:
  assumes "\<And>c. c \<in> set (notification_channels st) \<Longrightarrow> \<exists>c' \<in> set (notification_channels st').
      ncl_id c' = ncl_id c \<and> ncl_organization_id c' = ncl_organization_id c"
    and "valid_filters st o' sv ts"
  shows "valid_filters st' o' sv ts"
  using assms by (auto simp: valid_filters_def list_all_iff list_ex_iff) metis

lemma change_keeps_ok:
  assumes "notification_change frepr st st'" and "notifications_ok frepr st"
    and keys: "distinct (map ncl_id (notification_channels st))"
  shows "notifications_ok frepr st'"
  using assms(1)
proof cases
  case same
  with assms(2) show ?thesis by simp
next
  case (add_channel c)
  have "valid_filters st' o' sv ts" if "valid_filters st o' sv ts" for o' sv ts
    by (rule valid_filters_cong[OF _ that]) (auto simp: add_channel(1))
  with add_channel assms(2) show ?thesis by (auto simp: notifications_ok_def list_all_iff)
next
  case (edit_channel c0 c)
  have c0: "x = c0" if "x \<in> set (notification_channels st)" "ncl_id x = ncl_id c0" for x
    using keys that edit_channel(2) by (auto simp: distinct_map dest: inj_onD)
  have "valid_filters st' o' sv ts" if "valid_filters st o' sv ts" for o' sv ts
    using c0 edit_channel(3,4) by (intro valid_filters_cong[OF _ that]) (force simp: edit_channel(1))
  moreover have "valid_config frepr c"
    using edit_channel assms(2) by (auto simp: notifications_ok_def list_all_iff valid_config_def)
  ultimately show ?thesis
    using assms(2) by (auto simp: edit_channel(1) notifications_ok_def list_all_iff)
next
  case (add_rule r)
  have "valid_filters st' o' sv ts \<longleftrightarrow> valid_filters st o' sv ts" for o' sv ts
    by (simp add: valid_filters_def add_rule(1))
  with add_rule assms(2) show ?thesis by (auto simp: notifications_ok_def)
next
  case (edit_rule r0 r)
  have same: "valid_filters st' o' sv ts \<longleftrightarrow> valid_filters st o' sv ts" for o' sv ts
    by (simp add: valid_filters_def edit_rule(1))
  have "valid_filters st (nrl_organization_id r) (nrl_severity_filter r) (nrl_channel_ids r)"
    using edit_rule assms(2) by (auto simp: notifications_ok_def list_all_iff valid_filters_def)
  with assms(2) show ?thesis
    by (auto simp: same[unfolded edit_rule(1)] notifications_ok_def list_all_iff edit_rule(1))
qed

subsection \<open>Every request is such a change\<close>

lemma keeps_notification_reads [keeps_intro]:
  "keeps I (channel_response c)" "keeps I (rule_response r)" "keeps I (delivery_response d)"
  "keeps I (require_org o')" "keeps I (validate_rule_filters sv cids o')"
  "keeps I (own_channel current i)" "keeps I (own_rule current i)" "keeps I (parse_channel_id txt)"
  unfolding channel_response_def rule_response_def delivery_response_def require_org_def
    validate_rule_filters_def validate_rule_channel_def own_channel_def own_rule_def parse_channel_id_def Let_def
  by (intro keeps_intro)+

lemma reading_state: "(\<And>I. keeps I m) \<Longrightarrow> snd (m s) = s"
  using keepsD[of "\<lambda>t. t = s" m s] by simp

text \<open>A reading step either ends the request as it is or goes on in the same state.\<close>

lemma read_step:
  assumes "\<And>I. keeps I m" and "andThen m f s = (r, s')"
  obtains (stopped) "s' = s" | (went_on) x where "m s = (Inr x, s)" and "f x s = (r, s')"
proof -
  have "snd (m s) = s" using assms(1) by (rule reading_state)
  then show thesis using assms(2) stopped went_on
    by (cases "m s"; cases "fst (m s)") (auto simp: andThen_def)
qed

lemma read_last:
  assumes "\<And>I. keeps I m" and "m s = (r, s')"
  shows "s' = s"
  using reading_state[OF assms(1), of s] assms(2) by simp

text \<open>The writes of a handler, its commit and its reading answer.\<close>

lemma commit_last:
  assumes "\<And>I. keeps I m" and "andThen db_commit (\<lambda>_. m) s = (r, s')"
  shows "durable s' = durable s \<or> durable s' = live s"
  using assms(2) read_last[OF assms(1)]
  by (fastforce simp: andThen_run db_commit_def split: if_splits)

lemma channel_guard:
  assumes "wf_server w" and "own_channel current i (open_session w) = (Inr c, open_session w)"
  shows "c \<in> set (notification_channels (srv_store w))"
  using assms(2)
  by (auto simp: own_channel_def notification_channels_tbl.open_get[OF assms(1)]
      split: option.splits if_splits dest: find_SomeD)

lemma rule_guard:
  assumes "wf_server w" and "own_rule current i (open_session w) = (Inr c, open_session w)"
  shows "c \<in> set (notification_rules (srv_store w))"
  using assms(2)
  by (auto simp: own_rule_def notification_rules_tbl.open_get[OF assms(1)]
      split: option.splits if_splits dest: find_SomeD)

lemma filters_guard:
  assumes w: "wf_server w"
    and "validate_rule_filters sv cids o' (open_session w) = (Inr texts, open_session w)"
  shows "valid_filters (srv_store w) o' sv texts \<and> texts = map uuid_str cids"
proof -
  have channel: "list_ex (\<lambda>c. uuid_str i = uuid_str (ncl_id c) \<and> ncl_organization_id c = o')
      (notification_channels (srv_store w))"
    if "validate_rule_channel o' i (open_session w) = (Inr x, s)" for i x s
    using that by (auto simp: validate_rule_channel_def notification_channels_tbl.open_get[OF w] list_ex_iff
        split: option.splits if_splits dest!: find_SomeD)
  have loop: "list_all (\<lambda>i. \<exists>x s. validate_rule_channel o' i (open_session w) = (Inr x, s)) cids"
    if "for_each cids (validate_rule_channel o') (open_session w) = (Inr y, s')" for y s'
    using that
  proof (induction cids)
    case (Cons i cids)
    have "keeps I (validate_rule_channel o' i)" for I
      unfolding validate_rule_channel_def by (intro keeps_intro)
    then have "snd (validate_rule_channel o' i (open_session w)) = open_session w"
      by (rule reading_state)
    with Cons show ?case by (auto elim!: andThen_InrE)
  qed simp
  from assms(2) show ?thesis
    using loop channel
    by (auto simp: validate_rule_filters_def valid_filters_def Let_def list_all_iff filter_empty_conv
        elim!: andThen_InrE split: if_splits) blast
qed

lemma keeps_guard: "keeps I (require_permission perm (require_authenticated_user rt cfg t cred))"
  by (intro keeps_intro)

lemma keeps_400: "keeps I (value_error_as_400 (lift_sum v))"
  by (intro keeps_intro)

lemma lifted_400: "value_error_as_400 (lift_sum v) s = (Inr x, s') \<Longrightarrow> v = Inr x"
  by (drule value_error_InrD) (auto dest: lift_sum_InrD)

lemma raise_step:
  assumes "(if b then raise e else m) s = (r, s')"
  obtains (raised) "s' = s" | (went_on) "\<not> b" and "m s = (r, s')"
  using assms by (auto split: if_splits)

lemmas reading_steps = raise_step read_step[OF keeps_guard] read_step[OF keeps_400]
  read_step[OF keeps_notification_reads(4)] read_step[OF keeps_notification_reads(5)]
  read_step[OF keeps_notification_reads(6)] read_step[OF keeps_notification_reads(7)]

lemma change_unchanged: "s = open_session w \<Longrightarrow> notification_change frepr (srv_store w) (durable s)"
  by (simp add: notification_change.same)

lemma create_channel_change:
  assumes run: "create_channel rt now (require_authenticated_user rt cfg t cred) p (open_session w) = (r, s)"
  shows "notification_change (float_repr rt) (srv_store w) (durable s)"
proof -
  have made: "notification_change (float_repr rt) (srv_store w) (durable s)"
    if v: "validate_channel_config (float_repr rt) (ncc_channel_type p) (ncc_config p) = Inr config"
      and fin: "andThen (insert_row notification_channels_update mk) (\<lambda>channel.
          andThen db_commit (\<lambda>_. channel_response channel)) (open_session w) = (r, s)"
      and mk: "\<And>i. ncl_channel_type (mk i) = ncc_channel_type p \<and> ncl_config (mk i) = config" for config mk
  proof -
    let ?c = "mk (srv_next_id w)"
    have "durable s = srv_store w \<or> durable s = notification_channels_update (\<lambda>cs. cs @ [?c]) (srv_store w)"
      using fin commit_last[OF keeps_notification_reads(1), of ?c]
      by (fastforce simp: insert_row_def andThen_run)
    moreover have "valid_config (float_repr rt) ?c"
      using conjunct1[OF channel_config_validated_core[OF v]] mk by (simp add: valid_config_def)
    ultimately show ?thesis by (auto intro: notification_change.intros)
  qed
  from run show ?thesis
    by (unfold create_channel_def, elim reading_steps)
      ((erule change_unchanged)+, erule made[OF lifted_400], assumption, simp)
qed

lemma create_rule_change:
  assumes w: "wf_server w"
    and run: "create_rule now (require_authenticated_user rt cfg t cred) p (open_session w) = (r, s)"
  shows "notification_change frepr (srv_store w) (durable s)"
proof -
  have made: "notification_change frepr (srv_store w) (durable s)"
    if v: "validate_rule_filters (nrc_severity_filter p) (nrc_channel_ids p) (nrc_organization_id p)
        (open_session w) = (Inr texts, open_session w)"
      and fin: "andThen (insert_row notification_rules_update mk) (\<lambda>rule.
          andThen db_commit (\<lambda>_. rule_response rule)) (open_session w) = (r, s)"
      and mk: "\<And>i. nrl_organization_id (mk i) = nrc_organization_id p \<and>
          nrl_severity_filter (mk i) = nrc_severity_filter p \<and> nrl_channel_ids (mk i) = texts" for texts mk
  proof -
    let ?r = "mk (srv_next_id w)"
    have "durable s = srv_store w \<or> durable s = notification_rules_update (\<lambda>rs. rs @ [?r]) (srv_store w)"
      using fin commit_last[OF keeps_notification_reads(2), of ?r]
      by (fastforce simp: insert_row_def andThen_run)
    moreover have "valid_filters (srv_store w) (nrl_organization_id ?r) (nrl_severity_filter ?r) (nrl_channel_ids ?r)"
      using filters_guard[OF w v] mk by auto
    ultimately show ?thesis
      by (elim disjE) (simp_all only: notification_change.same notification_change.add_rule)
  qed
  from run show ?thesis
    by (unfold create_rule_def, elim reading_steps)
      ((erule change_unchanged)+, erule made, assumption, simp)
qed

lemma patch_rule_change:
  assumes w: "wf_server w"
    and run: "patch_rule (require_authenticated_user rt cfg t cred) i p (open_session w) = (r, s)"
  shows "notification_change frepr (srv_store w) (durable s)"
proof -
  have made: "notification_change frepr (srv_store w) (durable s)"
    if rule: "own_rule current i (open_session w) = (Inr rule, open_session w)"
      and v: "validate_rule_filters (case nrt_severity_filter p of None \<Rightarrow> nrl_severity_filter rule | Some v \<Rightarrow> v)
        channels (nrl_organization_id rule) (open_session w) = (Inr texts, open_session w)"
      and fin: "andThen (put_row notification_rules_update nrl_id (patched_rule p texts rule)) (\<lambda>_.
          andThen db_commit (\<lambda>_. rule_response (patched_rule p texts rule))) (open_session w) = (r, s)"
    for current rule channels texts
  proof -
    let ?r = "patched_rule p texts rule"
    have "durable s = srv_store w \<or> durable s =
        notification_rules_update (map (\<lambda>x. if nrl_id x = nrl_id ?r then ?r else x)) (srv_store w)"
      using fin commit_last[OF keeps_notification_reads(2), of ?r]
      by (fastforce simp: put_row_def)
    moreover have "notification_change frepr (srv_store w)
        (notification_rules_update (map (\<lambda>x. if nrl_id x = nrl_id ?r then ?r else x)) (srv_store w))"
      using filters_guard[OF w v]
      by (intro notification_change.edit_rule[OF rule_guard[OF w rule]])
        (auto simp: patched_rule_def valid_filters_def split: option.splits)
    ultimately show ?thesis by (elim disjE) (simp_all only: notification_change.same)
  qed
  have channels: "keeps I (case nrt_channel_ids p of None \<Rightarrow> map_each (nrl_channel_ids rule) parse_channel_id
      | Some v \<Rightarrow> ret v)" for I rule by (intro keeps_intro)
  from run show ?thesis
    by (unfold patch_rule_def Let_def, elim reading_steps read_step[OF channels])
      ((erule change_unchanged)+, erule (2) made)
qed

lemma channel_edit_committed:
  assumes w: "wf_server w"
    and c: "own_channel current i (open_session w) = (Inr c, open_session w)"
    and c': "ncl_id c' = ncl_id c" "ncl_organization_id c' = ncl_organization_id c"
      "ncl_channel_type c' = ncl_channel_type c" "ncl_config c' = ncl_config c \<or> valid_config frepr c'"
    and s0: "durable s0 = srv_store w"
      "live s0 = notification_channels_update (map (\<lambda>x. if ncl_id x = ncl_id c' then c' else x)) (srv_store w)"
    and fin: "andThen db_commit (\<lambda>_. channel_response c') s0 = (r, s)"
  shows "notification_change frepr (srv_store w) (durable s)"
proof -
  have "notification_change frepr (srv_store w)
      (notification_channels_update (map (\<lambda>x. if ncl_id x = ncl_id c' then c' else x)) (srv_store w))"
    by (rule notification_change.edit_channel[OF channel_guard[OF w c] c'])
  then show ?thesis
    using commit_last[OF keeps_notification_reads(1) fin] s0
    by (elim disjE) (simp_all only: notification_change.same)
qed

lemma channel_config_edited:
  assumes w: "wf_server w"
    and c: "own_channel current i (open_session w) = (Inr c, open_session w)"
    and c1: "ncl_id c1 = ncl_id c" "ncl_organization_id c1 = ncl_organization_id c"
      "ncl_channel_type c1 = ncl_channel_type c"
    and s1: "s1 = snd (put_row notification_channels_update ncl_id c1 (open_session w))"
    and fin: "andThen (value_error_as_400 (lift_sum (validate_channel_config frepr (ncl_channel_type c1) v))) (\<lambda>config.
        andThen (put_row notification_channels_update ncl_id (c1\<lparr>ncl_config := config\<rparr>)) (\<lambda>_.
        andThen db_commit (\<lambda>_. channel_response (c1\<lparr>ncl_config := config\<rparr>)))) s1 = (r, s)"
  shows "notification_change frepr (srv_store w) (durable s)"
  using fin
proof (rule read_step[OF keeps_400])
  assume "s = s1"
  then show ?thesis by (simp add: s1 put_row_def notification_change.same)
next
  fix config
  assume ok: "value_error_as_400 (lift_sum
       (validate_channel_config frepr (ncl_channel_type c1) v)) s1 = (Inr config, s1)"
    and rest: "andThen (put_row notification_channels_update ncl_id (c1\<lparr>ncl_config := config\<rparr>)) (\<lambda>_.
       andThen db_commit (\<lambda>_. channel_response (c1\<lparr>ncl_config := config\<rparr>))) s1 = (r, s)"
  have "valid_config frepr (c1\<lparr>ncl_config := config\<rparr>)"
    using conjunct1[OF channel_config_validated_core[OF lifted_400[OF ok]]] by (simp add: valid_config_def)
  then show ?thesis
    using rest by (intro channel_edit_committed[OF w c, of "c1\<lparr>ncl_config := config\<rparr>" frepr
          "snd (put_row notification_channels_update ncl_id (c1\<lparr>ncl_config := config\<rparr>) s1)"])
      (simp_all add: s1 put_row_def c1 comp_def cong: if_cong)
qed

lemma patch_channel_change:
  assumes w: "wf_server w"
    and run: "patch_channel rt (require_authenticated_user rt cfg t cred) i p (open_session w) = (r, s)"
  shows "notification_change (float_repr rt) (srv_store w) (durable s)"
  using run
proof (unfold patch_channel_def Let_def, elim reading_steps)
  fix current c
  let ?c = "renamed_channel p c"
  let ?s1 = "snd (put_row notification_channels_update ncl_id ?c (open_session w))"
  assume c: "own_channel current i (open_session w) = (Inr c, open_session w)"
    and fin: "andThen (put_row notification_channels_update ncl_id ?c) (\<lambda>_.
        andThen (case npt_config p of None \<Rightarrow> ret ?c | Some v \<Rightarrow>
          andThen (value_error_as_400 (lift_sum
             (validate_channel_config (float_repr rt) (ncl_channel_type ?c) v))) (\<lambda>config.
          andThen (put_row notification_channels_update ncl_id (?c\<lparr>ncl_config := config\<rparr>)) (\<lambda>_.
          ret (?c\<lparr>ncl_config := config\<rparr>)))) (\<lambda>channel.
        andThen db_commit (\<lambda>_. channel_response channel))) (open_session w) = (r, s)"
  have c': "ncl_id ?c = ncl_id c" "ncl_organization_id ?c = ncl_organization_id c"
      "ncl_channel_type ?c = ncl_channel_type c" "ncl_config ?c = ncl_config c"
    by (simp_all add: renamed_channel_def)
  show ?thesis
  proof (cases "npt_config p")
    case None
    with fin show ?thesis
      by (intro channel_edit_committed[OF w c, of ?c _ ?s1]) (simp_all add: put_row_def c')
  next
    case (Some v)
    with fin show ?thesis
      by (intro channel_config_edited[OF w c c'(1-3) refl]) (simp add: put_row_def)
  qed
qed (erule change_unchanged)+

lemma wf_notification_handlers [keeps_intro]:
  assumes "keeps wf_session auth"
  shows "keeps wf_session (list_channels auth)" and "keeps wf_session (create_channel rt now auth cp)"
    and "keeps wf_session (patch_channel rt auth i pp)" and "keeps wf_session (list_rules auth)"
    and "keeps wf_session (create_rule now auth cr)" and "keeps wf_session (patch_rule auth i pr)"
    and "keeps wf_session (list_deliveries auth)"
  unfolding list_channels_def create_channel_def patch_channel_def list_rules_def create_rule_def
    patch_rule_def list_deliveries_def Let_def
  by (intro keeps_intro assms notification_channels_tbl.insert_wf notification_channels_tbl.put_wf
      notification_rules_tbl.insert_wf notification_rules_tbl.put_wf; simp)+

datatype notification_request =
    ListChannels credentials
  | CreateChannel credentials NotificationChannelCreateRequest
  | PatchChannel credentials uuid NotificationChannelPatchRequest
  | ListRules credentials
  | CreateRule credentials NotificationRuleCreateRequest
  | PatchRule credentials uuid NotificationRulePatchRequest
  | ListDeliveries credentials

definition handle_notification ::
  "runtime \<Rightarrow> settings \<Rightarrow> datetime \<Rightarrow> notification_request \<Rightarrow> unit db_op" where
  "handle_notification rt cfg now q = (let auth = require_authenticated_user rt cfg now in case q of
     ListChannels cred \<Rightarrow> discard (list_channels (auth cred))
   | CreateChannel cred p \<Rightarrow> validated (valid_NotificationChannelCreateRequest p)
       (discard (create_channel rt now (auth cred) p))
   | PatchChannel cred i p \<Rightarrow> validated (valid_NotificationChannelPatchRequest p)
       (discard (patch_channel rt (auth cred) i p))
   | ListRules cred \<Rightarrow> discard (list_rules (auth cred))
   | CreateRule cred p \<Rightarrow> validated (valid_NotificationRuleCreateRequest p)
       (discard (create_rule now (auth cred) p))
   | PatchRule cred i p \<Rightarrow> validated (valid_NotificationRulePatchRequest p)
       (discard (patch_rule (auth cred) i p))
   | ListDeliveries cred \<Rightarrow> discard (list_deliveries (auth cred)))"

lemma run_request_snd: "snd (run_request h w) = close_session (snd (h (open_session w)))"
  by (simp add: run_request_def split: prod.splits)

lemma run_discard: "snd (run_request (discard h) w) = snd (run_request h w)"
  by (simp add: run_request_snd)

lemma reading_request: "(\<And>I. keeps I h) \<Longrightarrow> snd (run_request h w) = w"
  using run_request_state[of h w] reading_state[of h "open_session w"] by simp

lemma notification_request_change:
  assumes w: "wf_server w"
  shows "notification_change (float_repr rt) (srv_store w)
     (srv_store (snd (run_request (handle_notification rt cfg now q) w)))"
proof -
  have step: "notification_change (float_repr rt) (srv_store w) (srv_store (snd (run_request (validated b (discard h)) w)))"
    if "\<And>r s. h (open_session w) = (r, s) \<Longrightarrow> notification_change (float_repr rt) (srv_store w) (durable s)"
    for b h
  proof (cases b)
    case True
    then show ?thesis using that[OF surjective_pairing]
      by (simp add: validated_def run_request_snd)
  next
    case False
    then have "snd (run_request (validated b (discard h)) w) = w"
      by (intro reading_request) (simp add: validated_def keeps_raise)
    then show ?thesis by (simp add: notification_change.same)
  qed
  have read: "notification_change (float_repr rt) (srv_store w) (srv_store (snd (run_request (discard h) w)))"
    if "\<And>I. keeps I h" for h
    using reading_request[of h w, OF that] by (simp add: run_discard notification_change.same)
  show ?thesis
    unfolding handle_notification_def Let_def
    by (cases q) (auto intro!: step read keeps_intro elim: create_channel_change create_rule_change[OF w]
        patch_rule_change[OF w] patch_channel_change[OF w]
        simp: list_channels_def list_rules_def list_deliveries_def)
qed

lemma wf_notification_requests: "keeps wf_session (handle_notification rt cfg now q)"
  by (cases q) (auto simp: handle_notification_def intro!: keeps_intro)

definition run_notifications ::
  "runtime \<Rightarrow> settings \<Rightarrow> (datetime \<times> notification_request) list \<Rightarrow> server \<Rightarrow> server" where
  "run_notifications rt cfg history w =
     fold (\<lambda>(now, q) w. snd (run_request (handle_notification rt cfg now q) w)) history w"

text \<open>C38. Whatever history of notification requests is served: every stored channel has a
  configuration its validation accepts, and every stored rule filters on known severities
  and names only channels that exist and belong to the rule's own organization.\<close>

theorem notification_config_valid:
  assumes "wf_server w" and "notifications_ok (float_repr rt) (srv_store w)"
  shows "wf_server (run_notifications rt cfg history w) \<and>
     notifications_ok (float_repr rt) (srv_store (run_notifications rt cfg history w))"
  using assms
proof (induction history arbitrary: w)
  case Nil
  then show ?case by (simp add: run_notifications_def)
next
  case (Cons e history)
  obtain now q where e: "e = (now, q)" by (cases e)
  let ?w = "snd (run_request (handle_notification rt cfg now q) w)"
  have "wf_server ?w" by (rule run_request_wf[OF wf_notification_requests Cons.prems(1)])
  moreover have "notifications_ok (float_repr rt) (srv_store ?w)"
    using notification_channels_tbl.open_distinct[OF Cons.prems(1)]
    by (intro change_keeps_ok[OF notification_request_change[OF Cons.prems(1)] Cons.prems(2)]) simp
  ultimately show ?case using Cons.IH by (simp add: run_notifications_def e)
qed

theorem notification_config_valid_witness:
  "notifications_ok (float_repr sample_runtime) (srv_store (run_notifications sample_runtime default_settings
     [(60, PatchChannel (Some (''Bearer'', ''access-token'')) 24
        \<lparr>npt_name = None, npt_enabled = Some False, npt_config = None\<rparr>)]
     \<lparr>srv_store = notified_store, srv_next_id = 100\<rparr>))"
proof -
  have "wf_server \<lparr>srv_store = notified_store, srv_next_id = 100\<rparr>"
    using notified_wf by (simp add: wf_session_def wf_server_def)
  moreover have "notifications_ok (float_repr sample_runtime) (srv_store \<lparr>srv_store = notified_store, srv_next_id = 100\<rparr>)"
    by (simp add: notifications_ok_def notified_store_def valid_config_def valid_filters_def sample_channel_def
        sample_notification_rule_def validate_channel_config_def CHANNEL_TYPES_def dict_get_def json_or_def
        ALERT_SEVERITIES_def is_JStr_def)
  ultimately show ?thesis using notification_config_valid by blast
qed

end
