(* ===== verification/Devices.thy ===== *)
theory Devices
  imports NotificationsApi
begin

text \<open>
  The operators' view of devices and the dashboard: \<^verbatim>\<open>backend/app/api/devices.py\<close> and
  \<^verbatim>\<open>backend/app/api/dashboard.py\<close>. Reading devices brings their online status up to date; the
  dashboard counts what the list endpoints list. The properties: what reading the devices
  stores and answers, that inventories and statuses read back what was reported, and the
  equivalence of the dashboard's counts with the lists.
\<close>

subsection \<open>Devices\<close>

definition is_online :: "settings \<Rightarrow> datetime \<Rightarrow> device \<Rightarrow> bool" where
  "is_online cfg now device =
     (case dev_last_seen_at device of
        None \<Rightarrow> False
      | Some last_seen \<Rightarrow> last_seen \<ge> now - timedelta_seconds (device_offline_after_seconds cfg))"

text \<open>The assignments of \<open>_sync_status\<close>.\<close>

definition synced_device :: "settings \<Rightarrow> datetime \<Rightarrow> device \<Rightarrow> device" where
  "synced_device cfg now device =
     (let online = is_online cfg now device
      in device\<lparr>dev_is_online := online,
                dev_status := (if online then ''online'' else ''offline'')\<rparr>)"

definition sync_status :: "settings \<Rightarrow> datetime \<Rightarrow> device \<Rightarrow> device db_op" where
  "sync_status cfg now device =
     andThen (put_row devices_update dev_id (synced_device cfg now device)) (\<lambda>_.
     ret (synced_device cfg now device))"

definition summary :: "device \<Rightarrow> DeviceSummary" where
  "summary device =
     (let online = dev_is_online device
      in \<lparr>dsm_id = dev_id device, dsm_hostname = dev_hostname device,
          dsm_operating_system = dev_operating_system device,
          dsm_architecture = dev_architecture device, dsm_ip_address = dev_ip_address device,
          dsm_agent_version = dev_agent_version device,
          dsm_health_status = dev_health_status device,
          dsm_status = (if online then ''online'' else ''offline''), dsm_is_online = online,
          dsm_last_seen_at = dev_last_seen_at device\<rparr>)"

definition device_or_404 :: "uuid \<Rightarrow> uuid \<Rightarrow> device db_op" where
  "device_or_404 device_id organization_id =
     andThen (gets (db_get devices dev_id device_id)) (\<lambda>found.
     case found of
       None \<Rightarrow> raise (HTTPException 404 ''Device not found'')
     | Some device \<Rightarrow>
         if dev_organization_id device \<noteq> organization_id
         then raise (HTTPException 404 ''Device not found'') else ret device)"

definition list_devices :: "settings \<Rightarrow> datetime \<Rightarrow> user db_op \<Rightarrow> DeviceSummary list db_op" where
  "list_devices cfg now auth =
     andThen (require_permission ''devices:read'' auth) (\<lambda>current.
     andThen (gets (db_select_by devices dev_id dev_hostname
        (\<lambda>d. dev_organization_id d = usr_organization_id current))) (\<lambda>rows.
     andThen (map_each rows (sync_status cfg now)) (\<lambda>rows'.
     andThen db_commit (\<lambda>_. ret (map summary rows')))))"

definition checkin_summary :: "device_checkin \<Rightarrow> CheckinSummary" where
  "checkin_summary latest =
     \<lparr>csm_checked_in_at = chk_checked_in_at latest, csm_status = chk_status latest,
      csm_ip_address = chk_ip_address latest, csm_agent_version = chk_agent_version latest,
      csm_payload = chk_payload latest\<rparr>"

definition get_device :: "settings \<Rightarrow> datetime \<Rightarrow> user db_op \<Rightarrow> uuid \<Rightarrow> DeviceDetail db_op" where
  "get_device cfg now auth device_id =
     andThen (require_permission ''devices:read'' auth) (\<lambda>current.
     andThen (device_or_404 device_id (usr_organization_id current)) (\<lambda>device0.
     andThen (sync_status cfg now device0) (\<lambda>device.
     andThen db_commit (\<lambda>_.
     andThen (gets (db_select_by device_checkins chk_id (\<lambda>c. - chk_checked_in_at c)
        (\<lambda>c. chk_device_id c = device_id))) (\<lambda>checkins.
     ret (DeviceSummary.extend (summary device)
            (DeviceDetail.fields (dev_machine_identifier device)
              (case checkins of [] \<Rightarrow> None | latest # _ \<Rightarrow> Some (checkin_summary latest)))))))))"

subsection \<open>Inventory, software, security, updates and alerts of a device\<close>

definition disk_response :: "disk_inventory \<Rightarrow> DiskInventoryResponse" where
  "disk_response disk =
     \<lparr>dip_name = dsk_name disk, dip_filesystem = dsk_filesystem disk,
      dip_size_bytes = dsk_size_bytes disk, dip_free_bytes = dsk_free_bytes disk,
      dir_id = dsk_id disk\<rparr>"

definition interface_response :: "network_interface_inventory \<Rightarrow> NetworkInterfaceInventoryResponse" where
  "interface_response adapter =
     \<lparr>nip_name = nic_name adapter, nip_mac_address = nic_mac_address adapter,
      nip_ip_addresses = nic_ip_addresses adapter, nir_id = nic_id adapter\<rparr>"

definition get_device_inventory :: "user db_op \<Rightarrow> uuid \<Rightarrow> DeviceInventoryResponse db_op" where
  "get_device_inventory auth device_id =
     andThen (require_permission ''devices:read'' auth) (\<lambda>current.
     andThen (device_or_404 device_id (usr_organization_id current)) (\<lambda>_.
     andThen (gets (db_scalar device_inventories inv_id (\<lambda>i. inv_device_id i = device_id))) (\<lambda>found.
     andThen (require_some (HTTPException 404 ''Inventory not found'') found) (\<lambda>inventory.
     andThen (gets (db_select disk_inventories dsk_id (\<lambda>d. dsk_device_id d = device_id))) (\<lambda>disks.
     andThen (gets (db_select network_interfaces nic_id (\<lambda>n. nic_device_id n = device_id))) (\<lambda>adapters.
     ret \<lparr>dvr_device_id = inv_device_id inventory, dvr_hostname = inv_hostname inventory,
          dvr_operating_system = inv_operating_system inventory,
          dvr_os_version = inv_os_version inventory, dvr_os_build = inv_os_build inventory,
          dvr_architecture = inv_architecture inventory,
          dvr_agent_version = inv_agent_version inventory, dvr_cpu_model = inv_cpu_model inventory,
          dvr_cpu_cores = inv_cpu_cores inventory,
          dvr_memory_total_bytes = inv_memory_total_bytes inventory,
          dvr_bios_vendor = inv_bios_vendor inventory, dvr_bios_version = inv_bios_version inventory,
          dvr_system_manufacturer = inv_system_manufacturer inventory,
          dvr_system_model = inv_system_model inventory,
          dvr_inventory_refreshed_at = inv_inventory_refreshed_at inventory,
          dvr_disks = map disk_response disks,
          dvr_network_interfaces = map interface_response adapters\<rparr>))))))"

definition software_response :: "installed_software \<Rightarrow> InstalledSoftwareResponse" where
  "software_response item =
     \<lparr>isp_name = sft_name item, isp_version = sft_version item, isp_publisher = sft_publisher item,
      isp_installed_at = sft_installed_at item, isr_id = sft_id item\<rparr>"

definition get_device_software :: "user db_op \<Rightarrow> uuid \<Rightarrow> SoftwareInventoryResponse db_op" where
  "get_device_software auth device_id =
     andThen (require_permission ''devices:read'' auth) (\<lambda>current.
     andThen (device_or_404 device_id (usr_organization_id current)) (\<lambda>_.
     andThen (gets (db_scalar device_inventories inv_id (\<lambda>i. inv_device_id i = device_id))) (\<lambda>inventory.
     andThen (gets (db_select_by softwares sft_id sft_name (\<lambda>x. sft_device_id x = device_id))) (\<lambda>software.
     ret \<lparr>sir_device_id = device_id,
          sir_inventory_refreshed_at = map_option inv_inventory_refreshed_at inventory,
          sir_software = map software_response software\<rparr>))))"

definition get_device_security :: "user db_op \<Rightarrow> uuid \<Rightarrow> SecurityStatusResponse db_op" where
  "get_device_security auth device_id =
     andThen (require_permission ''devices:read'' auth) (\<lambda>current.
     andThen (device_or_404 device_id (usr_organization_id current)) (\<lambda>_.
     andThen (gets (db_scalar security_statuses sec_id (\<lambda>x. sec_device_id x = device_id))) (\<lambda>found.
     andThen (require_some (HTTPException 404 ''Security status not found'') found) (\<lambda>row.
     ret \<lparr>ssp_antivirus_product = sec_antivirus_product row,
          ssp_antivirus_enabled = sec_antivirus_enabled row,
          ssp_antivirus_up_to_date = sec_antivirus_up_to_date row,
          ssp_defender_enabled = sec_defender_enabled row,
          ssp_firewall_enabled = sec_firewall_enabled row, ssp_details = sec_details row,
          ssr_device_id = device_id, ssr_refreshed_at = sec_refreshed_at row\<rparr>))))"

definition get_device_updates :: "user db_op \<Rightarrow> uuid \<Rightarrow> UpdateStatusResponse db_op" where
  "get_device_updates auth device_id =
     andThen (require_permission ''devices:read'' auth) (\<lambda>current.
     andThen (device_or_404 device_id (usr_organization_id current)) (\<lambda>_.
     andThen (gets (db_scalar update_statuses ups_id (\<lambda>x. ups_device_id x = device_id))) (\<lambda>found.
     andThen (require_some (HTTPException 404 ''Update status not found'') found) (\<lambda>row.
     ret \<lparr>uup_pending_reboot = ups_pending_reboot row, uup_update_status = ups_update_status row,
          uup_last_update_check_at = ups_last_update_check_at row, uup_details = ups_details row,
          uur_device_id = device_id, uur_refreshed_at = ups_refreshed_at row\<rparr>))))"

definition get_device_alerts :: "user db_op \<Rightarrow> uuid \<Rightarrow> AlertResponse list db_op" where
  "get_device_alerts auth device_id =
     andThen (require_permission ''alerts:read'' auth) (\<lambda>current.
     andThen (device_or_404 device_id (usr_organization_id current)) (\<lambda>_.
     andThen (gets (db_select_by alerts alt_id (\<lambda>a. - alt_last_seen_at a)
        (\<lambda>a. alt_device_id a = device_id \<and> alt_organization_id a = usr_organization_id current))) (\<lambda>rows.
     map_each rows (\<lambda>a. alert_response a False))))"

subsection \<open>The dashboard\<close>

definition dashboard_for :: "uuid \<Rightarrow> DashboardSummaryResponse db_op" where
  "dashboard_for o' =
     andThen (gets (db_count devices (\<lambda>d. dev_organization_id d = o'))) (\<lambda>total.
     andThen (gets (db_count devices (\<lambda>d. dev_organization_id d = o' \<and> dev_is_online d))) (\<lambda>online.
     andThen (gets (db_count alerts (\<lambda>a. alt_organization_id a = o' \<and> alt_status a = ''active'' \<and>
        alt_severity a = ''warning''))) (\<lambda>warnings.
     andThen (gets (db_count alerts (\<lambda>a. alt_organization_id a = o' \<and> alt_status a = ''active'' \<and>
        alt_severity a = ''critical''))) (\<lambda>critical.
     andThen (gets (\<lambda>s. length (remdups (map alt_device_id (filter (\<lambda>a. alt_organization_id a = o' \<and>
        alt_status a \<in> {''active'', ''acknowledged''}) (alerts (flushed s))))))) (\<lambda>attention.
     andThen (gets (db_select_by alerts alt_id (\<lambda>a. - alt_last_seen_at a)
        (\<lambda>a. alt_organization_id a = o'))) (\<lambda>recent.
     andThen (map_each (take 10 recent) (\<lambda>a. alert_response a False)) (\<lambda>recent_alerts.
     ret \<lparr>dbs_total_devices = total, dbs_online_devices = online,
          dbs_offline_devices = total - online, dbs_active_warning_alerts = warnings,
          dbs_active_critical_alerts = critical, dbs_devices_needing_attention = attention,
          dbs_recent_alerts = recent_alerts\<rparr>)))))))"

definition dashboard_summary :: "user db_op \<Rightarrow> DashboardSummaryResponse db_op" where
  "dashboard_summary auth =
     andThen (require_permission ''dashboard:read'' auth) (\<lambda>current.
     dashboard_for (usr_organization_id current))"

subsection \<open>Reading steps and keys\<close>

lemma keeps_device_or_404 [keeps_intro]: "keeps I (device_or_404 i o')"
  unfolding device_or_404_def by (intro keeps_intro)

lemma wf_device_handlers [keeps_intro]:
  assumes "keeps wf_session auth"
  shows "keeps wf_session (list_devices cfg now auth)" and "keeps wf_session (get_device cfg now auth i)"
    and "keeps wf_session (get_device_inventory auth i)" and "keeps wf_session (get_device_software auth i)"
    and "keeps wf_session (get_device_security auth i)" and "keeps wf_session (get_device_updates auth i)"
    and "keeps wf_session (get_device_alerts auth i)" and "keeps wf_session (dashboard_summary auth)"
  unfolding list_devices_def get_device_def get_device_inventory_def get_device_software_def
    get_device_security_def get_device_updates_def get_device_alerts_def dashboard_summary_def dashboard_for_def
    sync_status_def Let_def
  by (intro keeps_intro assms devices_tbl.put_wf)+

lemma synced_device_simps [simp]:
  "dev_id (synced_device cfg now d) = dev_id d"
  "dev_organization_id (synced_device cfg now d) = dev_organization_id d"
  "dev_hostname (synced_device cfg now d) = dev_hostname d"
  "dev_is_online (synced_device cfg now d) = is_online cfg now d"
  by (simp_all add: synced_device_def Let_def)

subsection \<open>Listing brings every device up to date\<close>

lemma insort_key_map: "insort_key f (g x) (map g xs) = map g (insort_key (\<lambda>y. f (g y)) x xs)"
  by (induction xs) auto

lemma sort_key_map: "sort_key f (map g xs) = map g (sort_key (\<lambda>x. f (g x)) xs)"
  by (induction xs) (simp_all add: insort_key_map)

lemma sync_all:
  "map_each rows (sync_status cfg now) s =
     (Inr (map (synced_device cfg now) rows),
      s\<lparr>live := devices_update (fold (\<lambda>r. map (\<lambda>x. if dev_id x = dev_id r then synced_device cfg now r else x)) rows)
          (live s)\<rparr>)"
proof (induction rows arbitrary: s)
  case Nil
  then show ?case by (cases s) (simp add: devices_tbl.write_id[unfolded id_def])
next
  case (Cons r rows)
  let ?s = "s\<lparr>live := devices_update (map (\<lambda>x. if dev_id x = dev_id r then synced_device cfg now r else x)) (live s)\<rparr>"
  have "sync_status cfg now r s = (Inr (synced_device cfg now r), ?s)"
    by (simp add: sync_status_def put_row_def)
  with Cons.IH[of ?s] show ?case by (simp add: andThen_run comp_def)
qed

definition sync_org :: "settings \<Rightarrow> datetime \<Rightarrow> uuid \<Rightarrow> device \<Rightarrow> device" where
  "sync_org cfg now o' d = (if dev_organization_id d = o' then synced_device cfg now d else d)"

lemma fold_sync:
  assumes "distinct (map dev_id ds)"
  shows "fold (\<lambda>r. map (\<lambda>x. if dev_id x = dev_id r then synced_device cfg now r else x))
       (sort_key dev_hostname (filter (\<lambda>d. dev_organization_id d = o') ds)) ds = map (sync_org cfg now o') ds"
proof -
  let ?rows = "sort_key dev_hostname (filter (\<lambda>d. dev_organization_id d = o') ds)"
  have rows: "set ?rows = {d \<in> set ds. dev_organization_id d = o'}" by simp
  have "distinct (map dev_id (filter (\<lambda>d. dev_organization_id d = o') ds))"
    using assms by (rule distinct_map_filter)
  then have dist: "distinct (map dev_id ?rows)"
    by (metis distinct_map distinct_sort set_sort)
  have same: "x = r" if "r \<in> set ?rows" "x \<in> set ds" "dev_id x = dev_id r" for r x
    using assms that by (auto simp: distinct_map dest: inj_onD)
  have "dev_id x \<in> dev_id ` set ?rows \<longleftrightarrow> dev_organization_id x = o'" if "x \<in> set ds" for x
    using that same by (force simp: rows)
  then show ?thesis
    unfolding sync_org_def by (subst put_each[OF dist _ same]) (auto simp only: synced_device_simps map_eq_conv)
qed

lemma list_devices_run:
  assumes w: "wf_server w"
    and auth: "require_permission ''devices:read'' auth (open_session w) = (Inr current, open_session w)"
  shows "list_devices cfg now auth (open_session w) =
     (let st = devices_update (map (sync_org cfg now (usr_organization_id current))) (srv_store w)
      in (Inr (map summary (sort_key dev_hostname
            (filter (\<lambda>d. dev_organization_id d = usr_organization_id current) (devices st)))),
          committed st (srv_next_id w)))"
proof -
  let ?o = "usr_organization_id current"
  let ?rows = "sort_key dev_hostname (filter (\<lambda>d. dev_organization_id d = ?o) (devices (srv_store w)))"
  have dist: "distinct (map dev_id (devices (srv_store w)))"
    using devices_tbl.open_distinct[OF w] by simp
  have live: "devices_update (fold (\<lambda>r. map (\<lambda>x. if dev_id x = dev_id r then synced_device cfg now r else x)) ?rows)
      (srv_store w) = devices_update (map (sync_org cfg now ?o)) (srv_store w)"
    by (rule devices_tbl.write_cong) (rule fold_sync[OF dist])
  have unique: "unique_ok (devices_update f (srv_store w))" for f
    using w by (simp add: wf_server_def unique_ok_def)
  have "filter (\<lambda>d. dev_organization_id d = ?o) (map (sync_org cfg now ?o) ds) =
      map (synced_device cfg now) (filter (\<lambda>d. dev_organization_id d = ?o) ds)" for ds
    by (induction ds) (auto simp: sync_org_def)
  then have rows: "sort_key dev_hostname (filter (\<lambda>d. dev_organization_id d = ?o) (map (sync_org cfg now ?o) (devices (srv_store w)))) =
      map (synced_device cfg now) ?rows"
    by (simp add: sort_key_map)
  show ?thesis
    by (simp add: list_devices_def andThen_run auth devices_tbl.open_select_by[OF w] sync_all live
        commit_open unique rows Let_def)
qed

text \<open>What a request finds and its answer, for an authenticated operator.\<close>

lemma guarded_run:
  assumes w: "wf_server w"
    and run: "run_request (andThen (require_permission perm (require_authenticated_user rt cfg t cred)) f) w = (Inr x, w')"
  obtains current s where "require_authenticated_user rt cfg t cred (open_session w) = (Inr current, open_session w)"
    and "require_permission perm (require_authenticated_user rt cfg t cred) (open_session w) = (Inr current, open_session w)"
    and "f current (open_session w) = (Inr x, s)" and "w' = close_session s"
proof -
  from run obtain s where s: "andThen (require_permission perm (require_authenticated_user rt cfg t cred)) f
      (open_session w) = (Inr x, s)" "w' = close_session s" by (rule run_requestE)
  obtain current where "require_authenticated_user rt cfg t cred (open_session w) = (Inr current, open_session w)"
    "perm \<in> set (role_permissions (usr_role current))" "f current (open_session w) = (Inr x, s)"
    using s(1) by (rule guarded_InrE[OF _ authenticate_state])
  with s(2) that show thesis by (simp add: require_permission_Inr_iff)
qed

text \<open>C39. Listing the devices stores the online status of every device of the operator's
  organization as of now, leaves all other data as it was, and answers with those devices
  ordered by host name, each shown online exactly when it was seen within the configured
  window.\<close>

theorem devices_listed:
  assumes "wf_server w"
    and "run_request (list_devices cfg now (require_authenticated_user rt cfg t cred)) w = (Inr listed, w')"
  shows "\<exists>current \<in> set (users (srv_store w)). usr_is_active current \<and>
     srv_store w' = devices_update (map (\<lambda>d.
        if dev_organization_id d = usr_organization_id current then synced_device cfg now d else d)) (srv_store w) \<and>
     listed = map summary (sort_key dev_hostname
        (filter (\<lambda>d. dev_organization_id d = usr_organization_id current) (devices (srv_store w')))) \<and>
     list_all (\<lambda>v. dsm_is_online v = (case dsm_last_seen_at v of None \<Rightarrow> False
        | Some seen \<Rightarrow> now - 1000000 * device_offline_after_seconds cfg \<le> seen)) listed"
proof -
  obtain current where auth: "require_authenticated_user rt cfg t cred (open_session w) = (Inr current, open_session w)"
    and perm: "require_permission ''devices:read'' (require_authenticated_user rt cfg t cred) (open_session w) =
      (Inr current, open_session w)"
    using guarded_run[OF assms(1) assms(2)[unfolded list_devices_def]] by metis
  have run: "listed = map summary (sort_key dev_hostname (filter (\<lambda>d. dev_organization_id d = usr_organization_id current)
        (map (sync_org cfg now (usr_organization_id current)) (devices (srv_store w)))))"
    "srv_store w' = devices_update (map (sync_org cfg now (usr_organization_id current))) (srv_store w)"
    using assms(2) list_devices_run[OF assms(1) perm, of cfg now] by (auto simp: run_request_def Let_def)
  have "list_all (\<lambda>v. dsm_is_online v = (case dsm_last_seen_at v of None \<Rightarrow> False
        | Some seen \<Rightarrow> now - 1000000 * device_offline_after_seconds cfg \<le> seen)) listed"
    by (auto simp: run list_all_iff summary_def sync_org_def synced_device_def is_online_def timedelta_seconds_def
        Let_def split: option.splits if_splits)
  then show ?thesis
    using authenticated_open[OF assms(1) auth] run
    by (intro bexI[of _ current]) (simp_all add: sync_org_def[abs_def])
qed

lemma dashboard_viewer: "''devices:read'' \<in> set (role_permissions (usr_role sample_owner))"
  "''dashboard:read'' \<in> set (role_permissions (usr_role sample_owner))"
  "''alerts:read'' \<in> set (role_permissions (usr_role sample_owner))"
  by (simp_all add: sample_owner_def role_permissions_def ROLE_PERMISSIONS_def)

lemma sample_guard:
  "perm \<in> set (role_permissions (usr_role sample_owner)) \<Longrightarrow>
   require_permission perm (require_authenticated_user sample_runtime default_settings 5
     (Some (''Bearer'', ''access-token''))) (open_session sample_server) = (Inr sample_owner, open_session sample_server)"
  by (simp add: require_permission_def andThen_run sample_authenticates)

theorem devices_listed_witness:
  "\<exists>listed w'. run_request (list_devices default_settings 400000000 (require_authenticated_user sample_runtime
      default_settings 5 (Some (''Bearer'', ''access-token'')))) sample_server = (Inr listed, w') \<and>
     map dsm_hostname listed = [dev_hostname sample_device] \<and>
     list_all (\<lambda>v. dsm_is_online v = (case dsm_last_seen_at v of None \<Rightarrow> False
       | Some seen \<Rightarrow> 100000000 \<le> seen)) listed"
proof -
  let ?auth = "require_authenticated_user sample_runtime default_settings 5 (Some (''Bearer'', ''access-token''))"
  let ?st = "devices_update (map (sync_org default_settings 400000000 1)) sample_store"
  have org: "usr_organization_id sample_owner = 1" "dev_organization_id sample_device = 1"
    by (simp_all add: sample_owner_def sample_device_def)
  have store: "devices sample_store = [sample_device]" by (simp add: sample_store_def empty_store_def)
  have run: "run_request (list_devices default_settings 400000000 ?auth) sample_server =
      (Inr [summary (synced_device default_settings 400000000 sample_device)], \<lparr>srv_store = ?st, srv_next_id = 100\<rparr>)"
    using list_devices_run[OF sample_wf sample_guard[OF dashboard_viewer(1)], of default_settings 400000000]
    by (simp add: run_request_def Let_def org store sample_server_simps sync_org_def[of _ _ _ sample_device] del: One_nat_def)
  have window: "400000000 - 1000000 * device_offline_after_seconds default_settings = 100000000"
    by (simp add: default_settings_def)
  let ?v = "summary (synced_device default_settings 400000000 sample_device)"
  have "list_all (\<lambda>v. dsm_is_online v = (case dsm_last_seen_at v of None \<Rightarrow> False
       | Some seen \<Rightarrow> 100000000 \<le> seen)) [?v]"
    using devices_listed[OF sample_wf run] unfolding window by (elim bexE conjE)
  moreover have "map dsm_hostname [?v] = [dev_hostname sample_device]" by (simp add: summary_def Let_def)
  ultimately show ?thesis
    by (intro exI[of _ "[?v]"] exI[of _ "\<lparr>srv_store = ?st, srv_next_id = 100\<rparr>"] conjI run)
qed

subsection \<open>The dashboard counts what is listed\<close>

text \<open>The answer shown for an alert, as a function of the data.\<close>

definition alert_view :: "session \<Rightarrow> alert \<Rightarrow> AlertResponse" where
  "alert_view s a =
     \<lparr>arp_id = alt_id a, arp_organization_id = alt_organization_id a,
      arp_device_id = alt_device_id a, arp_rule_id = alt_rule_id a,
      arp_severity = alt_severity a, arp_status = alt_status a, arp_title = alt_title a,
      arp_message = alt_message a, arp_first_seen_at = alt_first_seen_at a,
      arp_last_seen_at = alt_last_seen_at a, arp_acknowledged_at = alt_acknowledged_at a,
      arp_resolved_at = alt_resolved_at a,
      arp_device_hostname = map_option dev_hostname (db_get devices dev_id (alt_device_id a) s),
      arp_rule_key = map_option alr_rule_key (db_get alert_rules alr_id (alt_rule_id a) s), arp_events = []\<rparr>"

lemma alerts_viewed: "map_each rows (\<lambda>a. alert_response a False) s = (Inr (map (alert_view s) rows), s)"
  by (induction rows) (simp_all add: andThen_run alert_response_def alert_view_def)

definition org_alerts :: "uuid \<Rightarrow> (alert \<Rightarrow> bool) \<Rightarrow> store \<Rightarrow> alert list" where
  "org_alerts o' P st = sort_key (\<lambda>a. - alt_last_seen_at a)
     (filter (\<lambda>a. alt_organization_id a = o' \<and> P a) (alerts st))"

lemma list_alerts_run:
  assumes "wf_server w"
    and "run_request (list_alerts (require_authenticated_user rt cfg t cred) sv st None) w = (Inr xs, w')"
  obtains current where "require_authenticated_user rt cfg t cred (open_session w) = (Inr current, open_session w)"
    and "xs = map (alert_view (open_session w)) (org_alerts (usr_organization_id current)
       (\<lambda>a. (case sv of None \<Rightarrow> True | Some v \<Rightarrow> v = [] \<or> alt_severity a = v) \<and>
            (case st of None \<Rightarrow> True | Some v \<Rightarrow> v = [] \<or> alt_status a = v)) (srv_store w))"
  using guarded_run[OF assms(1) assms(2)[unfolded list_alerts_def]]
  by (auto simp: alerts_tbl.open_select_by[OF assms(1)] alerts_viewed org_alerts_def)

text \<open>The counts, written over the committed rows.\<close>

definition dashboard_of :: "session \<Rightarrow> store \<Rightarrow> uuid \<Rightarrow> DashboardSummaryResponse" where
  "dashboard_of s st o' =
     (let own = filter (\<lambda>d. dev_organization_id d = o') (devices st); every = org_alerts o' (\<lambda>_. True) st in
       \<lparr>dbs_total_devices = length own, dbs_online_devices = length (filter dev_is_online own),
        dbs_offline_devices = length (filter (\<lambda>d. \<not> dev_is_online d) own),
        dbs_active_warning_alerts =
          length (org_alerts o' (\<lambda>a. alt_severity a = ''warning'' \<and> alt_status a = ''active'') st),
        dbs_active_critical_alerts =
          length (org_alerts o' (\<lambda>a. alt_severity a = ''critical'' \<and> alt_status a = ''active'') st),
        dbs_devices_needing_attention =
          card (alt_device_id ` {a \<in> set every. alt_status a \<in> {''active'', ''acknowledged''}}),
        dbs_recent_alerts = map (alert_view s) (take 10 every)\<rparr>)"

lemma dashboard_for_run:
  assumes w: "wf_server w"
  shows "dashboard_for o' (open_session w) = (Inr (dashboard_of (open_session w) (srv_store w) o'), open_session w)"
proof -
  let ?st = "srv_store w"
  let ?own = "filter (\<lambda>d. dev_organization_id d = o') (devices ?st)"
  have total: "db_count devices (\<lambda>d. dev_organization_id d = o') (open_session w) = length ?own"
    and online: "db_count devices (\<lambda>d. dev_organization_id d = o' \<and> dev_is_online d) (open_session w) =
      length (filter dev_is_online ?own)"
    by (simp_all add: db_count_def)
  have offline: "length ?own - length (filter dev_is_online ?own) = length (filter (\<lambda>d. \<not> dev_is_online d) ?own)"
    using sum_length_filter_compl[of dev_is_online ?own] by simp
  have count: "db_count alerts (\<lambda>a. alt_organization_id a = o' \<and> alt_status a = ''active'' \<and> alt_severity a = v)
      (open_session w) = length (org_alerts o' (\<lambda>a. alt_severity a = v \<and> alt_status a = ''active'') ?st)" for v
    by (simp add: db_count_def org_alerts_def conj_commute)
  have recent: "db_select_by alerts alt_id (\<lambda>a. - alt_last_seen_at a) (\<lambda>a. alt_organization_id a = o')
      (open_session w) = org_alerts o' (\<lambda>_. True) ?st"
    by (simp add: alerts_tbl.open_select_by[OF w] org_alerts_def)
  have attention: "length (remdups (map alt_device_id (filter (\<lambda>a. alt_organization_id a = o' \<and>
        alt_status a \<in> {''active'', ''acknowledged''}) (alerts ?st)))) =
      card (alt_device_id ` {a \<in> set (org_alerts o' (\<lambda>_. True) ?st). alt_status a \<in> {''active'', ''acknowledged''}})"
    unfolding length_remdups_card_conv org_alerts_def
    by (rule arg_cong[of _ _ card]) (auto simp: image_iff)
  show ?thesis
    unfolding dashboard_for_def dashboard_of_def Let_def
    by (simp only: andThen_gets gets_run total online count recent open_session_simps attention andThen_run alerts_viewed
        offline ret_run prod.case sum.case)
qed

lemma dashboard_run:
  assumes w: "wf_server w"
    and "run_request (dashboard_summary (require_authenticated_user rt cfg t cred)) w = (Inr d, w')"
  obtains current where "require_authenticated_user rt cfg t cred (open_session w) = (Inr current, open_session w)"
    and "w' = w" and "d = dashboard_of (open_session w) (srv_store w) (usr_organization_id current)"
  using guarded_run[OF w assms(2)[unfolded dashboard_summary_def]]
  by (auto simp: dashboard_for_run[OF w] server_unchanged)

lemma auth_same_users:
  assumes "wf_server w" and "wf_server w'" and "users (srv_store w') = users (srv_store w)"
    and "require_authenticated_user rt cfg t cred (open_session w) = (Inr current, open_session w)"
  shows "require_authenticated_user rt cfg t cred (open_session w') = (Inr current, open_session w')"
  using assms(3,4)
  by (auto simp: require_authenticated_user_def andThen_run users_tbl.open_get[OF assms(1)]
      users_tbl.open_get[OF assms(2)] split: option.splits if_splits prod.splits)

lemma image_Collect_image: "f ` {x \<in> g ` A. P x} = (\<lambda>a. f (g a)) ` {a \<in> A. P (g a)}"
  by blast

text \<open>C40. A dashboard read right after the devices were listed agrees with the lists: it
  counts the listed devices, those listed as online and the rest, the alerts the alert list
  answers for the two filters, and the devices with an open alert in the unfiltered list,
  whose first ten entries it shows. Reading it changes nothing.\<close>

theorem dashboard_matches_lists:
  assumes w: "wf_server w"
    and devs: "run_request (list_devices cfg now (require_authenticated_user rt cfg t cred)) w = (Inr ds, w')"
    and dash: "run_request (dashboard_summary (require_authenticated_user rt cfg t cred)) w' = (Inr d, w'')"
    and warn: "run_request (list_alerts (require_authenticated_user rt cfg t cred) (Some ''warning'') (Some ''active'') None) w' = (Inr warnings, w1)"
    and crit: "run_request (list_alerts (require_authenticated_user rt cfg t cred) (Some ''critical'') (Some ''active'') None) w' = (Inr criticals, w2)"
    and every: "run_request (list_alerts (require_authenticated_user rt cfg t cred) None None None) w' = (Inr xs, w3)"
  shows "w'' = w' \<and> dbs_total_devices d = length ds \<and>
     dbs_online_devices d = length (filter dsm_is_online ds) \<and>
     dbs_offline_devices d = length (filter (\<lambda>v. \<not> dsm_is_online v) ds) \<and>
     dbs_active_warning_alerts d = length warnings \<and> dbs_active_critical_alerts d = length criticals \<and>
     dbs_devices_needing_attention d =
       card (arp_device_id ` {x \<in> set xs. arp_status x \<in> {''active'', ''acknowledged''}}) \<and>
     dbs_recent_alerts d = take 10 xs"
proof -
  let ?auth = "require_authenticated_user rt cfg t cred"
  have w': "wf_server w'"
    using run_request_wf[OF wf_device_handlers(1)[OF keeps_authenticate] w] devs by (metis snd_conv)
  obtain current where cur: "?auth (open_session w) = (Inr current, open_session w)"
    and perm: "require_permission ''devices:read'' ?auth (open_session w) = (Inr current, open_session w)"
    using guarded_run[OF w devs[unfolded list_devices_def]] by metis
  let ?o = "usr_organization_id current"
  let ?own = "filter (\<lambda>d. dev_organization_id d = ?o) (devices (srv_store w'))"
  have ds: "ds = map summary (sort_key dev_hostname ?own)" and "users (srv_store w') = users (srv_store w)"
    using devs list_devices_run[OF w perm, of cfg now] by (auto simp: run_request_def Let_def)
  then have cur': "?auth (open_session w') = (Inr current, open_session w')"
    using cur by (intro auth_same_users[OF w w'])
  let ?view = "map (alert_view (open_session w'))"
  have d: "w'' = w'" "d = dashboard_of (open_session w') (srv_store w') ?o"
    using dashboard_run[OF w' dash] cur' by auto
  have ws: "warnings = ?view (org_alerts ?o (\<lambda>a. alt_severity a = ''warning'' \<and> alt_status a = ''active'') (srv_store w'))"
    using list_alerts_run[OF w' warn] cur' by auto
  have cs: "criticals = ?view (org_alerts ?o (\<lambda>a. alt_severity a = ''critical'' \<and> alt_status a = ''active'') (srv_store w'))"
    using list_alerts_run[OF w' crit] cur' by auto
  have xs: "xs = ?view (org_alerts ?o (\<lambda>_. True) (srv_store w'))"
    using list_alerts_run[OF w' every] cur' by auto
  have counts: "length (filter P ds) = length (filter (\<lambda>d. P (summary d)) ?own)" for P
    unfolding ds by (simp add: filter_map comp_def filter_sort del: filter_filter)
  have online: "dsm_is_online (summary d) = dev_is_online d" for d by (simp add: summary_def Let_def)
  have "arp_device_id ` {x \<in> set xs. arp_status x \<in> {''active'', ''acknowledged''}} =
      alt_device_id ` {a \<in> set (org_alerts ?o (\<lambda>_. True) (srv_store w')). alt_status a \<in> {''active'', ''acknowledged''}}"
    unfolding xs set_map image_Collect_image by (simp add: alert_view_def)
  then show ?thesis
    using counts[of dsm_is_online] counts[of "\<lambda>v. \<not> dsm_is_online v"]
    by (simp add: d dashboard_of_def Let_def ds ws cs xs online take_map del: filter_filter)
qed

theorem dashboard_matches_lists_witness:
  "\<exists>ds w' d w'' xs. run_request (list_devices default_settings 5 (require_authenticated_user sample_runtime
       default_settings 5 (Some (''Bearer'', ''access-token'')))) sample_server = (Inr ds, w') \<and>
     run_request (dashboard_summary (require_authenticated_user sample_runtime
       default_settings 5 (Some (''Bearer'', ''access-token'')))) w' = (Inr d, w'') \<and>
     dbs_total_devices d = length ds \<and> dbs_recent_alerts d = take 10 xs"
proof -
  let ?auth = "require_authenticated_user sample_runtime default_settings 5 (Some (''Bearer'', ''access-token''))"
  let ?st = "devices_update (map (sync_org default_settings 5 1)) sample_store"
  let ?w = "\<lparr>srv_store = ?st, srv_next_id = 100\<rparr>"
  have org: "usr_organization_id sample_owner = 1" by (simp add: sample_owner_def)
  obtain ds where ds: "run_request (list_devices default_settings 5 ?auth) sample_server = (Inr ds, ?w)"
    using list_devices_run[OF sample_wf sample_guard[OF dashboard_viewer(1)], of default_settings 5]
    by (simp add: run_request_def Let_def org sample_server_simps del: One_nat_def)
  have w': "wf_server ?w"
    using run_request_wf[OF wf_device_handlers(1)[OF keeps_authenticate] sample_wf] ds by (metis snd_conv)
  have cur: "?auth (open_session ?w) = (Inr sample_owner, open_session ?w)"
    by (rule auth_same_users[OF sample_wf w' _ sample_authenticates]) (simp add: sample_server_simps)
  then have guard: "require_permission perm ?auth (open_session ?w) = (Inr sample_owner, open_session ?w)"
    if "perm \<in> set (role_permissions (usr_role sample_owner))" for perm
    using that by (simp add: require_permission_def andThen_run)
  have d: "run_request (dashboard_summary ?auth) ?w = (Inr (dashboard_of (open_session ?w) ?st 1), ?w)"
    by (simp add: run_request_def dashboard_summary_def andThen_run guard[OF dashboard_viewer(2)]
        dashboard_for_run[OF w'] org server_unchanged del: One_nat_def)
  have lists: "\<exists>xs. run_request (list_alerts ?auth sv stt None) ?w = (Inr xs, ?w)" for sv stt
    by (simp add: run_request_def list_alerts_def andThen_run guard[OF dashboard_viewer(3)] alerts_viewed
        server_unchanged del: One_nat_def)
  obtain ws cs xs where "run_request (list_alerts ?auth (Some ''warning'') (Some ''active'') None) ?w = (Inr ws, ?w)"
    "run_request (list_alerts ?auth (Some ''critical'') (Some ''active'') None) ?w = (Inr cs, ?w)"
    "run_request (list_alerts ?auth None None None) ?w = (Inr xs, ?w)"
    using lists by metis
  from dashboard_matches_lists[OF sample_wf ds d this] ds d show ?thesis by blast
qed

end
