(* ===== verification/OperationsSchemas.thy ===== *)
theory OperationsSchemas
  imports Devices
begin

text \<open>
  The request bodies of \<^verbatim>\<open>backend/app/api/operations.py\<close> and
  \<^verbatim>\<open>backend/app/api/phase3.py\<close> with the field constraints pydantic validates, the
  vocabularies of both files, and the JSON texts their answers are made of. The answers are
  dictionaries; they are modelled as the JSON objects FastAPI encodes them to.
\<close>

subsection \<open>JSON values of the answers\<close>

definition json_id :: "uuid \<Rightarrow> json" where
  "json_id i = JStr (uuid_str i)"

definition json_opt_id :: "uuid option \<Rightarrow> json" where
  "json_opt_id v = (case v of None \<Rightarrow> JNull | Some i \<Rightarrow> json_id i)"

definition date_iso :: "date \<Rightarrow> string" where
  "date_iso day = (case civil_date day of (y, m, d) \<Rightarrow>
     pad_int 4 y @ ''-'' @ pad_int 2 m @ ''-'' @ pad_int 2 d)"

definition json_opt_date :: "date option \<Rightarrow> json" where
  "json_opt_date v = (case v of None \<Rightarrow> JNull | Some d \<Rightarrow> JStr (date_iso d))"

definition json_time :: "datetime \<Rightarrow> json" where
  "json_time t = JStr (isoformat t)"

definition json_opt_time :: "datetime option \<Rightarrow> json" where
  "json_opt_time v = (case v of None \<Rightarrow> JNull | Some t \<Rightarrow> json_time t)"

definition json_texts :: "string list \<Rightarrow> json" where
  "json_texts xs = JArr (map JStr xs)"

subsection \<open>Vocabularies\<close>

definition ASSET_STATUSES :: "string list" where
  "ASSET_STATUSES = [''Active'', ''Spare'', ''Repair'', ''Retired'', ''Lost'', ''Disposal'']"

definition TICKET_STATUSES :: "string list" where
  "TICKET_STATUSES = [''New'', ''Open'', ''In Progress'', ''Waiting'', ''Resolved'', ''Closed'']"

definition TICKET_PRIORITIES :: "string list" where
  "TICKET_PRIORITIES = [''Low'', ''Medium'', ''High'', ''Critical'']"

definition DISCOVERY_TYPES :: "string list" where
  "DISCOVERY_TYPES = [''network_discovery'', ''arp_scan'', ''dns_discovery'', ''snmp_discovery'']"

definition REPORT_TYPES :: "string list" where
  "REPORT_TYPES = [''executive_summary'', ''device_inventory'', ''asset_inventory'', ''warranty_report'',
     ''alert_summary'', ''ticket_summary'', ''security_status_report'']"

subsection \<open>Assets and documentation\<close>

record AssetRequest =
  asq_asset_tag :: string
  asq_name :: string
  asq_device_id :: "uuid option"
  asq_serial_number :: "string option"
  asq_manufacturer :: "string option"
  asq_model :: "string option"
  asq_purchase_date :: "date option"
  asq_purchase_cost :: "decimal option"
  asq_vendor :: "string option"
  asq_warranty_expiration :: "date option"
  asq_assigned_user :: "string option"
  asq_department :: "string option"
  asq_location :: "string option"
  asq_status :: string
  asq_notes :: "string option"

definition valid_AssetRequest :: "AssetRequest \<Rightarrow> bool" where
  "valid_AssetRequest p \<longleftrightarrow> len_between 1 128 (asq_asset_tag p) \<and> len_between 1 255 (asq_name p) \<and>
     opt_max 255 (asq_serial_number p) \<and> opt_max 255 (asq_manufacturer p) \<and> opt_max 255 (asq_model p) \<and>
     opt_max 255 (asq_vendor p) \<and> opt_max 255 (asq_assigned_user p) \<and> opt_max 255 (asq_department p) \<and>
     opt_max 255 (asq_location p)"

definition valid_AssetBulkImportRequest :: "AssetRequest list \<Rightarrow> bool" where
  "valid_AssetBulkImportRequest items \<longleftrightarrow> 1 \<le> length items \<and> length items \<le> 500 \<and>
     list_all valid_AssetRequest items"

record CompanyRequest =
  cmq_name :: string
  cmq_notes :: "string option"

definition valid_CompanyRequest :: "CompanyRequest \<Rightarrow> bool" where
  "valid_CompanyRequest p \<longleftrightarrow> len_between 1 255 (cmq_name p)"

record ArticleRequest =
  arq_title :: string
  arq_body_markdown :: string
  arq_company_id :: "uuid option"
  arq_category_name :: "string option"
  arq_tags :: "string list"

definition valid_ArticleRequest :: "ArticleRequest \<Rightarrow> bool" where
  "valid_ArticleRequest p \<longleftrightarrow> len_between 1 255 (arq_title p) \<and> arq_body_markdown p \<noteq> [] \<and>
     opt_max 255 (arq_category_name p) \<and> length (arq_tags p) \<le> 50"

subsection \<open>Discovery and tickets\<close>

record DiscoveryScanRequest =
  dsq_scan_type :: string
  dsq_device_id :: "uuid option"
  dsq_scheduled_for :: "datetime option"

definition valid_DiscoveryScanRequest :: "DiscoveryScanRequest \<Rightarrow> bool" where
  "valid_DiscoveryScanRequest p \<longleftrightarrow> dsq_scan_type p \<in>
     {''network_discovery'', ''arp_scan'', ''dns_discovery'', ''snmp_discovery''}"

record DiscoveredDeviceRequest =
  ddq_ip_address :: string
  ddq_hostname :: "string option"
  ddq_mac_address :: "string option"
  ddq_vendor :: "string option"
  ddq_open_ports :: "int list"
  ddq_snmp_data :: json_dict

definition valid_DiscoveredDeviceRequest :: "DiscoveredDeviceRequest \<Rightarrow> bool" where
  "valid_DiscoveredDeviceRequest p \<longleftrightarrow> len_between 1 64 (ddq_ip_address p) \<and>
     opt_max 255 (ddq_hostname p) \<and> opt_max 64 (ddq_mac_address p) \<and> opt_max 255 (ddq_vendor p) \<and>
     length (ddq_open_ports p) \<le> 256"

record TicketRequest =
  tkq_title :: string
  tkq_description :: "string option"
  tkq_device_id :: "uuid option"
  tkq_asset_id :: "uuid option"
  tkq_company_id :: "uuid option"
  tkq_alert_id :: "uuid option"
  tkq_assigned_user_id :: "uuid option"
  tkq_status :: string
  tkq_priority :: string

definition valid_TicketRequest :: "TicketRequest \<Rightarrow> bool" where
  "valid_TicketRequest p \<longleftrightarrow> len_between 1 255 (tkq_title p)"

record TicketCommentRequest =
  tcq_body :: string
  tcq_internal :: bool

definition valid_TicketCommentRequest :: "TicketCommentRequest \<Rightarrow> bool" where
  "valid_TicketCommentRequest p \<longleftrightarrow> tcq_body p \<noteq> []"

record TicketTimeEntryRequest =
  ttq_minutes :: int
  ttq_notes :: "string option"

definition valid_TicketTimeEntryRequest :: "TicketTimeEntryRequest \<Rightarrow> bool" where
  "valid_TicketTimeEntryRequest p \<longleftrightarrow> 0 < ttq_minutes p \<and> ttq_minutes p \<le> 1440"

subsection \<open>The query assistant and reports\<close>

definition valid_AIQueryRequest :: "string \<Rightarrow> bool" where
  "valid_AIQueryRequest query \<longleftrightarrow> len_between 1 500 query"

record ReportTemplateRequest =
  rtq_name :: string
  rtq_report_type :: string
  rtq_config :: json_dict

definition valid_ReportTemplateRequest :: "ReportTemplateRequest \<Rightarrow> bool" where
  "valid_ReportTemplateRequest p \<longleftrightarrow> len_between 1 255 (rtq_name p)"

record ReportRunRequest =
  rrq_template_id :: "uuid option"
  rrq_report_type :: "string option"
  rrq_format :: string

definition valid_ReportRunRequest :: "ReportRunRequest \<Rightarrow> bool" where
  "valid_ReportRunRequest p \<longleftrightarrow> rrq_format p \<in> {''csv'', ''pdf''}"

record ReportScheduleRequest =
  rsq_template_id :: uuid
  rsq_cron :: string
  rsq_enabled :: bool
  rsq_email_recipients :: "string list"

definition valid_ReportScheduleRequest :: "ReportScheduleRequest \<Rightarrow> bool" where
  "valid_ReportScheduleRequest p \<longleftrightarrow> len_between 1 128 (rsq_cron p)"

end
