(* ===== verification/Operations.thy ===== *)
theory Operations
  imports OperationsSchemas
begin

text \<open>
  The operations API, \<^verbatim>\<open>backend/app/api/operations.py\<close>: assets, documentation, network
  discovery, tickets, the query assistant and reports. Every handler is scoped to the
  organization of the operator; the properties state this for all of them at once.
\<close>

subsection \<open>The tables\<close>

abbreviation assets_at :: "store \<Rightarrow> asset list" where "assets_at \<equiv> \<lambda>st. assets (phase2 st)"
abbreviation assets_upd where "assets_upd \<equiv> \<lambda>f. phase2_update (assets_update f)"
abbreviation companies_at :: "store \<Rightarrow> company list" where "companies_at \<equiv> \<lambda>st. companies (phase2 st)"
abbreviation companies_upd where "companies_upd \<equiv> \<lambda>f. phase2_update (companies_update f)"
abbreviation categories_at :: "store \<Rightarrow> documentation_category list" where
  "categories_at \<equiv> \<lambda>st. documentation_categories (phase2 st)"
abbreviation categories_upd where "categories_upd \<equiv> \<lambda>f. phase2_update (documentation_categories_update f)"
abbreviation articles_at :: "store \<Rightarrow> documentation_article list" where
  "articles_at \<equiv> \<lambda>st. documentation_articles (phase2 st)"
abbreviation articles_upd where "articles_upd \<equiv> \<lambda>f. phase2_update (documentation_articles_update f)"
abbreviation scans_at :: "store \<Rightarrow> discovery_scan list" where "scans_at \<equiv> \<lambda>st. discovery_scans (phase2 st)"
abbreviation scans_upd where "scans_upd \<equiv> \<lambda>f. phase2_update (discovery_scans_update f)"
abbreviation discovered_at :: "store \<Rightarrow> discovered_device list" where
  "discovered_at \<equiv> \<lambda>st. discovered_devices (phase2 st)"
abbreviation discovered_upd where "discovered_upd \<equiv> \<lambda>f. phase2_update (discovered_devices_update f)"
abbreviation tickets_at :: "store \<Rightarrow> ticket list" where "tickets_at \<equiv> \<lambda>st. tickets (phase2 st)"
abbreviation tickets_upd where "tickets_upd \<equiv> \<lambda>f. phase2_update (tickets_update f)"
abbreviation comments_upd where "comments_upd \<equiv> \<lambda>f. phase2_update (ticket_comments_update f)"
abbreviation time_entries_upd where "time_entries_upd \<equiv> \<lambda>f. phase2_update (ticket_time_entries_update f)"
abbreviation conversations_upd where "conversations_upd \<equiv> \<lambda>f. phase2_update (ai_conversations_update f)"
abbreviation messages_upd where "messages_upd \<equiv> \<lambda>f. phase2_update (ai_messages_update f)"
abbreviation insights_upd where "insights_upd \<equiv> \<lambda>f. phase2_update (ai_insights_update f)"
abbreviation templates_at :: "store \<Rightarrow> report_template list" where
  "templates_at \<equiv> \<lambda>st. report_templates (phase2 st)"
abbreviation templates_upd where "templates_upd \<equiv> \<lambda>f. phase2_update (report_templates_update f)"
abbreviation runs_upd where "runs_upd \<equiv> \<lambda>f. phase2_update (report_runs_update f)"
abbreviation schedules_upd where "schedules_upd \<equiv> \<lambda>f. phase2_update (report_schedules_update f)"

subsection \<open>Shared steps\<close>

definition user_audit :: "datetime \<Rightarrow> user \<Rightarrow> string \<Rightarrow> string \<Rightarrow> string option \<Rightarrow> json_dict \<Rightarrow> unit db_op" where
  "user_audit now user action target_type target_id metadata =
     andThen (insert_row audit_logs_update (\<lambda>i.
       \<lparr>aud_id = i, aud_organization_id = usr_organization_id user,
        aud_actor_user_id = Some (usr_id user), aud_action = action,
        aud_target_type = target_type, aud_target_id = target_id,
        aud_metadata_json = metadata, aud_created_at = now\<rparr>)) (\<lambda>_. ret ())"

definition ensure_device :: "user \<Rightarrow> uuid option \<Rightarrow> device option db_op" where
  "ensure_device user device_id =
     (case device_id of
        None \<Rightarrow> ret None
      | Some i \<Rightarrow>
          andThen (gets (db_get devices dev_id i)) (\<lambda>found.
          case found of
            None \<Rightarrow> raise (HTTPException 404 ''Device not found'')
          | Some device \<Rightarrow>
              if dev_organization_id device \<noteq> usr_organization_id user
              then raise (HTTPException 404 ''Device not found'') else ret (Some device)))"

text \<open>
  \<open>db.add(row); db.flush(); audit(...); db.commit(); return ...\<close>, the steps every creating
  handler ends with.
\<close>

definition create_row ::
  "(('r list \<Rightarrow> 'r list) \<Rightarrow> store \<Rightarrow> store) \<Rightarrow> (uuid \<Rightarrow> 'r) \<Rightarrow> ('r \<Rightarrow> unit db_op) \<Rightarrow> ('r \<Rightarrow> 'a) \<Rightarrow> 'a db_op" where
  "create_row u mk entry answer =
     andThen (insert_row u mk) (\<lambda>r.
     andThen db_flush (\<lambda>_.
     andThen (entry r) (\<lambda>_.
     andThen db_commit (\<lambda>_. ret (answer r)))))"

text \<open>\<open>a or b\<close> on optional texts.\<close>

definition text_or :: "string option \<Rightarrow> string option \<Rightarrow> string option" where
  "text_or a b = (case a of None \<Rightarrow> b | Some s \<Rightarrow> if s = [] then b else a)"

subsection \<open>Assets\<close>

definition asset_to_dict :: "asset \<Rightarrow> json_dict" where
  "asset_to_dict asset =
     [(''id'', json_id (ast_id asset)), (''organization_id'', json_id (ast_organization_id asset)),
      (''device_id'', json_opt_id (ast_device_id asset)), (''asset_tag'', JStr (ast_asset_tag asset)),
      (''name'', JStr (ast_name asset)), (''serial_number'', json_text (ast_serial_number asset)),
      (''manufacturer'', json_text (ast_manufacturer asset)), (''model'', json_text (ast_model asset)),
      (''purchase_date'', json_opt_date (ast_purchase_date asset)),
      (''purchase_cost'', json_text (ast_purchase_cost asset)), (''vendor'', json_text (ast_vendor asset)),
      (''warranty_expiration'', json_opt_date (ast_warranty_expiration asset)),
      (''assigned_user'', json_text (ast_assigned_user asset)),
      (''department'', json_text (ast_department asset)), (''location'', json_text (ast_location asset)),
      (''status'', JStr (ast_status asset)), (''notes'', json_text (ast_notes asset))]"

definition list_assets :: "user db_op \<Rightarrow> json_dict list db_op" where
  "list_assets auth =
     andThen (require_permission ''assets:read'' auth) (\<lambda>current.
     andThen (gets (db_select_by assets_at ast_id ast_asset_tag
        (\<lambda>a. ast_organization_id a = usr_organization_id current))) (\<lambda>rows.
     ret (map asset_to_dict rows)))"

text \<open>The row of an import; \<open>create_asset\<close> fills three columns from the device's data.\<close>

definition imported_asset :: "datetime \<Rightarrow> uuid \<Rightarrow> AssetRequest \<Rightarrow> uuid \<Rightarrow> asset" where
  "imported_asset now organization_id item i =
     \<lparr>ast_id = i, ast_organization_id = organization_id, ast_device_id = asq_device_id item,
      ast_asset_type_id = None, ast_asset_tag = asq_asset_tag item, ast_name = asq_name item,
      ast_serial_number = asq_serial_number item, ast_manufacturer = asq_manufacturer item,
      ast_model = asq_model item, ast_purchase_date = asq_purchase_date item,
      ast_purchase_cost = asq_purchase_cost item, ast_vendor = asq_vendor item,
      ast_warranty_expiration = asq_warranty_expiration item,
      ast_assigned_user = asq_assigned_user item, ast_department = asq_department item,
      ast_location = asq_location item, ast_status = asq_status item, ast_notes = asq_notes item,
      ast_created_at = now\<rparr>"

definition new_asset ::
  "datetime \<Rightarrow> uuid \<Rightarrow> AssetRequest \<Rightarrow> device option \<Rightarrow> device_inventory option \<Rightarrow> uuid \<Rightarrow> asset" where
  "new_asset now organization_id payload device inventory i =
     (imported_asset now organization_id payload i)
       \<lparr>ast_serial_number := text_or (asq_serial_number payload) (map_option dev_machine_identifier device),
        ast_manufacturer := text_or (asq_manufacturer payload) (Option.bind inventory inv_system_manufacturer),
        ast_model := text_or (asq_model payload) (Option.bind inventory inv_system_model)\<rparr>"

definition create_asset :: "datetime \<Rightarrow> user db_op \<Rightarrow> AssetRequest \<Rightarrow> json_dict db_op" where
  "create_asset now auth payload =
     andThen (require_permission ''assets:write'' auth) (\<lambda>current.
     if asq_status payload \<notin> set ASSET_STATUSES then raise (HTTPException 400 ''Invalid asset status'')
     else andThen (ensure_device current (asq_device_id payload)) (\<lambda>device.
          andThen (case device of None \<Rightarrow> ret None
                   | Some d \<Rightarrow> gets (db_scalar device_inventories inv_id
                       (\<lambda>i. inv_device_id i = dev_id d))) (\<lambda>inventory.
          create_row assets_upd (new_asset now (usr_organization_id current) payload device inventory)
            (\<lambda>asset. user_audit now current ''asset.created'' ''asset'' (Some (uuid_str (ast_id asset)))
               [(''asset_tag'', JStr (ast_asset_tag asset))])
            asset_to_dict)))"

definition bulk_import_assets :: "datetime \<Rightarrow> user db_op \<Rightarrow> AssetRequest list \<Rightarrow> json_dict db_op" where
  "bulk_import_assets now auth items =
     andThen (require_permission ''assets:write'' auth) (\<lambda>current.
     andThen (map_each items (\<lambda>item.
        if asq_status item \<notin> set ASSET_STATUSES then raise (HTTPException 400 ''Invalid asset status'')
        else insert_row assets_upd (imported_asset now (usr_organization_id current) item))) (\<lambda>created.
     andThen db_flush (\<lambda>_.
     andThen (user_audit now current ''asset.bulk_imported'' ''asset'' None
        [(''count'', JInt (int (length created)))]) (\<lambda>_.
     andThen db_commit (\<lambda>_.
     ret [(''created'', JInt (int (length created))),
          (''assets'', JArr (map (\<lambda>a. JObj (asset_to_dict a)) created))])))))"

definition warranty_alerts :: "date \<Rightarrow> user db_op \<Rightarrow> json_dict db_op" where
  "warranty_alerts today auth =
     andThen (require_permission ''assets:read'' auth) (\<lambda>current.
     let soon = today + 30 in
     andThen (gets (db_select assets_at ast_id (\<lambda>a. ast_organization_id a = usr_organization_id current \<and>
        (case ast_warranty_expiration a of None \<Rightarrow> False | Some d \<Rightarrow> today \<le> d \<and> d \<le> soon)))) (\<lambda>expiring.
     andThen (gets (db_select assets_at ast_id (\<lambda>a. ast_organization_id a = usr_organization_id current \<and>
        (case ast_warranty_expiration a of None \<Rightarrow> False | Some d \<Rightarrow> d < today)))) (\<lambda>expired.
     ret [(''expiring_30_days'', JArr (map (\<lambda>a. JObj (asset_to_dict a)) expiring)),
          (''expired'', JArr (map (\<lambda>a. JObj (asset_to_dict a)) expired))])))"

subsection \<open>Documentation\<close>

definition company_dict :: "company \<Rightarrow> json_dict" where
  "company_dict c = [(''id'', json_id (cmp_id c)), (''name'', JStr (cmp_name c)), (''notes'', json_text (cmp_notes c))]"

definition list_companies :: "user db_op \<Rightarrow> json_dict list db_op" where
  "list_companies auth =
     andThen (require_permission ''documentation:read'' auth) (\<lambda>current.
     andThen (gets (db_select_by companies_at cmp_id cmp_name
        (\<lambda>c. cmp_organization_id c = usr_organization_id current))) (\<lambda>rows.
     ret (map company_dict rows)))"

definition create_company :: "datetime \<Rightarrow> user db_op \<Rightarrow> CompanyRequest \<Rightarrow> json_dict db_op" where
  "create_company now auth payload =
     andThen (require_permission ''documentation:write'' auth) (\<lambda>current.
     create_row companies_upd (\<lambda>i. \<lparr>cmp_id = i, cmp_organization_id = usr_organization_id current,
         cmp_name = cmq_name payload, cmp_notes = cmq_notes payload, cmp_created_at = now\<rparr>)
       (\<lambda>company. user_audit now current ''company.created'' ''company'' (Some (uuid_str (cmp_id company))) [])
       company_dict)"

text \<open>
  \<open>column.ilike(pattern)\<close>: \<open>%\<close> matches any text, \<open>_\<close> any character, a backslash makes
  the next character literal; letters match in either case.
\<close>

function like_match :: "string \<Rightarrow> string \<Rightarrow> bool" where
  "like_match [] s = (s = [])"
| "like_match (c # p) s =
     (if c = CHR ''%'' then like_match p s \<or> (case s of [] \<Rightarrow> False | _ # t \<Rightarrow> like_match (c # p) t)
      else if c = CHR ''_'' then (case s of [] \<Rightarrow> False | _ # t \<Rightarrow> like_match p t)
      else if c = CHR 0x5C then
        (case (p, s) of (d # q, e # t) \<Rightarrow> d = e \<and> like_match q t | _ \<Rightarrow> False)
      else (case s of [] \<Rightarrow> False | d # t \<Rightarrow> c = d \<and> like_match p t))"
  by pat_completeness auto
termination by (relation "measure (\<lambda>(p, s). length p + length s)") auto

definition ilike :: "string \<Rightarrow> string \<Rightarrow> bool" where
  "ilike pattern s = like_match (py_lower pattern) (py_lower s)"

definition article_dict :: "documentation_article \<Rightarrow> json_dict" where
  "article_dict a =
     [(''id'', json_id (dar_id a)), (''title'', JStr (dar_title a)), (''body_markdown'', JStr (dar_body_markdown a)),
      (''tags'', json_texts (dar_tags a)), (''version'', JInt (dar_version a))]"

text \<open>No handler updates an article, so \<open>updated_at\<close> is its creation time.\<close>

definition search_articles :: "user db_op \<Rightarrow> string option \<Rightarrow> json_dict list db_op" where
  "search_articles auth q =
     andThen (require_permission ''documentation:read'' auth) (\<lambda>current.
     andThen (gets (db_select_by articles_at dar_id (\<lambda>a. - dar_created_at a)
        (\<lambda>a. dar_organization_id a = usr_organization_id current \<and>
           (case q of None \<Rightarrow> True | Some v \<Rightarrow> v = [] \<or>
              ilike (''%'' @ v @ ''%'') (dar_title a) \<or> ilike (''%'' @ v @ ''%'') (dar_body_markdown a))))) (\<lambda>rows.
     ret (map article_dict rows)))"

text \<open>The category named in the request, created on first use.\<close>

definition article_category :: "datetime \<Rightarrow> user \<Rightarrow> string option \<Rightarrow> uuid option db_op" where
  "article_category now current category_name =
     (case category_name of
        None \<Rightarrow> ret None
      | Some name \<Rightarrow>
          if name = [] then ret None
          else andThen (gets (db_scalar categories_at dcg_id (\<lambda>c.
                 dcg_organization_id c = usr_organization_id current \<and> dcg_name c = name))) (\<lambda>found.
               case found of
                 Some category \<Rightarrow> ret (Some (dcg_id category))
               | None \<Rightarrow>
                   andThen (insert_row categories_upd (\<lambda>i. \<lparr>dcg_id = i,
                      dcg_organization_id = usr_organization_id current, dcg_name = name,
                      dcg_created_at = now\<rparr>)) (\<lambda>category.
                   andThen db_flush (\<lambda>_. ret (Some (dcg_id category))))))"

definition create_article :: "datetime \<Rightarrow> user db_op \<Rightarrow> ArticleRequest \<Rightarrow> json_dict db_op" where
  "create_article now auth payload =
     andThen (require_permission ''documentation:write'' auth) (\<lambda>current.
     andThen (article_category now current (arq_category_name payload)) (\<lambda>category_id.
     create_row articles_upd (\<lambda>i. \<lparr>dar_id = i, dar_organization_id = usr_organization_id current,
         dar_company_id = arq_company_id payload, dar_category_id = category_id,
         dar_title = arq_title payload, dar_body_markdown = arq_body_markdown payload,
         dar_tags = arq_tags payload, dar_version = 1, dar_created_at = now\<rparr>)
       (\<lambda>a. user_audit now current ''documentation.article.created'' ''documentation_article''
          (Some (uuid_str (dar_id a))) [])
       (\<lambda>a. [(''id'', json_id (dar_id a)), (''title'', JStr (dar_title a)), (''version'', JInt (dar_version a)),
             (''tags'', json_texts (dar_tags a))])))"

subsection \<open>Discovery\<close>

definition list_scans :: "user db_op \<Rightarrow> json_dict list db_op" where
  "list_scans auth =
     andThen (require_permission ''discovery:read'' auth) (\<lambda>current.
     andThen (gets (db_select_by scans_at dsn_id (\<lambda>s. - dsn_created_at s)
        (\<lambda>s. dsn_organization_id s = usr_organization_id current))) (\<lambda>rows.
     ret (map (\<lambda>s. [(''id'', json_id (dsn_id s)), (''scan_type'', JStr (dsn_scan_type s)),
       (''status'', JStr (dsn_status s)), (''device_id'', json_opt_id (dsn_device_id s)),
       (''scheduled_for'', json_opt_time (dsn_scheduled_for s))]) rows)))"

definition create_scan :: "datetime \<Rightarrow> user db_op \<Rightarrow> DiscoveryScanRequest \<Rightarrow> json_dict db_op" where
  "create_scan now auth payload =
     andThen (require_permission ''discovery:write'' auth) (\<lambda>current.
     andThen (ensure_device current (dsq_device_id payload)) (\<lambda>_.
     create_row scans_upd (\<lambda>i. \<lparr>dsn_id = i, dsn_organization_id = usr_organization_id current,
         dsn_device_id = dsq_device_id payload, dsn_scan_type = dsq_scan_type payload,
         dsn_status = (if dsq_scheduled_for payload \<noteq> None then ''scheduled'' else ''manual''),
         dsn_scheduled_for = dsq_scheduled_for payload, dsn_completed_at = None, dsn_created_at = now\<rparr>)
       (\<lambda>s. user_audit now current ''discovery.scan.created'' ''discovery_scan'' (Some (uuid_str (dsn_id s)))
          [(''scan_type'', JStr (dsn_scan_type s))])
       (\<lambda>s. [(''id'', json_id (dsn_id s)), (''scan_type'', JStr (dsn_scan_type s)), (''status'', JStr (dsn_status s))])))"

definition list_discovered :: "user db_op \<Rightarrow> json_dict list db_op" where
  "list_discovered auth =
     andThen (require_permission ''discovery:read'' auth) (\<lambda>current.
     andThen (gets (db_select_by discovered_at dcd_id (\<lambda>d. - dcd_last_seen_at d)
        (\<lambda>d. dcd_organization_id d = usr_organization_id current))) (\<lambda>rows.
     ret (map (\<lambda>d. [(''id'', json_id (dcd_id d)), (''ip_address'', JStr (dcd_ip_address d)),
       (''hostname'', json_text (dcd_hostname d)), (''mac_address'', json_text (dcd_mac_address d)),
       (''vendor'', json_text (dcd_vendor d)), (''open_ports'', JArr (map JInt (dcd_open_ports d))),
       (''last_seen_at'', json_time (dcd_last_seen_at d))]) rows)))"

definition create_discovered :: "datetime \<Rightarrow> user db_op \<Rightarrow> DiscoveredDeviceRequest \<Rightarrow> json_dict db_op" where
  "create_discovered now auth payload =
     andThen (require_permission ''discovery:write'' auth) (\<lambda>current.
     create_row discovered_upd (\<lambda>i. \<lparr>dcd_id = i, dcd_organization_id = usr_organization_id current,
         dcd_asset_id = None, dcd_ip_address = ddq_ip_address payload, dcd_hostname = ddq_hostname payload,
         dcd_mac_address = ddq_mac_address payload, dcd_vendor = ddq_vendor payload,
         dcd_open_ports = ddq_open_ports payload, dcd_snmp_data = ddq_snmp_data payload,
         dcd_last_seen_at = now, dcd_created_at = now\<rparr>)
       (\<lambda>d. user_audit now current ''discovery.device.created'' ''discovered_device'' (Some (uuid_str (dcd_id d)))
          [(''ip_address'', JStr (dcd_ip_address d))])
       (\<lambda>d. [(''id'', json_id (dcd_id d)), (''ip_address'', JStr (dcd_ip_address d)),
             (''hostname'', json_text (dcd_hostname d))]))"

subsection \<open>Tickets\<close>

definition list_tickets :: "user db_op \<Rightarrow> json_dict list db_op" where
  "list_tickets auth =
     andThen (require_permission ''tickets:read'' auth) (\<lambda>current.
     andThen (gets (db_select_by tickets_at tkt_id (\<lambda>t. - tkt_created_at t)
        (\<lambda>t. tkt_organization_id t = usr_organization_id current))) (\<lambda>rows.
     ret (map (\<lambda>t. [(''id'', json_id (tkt_id t)), (''title'', JStr (tkt_title t)),
       (''status'', JStr (tkt_status t)), (''priority'', JStr (tkt_priority t)),
       (''assigned_user_id'', json_opt_id (tkt_assigned_user_id t))]) rows)))"

definition create_ticket :: "datetime \<Rightarrow> user db_op \<Rightarrow> TicketRequest \<Rightarrow> json_dict db_op" where
  "create_ticket now auth payload =
     andThen (require_permission ''tickets:write'' auth) (\<lambda>current.
     if tkq_status payload \<notin> set TICKET_STATUSES \<or> tkq_priority payload \<notin> set TICKET_PRIORITIES
     then raise (HTTPException 400 ''Invalid ticket status or priority'')
     else andThen (ensure_device current (tkq_device_id payload)) (\<lambda>_.
          create_row tickets_upd (\<lambda>i. \<lparr>tkt_id = i, tkt_organization_id = usr_organization_id current,
              tkt_device_id = tkq_device_id payload, tkt_asset_id = tkq_asset_id payload,
              tkt_company_id = tkq_company_id payload, tkt_alert_id = tkq_alert_id payload,
              tkt_assigned_user_id = tkq_assigned_user_id payload, tkt_title = tkq_title payload,
              tkt_description = tkq_description payload, tkt_status = tkq_status payload,
              tkt_priority = tkq_priority payload, tkt_created_at = now\<rparr>)
            (\<lambda>t. user_audit now current ''ticket.created'' ''ticket'' (Some (uuid_str (tkt_id t)))
               [(''priority'', JStr (tkt_priority t))])
            (\<lambda>t. [(''id'', json_id (tkt_id t)), (''title'', JStr (tkt_title t)),
                  (''status'', JStr (tkt_status t)), (''priority'', JStr (tkt_priority t))])))"

definition own_ticket :: "user \<Rightarrow> uuid \<Rightarrow> ticket db_op" where
  "own_ticket current ticket_id =
     andThen (gets (db_get tickets_at tkt_id ticket_id)) (\<lambda>found.
     case found of
       None \<Rightarrow> raise (HTTPException 404 ''Ticket not found'')
     | Some t \<Rightarrow>
         if tkt_organization_id t \<noteq> usr_organization_id current
         then raise (HTTPException 404 ''Ticket not found'') else ret t)"

definition add_ticket_comment :: "datetime \<Rightarrow> user db_op \<Rightarrow> uuid \<Rightarrow> TicketCommentRequest \<Rightarrow> json_dict db_op" where
  "add_ticket_comment now auth ticket_id payload =
     andThen (require_permission ''tickets:write'' auth) (\<lambda>current.
     andThen (own_ticket current ticket_id) (\<lambda>t.
     create_row comments_upd (\<lambda>i. \<lparr>tkc_id = i, tkc_organization_id = usr_organization_id current,
         tkc_ticket_id = tkt_id t, tkc_author_user_id = Some (usr_id current), tkc_body = tcq_body payload,
         tkc_internal = tcq_internal payload, tkc_created_at = now\<rparr>)
       (\<lambda>_. user_audit now current ''ticket.comment.created'' ''ticket'' (Some (uuid_str (tkt_id t)))
          [(''internal'', JBool (tcq_internal payload))])
       (\<lambda>c. [(''id'', json_id (tkc_id c)), (''ticket_id'', json_id (tkt_id t)), (''internal'', JBool (tkc_internal c))])))"

definition add_ticket_time :: "datetime \<Rightarrow> user db_op \<Rightarrow> uuid \<Rightarrow> TicketTimeEntryRequest \<Rightarrow> json_dict db_op" where
  "add_ticket_time now auth ticket_id payload =
     andThen (require_permission ''tickets:write'' auth) (\<lambda>current.
     andThen (own_ticket current ticket_id) (\<lambda>t.
     create_row time_entries_upd (\<lambda>i. \<lparr>tke_id = i, tke_organization_id = usr_organization_id current,
         tke_ticket_id = tkt_id t, tke_user_id = Some (usr_id current), tke_minutes = ttq_minutes payload,
         tke_notes = ttq_notes payload, tke_created_at = now\<rparr>)
       (\<lambda>_. user_audit now current ''ticket.time.created'' ''ticket'' (Some (uuid_str (tkt_id t)))
          [(''minutes'', JInt (ttq_minutes payload))])
       (\<lambda>e. [(''id'', json_id (tke_id e)), (''ticket_id'', json_id (tkt_id t)), (''minutes'', JInt (tke_minutes e))])))"

subsection \<open>The query assistant\<close>

text \<open>\<open>part in text\<close>\<close>

fun contains_text :: "string \<Rightarrow> string \<Rightarrow> bool" where
  "contains_text part [] = (part = [])"
| "contains_text part (c # s) = (starts_with part (c # s) \<or> contains_text part s)"

definition ai_answer :: "date \<Rightarrow> user \<Rightarrow> string \<Rightarrow> session \<Rightarrow> string" where
  "ai_answer today current query s =
     (if contains_text ''offline'' query then
        int_str (int (db_count devices (\<lambda>d. dev_organization_id d = usr_organization_id current \<and>
          \<not> dev_is_online d) s)) @ '' devices are currently offline.''
      else if contains_text ''critical alert'' query then
        int_str (int (db_count alerts (\<lambda>a. alt_organization_id a = usr_organization_id current \<and>
          alt_severity a = ''critical'' \<and> alt_status a = ''active'') s)) @ '' active critical alerts need attention.''
      else if contains_text ''warrant'' query then
        int_str (int (db_count assets_at (\<lambda>a. ast_organization_id a = usr_organization_id current \<and>
          (case ast_warranty_expiration a of None \<Rightarrow> False | Some d \<Rightarrow> d \<le> today + 30)) s)) @
          '' assets have expired or expiring warranties within 30 days.''
      else if contains_text ''ticket'' query \<and> contains_text ''assigned'' query then
        int_str (int (db_count tickets_at (\<lambda>t. tkt_organization_id t = usr_organization_id current \<and>
          tkt_assigned_user_id t = Some (usr_id current)) s)) @ '' tickets are assigned to you.''
      else ''I can summarize devices, alerts, warranties, and assigned tickets from tenant-scoped platform data. External LLM providers are not enabled yet.'')"

definition new_message :: "datetime \<Rightarrow> uuid \<Rightarrow> uuid \<Rightarrow> string \<Rightarrow> string \<Rightarrow> uuid \<Rightarrow> ai_message" where
  "new_message now organization_id conversation_id role content i =
     \<lparr>aim_id = i, aim_organization_id = organization_id, aim_conversation_id = conversation_id,
      aim_role = role, aim_content = content, aim_created_at = now\<rparr>"

definition ai_query :: "datetime \<Rightarrow> date \<Rightarrow> user db_op \<Rightarrow> string \<Rightarrow> json_dict db_op" where
  "ai_query now today auth query =
     andThen (require_permission ''ai:read'' auth) (\<lambda>current.
     let org = usr_organization_id current in
     andThen (gets (ai_answer today current (py_lower query))) (\<lambda>answer.
     andThen (insert_row conversations_upd (\<lambda>i. \<lparr>aic_id = i, aic_organization_id = org,
        aic_user_id = Some (usr_id current), aic_title = take 255 query, aic_created_at = now\<rparr>)) (\<lambda>conversation.
     andThen db_flush (\<lambda>_.
     andThen (insert_row messages_upd (new_message now org (aic_id conversation) ''user'' query)) (\<lambda>_.
     andThen (insert_row messages_upd (new_message now org (aic_id conversation) ''assistant'' answer)) (\<lambda>_.
     andThen (insert_row insights_upd (\<lambda>i. \<lparr>aii_id = i, aii_organization_id = org,
        aii_insight_type = ''natural_language_query'', aii_summary = answer,
        aii_metadata_json = [(''provider'', JStr ''local_stub'')], aii_created_at = now\<rparr>)) (\<lambda>_.
     andThen (user_audit now current ''ai.query'' ''ai_conversation'' (Some (uuid_str (aic_id conversation)))
        [(''provider'', JStr ''local_stub'')]) (\<lambda>_.
     andThen db_commit (\<lambda>_.
     ret [(''answer'', JStr answer), (''provider'', JStr ''local_stub''),
          (''conversation_id'', json_id (aic_id conversation))])))))))))"

subsection \<open>Reports\<close>

definition list_report_templates :: "user db_op \<Rightarrow> json_dict list db_op" where
  "list_report_templates auth =
     andThen (require_permission ''reports:read'' auth) (\<lambda>current.
     andThen (gets (db_select_by templates_at rtm_id rtm_name
        (\<lambda>r. rtm_organization_id r = usr_organization_id current))) (\<lambda>rows.
     ret (map (\<lambda>r. [(''id'', json_id (rtm_id r)), (''name'', JStr (rtm_name r)),
       (''report_type'', JStr (rtm_report_type r)), (''config'', JObj (rtm_config r))]) rows)))"

definition new_template :: "datetime \<Rightarrow> uuid \<Rightarrow> string \<Rightarrow> string \<Rightarrow> json_dict \<Rightarrow> uuid \<Rightarrow> report_template" where
  "new_template now organization_id name report_type config i =
     \<lparr>rtm_id = i, rtm_organization_id = organization_id, rtm_name = name,
      rtm_report_type = report_type, rtm_config = config, rtm_created_at = now\<rparr>"

definition create_report_template :: "datetime \<Rightarrow> user db_op \<Rightarrow> ReportTemplateRequest \<Rightarrow> json_dict db_op" where
  "create_report_template now auth payload =
     andThen (require_permission ''reports:write'' auth) (\<lambda>current.
     if rtq_report_type payload \<notin> set REPORT_TYPES then raise (HTTPException 400 ''Unsupported report type'')
     else create_row templates_upd (new_template now (usr_organization_id current) (rtq_name payload)
              (rtq_report_type payload) (rtq_config payload))
            (\<lambda>r. user_audit now current ''report.template.created'' ''report_template'' (Some (uuid_str (rtm_id r)))
               [(''report_type'', JStr (rtm_report_type r))])
            (\<lambda>r. [(''id'', json_id (rtm_id r)), (''name'', JStr (rtm_name r)), (''report_type'', JStr (rtm_report_type r))]))"

definition new_run :: "datetime \<Rightarrow> uuid \<Rightarrow> uuid option \<Rightarrow> string \<Rightarrow> uuid \<Rightarrow> report_run" where
  "new_run now organization_id template_id format i =
     \<lparr>rrn_id = i, rrn_organization_id = organization_id, rrn_template_id = template_id,
      rrn_status = ''queued'', rrn_format = format, rrn_output_path = None, rrn_completed_at = None,
      rrn_created_at = now\<rparr>"

definition create_report_run :: "datetime \<Rightarrow> user db_op \<Rightarrow> ReportRunRequest \<Rightarrow> json_dict db_op" where
  "create_report_run now auth payload =
     andThen (require_permission ''reports:write'' auth) (\<lambda>current.
     if (case rrq_report_type payload of None \<Rightarrow> False | Some v \<Rightarrow> v \<noteq> [] \<and> v \<notin> set REPORT_TYPES)
     then raise (HTTPException 400 ''Unsupported report type'')
     else create_row runs_upd (new_run now (usr_organization_id current) (rrq_template_id payload) (rrq_format payload))
            (\<lambda>r. user_audit now current ''report.run.created'' ''report_run'' (Some (uuid_str (rrn_id r)))
               [(''format'', JStr (rrn_format r))])
            (\<lambda>r. [(''id'', json_id (rrn_id r)), (''status'', JStr (rrn_status r)), (''format'', JStr (rrn_format r))]))"

definition own_template :: "user \<Rightarrow> uuid \<Rightarrow> report_template db_op" where
  "own_template current template_id =
     andThen (gets (db_get templates_at rtm_id template_id)) (\<lambda>found.
     case found of
       None \<Rightarrow> raise (HTTPException 404 ''Report template not found'')
     | Some r \<Rightarrow>
         if rtm_organization_id r \<noteq> usr_organization_id current
         then raise (HTTPException 404 ''Report template not found'') else ret r)"

definition create_report_schedule :: "datetime \<Rightarrow> user db_op \<Rightarrow> ReportScheduleRequest \<Rightarrow> json_dict db_op" where
  "create_report_schedule now auth payload =
     andThen (require_permission ''reports:write'' auth) (\<lambda>current.
     andThen (own_template current (rsq_template_id payload)) (\<lambda>template.
     create_row schedules_upd (\<lambda>i. \<lparr>rsc_id = i, rsc_organization_id = usr_organization_id current,
         rsc_template_id = rtm_id template, rsc_cron = rsq_cron payload, rsc_enabled = rsq_enabled payload,
         rsc_email_recipients = rsq_email_recipients payload, rsc_created_at = now\<rparr>)
       (\<lambda>r. user_audit now current ''report.schedule.created'' ''report_schedule'' (Some (uuid_str (rsc_id r))) [])
       (\<lambda>r. [(''id'', json_id (rsc_id r)), (''template_id'', json_id (rtm_id template)),
             (''enabled'', JBool (rsc_enabled r))])))"

subsection \<open>Requests\<close>

datatype operations_request =
    ListAssets | CreateAsset AssetRequest | BulkImportAssets "AssetRequest list" | WarrantyAlerts date
  | ListCompanies | CreateCompany CompanyRequest | SearchArticles "string option" | CreateArticle ArticleRequest
  | ListScans | CreateScan DiscoveryScanRequest | ListDiscovered | CreateDiscovered DiscoveredDeviceRequest
  | ListTickets | CreateTicket TicketRequest | AddTicketComment uuid TicketCommentRequest
  | AddTicketTime uuid TicketTimeEntryRequest | AIQuery date string
  | ListReportTemplates | CreateReportTemplate ReportTemplateRequest | CreateReportRun ReportRunRequest
  | CreateReportSchedule ReportScheduleRequest

text \<open>A response body is a JSON object or an array of them.\<close>

definition respond :: "json_dict db_op \<Rightarrow> json db_op" where
  "respond h = andThen h (\<lambda>d. ret (JObj d))"

definition respond_all :: "json_dict list db_op \<Rightarrow> json db_op" where
  "respond_all h = andThen h (\<lambda>ds. ret (JArr (map JObj ds)))"

lemma keeps_respond [keeps_intro]:
  "keeps I h \<Longrightarrow> keeps I (respond h)" "keeps I hs \<Longrightarrow> keeps I (respond_all hs)"
  unfolding respond_def respond_all_def by (intro keeps_intro; assumption)+

text \<open>The route table, with FastAPI's validation of the bodies.\<close>

definition handle_operations :: "datetime \<Rightarrow> user db_op \<Rightarrow> operations_request \<Rightarrow> json db_op" where
  "handle_operations now auth q = (case q of
     ListAssets \<Rightarrow> respond_all (list_assets auth)
   | CreateAsset p \<Rightarrow> validated (valid_AssetRequest p) (respond (create_asset now auth p))
   | BulkImportAssets ps \<Rightarrow> validated (valid_AssetBulkImportRequest ps) (respond (bulk_import_assets now auth ps))
   | WarrantyAlerts today \<Rightarrow> respond (warranty_alerts today auth)
   | ListCompanies \<Rightarrow> respond_all (list_companies auth)
   | CreateCompany p \<Rightarrow> validated (valid_CompanyRequest p) (respond (create_company now auth p))
   | SearchArticles text \<Rightarrow> respond_all (search_articles auth text)
   | CreateArticle p \<Rightarrow> validated (valid_ArticleRequest p) (respond (create_article now auth p))
   | ListScans \<Rightarrow> respond_all (list_scans auth)
   | CreateScan p \<Rightarrow> validated (valid_DiscoveryScanRequest p) (respond (create_scan now auth p))
   | ListDiscovered \<Rightarrow> respond_all (list_discovered auth)
   | CreateDiscovered p \<Rightarrow> validated (valid_DiscoveredDeviceRequest p) (respond (create_discovered now auth p))
   | ListTickets \<Rightarrow> respond_all (list_tickets auth)
   | CreateTicket p \<Rightarrow> validated (valid_TicketRequest p) (respond (create_ticket now auth p))
   | AddTicketComment i p \<Rightarrow> validated (valid_TicketCommentRequest p) (respond (add_ticket_comment now auth i p))
   | AddTicketTime i p \<Rightarrow> validated (valid_TicketTimeEntryRequest p) (respond (add_ticket_time now auth i p))
   | AIQuery today query \<Rightarrow> validated (valid_AIQueryRequest query) (respond (ai_query now today auth query))
   | ListReportTemplates \<Rightarrow> respond_all (list_report_templates auth)
   | CreateReportTemplate p \<Rightarrow> validated (valid_ReportTemplateRequest p) (respond (create_report_template now auth p))
   | CreateReportRun p \<Rightarrow> validated (valid_ReportRunRequest p) (respond (create_report_run now auth p))
   | CreateReportSchedule p \<Rightarrow> validated (valid_ReportScheduleRequest p) (respond (create_report_schedule now auth p)))"

lemmas operations_handlers = list_assets_def create_asset_def bulk_import_assets_def warranty_alerts_def
  list_companies_def create_company_def search_articles_def create_article_def list_scans_def create_scan_def
  list_discovered_def create_discovered_def list_tickets_def create_ticket_def add_ticket_comment_def
  add_ticket_time_def ai_query_def list_report_templates_def create_report_template_def create_report_run_def
  create_report_schedule_def

end
