(* ===== verification/Phase3.thy ===== *)
theory Phase3
  imports Operations
begin

text \<open>
  The platform API, \<^verbatim>\<open>backend/app/api/phase3.py\<close>: the operations dashboard and its
  preferences, the customer portal, workflows, API keys, platform health, backups and
  report runs. Secrets and salts the handlers draw are arguments.
\<close>

subsection \<open>The tables\<close>

abbreviation preferences_at :: "store \<Rightarrow> dashboard_preference list" where
  "preferences_at \<equiv> \<lambda>st. dashboard_preferences (phase3 st)"
abbreviation preferences_upd where "preferences_upd \<equiv> \<lambda>f. phase3_update (dashboard_preferences_update f)"
abbreviation portal_roles_at :: "store \<Rightarrow> portal_role list" where "portal_roles_at \<equiv> \<lambda>st. portal_roles (phase3 st)"
abbreviation portal_roles_upd where "portal_roles_upd \<equiv> \<lambda>f. phase3_update (portal_roles_update f)"
abbreviation portal_users_at :: "store \<Rightarrow> portal_user list" where "portal_users_at \<equiv> \<lambda>st. portal_users (phase3 st)"
abbreviation portal_users_upd where "portal_users_upd \<equiv> \<lambda>f. phase3_update (portal_users_update f)"
abbreviation portal_sessions_upd where "portal_sessions_upd \<equiv> \<lambda>f. phase3_update (portal_sessions_update f)"
abbreviation workflows_at :: "store \<Rightarrow> workflow list" where "workflows_at \<equiv> \<lambda>st. workflows (phase3 st)"
abbreviation workflows_upd where "workflows_upd \<equiv> \<lambda>f. phase3_update (workflows_update f)"
abbreviation triggers_upd where "triggers_upd \<equiv> \<lambda>f. phase3_update (workflow_triggers_update f)"
abbreviation actions_upd where "actions_upd \<equiv> \<lambda>f. phase3_update (workflow_actions_update f)"
abbreviation executions_upd where "executions_upd \<equiv> \<lambda>f. phase3_update (workflow_executions_update f)"
abbreviation api_keys_at :: "store \<Rightarrow> api_key list" where "api_keys_at \<equiv> \<lambda>st. api_keys (phase3 st)"
abbreviation api_keys_upd where "api_keys_upd \<equiv> \<lambda>f. phase3_update (api_keys_update f)"
abbreviation healths_upd where "healths_upd \<equiv> \<lambda>f. phase3_update (system_healths_update f)"
abbreviation backup_jobs_at :: "store \<Rightarrow> backup_job list" where "backup_jobs_at \<equiv> \<lambda>st. backup_jobs (phase3 st)"
abbreviation backup_jobs_upd where "backup_jobs_upd \<equiv> \<lambda>f. phase3_update (backup_jobs_update f)"
abbreviation backup_runs_upd where "backup_runs_upd \<equiv> \<lambda>f. phase3_update (backup_runs_update f)"

subsection \<open>Vocabularies and request bodies\<close>

definition TRIGGERS :: "string list" where
  "TRIGGERS = [''alert_created'', ''ticket_created'', ''device_offline'', ''warranty_expiring'', ''discovery_complete'']"

definition ACTIONS :: "string list" where
  "ACTIONS = [''create_ticket'', ''send_notification'', ''run_approved_agent_job'', ''generate_report'']"

definition PHASE3_REPORT_TYPES :: "string list" where
  "PHASE3_REPORT_TYPES = [''executive_summary'', ''asset_inventory'', ''device_inventory'', ''ticket_metrics'',
     ''alert_metrics'', ''security_overview'', ''warranty_status'']"

definition REPORT_FORMATS :: "string list" where
  "REPORT_FORMATS = [''pdf'', ''csv'', ''json'']"

record DashboardPreferenceRequest =
  dpq_layout :: json_dict
  dpq_role_widgets :: "string list"

record PortalUserCreateRequest =
  puq_email :: string
  puq_display_name :: string
  puq_password :: string
  puq_role_name :: string

definition valid_PortalUserCreateRequest :: "PortalUserCreateRequest \<Rightarrow> bool" where
  "valid_PortalUserCreateRequest p \<longleftrightarrow> len_between 1 255 (puq_display_name p) \<and> 12 \<le> length (puq_password p)"

record PortalLoginRequest =
  plq_email :: string
  plq_password :: string

record WorkflowRequest =
  wfq_name :: string
  wfq_trigger_type :: string
  wfq_action_type :: string
  wfq_action_config :: json_dict
  wfq_enabled :: bool

definition valid_WorkflowRequest :: "WorkflowRequest \<Rightarrow> bool" where
  "valid_WorkflowRequest p \<longleftrightarrow> len_between 1 255 (wfq_name p)"

record APIKeyCreateRequest =
  akq_name :: string
  akq_scopes :: "string list"

definition valid_APIKeyCreateRequest :: "APIKeyCreateRequest \<Rightarrow> bool" where
  "valid_APIKeyCreateRequest p \<longleftrightarrow> len_between 1 255 (akq_name p)"

record BackupJobRequest =
  bjq_name :: string
  bjq_schedule :: string
  bjq_target :: string
  bjq_enabled :: bool

definition valid_BackupJobRequest :: "BackupJobRequest \<Rightarrow> bool" where
  "valid_BackupJobRequest p \<longleftrightarrow> len_between 1 255 (bjq_name p) \<and>
     bjq_schedule p \<in> {''daily'', ''weekly'', ''monthly''} \<and> len_between 1 512 (bjq_target p)"

record Phase3ReportRunRequest =
  prq_report_type :: string
  prq_format :: string

definition valid_Phase3ReportRunRequest :: "Phase3ReportRunRequest \<Rightarrow> bool" where
  "valid_Phase3ReportRunRequest p \<longleftrightarrow> prq_report_type p \<in> set PHASE3_REPORT_TYPES \<and>
     prq_format p \<in> set REPORT_FORMATS"

subsection \<open>Dashboard\<close>

definition role_widgets_for :: "string \<Rightarrow> string list" where
  "role_widgets_for role =
     (if role = ''technician'' then
        [''device_health'', ''active_alerts'', ''open_tickets'', ''discovery_results'', ''warranty_summary'']
      else if role = ''admin'' then
        [''device_health'', ''active_alerts'', ''open_tickets'', ''asset_summary'', ''report_status'', ''platform_health'']
      else if role = ''owner'' then
        [''device_health'', ''active_alerts'', ''open_tickets'', ''asset_summary'', ''recent_remote_sessions'',
         ''ai_insights'', ''report_status'', ''platform_health'']
      else [''device_health'', ''active_alerts'', ''open_tickets'', ''asset_summary''])"

definition dashboard_counts :: "datetime \<Rightarrow> uuid \<Rightarrow> session \<Rightarrow> json_dict" where
  "dashboard_counts now org s =
     (let count = (\<lambda>n. JInt (int n)); soon = now div timedelta_days 1 + 30 in
      [(''total_devices'', count (db_count devices (\<lambda>d. dev_organization_id d = org) s)),
       (''offline_devices'', count (db_count devices (\<lambda>d. dev_organization_id d = org \<and> \<not> dev_is_online d) s)),
       (''active_alerts'', count (db_count alerts (\<lambda>a. alt_organization_id a = org \<and> alt_status a = ''active'') s)),
       (''open_tickets'', count (db_count tickets_at (\<lambda>t. tkt_organization_id t = org \<and>
          tkt_status t \<notin> {''Resolved'', ''Closed''}) s)),
       (''discovered_devices'', count (db_count discovered_at (\<lambda>d. dcd_organization_id d = org) s)),
       (''assets'', count (db_count assets_at (\<lambda>a. ast_organization_id a = org) s)),
       (''warranty_expiring'', count (db_count assets_at (\<lambda>a. ast_organization_id a = org \<and>
          (case ast_warranty_expiration a of None \<Rightarrow> False | Some d \<Rightarrow> d \<le> soon)) s)),
       (''recent_remote_sessions'', count (db_count remote_session_audits (\<lambda>a. rsa_organization_id a = org) s)),
       (''recent_documentation_updates'', count (db_count articles_at (\<lambda>a. dar_organization_id a = org) s)),
       (''ai_insights'', count (db_count (\<lambda>st. ai_insights (phase2 st)) (\<lambda>a. aii_organization_id a = org) s)),
       (''report_runs'', count (db_count (\<lambda>st. report_runs (phase2 st)) (\<lambda>r. rrn_organization_id r = org) s))])"

definition operations_dashboard :: "datetime \<Rightarrow> user db_op \<Rightarrow> json_dict db_op" where
  "operations_dashboard now auth =
     andThen (require_permission ''dashboard:read'' auth) (\<lambda>current.
     andThen (gets (dashboard_counts now (usr_organization_id current))) (\<lambda>counts.
     ret [(''widgets'', JObj counts), (''role_widgets'', json_texts (role_widgets_for (usr_role current)))]))"

definition own_preference :: "user \<Rightarrow> dashboard_preference option db_op" where
  "own_preference current = gets (db_scalar preferences_at dpr_id (\<lambda>p.
     dpr_organization_id p = usr_organization_id current \<and> dpr_user_id p = usr_id current))"

definition get_dashboard_preferences :: "user db_op \<Rightarrow> json_dict db_op" where
  "get_dashboard_preferences auth =
     andThen (require_permission ''dashboard:read'' auth) (\<lambda>current.
     andThen (own_preference current) (\<lambda>found.
     ret (case found of
            None \<Rightarrow> [(''layout'', JObj []), (''role_widgets'', JArr [])]
          | Some p \<Rightarrow> [(''layout'', JObj (dpr_layout p)), (''role_widgets'', json_texts (dpr_role_widgets p))])))"

text \<open>
  The audit entry is built before the flush that gives a new preference its key, so its
  target is the text of \<open>None\<close> then.
\<close>

definition save_dashboard_preferences ::
  "datetime \<Rightarrow> user db_op \<Rightarrow> DashboardPreferenceRequest \<Rightarrow> json_dict db_op" where
  "save_dashboard_preferences now auth payload =
     andThen (require_permission ''dashboard:read'' auth) (\<lambda>current.
     andThen (own_preference current) (\<lambda>found.
     andThen (case found of
                None \<Rightarrow>
                  andThen (insert_row preferences_upd (\<lambda>i. \<lparr>dpr_id = i,
                     dpr_organization_id = usr_organization_id current, dpr_user_id = usr_id current,
                     dpr_layout = dpq_layout payload, dpr_role_widgets = dpq_role_widgets payload,
                     dpr_created_at = now\<rparr>)) (\<lambda>_. ret ''None'')
              | Some p \<Rightarrow>
                  andThen (put_row preferences_upd dpr_id
                     (p\<lparr>dpr_layout := dpq_layout payload, dpr_role_widgets := dpq_role_widgets payload\<rparr>)) (\<lambda>_.
                  ret (uuid_str (dpr_id p)))) (\<lambda>target.
     andThen (user_audit now current ''dashboard.preferences.saved'' ''dashboard_preference'' (Some target) []) (\<lambda>_.
     andThen db_commit (\<lambda>_.
     ret [(''layout'', JObj (dpq_layout payload)), (''role_widgets'', json_texts (dpq_role_widgets payload))])))))"

subsection \<open>The customer portal\<close>

definition portal_role_for :: "datetime \<Rightarrow> user \<Rightarrow> string \<Rightarrow> portal_role db_op" where
  "portal_role_for now current name =
     andThen (gets (db_scalar portal_roles_at prl_id (\<lambda>r.
        prl_organization_id r = usr_organization_id current \<and> prl_name r = name))) (\<lambda>found.
     case found of
       Some r \<Rightarrow> ret r
     | None \<Rightarrow>
         andThen (insert_row portal_roles_upd (\<lambda>i. \<lparr>prl_id = i,
            prl_organization_id = usr_organization_id current, prl_name = name,
            prl_permissions = [''tickets:create'', ''tickets:read'', ''assets:read'', ''devices:read'',
              ''documentation:read'', ''reports:download''], prl_created_at = now\<rparr>)) (\<lambda>r.
         andThen db_flush (\<lambda>_. ret r)))"

definition create_portal_user ::
  "runtime \<Rightarrow> datetime \<Rightarrow> byte list \<Rightarrow> user db_op \<Rightarrow> PortalUserCreateRequest \<Rightarrow> json_dict db_op" where
  "create_portal_user rt now salt auth payload =
     andThen (require_permission ''portal:manage'' auth) (\<lambda>current.
     andThen (portal_role_for now current (puq_role_name payload)) (\<lambda>role.
     create_row portal_users_upd (\<lambda>i. \<lparr>pus_id = i, pus_organization_id = usr_organization_id current,
         pus_portal_role_id = Some (prl_id role), pus_email = puq_email payload,
         pus_display_name = puq_display_name payload,
         pus_hashed_password = hash_password rt salt (puq_password payload), pus_is_active = True,
         pus_created_at = now\<rparr>)
       (\<lambda>u. user_audit now current ''portal.user.created'' ''portal_user'' (Some (uuid_str (pus_id u))) [])
       (\<lambda>u. [(''id'', json_id (pus_id u)), (''email'', JStr (pus_email u)),
             (''display_name'', JStr (pus_display_name u)), (''role'', JStr (prl_name role))])))"

definition new_portal_session ::
  "runtime \<Rightarrow> settings \<Rightarrow> datetime \<Rightarrow> string \<Rightarrow> portal_user \<Rightarrow> uuid \<Rightarrow> portal_session" where
  "new_portal_session rt cfg now token u i =
     \<lparr>pse_id = i, pse_organization_id = pus_organization_id u, pse_portal_user_id = pus_id u,
      pse_token_hash = hash_token rt cfg token, pse_expires_at = now + timedelta_hours 8,
      pse_created_at = now, pse_revoked_at = None\<rparr>"

definition portal_login ::
  "runtime \<Rightarrow> settings \<Rightarrow> datetime \<Rightarrow> string \<Rightarrow> PortalLoginRequest \<Rightarrow> json_dict db_op" where
  "portal_login rt cfg now token payload =
     andThen (gets (db_scalar portal_users_at pus_id (\<lambda>u. pus_email u = plq_email payload \<and> pus_is_active u))) (\<lambda>found.
     case found of
       None \<Rightarrow> raise (HTTPException 401 ''Invalid portal credentials'')
     | Some u \<Rightarrow>
         if \<not> verify_password rt (plq_password payload) (pus_hashed_password u)
         then raise (HTTPException 401 ''Invalid portal credentials'')
         else andThen (insert_row portal_sessions_upd (new_portal_session rt cfg now token u)) (\<lambda>_.
              andThen db_commit (\<lambda>_.
              ret [(''portal_token'', JStr token),
                   (''portal_user'', JObj [(''id'', json_id (pus_id u)), (''email'', JStr (pus_email u)),
                      (''organization_id'', json_id (pus_organization_id u))])])))"

subsection \<open>Workflows\<close>

text \<open>\<open>v not in ALLOWED_JOB_TYPES\<close>: a list or an object is not hashable.\<close>

definition approved_job_type :: "json \<Rightarrow> error + bool" where
  "approved_job_type v = (case v of
     JStr jtype \<Rightarrow> Inr (jtype \<in> set ALLOWED_JOB_TYPES)
   | JArr _ \<Rightarrow> Inl (TypeError ''unhashable type: list'')
   | JObj _ \<Rightarrow> Inl (TypeError ''unhashable type: dict'')
   | _ \<Rightarrow> Inr False)"

definition workflow_action_ok :: "WorkflowRequest \<Rightarrow> error + bool" where
  "workflow_action_ok payload =
     (if wfq_action_type payload = ''run_approved_agent_job''
      then approved_job_type (dict_get (wfq_action_config payload) ''job_type'' JNull)
      else Inr True)"

definition create_workflow :: "datetime \<Rightarrow> user db_op \<Rightarrow> WorkflowRequest \<Rightarrow> json_dict db_op" where
  "create_workflow now auth payload =
     andThen (require_permission ''automation:manage'' auth) (\<lambda>current.
     if wfq_trigger_type payload \<notin> set TRIGGERS \<or> wfq_action_type payload \<notin> set ACTIONS
     then raise (HTTPException 400 ''Unsupported workflow trigger or action'')
     else andThen (lift_sum (workflow_action_ok payload)) (\<lambda>ok.
          if \<not> ok then raise (HTTPException 400 ''Workflow job action must use an approved agent job type'')
          else let org = usr_organization_id current in
          create_row workflows_upd (\<lambda>i. \<lparr>wfl_id = i, wfl_organization_id = org, wfl_name = wfq_name payload,
              wfl_enabled = wfq_enabled payload, wfl_created_at = now\<rparr>)
            (\<lambda>workflow.
               andThen (insert_row triggers_upd (\<lambda>i. \<lparr>wft_id = i, wft_organization_id = org,
                  wft_workflow_id = wfl_id workflow, wft_trigger_type = wfq_trigger_type payload,
                  wft_config = [], wft_created_at = now\<rparr>)) (\<lambda>_.
               andThen (insert_row actions_upd (\<lambda>i. \<lparr>wfa_id = i, wfa_organization_id = org,
                  wfa_workflow_id = wfl_id workflow, wfa_action_type = wfq_action_type payload,
                  wfa_config = wfq_action_config payload, wfa_created_at = now\<rparr>)) (\<lambda>_.
               user_audit now current ''workflow.created'' ''workflow'' (Some (uuid_str (wfl_id workflow)))
                 [(''trigger'', JStr (wfq_trigger_type payload)), (''action'', JStr (wfq_action_type payload))])))
            (\<lambda>workflow. [(''id'', json_id (wfl_id workflow)), (''name'', JStr (wfl_name workflow)),
               (''enabled'', JBool (wfl_enabled workflow))])))"

definition own_workflow :: "user \<Rightarrow> uuid \<Rightarrow> workflow db_op" where
  "own_workflow current workflow_id =
     andThen (gets (db_get workflows_at wfl_id workflow_id)) (\<lambda>found.
     case found of
       None \<Rightarrow> raise (HTTPException 404 ''Workflow not found'')
     | Some w \<Rightarrow>
         if wfl_organization_id w \<noteq> usr_organization_id current
         then raise (HTTPException 404 ''Workflow not found'') else ret w)"

definition execute_workflow :: "datetime \<Rightarrow> user db_op \<Rightarrow> uuid \<Rightarrow> json_dict db_op" where
  "execute_workflow now auth workflow_id =
     andThen (require_permission ''automation:manage'' auth) (\<lambda>current.
     andThen (own_workflow current workflow_id) (\<lambda>workflow.
     create_row executions_upd (\<lambda>i. \<lparr>wfe_id = i, wfe_organization_id = usr_organization_id current,
         wfe_workflow_id = wfl_id workflow, wfe_status = ''queued'',
         wfe_trigger_payload = [(''manual'', JBool True)], wfe_completed_at = None, wfe_created_at = now\<rparr>)
       (\<lambda>_. user_audit now current ''workflow.execution.created'' ''workflow'' (Some (uuid_str (wfl_id workflow))) [])
       (\<lambda>e. [(''id'', json_id (wfe_id e)), (''workflow_id'', json_id (wfl_id workflow)),
             (''status'', JStr (wfe_status e))])))"

subsection \<open>Platform\<close>

definition create_api_key ::
  "runtime \<Rightarrow> settings \<Rightarrow> datetime \<Rightarrow> string \<Rightarrow> user db_op \<Rightarrow> APIKeyCreateRequest \<Rightarrow> json_dict db_op" where
  "create_api_key rt cfg now secret auth payload =
     andThen (require_permission ''api_keys:manage'' auth) (\<lambda>current.
     let raw_key = ''cc_'' @ secret; prefix = take 12 raw_key in
     create_row api_keys_upd (\<lambda>i. \<lparr>apk_id = i, apk_organization_id = usr_organization_id current,
         apk_name = akq_name payload, apk_key_hash = hash_token rt cfg raw_key, apk_prefix = prefix,
         apk_scopes = akq_scopes payload, apk_last_used_at = None, apk_revoked_at = None,
         apk_created_at = now\<rparr>)
       (\<lambda>k. user_audit now current ''api_key.created'' ''api_key'' (Some (uuid_str (apk_id k)))
          [(''prefix'', JStr prefix), (''scopes'', json_texts (akq_scopes payload))])
       (\<lambda>k. [(''id'', json_id (apk_id k)), (''name'', JStr (apk_name k)), (''prefix'', JStr prefix),
             (''scopes'', json_texts (apk_scopes k)), (''api_key'', JStr raw_key)]))"

definition list_api_keys :: "user db_op \<Rightarrow> json_dict list db_op" where
  "list_api_keys auth =
     andThen (require_permission ''api_keys:manage'' auth) (\<lambda>current.
     andThen (gets (db_select_by api_keys_at apk_id (\<lambda>k. - apk_created_at k)
        (\<lambda>k. apk_organization_id k = usr_organization_id current))) (\<lambda>keys.
     ret (map (\<lambda>k. [(''id'', json_id (apk_id k)), (''name'', JStr (apk_name k)),
       (''prefix'', JStr (apk_prefix k)), (''scopes'', json_texts (apk_scopes k)),
       (''revoked_at'', json_opt_time (apk_revoked_at k)),
       (''last_used_at'', json_opt_time (apk_last_used_at k))]) keys)))"

text \<open>The components reported, in order; \<open>db_ok\<close> says whether the probe query answered.\<close>

definition health_rows :: "bool \<Rightarrow> (string \<times> string \<times> json_dict) list" where
  "health_rows db_ok =
     [(''backend'', ''ok'', [(''version'', JStr ''api'')]),
      (''database'', (if db_ok then ''ok'' else ''degraded''), []),
      (''redis'', ''configured'', [(''check'', JStr ''connection validation is deployment-specific'')]),
      (''rustdesk-hbbs'', ''configured'', [(''ports'', JArr [JInt 21115, JInt 21116, JInt 21118])]),
      (''rustdesk-hbbr'', ''configured'', [(''ports'', JArr [JInt 21117, JInt 21119])]),
      (''agent-connectivity'', ''observed'', [(''source'', JStr ''device check-ins'')])]"

definition platform_health :: "datetime \<Rightarrow> bool \<Rightarrow> user db_op \<Rightarrow> json_dict db_op" where
  "platform_health now db_ok auth =
     andThen (require_permission ''platform:read'' auth) (\<lambda>current.
     andThen (map_each (health_rows db_ok) (\<lambda>(name, state, details).
        andThen (insert_row healths_upd (\<lambda>i. \<lparr>syh_id = i, syh_organization_id = usr_organization_id current,
           syh_component = name, syh_status = state, syh_details = details, syh_checked_at = now,
           syh_created_at = now\<rparr>)) (\<lambda>_.
        ret (JObj [(''component'', JStr name), (''status'', JStr state), (''details'', JObj details),
                   (''checked_at'', json_time now)])))) (\<lambda>statuses.
     andThen db_commit (\<lambda>_.
     ret [(''status'', JStr (if db_ok then ''ok'' else ''degraded'')), (''services'', JArr statuses)])))"

subsection \<open>Backups and reports\<close>

definition create_backup_job :: "datetime \<Rightarrow> user db_op \<Rightarrow> BackupJobRequest \<Rightarrow> json_dict db_op" where
  "create_backup_job now auth payload =
     andThen (require_permission ''backups:manage'' auth) (\<lambda>current.
     create_row backup_jobs_upd (\<lambda>i. \<lparr>bkj_id = i, bkj_organization_id = usr_organization_id current,
         bkj_name = bjq_name payload, bkj_schedule = bjq_schedule payload, bkj_enabled = bjq_enabled payload,
         bkj_target = bjq_target payload, bkj_created_at = now\<rparr>)
       (\<lambda>j. user_audit now current ''backup.job.created'' ''backup_job'' (Some (uuid_str (bkj_id j)))
          [(''schedule'', JStr (bkj_schedule j))])
       (\<lambda>j. [(''id'', json_id (bkj_id j)), (''name'', JStr (bkj_name j)), (''schedule'', JStr (bkj_schedule j)),
             (''enabled'', JBool (bkj_enabled j))]))"

definition own_backup_job :: "user \<Rightarrow> uuid \<Rightarrow> backup_job db_op" where
  "own_backup_job current backup_job_id =
     andThen (gets (db_get backup_jobs_at bkj_id backup_job_id)) (\<lambda>found.
     case found of
       None \<Rightarrow> raise (HTTPException 404 ''Backup job not found'')
     | Some j \<Rightarrow>
         if bkj_organization_id j \<noteq> usr_organization_id current
         then raise (HTTPException 404 ''Backup job not found'') else ret j)"

definition record_backup_run :: "datetime \<Rightarrow> user db_op \<Rightarrow> uuid \<Rightarrow> json_dict db_op" where
  "record_backup_run now auth backup_job_id =
     andThen (require_permission ''backups:manage'' auth) (\<lambda>current.
     andThen (own_backup_job current backup_job_id) (\<lambda>job.
     create_row backup_runs_upd (\<lambda>i. \<lparr>bkr_id = i, bkr_organization_id = usr_organization_id current,
         bkr_job_id = Some (bkj_id job), bkr_status = ''recorded'', bkr_backup_path = None,
         bkr_validation_status = Some ''pending'',
         bkr_notes = Some ''Backup run recorded; automated restore is intentionally not implemented.'',
         bkr_completed_at = None, bkr_created_at = now\<rparr>)
       (\<lambda>r. user_audit now current ''backup.run.recorded'' ''backup_run'' (Some (uuid_str (bkr_id r))) [])
       (\<lambda>r. [(''id'', json_id (bkr_id r)), (''status'', JStr (bkr_status r)),
             (''validation_status'', json_text (bkr_validation_status r))])))"

text \<open>\<open>s.replace("_", " ").title()\<close>\<close>

fun title_from :: "bool \<Rightarrow> string \<Rightarrow> string" where
  "title_from inside [] = []"
| "title_from inside (c # s) =
     (if is_lower c \<or> is_upper c
      then (if inside then lower_char c else upper_char c) # title_from True s
      else c # title_from False s)"

definition report_title :: "string \<Rightarrow> string" where
  "report_title s = title_from False (map (\<lambda>c. if c = CHR ''_'' then CHR '' '' else c) s)"

definition create_phase3_report_run ::
  "datetime \<Rightarrow> user db_op \<Rightarrow> Phase3ReportRunRequest \<Rightarrow> json_dict db_op" where
  "create_phase3_report_run now auth payload =
     andThen (require_permission ''reports:write'' auth) (\<lambda>current.
     let org = usr_organization_id current in
     andThen (insert_row templates_upd (new_template now org (report_title (prq_report_type payload))
        (prq_report_type payload) [(''phase'', JInt 3)])) (\<lambda>template.
     andThen db_flush (\<lambda>_.
     create_row runs_upd (new_run now org (Some (rtm_id template)) (prq_format payload))
       (\<lambda>r. user_audit now current ''report.phase3.created'' ''report_run'' (Some (uuid_str (rrn_id r)))
          [(''format'', JStr (prq_format payload)), (''report_type'', JStr (prq_report_type payload))])
       (\<lambda>r. [(''id'', json_id (rrn_id r)), (''template_id'', json_id (rtm_id template)),
             (''status'', JStr (rrn_status r)), (''format'', JStr (rrn_format r)),
             (''delivery'', json_texts [''email'', ''portal_download''])]))))"

subsection \<open>Requests\<close>

text \<open>The operator's requests; \<open>portal_login\<close>, which needs no operator, stands apart.\<close>

datatype phase3_request =
    OperationsDashboard | GetPreferences | SavePreferences DashboardPreferenceRequest
  | CreatePortalUser "byte list" PortalUserCreateRequest
  | CreateWorkflow WorkflowRequest | ExecuteWorkflow uuid
  | CreateAPIKey string APIKeyCreateRequest | ListAPIKeys | PlatformHealth bool
  | CreateBackupJob BackupJobRequest | RecordBackupRun uuid
  | CreatePhase3ReportRun Phase3ReportRunRequest

definition handle_phase3 ::
  "runtime \<Rightarrow> settings \<Rightarrow> datetime \<Rightarrow> user db_op \<Rightarrow> phase3_request \<Rightarrow> json db_op" where
  "handle_phase3 rt cfg now auth q = (case q of
     OperationsDashboard \<Rightarrow> respond (operations_dashboard now auth)
   | GetPreferences \<Rightarrow> respond (get_dashboard_preferences auth)
   | SavePreferences p \<Rightarrow> respond (save_dashboard_preferences now auth p)
   | CreatePortalUser salt p \<Rightarrow> validated (valid_PortalUserCreateRequest p) (respond (create_portal_user rt now salt auth p))
   | CreateWorkflow p \<Rightarrow> validated (valid_WorkflowRequest p) (respond (create_workflow now auth p))
   | ExecuteWorkflow i \<Rightarrow> respond (execute_workflow now auth i)
   | CreateAPIKey secret p \<Rightarrow> validated (valid_APIKeyCreateRequest p) (respond (create_api_key rt cfg now secret auth p))
   | ListAPIKeys \<Rightarrow> respond_all (list_api_keys auth)
   | PlatformHealth db_ok \<Rightarrow> respond (platform_health now db_ok auth)
   | CreateBackupJob p \<Rightarrow> validated (valid_BackupJobRequest p) (respond (create_backup_job now auth p))
   | RecordBackupRun i \<Rightarrow> respond (record_backup_run now auth i)
   | CreatePhase3ReportRun p \<Rightarrow> validated (valid_Phase3ReportRunRequest p) (respond (create_phase3_report_run now auth p)))"

lemmas phase3_handlers = operations_dashboard_def get_dashboard_preferences_def save_dashboard_preferences_def
  create_portal_user_def create_workflow_def execute_workflow_def create_api_key_def list_api_keys_def
  platform_health_def create_backup_job_def record_backup_run_def create_phase3_report_run_def

end
