(* ===== verification/Tenancy.thy ===== *)
theory Tenancy
  imports Phase3 NotificationsApi Remote Users JobsApi
begin

text \<open>
  All operator routes together: the route table that \<^verbatim>\<open>backend/app/api/__init__.py\<close>
  assembles, and the properties that hold of every route. The main one is tenant isolation:
  no request of an operator changes a row of another organization.
\<close>

subsection \<open>The route table\<close>

definition version :: "settings \<Rightarrow> (string \<times> string) list" where
  "version cfg = [(''name'', project_name cfg), (''version'', app_version cfg)]"

text \<open>The service check runs \<open>SELECT 1\<close>, which reads and writes no row.\<close>

definition health :: "(string \<times> string) list db_op" where
  "health = ret [(''status'', ''ok''), (''database'', ''ok'')]"

text \<open>The application \<^verbatim>\<open>backend/app/main.py\<close> creates around the routes.\<close>

record application =
  apl_title :: string
  apl_version :: string
  apl_docs_url :: "string option"
  apl_redoc_url :: "string option"
  apl_allow_origins :: "string list"
  apl_allow_credentials :: bool
  apl_allow_methods :: "string list"
  apl_allow_headers :: "string list"
  apl_prefix :: string

definition create_app :: "settings \<Rightarrow> application" where
  "create_app cfg =
     \<lparr>apl_title = project_name cfg, apl_version = app_version cfg,
      apl_docs_url = (if enable_openapi cfg then Some ''/docs'' else None),
      apl_redoc_url = (if enable_openapi cfg then Some ''/redoc'' else None),
      apl_allow_origins = cors_origins cfg, apl_allow_credentials = True,
      apl_allow_methods = [''*''], apl_allow_headers = [''*''], apl_prefix = api_prefix cfg\<rparr>"

definition session_stub :: "user db_op \<Rightarrow> (bool \<times> (string \<times> string) list) db_op" where
  "session_stub auth = andThen (get_current_user_stub auth) (\<lambda>usr. ret (True, usr))"

datatype operator_request =
    SessionStub | CurrentUser
  | ListUsers | CreateUser "byte list" UserCreateRequest | PatchUser "byte list" uuid UserPatchRequest
  | DisableUser uuid | EnableUser uuid
  | DevicesList | DeviceDetails uuid | DeviceInventory uuid | DeviceSoftware uuid | DeviceSecurity uuid
  | DeviceUpdates uuid | DeviceAlerts uuid | Dashboard
  | CreateJob uuid AgentJobCreateRequest | DeviceJobs uuid | ReadJob uuid | CancelJobRequest uuid
  | AlertList "string option" "string option" "uuid option" | ReadAlert uuid
  | Acknowledge uuid | Resolve uuid
  | ChannelList | ChannelCreate NotificationChannelCreateRequest
  | ChannelPatch uuid NotificationChannelPatchRequest
  | RuleList | RuleCreate NotificationRuleCreateRequest | RulePatch uuid NotificationRulePatchRequest
  | DeliveryList
  | ProviderList | ProviderCreate RemoteProviderCreateRequest | DeviceRemote uuid | Launch uuid
  | RemoteAudit uuid
  | Operations operations_request | Platform phase3_request

definition handle_operator ::
  "runtime \<Rightarrow> settings \<Rightarrow> datetime \<Rightarrow> user db_op \<Rightarrow> operator_request \<Rightarrow> unit db_op" where
  "handle_operator rt cfg now auth q = (case q of
     SessionStub \<Rightarrow> discard (session_stub auth)
   | CurrentUser \<Rightarrow> discard (current_user auth)
   | ListUsers \<Rightarrow> discard (list_users auth)
   | CreateUser salt p \<Rightarrow> validated (valid_UserCreateRequest p) (discard (create_user rt now salt auth p))
   | PatchUser salt i p \<Rightarrow> validated (valid_UserPatchRequest p) (discard (patch_user rt salt auth i p))
   | DisableUser i \<Rightarrow> discard (disable_user auth i)
   | EnableUser i \<Rightarrow> discard (enable_user auth i)
   | DevicesList \<Rightarrow> discard (list_devices cfg now auth)
   | DeviceDetails i \<Rightarrow> discard (get_device cfg now auth i)
   | DeviceInventory i \<Rightarrow> discard (get_device_inventory auth i)
   | DeviceSoftware i \<Rightarrow> discard (get_device_software auth i)
   | DeviceSecurity i \<Rightarrow> discard (get_device_security auth i)
   | DeviceUpdates i \<Rightarrow> discard (get_device_updates auth i)
   | DeviceAlerts i \<Rightarrow> discard (get_device_alerts auth i)
   | Dashboard \<Rightarrow> discard (dashboard_summary auth)
   | CreateJob i p \<Rightarrow> validated (valid_AgentJobCreateRequest p) (discard (create_device_job rt cfg now auth i p))
   | DeviceJobs i \<Rightarrow> discard (list_device_jobs now auth i)
   | ReadJob i \<Rightarrow> discard (get_job now auth i)
   | CancelJobRequest i \<Rightarrow> discard (cancel_agent_job now auth i)
   | AlertList sv st d \<Rightarrow> discard (list_alerts auth sv st d)
   | ReadAlert i \<Rightarrow> discard (get_alert auth i)
   | Acknowledge i \<Rightarrow> discard (acknowledge_alert now auth i)
   | Resolve i \<Rightarrow> discard (resolve_alert now auth i)
   | ChannelList \<Rightarrow> discard (list_channels auth)
   | ChannelCreate p \<Rightarrow> validated (valid_NotificationChannelCreateRequest p) (discard (create_channel rt now auth p))
   | ChannelPatch i p \<Rightarrow> validated (valid_NotificationChannelPatchRequest p) (discard (patch_channel rt auth i p))
   | RuleList \<Rightarrow> discard (list_rules auth)
   | RuleCreate p \<Rightarrow> validated (valid_NotificationRuleCreateRequest p) (discard (create_rule now auth p))
   | RulePatch i p \<Rightarrow> validated (valid_NotificationRulePatchRequest p) (discard (patch_rule auth i p))
   | DeliveryList \<Rightarrow> discard (list_deliveries auth)
   | ProviderList \<Rightarrow> discard (list_remote_providers auth)
   | ProviderCreate p \<Rightarrow> validated (valid_RemoteProviderCreateRequest p) (discard (create_remote_provider now auth p))
   | DeviceRemote i \<Rightarrow> discard (get_device_remote auth i)
   | Launch i \<Rightarrow> discard (launch_device_remote now auth i)
   | RemoteAudit i \<Rightarrow> discard (list_device_remote_audit auth i)
   | Operations r \<Rightarrow> discard (handle_operations now auth r)
   | Platform r \<Rightarrow> discard (handle_phase3 rt cfg now auth r))"

subsection \<open>The authentication step of a request\<close>

text \<open>
  Authentication runs once, first, and changes nothing: a request behaves as if it had the
  outcome of that step given.
\<close>

definition answered :: "error + user \<Rightarrow> user db_op" where
  "answered r = (\<lambda>s. (r, s))"

lemma keeps_answered [keeps_intro]: "keeps I (answered r)"
  by (simp add: answered_def keeps_def)

lemma guard_answered:
  "auth s = (r, s) \<Longrightarrow>
     andThen (require_permission p auth) f s = andThen (require_permission p (answered r)) f s"
  "auth s = (r, s) \<Longrightarrow> andThen auth g s = andThen (answered r) g s"
  by (simp_all add: require_permission_def andThen_def answered_def)

lemma discard_cong: "h s = h' s \<Longrightarrow> discard h s = discard h' s"
  by (simp add: discard_def andThen_def)

lemma respond_cong:
  "h s = h' s \<Longrightarrow> respond h s = respond h' s" "hs s = hs' s \<Longrightarrow> respond_all hs s = respond_all hs' s"
  by (simp_all add: respond_def respond_all_def andThen_def)

lemma validated_cong: "h s = h' s \<Longrightarrow> validated b h s = validated b h' s"
  by (simp add: validated_def)

lemmas operator_handlers = session_stub_def get_current_user_stub_def current_user_def andThen_assoc list_users_def create_user_def patch_user_def
  disable_user_def enable_user_def list_devices_def get_device_def get_device_inventory_def
  get_device_software_def get_device_security_def get_device_updates_def get_device_alerts_def
  dashboard_summary_def create_device_job_def list_device_jobs_def get_job_def cancel_agent_job_def
  list_alerts_def get_alert_def acknowledge_alert_def resolve_alert_def list_channels_def
  create_channel_def patch_channel_def list_rules_def create_rule_def patch_rule_def
  list_deliveries_def list_remote_providers_def create_remote_provider_def get_device_remote_def
  launch_device_remote_def list_device_remote_audit_def operations_handlers phase3_handlers

lemma handle_answered:
  assumes "auth s = (r, s)"
  shows "handle_operations now auth q1 s = handle_operations now (answered r) q1 s"
    and "handle_phase3 rt cfg now auth q2 s = handle_phase3 rt cfg now (answered r) q2 s"
    and "handle_operator rt cfg now auth q s = handle_operator rt cfg now (answered r) q s"
proof -
  note same = guard_answered[where auth = auth and s = s and r = r, OF assms]
  show ops: "handle_operations now auth q' s = handle_operations now (answered r) q' s" for q'
    unfolding handle_operations_def operations_handlers
    by (cases q'; simp only: operations_request.case; intro validated_cong respond_cong same)
  show plat: "handle_phase3 rt cfg now auth q' s = handle_phase3 rt cfg now (answered r) q' s" for q'
    unfolding handle_phase3_def phase3_handlers
    by (cases q'; simp only: phase3_request.case; intro validated_cong respond_cong same)
  show "handle_operator rt cfg now auth q s = handle_operator rt cfg now (answered r) q s"
    unfolding handle_operator_def operator_handlers
    by (cases q; simp only: operator_request.case; intro validated_cong discard_cong same ops plat)
qed

subsection \<open>Tenant isolation\<close>

lemma isolated_guard [keeps_intro]:
  assumes "\<And>current. r = Inr current \<Longrightarrow> keeps (isolated o' V) (f current)"
  shows "keeps (isolated o' V) (andThen (require_permission p (answered r)) f)"
  using assms by (cases r) (auto simp: require_permission_def answered_def andThen_def keeps_def)

lemma isolated_audit [keeps_intro]:
  "usr_organization_id current \<noteq> o' \<Longrightarrow> keeps (isolated o' V) (user_audit now current a ty i d)"
  "usr_organization_id current \<noteq> o' \<Longrightarrow> keeps (isolated o' V) (operator_audit now current a ty i d)"
  unfolding user_audit_def operator_audit_def by (intro keeps_intro; simp)+

lemma isolated_create_row:
  assumes "keeps (isolated o' V) (insert_row u mk)" and "\<And>r. keeps (isolated o' V) (entry r)"
  shows "keeps (isolated o' V) (create_row u mk entry answer)"
  unfolding create_row_def by (intro keeps_intro assms)

lemma keeps_operation_reads [keeps_intro]:
  "keeps I (ensure_device current d)" "keeps I (own_ticket current i)" "keeps I (own_template current i)"
  "keeps I (own_workflow current i)" "keeps I (own_backup_job current i)"
  unfolding ensure_device_def own_ticket_def own_template_def own_workflow_def own_backup_job_def by (intro keeps_intro)+

lemma isolated_article_category [keeps_intro]:
  "usr_organization_id current \<noteq> o' \<Longrightarrow> keeps (isolated o' V) (article_category now current name)"
  unfolding article_category_def by (intro keeps_intro; simp)

lemma isolated_portal_role [keeps_intro]:
  "usr_organization_id current \<noteq> o' \<Longrightarrow> keeps (isolated o' V) (portal_role_for now current name)"
  unfolding portal_role_for_def by (intro keeps_intro; simp)

lemma isolated_operations:
  assumes org: "\<And>current. r = Inr current \<Longrightarrow> usr_organization_id current \<noteq> o'"
  shows "keeps (isolated o' V) (handle_operations now (answered r) q)"
  unfolding handle_operations_def operations_handlers Let_def
  by (cases q; simp only: operations_request.case; (rule keeps_validated)?; rule keeps_respond;
      rule isolated_guard; drule org; intro keeps_intro isolated_create_row;
      simp add: new_asset_def imported_asset_def new_template_def new_run_def new_message_def)

text \<open>A scoped lookup hands on only rows of another organization than \<open>o'\<close>.\<close>

context tenant_table
begin

lemma scoped_isolated:
  assumes "c \<noteq> o'"
    and "\<And>r. org r \<noteq> o' \<Longrightarrow> k r = i \<Longrightarrow> i \<notin> k ` set (t V) \<Longrightarrow> keeps (isolated o' V) (f r)"
  shows "keeps (isolated o' V) (andThen (andThen (gets (db_get t k i)) (\<lambda>found.
     case found of None \<Rightarrow> raise e | Some r \<Rightarrow> if org r \<noteq> c then raise e' else ret r)) f)"
  unfolding andThen_assoc
proof (rule get_isolated)
  show "keeps (isolated o' V) (andThen (case None of None \<Rightarrow> raise e | Some r \<Rightarrow>
      if org r \<noteq> c then raise e' else ret r) f)"
    by (simp add: keeps_raise)
  fix r assume r: "k r = i" "(org r = o') = (i \<in> k ` set (t V))"
  show "keeps (isolated o' V) (andThen (case Some r of None \<Rightarrow> raise e | Some r \<Rightarrow>
      if org r \<noteq> c then raise e' else ret r) f)"
    using r assms by (cases "org r = c") (simp_all add: keeps_raise)
qed

end

lemma isolated_lookups:
  assumes org: "usr_organization_id current \<noteq> o'"
  shows "(\<And>usr. usr_organization_id usr \<noteq> o' \<Longrightarrow> usr_id usr = i \<Longrightarrow> i \<notin> usr_id ` set (users V) \<Longrightarrow> keeps (isolated o' V) (f0 usr)) \<Longrightarrow>
           keeps (isolated o' V) (andThen (require_same_org_user i (usr_organization_id current)) f0)"
    and "(\<And>a. alt_organization_id a \<noteq> o' \<Longrightarrow> alt_id a = i \<Longrightarrow> i \<notin> alt_id ` set (alerts V) \<Longrightarrow> keeps (isolated o' V) (f1 a)) \<Longrightarrow>
           keeps (isolated o' V) (andThen (own_alert current i) f1)"
    and "(\<And>c. ncl_organization_id c \<noteq> o' \<Longrightarrow> ncl_id c = i \<Longrightarrow> i \<notin> ncl_id ` set (notification_channels V) \<Longrightarrow> keeps (isolated o' V) (f2 c)) \<Longrightarrow>
           keeps (isolated o' V) (andThen (own_channel current i) f2)"
    and "(\<And>c. nrl_organization_id c \<noteq> o' \<Longrightarrow> nrl_id c = i \<Longrightarrow> i \<notin> nrl_id ` set (notification_rules V) \<Longrightarrow> keeps (isolated o' V) (f3 c)) \<Longrightarrow>
           keeps (isolated o' V) (andThen (own_rule current i) f3)"
    and "(\<And>d. dev_organization_id d \<noteq> o' \<Longrightarrow> dev_id d = i \<Longrightarrow> i \<notin> dev_id ` set (devices V) \<Longrightarrow> keeps (isolated o' V) (f4 d)) \<Longrightarrow>
           keeps (isolated o' V) (andThen (device_or_404 i (usr_organization_id current)) f4)"
    and "(\<And>d. dev_organization_id d \<noteq> o' \<Longrightarrow> dev_id d = i \<Longrightarrow> i \<notin> dev_id ` set (devices V) \<Longrightarrow> keeps (isolated o' V) (f5 d)) \<Longrightarrow>
           keeps (isolated o' V) (andThen (own_device current i) f5)"
    and "(\<And>j. job_organization_id j \<noteq> o' \<Longrightarrow> job_id j = i \<Longrightarrow> i \<notin> job_id ` set (agent_jobs V) \<Longrightarrow> keeps (isolated o' V) (f6 j)) \<Longrightarrow>
           keeps (isolated o' V) (andThen (own_job current i) f6)"
  unfolding require_same_org_user_def own_alert_def own_channel_def own_rule_def device_or_404_def own_device_def own_job_def
  by (rule agent_jobs_tbl.scoped_isolated
      alerts_tbl.scoped_isolated
      devices_tbl.scoped_isolated
      notification_channels_tbl.scoped_isolated
      notification_rules_tbl.scoped_isolated
      users_tbl.scoped_isolated; (rule org | assumption))+

lemma isolated_preference:
  assumes "usr_organization_id current \<noteq> o'" and "keeps (isolated o' V) (f None)"
    and "\<And>p. dpr_organization_id p \<noteq> o' \<Longrightarrow> dpr_id p \<notin> dpr_id ` set (preferences_at V) \<Longrightarrow>
       keeps (isolated o' V) (f (Some p))"
  shows "keeps (isolated o' V) (andThen (own_preference current) f)"
  unfolding own_preference_def using assms by (intro dashboard_preferences_tbl.scalar_isolated) auto

lemma isolated_phase3:
  assumes org: "\<And>current. r = Inr current \<Longrightarrow> usr_organization_id current \<noteq> o'"
  shows "keeps (isolated o' V) (handle_phase3 rt cfg now (answered r) q)"
  unfolding handle_phase3_def phase3_handlers Let_def
  by (cases q; simp only: phase3_request.case; (rule keeps_validated)?; rule keeps_respond;
      rule isolated_guard; drule org; intro isolated_preference keeps_intro isolated_create_row
        dashboard_preferences_tbl.put_isolated;
      simp add: new_template_def new_run_def)

text \<open>
  Every job belongs to the organization of its device. Expiring the jobs of a device then
  touches no job of an organization the device is not of.
\<close>

definition jobs_at_home :: "store \<Rightarrow> bool" where
  "jobs_at_home st \<longleftrightarrow> list_all (\<lambda>j. list_ex (\<lambda>d. dev_id d = job_device_id j \<and>
     dev_organization_id d = job_organization_id j) (devices st)) (agent_jobs st)"

lemma jobs_at_home_view: "jobs_at_home st \<Longrightarrow> jobs_at_home (org_view o' st)"
  by (auto simp: jobs_at_home_def list_all_iff list_ex_iff devices_tbl.view_read agent_jobs_tbl.view_read)

lemma jobs_elsewhere:
  "jobs_at_home V \<Longrightarrow> i \<notin> dev_id ` set (devices V) \<Longrightarrow> j \<in> set (agent_jobs V) \<Longrightarrow> job_device_id j \<noteq> i"
  by (force simp: jobs_at_home_def list_all_iff list_ex_iff)

lemma isolated_job_log [keeps_intro]:
  "job_organization_id job \<noteq> o' \<Longrightarrow> keeps (isolated o' V) (add_job_event now job ty m d)"
  "c \<noteq> o' \<Longrightarrow> keeps (isolated o' V) (audit now c a ty i d)"
  unfolding add_job_event_def audit_def by (intro keeps_intro; simp)+

lemma isolated_expire_jobs:
  assumes "\<And>j. j \<in> set (agent_jobs V) \<Longrightarrow> job_device_id j \<noteq> d"
  shows "keeps (isolated o' V) (expire_jobs now (Some d))"
  unfolding expire_jobs_def
proof (rule agent_jobs_tbl.select_isolated(1))
  fix jobs :: "agent_job list"
  assume sel: "\<And>r. r \<in> set jobs \<Longrightarrow> \<exists>r0. job_overdue now (Some d) r0 \<and> job_id r = job_id r0 \<and>
      (job_organization_id r = o' \<longleftrightarrow> job_id r \<in> job_id ` set (agent_jobs V)) \<and>
      (job_organization_id r0 = o' \<longleftrightarrow> job_organization_id r = o') \<and>
      (job_organization_id r0 = o' \<longrightarrow> r0 \<in> set (agent_jobs V))"
  show "keeps (isolated o' V) (for_each jobs (expire_job now))"
  proof (rule keeps_for_each)
    fix job assume "job \<in> set jobs"
    with sel[of job] assms have "job_organization_id job \<noteq> o'" "job_id job \<notin> job_id ` set (agent_jobs V)"
      by (auto simp: job_overdue_def)
    then show "keeps (isolated o' V) (expire_job now job)"
      unfolding expire_job_def Let_def by (intro keeps_intro agent_jobs_tbl.put_isolated; simp)
  qed
qed

lemma isolated_sync_all:
  assumes "c \<noteq> o'" and "\<And>rows. keeps (isolated o' V) (f rows)"
  shows "keeps (isolated o' V) (andThen (gets (db_select_by devices dev_id key
     (\<lambda>d. dev_organization_id d = c))) (\<lambda>rows. andThen (map_each rows (sync_status cfg now)) f))"
proof (rule devices_tbl.select_isolated(2), rule keeps_andThen[OF keeps_map_each assms(2)])
  fix rows and d :: device
  assume "\<And>r. r \<in> set rows \<Longrightarrow> \<exists>r0. dev_organization_id r0 = c \<and> dev_id r = dev_id r0 \<and>
      (dev_organization_id r = o' \<longleftrightarrow> dev_id r \<in> dev_id ` set (devices V)) \<and>
      (dev_organization_id r0 = o' \<longleftrightarrow> dev_organization_id r = o') \<and>
      (dev_organization_id r0 = o' \<longrightarrow> r0 \<in> set (devices V))" and "d \<in> set rows"
  with assms(1) have "dev_organization_id d \<noteq> o'" "dev_id d \<notin> dev_id ` set (devices V)" by blast+
  then show "keeps (isolated o' V) (sync_status cfg now d)"
    unfolding sync_status_def by (intro keeps_intro devices_tbl.put_isolated; simp)
qed

lemma isolated_writes [keeps_intro]:
  "alt_organization_id a \<noteq> o' \<Longrightarrow> keeps (isolated o' V) (add_alert_event now a ty m d)"
  unfolding add_alert_event_def by (intro keeps_intro; simp)

lemma isolated_users:
  assumes org: "\<And>current. r = Inr current \<Longrightarrow> usr_organization_id current \<noteq> o'"
  shows "keeps (isolated o' V) (list_users (answered r))"
    and "keeps (isolated o' V) (create_user rt now salt (answered r) p)"
    and "keeps (isolated o' V) (disable_user (answered r) i)"
    and "keeps (isolated o' V) (enable_user (answered r) i)"
  unfolding list_users_def create_user_def disable_user_def enable_user_def
  by (rule isolated_guard; drule org; intro isolated_lookups keeps_intro users_tbl.put_isolated;
      simp add: new_user_def)+

lemma isolated_patch_user:
  assumes org: "\<And>current. r = Inr current \<Longrightarrow> usr_organization_id current \<noteq> o'"
  shows "keeps (isolated o' V) (patch_user rt salt (answered r) i p)"
  unfolding patch_user_def Let_def
  by (rule isolated_guard, drule org, rule isolated_lookups, assumption,
      rule keeps_andThen_result[where m = "case _ of None \<Rightarrow> _ | Some r \<Rightarrow> _ r"])
    (auto intro!: keeps_intro users_tbl.put_isolated split: option.splits if_splits)

lemma isolated_alerts:
  assumes org: "\<And>current. r = Inr current \<Longrightarrow> usr_organization_id current \<noteq> o'"
  shows "keeps (isolated o' V) (acknowledge_alert now (answered r) i)"
    and "keeps (isolated o' V) (resolve_alert now (answered r) i)"
  unfolding acknowledge_alert_def resolve_alert_def acknowledge_on_def resolve_on_def Let_def
  by (rule isolated_guard; drule org; intro isolated_lookups keeps_intro alerts_tbl.put_isolated; simp)+

lemma isolated_notifications:
  assumes org: "\<And>current. r = Inr current \<Longrightarrow> usr_organization_id current \<noteq> o'"
  shows "keeps (isolated o' V) (create_channel rt now (answered r) cp)"
    and "keeps (isolated o' V) (patch_channel rt (answered r) i cq)"
    and "keeps (isolated o' V) (create_rule now (answered r) rp)"
    and "keeps (isolated o' V) (patch_rule (answered r) i rq)"
  unfolding create_channel_def patch_channel_def create_rule_def patch_rule_def Let_def
  by (rule isolated_guard; drule org; intro isolated_lookups keeps_intro notification_channels_tbl.put_isolated
      notification_rules_tbl.put_isolated; simp add: renamed_channel_def patched_rule_def)+

lemma isolated_remote:
  assumes org: "\<And>current. r = Inr current \<Longrightarrow> usr_organization_id current \<noteq> o'"
  shows "keeps (isolated o' V) (create_remote_provider now (answered r) p)"
    and "keeps (isolated o' V) (launch_device_remote now (answered r) i)"
  unfolding create_remote_provider_def launch_device_remote_def launch_on_def
  by (rule isolated_guard; drule org; intro keeps_intro; simp add: launch_audit_def)+

lemma isolated_devices:
  assumes org: "\<And>current. r = Inr current \<Longrightarrow> usr_organization_id current \<noteq> o'"
  shows "keeps (isolated o' V) (list_devices cfg now (answered r))"
    and "keeps (isolated o' V) (get_device cfg now (answered r) i)"
  unfolding list_devices_def get_device_def sync_status_def[of cfg now _]
  by (rule isolated_guard; drule org;
      intro isolated_sync_all[unfolded sync_status_def] isolated_lookups keeps_intro devices_tbl.put_isolated; simp)+

lemma keeps_insert_then:
  assumes "keeps I (insert_row u mk)" and "\<And>i. keeps I (f (mk i))"
  shows "keeps I (andThen (insert_row u mk) f)"
  using assms by (intro keeps_andThen_result) (auto simp: insert_row_def)

lemma isolated_jobs:
  assumes org: "\<And>current. r = Inr current \<Longrightarrow> usr_organization_id current \<noteq> o'" and home: "jobs_at_home V"
  shows "keeps (isolated o' V) (create_device_job rt cfg now (answered r) i p)"
    and "keeps (isolated o' V) (list_device_jobs now (answered r) i)"
    and "keeps (isolated o' V) (cancel_agent_job now (answered r) i)"
  unfolding create_device_job_def list_device_jobs_def cancel_agent_job_def create_job_def cancel_job_def Let_def
  by (rule isolated_guard; drule org; intro isolated_lookups keeps_insert_then keeps_intro agent_jobs_tbl.put_isolated
      isolated_expire_jobs jobs_elsewhere[OF home]; simp add: new_job_def)+

text \<open>Reading one job expires the jobs of its device, so it matters where that device is.\<close>

lemma jobs_of_device:
  assumes "wf_server w" and "jobs_at_home (srv_store w)" and "job_device_id j = job_device_id job"
    and "j \<in> set (agent_jobs (srv_store w))" and "job \<in> set (agent_jobs (srv_store w))"
  shows "job_organization_id j = job_organization_id job"
proof -
  have "\<exists>d \<in> set (devices (srv_store w)). dev_id d = job_device_id j \<and> dev_organization_id d = job_organization_id j"
    "\<exists>d \<in> set (devices (srv_store w)). dev_id d = job_device_id job \<and> dev_organization_id d = job_organization_id job"
    using assms(2,4,5) unfolding jobs_at_home_def list_all_iff list_ex_iff by blast+
  with assms(3) devices_tbl.open_find_key[OF assms(1)] show ?thesis by (metis option.inject)
qed

lemma own_job_open:
  assumes w: "wf_server w" and s: "isolated o' V (open_session w)"
    and rest: "\<And>job. job \<in> set (agent_jobs (srv_store w)) \<Longrightarrow>
      job_organization_id job = usr_organization_id current \<Longrightarrow> keeps (isolated o' V) (f job)"
  shows "isolated o' V (snd (andThen (own_job current i) f (open_session w)))"
proof (cases "List.find (\<lambda>j. job_id j = i) (agent_jobs (srv_store w))")
  case None
  with s show ?thesis by (simp add: own_job_def agent_jobs_tbl.open_get[OF w] andThen_run raise_def)
next
  case (Some job)
  have "isolated o' V (snd (f job (open_session w)))" if "job_organization_id job = usr_organization_id current"
    using find_SomeD[OF Some] that s by (intro keepsD[OF rest]) simp_all
  with Some s show ?thesis
    by (simp add: own_job_def agent_jobs_tbl.open_get[OF w] andThen_run raise_def)
qed

lemma isolated_get_job:
  assumes org: "\<And>current. r = Inr current \<Longrightarrow> usr_organization_id current \<noteq> o'"
    and w: "wf_server w" and home: "jobs_at_home (srv_store w)"
  shows "isolated o' (org_view o' (srv_store w)) (snd (get_job now (answered r) i (open_session w)))"
proof (cases "\<exists>current. r = Inr current \<and> ''jobs:read'' \<in> set (role_permissions (usr_role current))")
  case False
  with w show ?thesis
    by (cases r) (auto simp: get_job_def require_permission_def answered_def andThen_def raise_def)
next
  case True
  then obtain current where r: "r = Inr current"
    and p: "''jobs:read'' \<in> set (role_permissions (usr_role current))" by blast
  have "isolated o' (org_view o' (srv_store w)) (snd (andThen (own_job current i) (\<lambda>job.
     andThen (expire_jobs now (Some (job_device_id job))) (\<lambda>_. andThen db_commit (\<lambda>_.
     andThen (current_row agent_jobs job_id job) (\<lambda>job'. job_response job' True)))) (open_session w)))"
  proof (rule own_job_open[OF w])
    show "isolated o' (org_view o' (srv_store w)) (open_session w)" using w by simp
    fix job
    assume job: "job \<in> set (agent_jobs (srv_store w))" "job_organization_id job = usr_organization_id current"
    show "keeps (isolated o' (org_view o' (srv_store w))) (andThen (expire_jobs now (Some (job_device_id job)))
        (\<lambda>_. andThen db_commit (\<lambda>_. andThen (current_row agent_jobs job_id job) (\<lambda>job'. job_response job' True))))"
    proof (intro keeps_intro isolated_expire_jobs)
      fix j assume "j \<in> set (agent_jobs (org_view o' (srv_store w)))"
      then have "j \<in> set (agent_jobs (srv_store w))" "job_organization_id j = o'"
        by (simp_all add: agent_jobs_tbl.view_read)
      with jobs_of_device[OF w home _ _ job(1)] job(2) org[OF r]
      show "job_device_id j \<noteq> job_device_id job" by metis
    qed
  qed
  with r p show ?thesis by (simp add: get_job_def require_permission_def answered_def andThen_run)
qed

lemma reading_operators:
  "keeps I (session_stub (answered r))" "keeps I (current_user (answered r))"
  "keeps I (get_device_inventory (answered r) i)" "keeps I (get_device_software (answered r) i)"
  "keeps I (get_device_security (answered r) i)" "keeps I (get_device_updates (answered r) i)"
  "keeps I (get_device_alerts (answered r) i)" "keeps I (dashboard_summary (answered r))"
  "keeps I (list_alerts (answered r) sv st d)" "keeps I (get_alert (answered r) i)"
  "keeps I (list_channels (answered r))" "keeps I (list_rules (answered r))"
  "keeps I (list_deliveries (answered r))" "keeps I (list_remote_providers (answered r))"
  "keeps I (get_device_remote (answered r) i)" "keeps I (list_device_remote_audit (answered r) i)"
  "keeps I (list_users (answered r))"
  unfolding session_stub_def get_current_user_stub_def current_user_def get_device_inventory_def
    get_device_software_def get_device_security_def get_device_updates_def get_device_alerts_def
    dashboard_summary_def dashboard_for_def list_alerts_def get_alert_def list_channels_def list_rules_def
    list_deliveries_def list_remote_providers_def get_device_remote_def list_device_remote_audit_def list_users_def
  by (intro keeps_intro)+

lemma isolated_operator:
  assumes org: "\<And>current. r = Inr current \<Longrightarrow> usr_organization_id current \<noteq> o'"
    and w: "wf_server w" and home: "jobs_at_home (srv_store w)"
  shows "isolated o' (org_view o' (srv_store w)) (snd (handle_operator rt cfg now (answered r) q (open_session w)))"
proof -
  let ?V = "org_view o' (srv_store w)"
  have start: "isolated o' ?V (open_session w)" using w by simp
  note homeV = jobs_at_home_view[OF home]
  have keep: "keeps (isolated o' ?V) (handle_operator rt cfg now (answered r) q)" if "\<And>i. q \<noteq> ReadJob i"
    unfolding handle_operator_def
    by (cases q; simp only: operator_request.case; (intro keeps_validated keeps_discard
        isolated_operations isolated_phase3 isolated_users isolated_patch_user isolated_alerts isolated_notifications
        isolated_remote isolated_devices isolated_jobs[OF _ homeV] reading_operators; rule org; assumption)?;
        simp add: that)
  show ?thesis
  proof (cases "\<exists>i. q = ReadJob i")
    case True
    with isolated_get_job[OF org w home] show ?thesis by (auto simp: handle_operator_def)
  next
    case False
    with keepsD[OF keep start] show ?thesis by blast
  qed
qed

text \<open>Tenant isolation of one request: whatever an operator requests, over all operator routes of the
  program, the rows of every other organization stay exactly as they were, in every table,
  and the tables stay well-formed. The hypothesis on jobs says that each belongs to the
  organization of its device.\<close>

theorem tenants_isolated:
  assumes "wf_server w" and "jobs_at_home (srv_store w)"
    and org: "\<And>current. fst (require_authenticated_user rt cfg now cred (open_session w)) = Inr current \<Longrightarrow>
        usr_organization_id current \<noteq> o'"
    and w': "snd (run_request (handle_operator rt cfg now (require_authenticated_user rt cfg now cred) q) w) = w'"
  shows "org_view o' (srv_store w') = org_view o' (srv_store w) \<and> wf_server w'"
proof -
  let ?auth = "require_authenticated_user rt cfg now cred"
  let ?s = "snd (handle_operator rt cfg now ?auth q (open_session w))"
  have "?auth (open_session w) = (fst (?auth (open_session w)), open_session w)"
    using authenticate_state by (metis prod.collapse)
  from handle_answered(3)[where auth = ?auth and s = "open_session w", OF this] isolated_operator[OF org assms(1,2)]
  have "isolated o' (org_view o' (srv_store w)) ?s" by simp
  with w' show ?thesis by (auto simp: run_request_snd isolated_def wf_server_close)
qed

theorem tenants_isolated_witness:
  "let auth = require_authenticated_user sample_runtime default_settings 7 (Some (''Bearer'', ''access-token''));
       w' = snd (run_request (handle_operator sample_runtime default_settings 7 auth (DisableUser 6)) sample_server)
   in fst (auth (open_session sample_server)) = Inr sample_owner \<and>
      org_view 2 (srv_store w') = org_view 2 (srv_store sample_server) \<and> wf_server w'"
proof -
  have "jobs_at_home (srv_store sample_server)" by (simp add: jobs_at_home_def sample_defs)
  moreover have "usr_organization_id current \<noteq> 2"
    if "fst (require_authenticated_user sample_runtime default_settings 7 (Some (''Bearer'', ''access-token''))
       (open_session sample_server)) = Inr current" for current
    using that by (simp add: sample_authenticates) (auto simp: sample_owner_def)
  ultimately show ?thesis
    using tenants_isolated[OF sample_wf _ _ refl, of sample_runtime default_settings 7
        "Some (''Bearer'', ''access-token'')" 2 "DisableUser 6"]
    by (simp add: Let_def sample_authenticates)
qed

end
