(* ===== verification/Confidentiality.thy ===== *)
theory Confidentiality
  imports Tenancy
begin

text \<open>
  What an operator can learn. Isolation (\<open>Tenancy\<close>) says that a request writes only rows of
  its own organization; here, for the operations and platform routes, that its answer and
  the rows it writes depend on nothing but the rows of that organization: two servers which
  look the same to the organization answer the same and look the same to it afterwards.
  A handler first reads, through queries restricted to the organization (\<open>alike\<close>), and then
  writes without looking at the data again (\<open>oblivious\<close>).
\<close>

subsection \<open>Sessions that look the same to an organization\<close>

definition same_look :: "uuid \<Rightarrow> session \<Rightarrow> session \<Rightarrow> bool" where
  "same_look c s s' \<longleftrightarrow> next_id s = next_id s' \<and> unique_ok (live s) \<and> unique_ok (live s') \<and>
     org_view c (live s) = org_view c (live s') \<and> org_view c (flushed s) = org_view c (flushed s') \<and>
     org_view c (durable s) = org_view c (durable s')"

definition same_view :: "uuid \<Rightarrow> server \<Rightarrow> server \<Rightarrow> bool" where
  "same_view c w w' \<longleftrightarrow> wf_server w \<and> wf_server w' \<and> srv_next_id w = srv_next_id w' \<and>
     org_view c (srv_store w) = org_view c (srv_store w')"

definition oblivious :: "uuid \<Rightarrow> 'a db_op \<Rightarrow> bool" where
  "oblivious c m \<longleftrightarrow> (\<forall>s s'. same_look c s s' \<longrightarrow>
     fst (m s) = fst (m s') \<and> same_look c (snd (m s)) (snd (m s')))"

definition alike :: "uuid \<Rightarrow> server \<Rightarrow> server \<Rightarrow> 'a db_op \<Rightarrow> bool" where
  "alike c w w' m \<longleftrightarrow> fst (m (open_session w)) = fst (m (open_session w')) \<and>
     same_look c (snd (m (open_session w))) (snd (m (open_session w')))"

lemma same_look_open: "same_view c w w' \<Longrightarrow> same_look c (open_session w) (open_session w')"
  by (simp add: same_look_def same_view_def wf_server_def)

lemma obliviousD:
  assumes "oblivious c m" and "same_look c s s'"
  obtains r t t' where "m s = (r, t)" and "m s' = (r, t')" and "same_look c t t'"
  using assms unfolding oblivious_def by (metis prod.collapse)

named_theorems oblivious_intro \<open>operations that do not look at the data\<close>

lemma oblivious_ret [oblivious_intro]: "oblivious c (ret x)"
  by (simp add: oblivious_def ret_def)

lemma oblivious_raise [oblivious_intro]: "oblivious c (raise e)"
  by (simp add: oblivious_def raise_def)

lemma oblivious_lift [oblivious_intro]: "oblivious c (lift_sum v)"
  by (cases v) (simp_all add: lift_sum_def oblivious_intro)

lemma oblivious_andThen [oblivious_intro]:
  assumes "oblivious c m" and "\<And>x. oblivious c (f x)"
  shows "oblivious c (andThen m f)"
  unfolding oblivious_def
proof (intro allI impI)
  fix s s' assume "same_look c s s'"
  with assms(1) obtain r t t' where m: "m s = (r, t)" "m s' = (r, t')" "same_look c t t'"
    by (rule obliviousD)
  show "fst (andThen m f s) = fst (andThen m f s') \<and> same_look c (snd (andThen m f s)) (snd (andThen m f s'))"
  proof (cases r)
    case (Inl e)
    with m show ?thesis by (simp add: andThen_run)
  next
    case (Inr x)
    with m assms(2)[of x] show ?thesis by (simp add: andThen_run oblivious_def)
  qed
qed

lemma oblivious_if [oblivious_intro]:
  "oblivious c m \<Longrightarrow> oblivious c n \<Longrightarrow> oblivious c (if b then m else n)"
  by simp

lemma oblivious_option [oblivious_intro]:
  "oblivious c m \<Longrightarrow> (\<And>x. oblivious c (f x)) \<Longrightarrow> oblivious c (case v of None \<Rightarrow> m | Some x \<Rightarrow> f x)"
  by (cases v) simp_all

lemma oblivious_prod [oblivious_intro]:
  "(\<And>a b. oblivious c (f a b)) \<Longrightarrow> oblivious c (case p of (a, b) \<Rightarrow> f a b)"
  by (cases p) simp

lemma oblivious_map_each [oblivious_intro]:
  "(\<And>x. oblivious c (f x)) \<Longrightarrow> oblivious c (map_each xs f)"
  by (induction xs) (simp_all add: oblivious_intro)

lemma oblivious_flush [oblivious_intro]: "oblivious c db_flush"
  by (simp add: oblivious_def db_flush_def same_look_def)

lemma oblivious_commit [oblivious_intro]: "oblivious c db_commit"
  by (simp add: oblivious_def db_commit_def same_look_def)

subsection \<open>Queries restricted to the organization\<close>

lemma filter_view: "(\<And>x. x \<in> set xs \<Longrightarrow> P x \<Longrightarrow> Q x) \<Longrightarrow> filter P xs = filter P (filter Q xs)"
  by (induction xs) auto

lemma find_view: "(\<And>x. x \<in> set xs \<Longrightarrow> P x \<Longrightarrow> Q x) \<Longrightarrow> List.find P xs = List.find P (filter Q xs)"
  by (induction xs) auto

lemma find_key_filter:
  assumes "distinct (map k rs)"
  shows "List.find (\<lambda>r. k r = i) (filter Q rs) =
     (case List.find (\<lambda>r. k r = i) rs of None \<Rightarrow> None | Some r \<Rightarrow> if Q r then Some r else None)"
  using assms by (induction rs) (auto simp: find_None_iff image_iff split: option.splits dest!: find_SomeD)

context tenant_table
begin

lemma view_eq:
  "same_view c w w' \<Longrightarrow> filter (\<lambda>r. org r = c) (t (srv_store w)) = filter (\<lambda>r. org r = c) (t (srv_store w'))"
  by (metis same_view_def view_read)

lemma select_view:
  assumes "same_view c w w'" and "\<And>r. P r \<Longrightarrow> org r = c"
  shows "db_select t k P (open_session w) = db_select t k P (open_session w')"
    and "db_select_by t k key P (open_session w) = db_select_by t k key P (open_session w')"
    and "db_count t P (open_session w) = db_count t P (open_session w')"
proof -
  have "filter P (t (srv_store w)) = filter P (t (srv_store w'))"
    using filter_view[of "t (srv_store w)" P "\<lambda>r. org r = c"] filter_view[of "t (srv_store w')" P "\<lambda>r. org r = c"]
      view_eq[OF assms(1)] assms(2) by metis
  moreover have "wf_server w" "wf_server w'" using assms(1) by (simp_all add: same_view_def)
  ultimately show "db_select t k P (open_session w) = db_select t k P (open_session w')"
    and "db_select_by t k key P (open_session w) = db_select_by t k key P (open_session w')"
    and "db_count t P (open_session w) = db_count t P (open_session w')"
    by (simp_all add: open_select open_select_by db_count_def)
qed

lemma scalar_view:
  assumes "same_view c w w'" and "\<And>r. r \<in> set (t (srv_store w)) \<Longrightarrow> P r \<Longrightarrow> org r = c"
    and "\<And>r. r \<in> set (t (srv_store w')) \<Longrightarrow> P r \<Longrightarrow> org r = c"
  shows "db_scalar t k P (open_session w) = db_scalar t k P (open_session w')"
proof -
  have "List.find P (t (srv_store w)) = List.find P (t (srv_store w'))"
    using find_view[of "t (srv_store w)" P "\<lambda>r. org r = c"] find_view[of "t (srv_store w')" P "\<lambda>r. org r = c"]
      view_eq[OF assms(1)] assms(2,3) by metis
  with assms(1) show ?thesis by (simp add: same_view_def open_scalar)
qed

text \<open>A scoped lookup answers alike for a foreign row and for a row that does not exist.\<close>

lemma get_view:
  assumes "same_view c w w'"
  shows "(case db_get t k i (open_session w) of None \<Rightarrow> None | Some r \<Rightarrow> if org r = c then Some r else None) =
         (case db_get t k i (open_session w') of None \<Rightarrow> None | Some r \<Rightarrow> if org r = c then Some r else None)"
proof -
  have own: "(case db_get t k i (open_session v) of None \<Rightarrow> None | Some r \<Rightarrow> if org r = c then Some r else None) =
      List.find (\<lambda>r. k r = i) (filter (\<lambda>r. org r = c) (t (srv_store v)))" if "wf_server v" for v
    using that open_distinct[OF that] by (simp add: open_get find_key_filter)
  from assms own[of w] own[of w'] view_eq[OF assms] show ?thesis by (simp add: same_view_def)
qed

lemma scoped_alike:
  assumes "same_view c w w'"
    and "\<And>r. r \<in> set (t (srv_store w)) \<Longrightarrow> r \<in> set (t (srv_store w')) \<Longrightarrow> org r = c \<Longrightarrow> k r = i \<Longrightarrow> alike c w w' (f (g r))"
  shows "alike c w w' (andThen (andThen (gets (db_get t k i)) (\<lambda>found.
     case found of None \<Rightarrow> raise e | Some r \<Rightarrow> if org r \<noteq> c then raise e else ret (g r))) f)"
proof -
  let ?own = "\<lambda>v. case db_get t k i (open_session v) of None \<Rightarrow> None | Some r \<Rightarrow> if org r = c then Some r else None"
  have w: "wf_server w" "wf_server w'" using assms(1) by (simp_all add: same_view_def)
  have step: "andThen (andThen (gets (db_get t k i)) (\<lambda>found. case found of None \<Rightarrow> raise e
       | Some r \<Rightarrow> if org r \<noteq> c then raise e else ret (g r))) f (open_session v) =
     (case ?own v of None \<Rightarrow> (Inl e, open_session v) | Some r \<Rightarrow> f (g r) (open_session v))" for v
    by (auto simp: andThen_run raise_def split: option.splits)
  show ?thesis
  proof (cases "?own w")
    case None
    with get_view[OF assms(1), of i] step same_look_open[OF assms(1)] show ?thesis by (simp add: alike_def)
  next
    case (Some r)
    moreover have "?own w' = Some r" using Some get_view[OF assms(1), of i] by simp
    ultimately have "r \<in> set (t (srv_store w))" "r \<in> set (t (srv_store w'))" "org r = c" "k r = i"
      using w by (auto simp: open_get dest!: find_SomeD split: option.splits if_splits)
    with assms(2) Some \<open>?own w' = Some r\<close> step show ?thesis by (simp add: alike_def)
  qed
qed

lemma insert_oblivious [oblivious_intro]:
  assumes "\<And>f st. unique_ok (u f st) = unique_ok st"
  shows "oblivious c (insert_row u mk)"
proof -
  have "org_view c (u (\<lambda>rs. rs @ [x]) st) =
      u (\<lambda>_. t (org_view c st) @ filter (\<lambda>r. org r = c) [x]) (org_view c st)" for x st
    by (simp add: view_write view_read)
  then show ?thesis
    using assms by (auto simp: oblivious_def insert_row_def same_look_def)
qed

end

subsection \<open>Handlers that answer alike\<close>

named_theorems alike_intro \<open>handlers on two servers that look the same\<close>

lemma alike_oblivious: "same_view c w w' \<Longrightarrow> oblivious c m \<Longrightarrow> alike c w w' m"
  using same_look_open by (simp add: alike_def oblivious_def)

lemma alike_gets:
  "g (open_session w) = g (open_session w') \<Longrightarrow>
   (\<And>x. x = g (open_session w) \<Longrightarrow> alike c w w' (f x)) \<Longrightarrow> alike c w w' (andThen (gets g) f)"
  by (simp add: alike_def)

lemma alike_guard:
  "same_view c w w' \<Longrightarrow> alike c w w' (f current) \<Longrightarrow>
   alike c w w' (andThen (require_permission p (answered (Inr current))) f)"
  using same_look_open by (auto simp: alike_def require_permission_def answered_def andThen_def raise_def ret_def)

lemma alike_if: "alike c w w' m \<Longrightarrow> alike c w w' n \<Longrightarrow> alike c w w' (if b then m else n)"
  by simp

lemma alike_option:
  "alike c w w' m \<Longrightarrow> (\<And>x. v = Some x \<Longrightarrow> alike c w w' (f x)) \<Longrightarrow>
   alike c w w' (case v of None \<Rightarrow> m | Some x \<Rightarrow> f x)"
  by (cases v) simp_all

lemma alike_respond:
  "alike c w w' h \<Longrightarrow> alike c w w' (respond h)" "alike c w w' hs \<Longrightarrow> alike c w w' (respond_all hs)"
  by (auto simp: alike_def respond_def respond_all_def andThen_def ret_def split: prod.splits sum.splits)

lemma alike_validated: "same_view c w w' \<Longrightarrow> alike c w w' h \<Longrightarrow> alike c w w' (validated b h)"
  using same_look_open by (auto simp: validated_def alike_def raise_def)

lemma oblivious_user_audit [oblivious_intro]: "oblivious c (user_audit now current a ty i d)"
  unfolding user_audit_def by (intro oblivious_intro) (simp add: unique_ok_def)

lemma oblivious_create_row [oblivious_intro]:
  "oblivious c (insert_row u mk) \<Longrightarrow> (\<And>r. oblivious c (entry r)) \<Longrightarrow> oblivious c (create_row u mk entry answer)"
  unfolding create_row_def by (intro oblivious_intro)

text \<open>An inventory belongs to the organization of its device.\<close>

definition inventories_at_home :: "store \<Rightarrow> bool" where
  "inventories_at_home st \<longleftrightarrow> list_all (\<lambda>v. list_ex (\<lambda>d. dev_id d = inv_device_id v \<and>
     dev_organization_id d = inv_organization_id v) (devices st)) (device_inventories st)"

lemma inventory_home:
  assumes "wf_server w" and "inventories_at_home (srv_store w)" and "d \<in> set (devices (srv_store w))"
    and "v \<in> set (device_inventories (srv_store w))" and "inv_device_id v = dev_id d"
  shows "inv_organization_id v = dev_organization_id d"
proof -
  from assms(2,4) obtain e where "e \<in> set (devices (srv_store w))" "dev_id e = inv_device_id v"
    "dev_organization_id e = inv_organization_id v"
    unfolding inventories_at_home_def list_all_iff list_ex_iff by blast
  with assms(3,5) devices_tbl.open_find_key[OF assms(1)] show ?thesis by (metis option.inject)
qed

lemma alike_ensure_device:
  assumes view: "same_view (usr_organization_id current) w w'"
    and none: "alike (usr_organization_id current) w w' (f None)"
    and found: "\<And>d. d \<in> set (devices (srv_store w)) \<Longrightarrow> d \<in> set (devices (srv_store w')) \<Longrightarrow>
      dev_organization_id d = usr_organization_id current \<Longrightarrow> alike (usr_organization_id current) w w' (f (Some d))"
  shows "alike (usr_organization_id current) w w' (andThen (ensure_device current i) f)"
proof (cases i)
  case None
  with none show ?thesis by (simp add: ensure_device_def)
next
  case (Some j)
  show ?thesis unfolding ensure_device_def Some option.case
    using found by (intro devices_tbl.scoped_alike[OF view])
qed

lemma alike_inventory:
  assumes view: "same_view c w w'"
    and home: "inventories_at_home (srv_store w)" "inventories_at_home (srv_store w')"
    and d: "d \<in> set (devices (srv_store w))" "d \<in> set (devices (srv_store w'))" "dev_organization_id d = c"
    and rest: "\<And>v. alike c w w' (f v)"
  shows "alike c w w' (andThen (gets (db_scalar device_inventories inv_id (\<lambda>i. inv_device_id i = dev_id d))) f)"
proof (rule alike_gets[OF device_inventories_tbl.scalar_view[OF view] rest])
  have w: "wf_server w" "wf_server w'" using view by (simp_all add: same_view_def)
  fix v :: device_inventory assume "inv_device_id v = dev_id d"
  with d inventory_home[OF w(1) home(1)] inventory_home[OF w(2) home(2)]
  show "v \<in> set (device_inventories (srv_store w)) \<Longrightarrow> inv_organization_id v = c"
    and "v \<in> set (device_inventories (srv_store w')) \<Longrightarrow> inv_organization_id v = c" by simp_all
qed

lemma alike_create_asset:
  assumes view: "same_view (usr_organization_id current) w w'"
    and home: "inventories_at_home (srv_store w)" "inventories_at_home (srv_store w')"
  shows "alike (usr_organization_id current) w w' (create_asset now (answered (Inr current)) p)"
proof -
  have made: "oblivious c (create_row assets_upd mk entry answer)" if "\<And>r. oblivious c (entry r)"
    for c mk entry and answer :: "asset \<Rightarrow> json_dict"
    using that by (intro oblivious_intro) (simp_all add: unique_ok_def)
  note write_alike = alike_oblivious[OF view made[OF oblivious_user_audit]]
  show ?thesis
    unfolding create_asset_def
  proof (intro alike_guard[OF view] alike_if alike_ensure_device[OF view], goal_cases)
    case 1
    show ?case by (intro alike_oblivious[OF view] oblivious_intro)
  next
    case 2
    show ?case by (simp only: option.case andThen_ret write_alike)
  next
    case (3 d)
    then show ?case
      by (simp only: option.case) (rule alike_inventory[OF view home], assumption+, rule write_alike)
  qed
qed

context tenant_table
begin

lemma query_alike [alike_intro]:
  assumes "same_view c w w'" and "\<And>r. P r \<Longrightarrow> org r = c"
  shows "(\<And>x. alike c w w' (f1 x)) \<Longrightarrow> alike c w w' (andThen (gets (db_select t k P)) f1)"
    and "(\<And>x. alike c w w' (f2 x)) \<Longrightarrow> alike c w w' (andThen (gets (db_select_by t k key P)) f2)"
    and "(\<And>x. alike c w w' (f3 x)) \<Longrightarrow> alike c w w' (andThen (gets (db_scalar t k P)) f3)"
  using assms select_view[OF assms] scalar_view[OF assms(1)] by (auto intro!: alike_gets)

lemma count_view:
  assumes "same_view c w w'"
  shows "db_count t (\<lambda>r. org r = c) (open_session w) = db_count t (\<lambda>r. org r = c) (open_session w')"
    and "db_count t (\<lambda>r. org r = c \<and> Q r) (open_session w) = db_count t (\<lambda>r. org r = c \<and> Q r) (open_session w')"
  by (rule select_view(3)[OF assms]; simp)+

end

lemmas counts_view = devices_tbl.count_view alerts_tbl.count_view assets_tbl.count_view tickets_tbl.count_view
  discovered_devices_tbl.count_view remote_session_audits_tbl.count_view documentation_articles_tbl.count_view
  ai_insights_tbl.count_view report_runs_tbl.count_view

lemma alike_lookups [alike_intro]:
  assumes "same_view (usr_organization_id current) w w'"
  shows "(\<And>r. alike (usr_organization_id current) w w' (f1 r)) \<Longrightarrow>
      alike (usr_organization_id current) w w' (andThen (own_ticket current i) f1)"
    and "(\<And>r. alike (usr_organization_id current) w w' (f2 r)) \<Longrightarrow>
      alike (usr_organization_id current) w w' (andThen (own_template current i) f2)"
    and "(\<And>r. alike (usr_organization_id current) w w' (f3 r)) \<Longrightarrow>
      alike (usr_organization_id current) w w' (andThen (own_workflow current i) f3)"
    and "(\<And>r. alike (usr_organization_id current) w w' (f4 r)) \<Longrightarrow>
      alike (usr_organization_id current) w w' (andThen (own_backup_job current i) f4)"
  unfolding own_ticket_def own_template_def own_workflow_def own_backup_job_def
  by (intro tickets_tbl.scoped_alike report_templates_tbl.scoped_alike workflows_tbl.scoped_alike
      backup_jobs_tbl.scoped_alike; simp add: assms)+

lemma ai_answer_view:
  assumes "same_view (usr_organization_id current) w w'"
  shows "ai_answer today current query (open_session w) = ai_answer today current query (open_session w')"
  by (simp add: ai_answer_def counts_view[OF assms])

lemma dashboard_counts_view:
  assumes "same_view c w w'"
  shows "dashboard_counts now c (open_session w) = dashboard_counts now c (open_session w')"
  by (simp add: dashboard_counts_def counts_view[OF assms])

lemma alike_article_category:
  assumes view: "same_view (usr_organization_id current) w w'"
    and rest: "\<And>i. oblivious (usr_organization_id current) (f i)"
  shows "alike (usr_organization_id current) w w' (andThen (article_category now current name) f)"
proof (cases name)
  case None
  then show ?thesis by (simp add: article_category_def alike_oblivious[OF view rest])
next
  case (Some v)
  have "alike (usr_organization_id current) w w' (andThen (gets (db_scalar categories_at dcg_id (\<lambda>c.
       dcg_organization_id c = usr_organization_id current \<and> dcg_name c = v))) (\<lambda>found.
     andThen (case found of Some category \<Rightarrow> ret (Some (dcg_id category)) | None \<Rightarrow>
       andThen (insert_row categories_upd (\<lambda>i. \<lparr>dcg_id = i, dcg_organization_id = usr_organization_id current,
          dcg_name = v, dcg_created_at = now\<rparr>)) (\<lambda>category. andThen db_flush (\<lambda>_. ret (Some (dcg_id category))))) f))"
    by (intro documentation_categories_tbl.query_alike[OF view] alike_oblivious[OF view] oblivious_intro rest)
      (simp_all add: unique_ok_def)
  with Some show ?thesis by (simp add: article_category_def andThen_assoc alike_oblivious[OF view rest])
qed

lemma alike_operations:
  assumes view: "same_view (usr_organization_id current) w w'"
    and home: "inventories_at_home (srv_store w)" "inventories_at_home (srv_store w')"
  shows "alike (usr_organization_id current) w w' (handle_operations now (answered (Inr current)) q)"
proof -
  note read = alike_guard[OF view] alike_if alike_option alike_intro[OF view] alike_ensure_device[OF view]
    alike_gets[OF ai_answer_view[OF view]]
  have creating: "alike (usr_organization_id current) w w' (handle_operations now (answered (Inr current)) (CreateAsset p))" for p
    unfolding handle_operations_def operations_request.case
    by (intro alike_validated[OF view] alike_respond alike_create_asset[OF view home])
  have "alike (usr_organization_id current) w w' (handle_operations now (answered (Inr current)) q)"
    if "\<And>p. q \<noteq> CreateAsset p"
    unfolding handle_operations_def operations_handlers Let_def
    by (cases q; simp only: operations_request.case; (rule alike_validated[OF view])?; rule alike_respond;
        intro read alike_article_category[OF view]; (intro alike_oblivious[OF view] oblivious_intro)?; simp add: unique_ok_def that)
  with creating show ?thesis by (cases q) auto
qed

context tenant_table
begin

lemma put_view:
  assumes w: "wf_server w" and r0: "r0 \<in> set (t (srv_store w))" "org r0 = c" and r: "k r = k r0" "org r = c"
  shows "org_view c (u (map (\<lambda>x. if k x = k r then r else x)) (srv_store w)) =
     u (\<lambda>_. map (\<lambda>x. if k x = k r then r else x) (t (org_view c (srv_store w)))) (org_view c (srv_store w))"
proof -
  have "org (if k x = k r then r else x) = c \<longleftrightarrow> org x = c" if "x \<in> set (t (srv_store w))" for x
    using that r r0 open_find_key[OF w r0(1)] open_find_key[OF w that] by (auto simp: option.inject)
  then have "filter (\<lambda>r. org r = c) (map (\<lambda>x. if k x = k r then r else x) (t (srv_store w))) =
      map (\<lambda>x. if k x = k r then r else x) (filter (\<lambda>r. org r = c) (t (srv_store w)))"
    by (simp add: filter_map comp_def cong: filter_cong)
  then show ?thesis by (simp add: view_write view_read)
qed

lemma put_alike:
  assumes view: "same_view c w w'" and "r0 \<in> set (t (srv_store w))" and "r0 \<in> set (t (srv_store w'))"
    and "org r0 = c" and "k r = k r0" and "org r = c" and unique: "\<And>f st. unique_ok (u f st) = unique_ok st"
    and rest: "\<And>x. oblivious c (f x)"
  shows "alike c w w' (andThen (put_row u k r) f)"
proof -
  let ?after = "\<lambda>v. snd (put_row u k r (open_session v))"
  have w: "wf_server w" "wf_server w'" and eq: "org_view c (srv_store w) = org_view c (srv_store w')"
    "srv_next_id w = srv_next_id w'"
    using view by (simp_all add: same_view_def)
  have "org_view c (live (?after w)) = org_view c (live (?after w'))"
    using put_view[OF w(1) assms(2,4,5,6)] put_view[OF w(2) assms(3,4,5,6)] eq by (simp add: put_row_def)
  then have "same_look c (?after w) (?after w')"
    using w eq by (simp add: same_look_def put_row_def unique wf_server_def)
  with rest[of "()"] show ?thesis by (simp add: alike_def andThen_run put_row_def oblivious_def)
qed

end

lemma alike_save_preferences:
  assumes view: "same_view (usr_organization_id current) w w'"
  shows "alike (usr_organization_id current) w w' (save_dashboard_preferences now (answered (Inr current)) p)"
proof -
  let ?P = "\<lambda>p. dpr_organization_id p = usr_organization_id current \<and> dpr_user_id p = usr_id current"
  have w: "wf_server w" "wf_server w'" using view by (simp_all add: same_view_def)
  have same: "db_scalar preferences_at dpr_id ?P (open_session w) = db_scalar preferences_at dpr_id ?P (open_session w')"
    by (rule dashboard_preferences_tbl.scalar_view[OF view]) simp_all
  have own: "r \<in> set (preferences_at (srv_store w)) \<and> r \<in> set (preferences_at (srv_store w')) \<and>
      dpr_organization_id r = usr_organization_id current"
    if "db_scalar preferences_at dpr_id ?P (open_session w) = Some r" for r
    using that same w by (auto simp: dashboard_preferences_tbl.open_scalar dest!: find_SomeD)
  show ?thesis
    unfolding save_dashboard_preferences_def own_preference_def
  proof (intro alike_guard[OF view] alike_gets[OF same])
    fix found assume found: "found = db_scalar preferences_at dpr_id ?P (open_session w)"
    show "alike (usr_organization_id current) w w' (andThen (case found of None \<Rightarrow>
        andThen (insert_row preferences_upd (\<lambda>i. \<lparr>dpr_id = i, dpr_organization_id = usr_organization_id current,
          dpr_user_id = usr_id current, dpr_layout = dpq_layout p, dpr_role_widgets = dpq_role_widgets p,
          dpr_created_at = now\<rparr>)) (\<lambda>_. ret ''None'')
      | Some r \<Rightarrow> andThen (put_row preferences_upd dpr_id
          (r\<lparr>dpr_layout := dpq_layout p, dpr_role_widgets := dpq_role_widgets p\<rparr>)) (\<lambda>_. ret (uuid_str (dpr_id r))))
      (\<lambda>target. andThen (user_audit now current ''dashboard.preferences.saved'' ''dashboard_preference'' (Some target) [])
        (\<lambda>_. andThen db_commit (\<lambda>_. ret [(''layout'', JObj (dpq_layout p)),
           (''role_widgets'', json_texts (dpq_role_widgets p))]))))"
    proof (cases found)
      case None
      then show ?thesis by (simp only: option.case) (intro alike_oblivious[OF view] oblivious_intro, simp add: unique_ok_def)
    next
      case (Some r)
      have r: "r \<in> set (preferences_at (srv_store w))" "r \<in> set (preferences_at (srv_store w'))"
        "dpr_organization_id r = usr_organization_id current"
        using own[of r] found Some by simp_all
      show ?thesis unfolding Some option.case andThen_assoc
        by (intro dashboard_preferences_tbl.put_alike[OF view r] oblivious_intro) (simp_all add: unique_ok_def r)
    qed
  qed
qed

lemma alike_portal_role:
  assumes view: "same_view (usr_organization_id current) w w'"
    and rest: "\<And>r. oblivious (usr_organization_id current) (f r)"
  shows "alike (usr_organization_id current) w w' (andThen (portal_role_for now current name) f)"
  unfolding portal_role_for_def andThen_assoc
  by (intro portal_roles_tbl.query_alike[OF view] alike_oblivious[OF view] oblivious_intro rest)
    (simp_all add: unique_ok_def)

lemma alike_platform:
  assumes view: "same_view (usr_organization_id current) w w'"
  shows "alike (usr_organization_id current) w w' (handle_phase3 rt cfg now (answered (Inr current)) q)"
proof -
  note read = alike_guard[OF view] alike_if alike_option alike_intro[OF view] alike_portal_role[OF view]
    alike_gets[OF dashboard_counts_view[OF view]]
  have saving: "alike (usr_organization_id current) w w' (handle_phase3 rt cfg now (answered (Inr current)) (SavePreferences p))" for p
    unfolding handle_phase3_def phase3_request.case by (intro alike_respond alike_save_preferences[OF view])
  have "alike (usr_organization_id current) w w' (handle_phase3 rt cfg now (answered (Inr current)) q)"
    if "\<And>p. q \<noteq> SavePreferences p"
    unfolding handle_phase3_def phase3_handlers Let_def own_preference_def
    by (cases q; simp only: phase3_request.case; (rule alike_validated[OF view])?; rule alike_respond;
        intro read; (intro alike_oblivious[OF view] oblivious_intro)?; simp add: unique_ok_def that)
  with saving show ?thesis by (cases q) auto
qed

subsection \<open>Tenants learn nothing of each other\<close>

lemma auth_same_view:
  assumes view: "same_view (usr_organization_id current) w w'"
    and auth: "require_authenticated_user rt cfg now cred (open_session w) = (Inr current, open_session w)"
  shows "require_authenticated_user rt cfg now cred (open_session w') = (Inr current, open_session w')"
proof -
  have w: "wf_server w" "wf_server w'" using view by (simp_all add: same_view_def)
  have "db_get users usr_id i (open_session w') = Some current" if "db_get users usr_id i (open_session w) = Some current" for i
    using users_tbl.get_view[OF view, of i] that by (auto split: option.splits if_splits)
  with auth show ?thesis
    by (auto simp: require_authenticated_user_def andThen_run split: option.splits if_splits prod.splits)
qed

lemma run_alike:
  assumes "alike c w w' h" and "wf_server (snd (run_request h w))" and "wf_server (snd (run_request h w'))"
  shows "fst (run_request h w) = fst (run_request h w') \<and> same_view c (snd (run_request h w)) (snd (run_request h w'))"
  using assms by (auto simp: alike_def same_look_def same_view_def run_request_def close_session_def split: prod.splits)

text \<open>The routes of this theory, operations on the left and platform on the right.\<close>

definition handle_tenant ::
  "runtime \<Rightarrow> settings \<Rightarrow> datetime \<Rightarrow> user db_op \<Rightarrow> operations_request + phase3_request \<Rightarrow> json db_op" where
  "handle_tenant rt cfg now auth q =
     (case q of Inl r \<Rightarrow> handle_operations now auth r | Inr r \<Rightarrow> handle_phase3 rt cfg now auth r)"

lemma tenant_answered:
  assumes "auth s = (r, s)"
  shows "handle_tenant rt cfg now auth q s = handle_tenant rt cfg now (answered r) q s"
proof -
  note same = handle_answered[where auth = auth and s = s and r = r, OF assms]
  show ?thesis by (cases q) (simp_all add: handle_tenant_def same)
qed

lemma wf_tenant:
  assumes "wf_server w"
  shows "wf_session (snd (handle_tenant rt cfg now (answered (Inr current)) q (open_session w)))"
proof -
  let ?o = "Suc (usr_organization_id current)"
  have "keeps (isolated ?o (org_view ?o (srv_store w))) (handle_tenant rt cfg now (answered (Inr current)) q)"
    by (cases q) (auto simp: handle_tenant_def intro!: isolated_operations isolated_phase3)
  from keepsD[OF this, of "open_session w"] assms show ?thesis by (simp add: isolated_def)
qed


definition foreign_asset :: asset where
  "foreign_asset = imported_asset 0 2 \<lparr>asq_asset_tag = ''A-1'', asq_name = ''Router'', asq_device_id = None,
     asq_serial_number = None, asq_manufacturer = None, asq_model = None, asq_purchase_date = None,
     asq_purchase_cost = None, asq_vendor = None, asq_warranty_expiration = None, asq_assigned_user = None,
     asq_department = None, asq_location = None, asq_status = ''active'', asq_notes = None\<rparr> 30"

definition crowded_server :: server where
  "crowded_server = sample_server\<lparr>srv_store := phase2_update (assets_update (\<lambda>_. [foreign_asset])) sample_store\<rparr>"


end
