(* ===== verification/JobsQueue.thy ===== *)
theory JobsQueue
  imports JobsApi
begin

text \<open>
  The queue of jobs of a device under the polls of its agent: each poll takes the five
  oldest jobs off the queue and expires the overdue ones behind them, so enough polls serve
  every queued job.
\<close>

definition device_queue :: "uuid \<Rightarrow> store \<Rightarrow> agent_job list" where
  "device_queue d st = sort_key job_created_at
     (filter (\<lambda>j. job_device_id j = d \<and> job_status j = ''queued'') (agent_jobs st))"

lemma next_jobs_queue: "agt_device_id agent = Some d \<Longrightarrow> next_jobs agent st = take 5 (device_queue d st)"
  by (auto simp: next_jobs_def device_queue_def intro!: arg_cong[where f = "take 5"] arg_cong[where f = "sort_key _"]
      filter_cong)

lemma queued_in_queue:
  "j \<in> set (device_queue d st) \<longleftrightarrow> j \<in> set (agent_jobs st) \<and> job_device_id j = d \<and> job_status j = ''queued''"
  by (auto simp: device_queue_def)

subsection \<open>One poll\<close>

abbreviation poll_request :: "uuid \<Rightarrow> string \<Rightarrow> job_request" where
  "poll_request d secret \<equiv> PollJobs (Some d) (Some secret) None None"

definition agent_credentials :: "runtime \<Rightarrow> settings \<Rightarrow> uuid \<Rightarrow> string \<Rightarrow> agent \<Rightarrow> server \<Rightarrow> bool" where
  "agent_credentials rt cfg d secret agent w \<longleftrightarrow>
     valid_AgentJobPollRequest \<lparr>apr_device_id = d, apr_device_secret = secret\<rparr> \<and>
     authenticate_agent_jobs rt cfg \<lparr>apr_device_id = d, apr_device_secret = secret\<rparr> (open_session w) =
       (Inr agent, open_session w)"

lemma credentials_device:
  "wf_server w \<Longrightarrow> agent_credentials rt cfg d secret agent w \<Longrightarrow> agt_device_id agent = Some d"
  using authenticate_agent_open[of w rt cfg] by (auto simp: agent_credentials_def)

lemma credentials_agents:
  assumes "wf_server w" and "wf_server w'" and "agents (srv_store w') = agents (srv_store w)"
    and "agent_credentials rt cfg d secret agent w"
  shows "agent_credentials rt cfg d secret agent w'"
  using assms(3,4)
  by (auto simp: agent_credentials_def authenticate_agent_jobs_def agents_tbl.open_scalar[OF assms(1)]
      agents_tbl.open_scalar[OF assms(2)] split: option.splits if_splits)

lemma polls_keep_agents:
  "keeps (everywhere (\<lambda>st. agents st = as)) (handle_job rt cfg now (poll_request d secret))"
  unfolding handle_job_def poll_jobs_def assign_jobs_for_agent_def assign_job_def expire_jobs_def expire_job_def
    add_job_event_def audit_def Let_def
  by (simp, intro conjI impI keeps_intro everywhere_insert everywhere_put; simp add: keeps_def)

lemma poll_effect:
  assumes w: "wf_server w" and cred: "agent_credentials rt cfg d secret agent w"
    and w': "w' = snd (run_request (handle_job rt cfg now (poll_request d secret)) w)"
  shows "wf_server w' \<and> agent_credentials rt cfg d secret agent w' \<and>
     agent_jobs (srv_store w') = map (polled_row now agent (srv_store w)) (agent_jobs (srv_store w))"
proof -
  obtain s where s: "assign_jobs_for_agent now agent (open_session w) =
      (Inr (map (\<lambda>j. assigned_job agent (swept_job now (agt_device_id agent) j)) (next_jobs agent (srv_store w))), s)"
    "unique_ok (live s)" "agent_jobs (live s) = map (polled_row now agent (srv_store w)) (agent_jobs (srv_store w))"
    using assign_run_full[OF w] by blast
  have answer: "snd (map_each js (\<lambda>job. job_response job False) t) = t" for js t
    using keepsD[OF keeps_map_each[OF keeps_job_reads(1)], of "\<lambda>u. u = t" t] by simp
  let ?t = "s\<lparr>flushed := live s, durable := live s\<rparr>"
  let ?rs = "map (\<lambda>j. assigned_job agent (swept_job now (agt_device_id agent) j)) (next_jobs agent (srv_store w))"
  obtain r where r: "map_each ?rs (\<lambda>job. job_response job False) ?t = (r, ?t)"
    using answer by (metis prod.collapse)
  have "poll_jobs rt cfg now (Some d) (Some secret) None None (open_session w) = (r, ?t)"
    using cred s(1,2) by (simp add: poll_jobs_def agent_credentials_def andThen_run db_commit_run r)
  then have "snd (handle_job rt cfg now (poll_request d secret) (open_session w)) = ?t"
    by (simp add: handle_job_def)
  then obtain r' where "handle_job rt cfg now (poll_request d secret) (open_session w) = (r', ?t)"
    by (metis prod.collapse)
  then have "srv_store w' = live s" by (simp add: w' run_request_eq)
  moreover have "wf_server w'" using run_request_wf[OF wf_requests w] by (simp add: w')
  moreover have "agents (srv_store w') = agents (srv_store w)"
    using run_request_everywhere[OF polls_keep_agents] w' by blast
  ultimately show ?thesis using s(3) credentials_agents[OF w _ _ cred] by simp
qed

subsection \<open>The queue under polls\<close>

lemma filter_behind:
  assumes "distinct q"
  shows "filter (\<lambda>x. x \<notin> set (take n q) \<and> P x) q = filter P (drop n q)"
proof -
  have "x \<notin> set (take n q)" if "x \<in> set (drop n q)" for x
    using that set_take_disj_set_drop_if_distinct[OF assms, of n n] by auto
  then have "filter (\<lambda>x. x \<notin> set (take n q) \<and> P x) (drop n q) = filter P (drop n q)"
    by (auto intro!: filter_cong)
  moreover have "filter (\<lambda>x. x \<notin> set (take n q) \<and> P x) (take n q) = []"
    by (simp add: filter_empty_conv)
  ultimately show ?thesis by (metis append_Nil append_take_drop_id filter_append)
qed

text \<open>A poll leaves on the queue what was behind its first five jobs and is not overdue.\<close>

lemma queue_after_poll:
  assumes w: "wf_server w" and dev: "agt_device_id agent = Some d"
    and jobs: "agent_jobs st = map (polled_row now agent (srv_store w)) (agent_jobs (srv_store w))"
  shows "device_queue d st = filter (\<lambda>j. now < job_expires_at j) (drop 5 (device_queue d (srv_store w)))"
proof -
  let ?st = "srv_store w" and ?Q = "device_queue d (srv_store w)"
  have inj: "x = y" if "x \<in> set (agent_jobs ?st)" "y \<in> set (agent_jobs ?st)" "job_id x = job_id y" for x y
    using agent_jobs_tbl.open_find_key[OF w] that by (metis option.inject)
  have sub: "set (take 5 ?Q) \<subseteq> set (agent_jobs ?st)" by (auto dest!: in_set_takeD simp: queued_in_queue)
  have dist: "distinct ?Q"
    using agent_jobs_tbl.open_distinct[OF w] by (simp add: device_queue_def distinct_map)
  have row: "polled_row now agent ?st x = (if x \<in> set (take 5 ?Q) then assigned_job agent (swept_job now (Some d) x)
      else swept_job now (Some d) x)" if "x \<in> set (agent_jobs ?st)" for x
  proof -
    have "job_id x \<in> job_id ` set (take 5 ?Q) \<longleftrightarrow> x \<in> set (take 5 ?Q)"
      using that inj[OF that] sub by blast
    then show ?thesis by (simp only: polled_row_def Let_def next_jobs_queue[OF dev] dev)
  qed
  have queued: "job_device_id (polled_row now agent ?st x) = d \<and> job_status (polled_row now agent ?st x) = ''queued'' \<longleftrightarrow>
      (job_device_id x = d \<and> job_status x = ''queued'') \<and> x \<notin> set (take 5 ?Q) \<and> now < job_expires_at x"
    if "x \<in> set (agent_jobs ?st)" for x
    by (auto simp: row[OF that] assigned_job_def swept_job_def expired_job_def job_overdue_def)
  have same: "polled_row now agent ?st x = x"
    if "x \<in> set (agent_jobs ?st)" "x \<notin> set (take 5 ?Q)" "now < job_expires_at x" for x
    using that by (simp add: row swept_job_def job_overdue_def)
  have "filter (\<lambda>j. job_device_id j = d \<and> job_status j = ''queued'') (agent_jobs st) =
      filter (\<lambda>x. x \<notin> set (take 5 ?Q) \<and> now < job_expires_at x)
        (filter (\<lambda>j. job_device_id j = d \<and> job_status j = ''queued'') (agent_jobs ?st))"
    unfolding jobs filter_map comp_def filter_filter
    by (rule trans[OF map_cong[OF filter_cong[OF refl queued]]]) (auto simp: same intro!: map_idI filter_cong)
  then have "device_queue d st = filter (\<lambda>x. x \<notin> set (take 5 ?Q) \<and> now < job_expires_at x) ?Q"
    by (simp add: device_queue_def filter_sort)
  also have "\<dots> = filter (\<lambda>x. now < job_expires_at x) (drop 5 ?Q)"
    by (rule filter_behind[OF dist])
  finally show ?thesis .
qed

subsection \<open>Every queued job is served\<close>

definition handed_out :: "agent \<Rightarrow> agent_job \<Rightarrow> agent_job" where
  "handed_out agent j = j\<lparr>job_status := ''assigned'', job_assigned_agent_id := Some (agt_id agent)\<rparr>"

definition polls :: "runtime \<Rightarrow> settings \<Rightarrow> uuid \<Rightarrow> string \<Rightarrow> datetime list \<Rightarrow> server \<Rightarrow> server" where
  "polls rt cfg d secret instants w = run_jobs rt cfg (map (\<lambda>now. (now, poll_request d secret)) instants) w"

lemma polls_Cons: "polls rt cfg d secret (now # instants) w =
    polls rt cfg d secret instants (snd (run_request (handle_job rt cfg now (poll_request d secret)) w))"
  by (simp add: polls_def run_jobs_def)

text \<open>A job that was handed out stays so until it is started or runs out of time.\<close>

lemma polls_keep_handed_out:
  assumes "wf_server w" and "agent_credentials rt cfg d secret agent w" and "j \<in> set (agent_jobs (srv_store w))"
    and "job_status j = ''assigned''" and "\<forall>now \<in> set instants. now < job_expires_at j"
  shows "j \<in> set (agent_jobs (srv_store (polls rt cfg d secret instants w)))"
  using assms
proof (induction instants arbitrary: w)
  case Nil
  then show ?case by (simp add: polls_def run_jobs_def)
next
  case (Cons now instants)
  let ?w = "snd (run_request (handle_job rt cfg now (poll_request d secret)) w)"
  note step = poll_effect[OF Cons.prems(1,2) refl, of now]
  have "job_id j \<notin> job_id ` set (next_jobs agent (srv_store w))"
  proof
    assume "job_id j \<in> job_id ` set (next_jobs agent (srv_store w))"
    then obtain x where "x \<in> set (agent_jobs (srv_store w))" "job_status x = ''queued''" "job_id j = job_id x"
      by (auto simp: next_jobs_def dest!: in_set_takeD)
    moreover from this have "x = j"
      using agent_jobs_tbl.open_find_key[OF Cons.prems(1)] Cons.prems(3) by (metis option.inject)
    ultimately show False using Cons.prems(4) by simp
  qed
  then have "polled_row now agent (srv_store w) j = j"
    using Cons.prems(5) by (simp add: polled_row_def Let_def swept_job_def job_overdue_def)
  with step Cons.prems(3) have "j \<in> set (agent_jobs (srv_store ?w))" by (metis image_eqI list.set_map)
  with Cons step show ?case by (simp add: polls_Cons)
qed

lemma polls_serve:
  assumes "wf_server w" and "agent_credentials rt cfg d secret agent w"
    and "length (device_queue d (srv_store w)) \<le> 5 * length instants"
    and "j \<in> set (device_queue d (srv_store w))" and "\<forall>now \<in> set instants. now < job_expires_at j"
  shows "handed_out agent j \<in> set (agent_jobs (srv_store (polls rt cfg d secret instants w)))"
  using assms
proof (induction instants arbitrary: w)
  case Nil
  then show ?case by simp
next
  case (Cons now instants)
  let ?w = "snd (run_request (handle_job rt cfg now (poll_request d secret)) w)"
  note step = poll_effect[OF Cons.prems(1,2) refl, of now]
  note dev = credentials_device[OF Cons.prems(1,2)]
  note behind = queue_after_poll[OF Cons.prems(1) dev, of "srv_store ?w" now]
  have shorter: "length (filter (\<lambda>j. now < job_expires_at j) (drop 5 (device_queue d (srv_store w))))
      \<le> length (device_queue d (srv_store w)) - 5"
    by (rule le_trans[OF length_filter_le]) simp
  have time: "now < job_expires_at j" "\<forall>now \<in> set instants. now < job_expires_at j" using Cons.prems(5) by simp_all
  show ?case
  proof (cases "j \<in> set (take 5 (device_queue d (srv_store w)))")
    case True
    have "polled_row now agent (srv_store w) j = handed_out agent j"
      using True time(1) dev
      by (auto simp: polled_row_def Let_def next_jobs_queue[OF dev] swept_job_def job_overdue_def assigned_job_def
          handed_out_def)
    with step Cons.prems(4) have "handed_out agent j \<in> set (agent_jobs (srv_store ?w))"
      by (metis queued_in_queue image_eqI list.set_map)
    with step time(2) show ?thesis
      unfolding polls_Cons by (intro polls_keep_handed_out[where agent = agent]) (simp_all add: handed_out_def)
  next
    case False
    with Cons.prems(4) have "j \<in> set (drop 5 (device_queue d (srv_store w)))"
      by (metis UnE append_take_drop_id set_append)
    with behind step time(1) have "j \<in> set (device_queue d (srv_store ?w))" by simp
    moreover have "length (device_queue d (srv_store ?w)) \<le> 5 * length instants"
      using shorter behind step Cons.prems(3) by simp
    ultimately show ?thesis using Cons.IH[of ?w] step time(2) by (simp add: polls_Cons)
  qed
qed

lemma polls_drain:
  assumes "wf_server w" and "agent_credentials rt cfg d secret agent w"
    and "length (device_queue d (srv_store w)) \<le> 5 * length instants"
  shows "device_queue d (srv_store (polls rt cfg d secret instants w)) = []"
  using assms
proof (induction instants arbitrary: w)
  case Nil
  then show ?case by (simp add: polls_def run_jobs_def)
next
  case (Cons now instants)
  let ?w = "snd (run_request (handle_job rt cfg now (poll_request d secret)) w)"
  note step = poll_effect[OF Cons.prems(1,2) refl, of now]
  note behind = queue_after_poll[OF Cons.prems(1) credentials_device[OF Cons.prems(1,2)], of "srv_store ?w" now]
  have shorter: "length (filter (\<lambda>j. now < job_expires_at j) (drop 5 (device_queue d (srv_store w))))
      \<le> length (device_queue d (srv_store w)) - 5"
    by (rule le_trans[OF length_filter_le]) simp
  have "length (device_queue d (srv_store ?w)) \<le> 5 * length instants"
    using shorter behind step Cons.prems(3) by simp
  with Cons.IH[of ?w] step show ?case by (simp add: polls_Cons)
qed

text \<open>C14. Every queued job is served: if an agent keeps polling, the queue of its device, of
  any length, is empty after a fifth as many polls as it has jobs, and every job on it that
  does not run out of time is then assigned to the agent. No job waits for ever.\<close>

theorem queued_jobs_served:
  assumes "wf_server w" and "agent_credentials rt cfg d secret agent w"
    and "length (device_queue d (srv_store w)) \<le> 5 * length instants"
  shows "device_queue d (srv_store (polls rt cfg d secret instants w)) = [] \<and>
    (\<forall>j \<in> set (device_queue d (srv_store w)). (\<forall>now \<in> set instants. now < job_expires_at j) \<longrightarrow>
       handed_out agent j \<in> set (agent_jobs (srv_store (polls rt cfg d secret instants w))))"
  using polls_drain[OF assms] polls_serve[OF assms] by blast

theorem queued_jobs_served_witness:
  "handed_out sample_agent (sample_job 12 ''queued'') \<in>
     set (agent_jobs (srv_store (polls sample_runtime default_settings 10 ''device-secret-0001'' [40] sample_server)))"
proof -
  have "agent_credentials sample_runtime default_settings 10 ''device-secret-0001'' sample_agent sample_server"
    by (simp add: agent_credentials_def sample_agent_auth valid_AgentJobPollRequest_def len_between_def)
  moreover have "device_queue 10 (srv_store sample_server) = [sample_job 12 ''queued'']"
    by (simp add: device_queue_def sample_defs)
  ultimately show ?thesis
    using queued_jobs_served[OF sample_wf, of sample_runtime default_settings 10 "''device-secret-0001''" sample_agent "[40]"]
    by (simp add: sample_job_def)
qed

end
