(* ===== verification/Schema.thy ===== *)
theory Schema
  imports Prelude "HOL-Library.Multiset"
begin

text \<open>
  Database schemas and the statements that change them, in the words of SQLAlchemy and
  Alembic: what \<^verbatim>\<open>backend/alembic/versions\<close> issues through \<open>op\<close>. A statement is data; what
  it does to the catalogue of the database, and when the database refuses it, is \<open>execute\<close>.
  The lemmas show that no statement breaks the catalogue: names stay unique, and every
  key and index is over columns that exist (\<open>wf_schema\<close>).
\<close>

subsection \<open>Columns, tables and indexes\<close>

datatype sql_type =
  UUID | String int | Text | Integer | BigInteger | Boolean | DateTime | Date | JSON
| Numeric int int

datatype sql_default = Expression string | Literal string

record column =
  col_name :: string
  col_type :: sql_type
  col_nullable :: bool
  col_default :: "sql_default option"

record index =
  idx_name :: string
  idx_columns :: "string list"
  idx_unique :: bool

text \<open>A foreign key is a column with its target, written \<open>table.column\<close>.\<close>

type_synonym foreign_key = "string \<times> string"

record table =
  tbl_name :: string
  tbl_columns :: "column list"
  tbl_foreign_keys :: "foreign_key list"
  tbl_primary_key :: "string list"
  tbl_indexes :: "index list"

type_synonym schema = "table list"

definition column_names :: "table \<Rightarrow> string list" where
  "column_names t = map col_name (tbl_columns t)"

definition table_names :: "schema \<Rightarrow> string list" where
  "table_names db = map tbl_name db"

definition index_names :: "schema \<Rightarrow> string list" where
  "index_names db = concat (map (\<lambda>t. map idx_name (tbl_indexes t)) db)"

text \<open>Tables and indexes share one name space.\<close>

definition relation_names :: "schema \<Rightarrow> string list" where
  "relation_names db = table_names db @ index_names db"

definition target_table :: "string \<Rightarrow> string" where
  "target_table target = takeWhile (\<lambda>c. c \<noteq> CHR ''.'') target"

definition target_column :: "string \<Rightarrow> string" where
  "target_column target = drop (length (target_table target) + 1) target"

definition column_type :: "string \<Rightarrow> table \<Rightarrow> sql_type option" where
  "column_type c t = map_option col_type (List.find (\<lambda>col. col_name col = c) (tbl_columns t))"

text \<open>
  A foreign key holds between a column of the table and the primary key of a table, of the
  same type.
\<close>

definition resolves :: "schema \<Rightarrow> table \<Rightarrow> foreign_key \<Rightarrow> bool" where
  "resolves db t fk \<longleftrightarrow>
     list_ex (\<lambda>target. tbl_name target = target_table (snd fk) \<and>
         tbl_primary_key target = [target_column (snd fk)] \<and>
         column_type (fst fk) t \<noteq> None \<and>
         column_type (target_column (snd fk)) target = column_type (fst fk) t) db"

definition references :: "string \<Rightarrow> table \<Rightarrow> bool" where
  "references name t \<longleftrightarrow> list_ex (\<lambda>fk. target_table (snd fk) = name) (tbl_foreign_keys t)"

definition wf_table :: "schema \<Rightarrow> table \<Rightarrow> bool" where
  "wf_table db t \<longleftrightarrow>
     distinct (column_names t) \<and> set (tbl_primary_key t) \<subseteq> set (column_names t) \<and>
     list_all (resolves db t) (tbl_foreign_keys t) \<and>
     list_all (\<lambda>i. set (idx_columns i) \<subseteq> set (column_names t)) (tbl_indexes t)"

definition wf_schema :: "schema \<Rightarrow> bool" where
  "wf_schema db \<longleftrightarrow> distinct (relation_names db) \<and> list_all (wf_table db) db"

subsection \<open>Statements\<close>

datatype statement =
  CreateTable string "column list" "foreign_key list" "string list"
| DropTable string
| CreateIndex string string "string list" bool
| DropIndex string string
| AddColumn string column
| DropColumn string string
| AlterDefault string string "sql_default option"

definition alter_table :: "string \<Rightarrow> (table \<Rightarrow> table option) \<Rightarrow> schema \<Rightarrow> schema option" where
  "alter_table name f db =
     (case List.find (\<lambda>t. tbl_name t = name) db of
        None \<Rightarrow> None
      | Some t \<Rightarrow> map_option (\<lambda>t'. map (\<lambda>u. if tbl_name u = name then t' else u) db) (f t))"

text \<open>
  The effect of a statement on the catalogue, \<open>None\<close> where the database refuses it. A new
  column has to be nullable or to have a default, as the table may hold rows.
\<close>

fun execute :: "statement \<Rightarrow> schema \<Rightarrow> schema option" where
  "execute (CreateTable name cols fks pk) db =
     (let t = \<lparr>tbl_name = name, tbl_columns = cols, tbl_foreign_keys = fks,
               tbl_primary_key = pk, tbl_indexes = []\<rparr>
      in if name \<notin> set (relation_names db) \<and> wf_table (db @ [t]) t then Some (db @ [t]) else None)"
| "execute (DropTable name) db =
     (if name \<in> set (table_names db) \<and>
         list_all (\<lambda>t. tbl_name t \<noteq> name \<longrightarrow> \<not> references name t) db
      then Some (filter (\<lambda>t. tbl_name t \<noteq> name) db) else None)"
| "execute (CreateIndex name table cols unique) db =
     (if name \<in> set (relation_names db) then None
      else alter_table table (\<lambda>t.
        if set cols \<subseteq> set (column_names t)
        then Some (t\<lparr>tbl_indexes := tbl_indexes t @
               [\<lparr>idx_name = name, idx_columns = cols, idx_unique = unique\<rparr>]\<rparr>)
        else None) db)"
| "execute (DropIndex name table) db =
     alter_table table (\<lambda>t.
       if name \<in> set (map idx_name (tbl_indexes t))
       then Some (t\<lparr>tbl_indexes := filter (\<lambda>i. idx_name i \<noteq> name) (tbl_indexes t)\<rparr>)
       else None) db"
| "execute (AddColumn table col) db =
     alter_table table (\<lambda>t.
       if col_name col \<notin> set (column_names t) \<and> (col_nullable col \<or> col_default col \<noteq> None)
       then Some (t\<lparr>tbl_columns := tbl_columns t @ [col]\<rparr>)
       else None) db"
| "execute (DropColumn table name) db =
     alter_table table (\<lambda>t.
       if name \<in> set (column_names t) \<and> name \<notin> set (tbl_primary_key t)
       then Some (t\<lparr>tbl_columns := filter (\<lambda>col. col_name col \<noteq> name) (tbl_columns t),
                    tbl_foreign_keys := filter (\<lambda>fk. fst fk \<noteq> name) (tbl_foreign_keys t),
                    tbl_indexes := filter (\<lambda>i. name \<notin> set (idx_columns i)) (tbl_indexes t)\<rparr>)
       else None) db"
| "execute (AlterDefault table name dflt) db =
     alter_table table (\<lambda>t.
       if name \<in> set (column_names t)
       then Some (t\<lparr>tbl_columns := map (\<lambda>col. if col_name col = name
                      then col\<lparr>col_default := dflt\<rparr> else col) (tbl_columns t)\<rparr>)
       else None) db"

fun execute_all :: "statement list \<Rightarrow> schema \<Rightarrow> schema option" where
  "execute_all [] db = Some db"
| "execute_all (s # ss) db = Option.bind (execute s db) (execute_all ss)"

lemma execute_all_append:
  "execute_all (ss @ ts) db = Option.bind (execute_all ss db) (execute_all ts)"
  by (induction ss arbitrary: db) (auto split: bind_splits)

subsection \<open>The catalogue stays well-formed\<close>

lemma find_split:
  "List.find P xs = Some x \<Longrightarrow> \<exists>l r. xs = l @ x # r \<and> P x"
proof (induction xs)
  case (Cons y ys)
  show ?case
  proof (cases "P y")
    case True
    then have "y # ys = [] @ x # ys \<and> P x" using Cons.prems by simp
    then show ?thesis by blast
  next
    case False
    then obtain l r where "ys = l @ x # r \<and> P x" using Cons by auto
    then have "y # ys = (y # l) @ x # r \<and> P x" by simp
    then show ?thesis by blast
  qed
qed simp

lemma replace_other: "name \<notin> set (table_names ts) \<Longrightarrow>
    map (\<lambda>u. if tbl_name u = name then t' else u) ts = ts"
  by (induction ts) (auto simp: table_names_def)

lemma table_in_alter:
  assumes "distinct (table_names db)" "alter_table name f db = Some db'"
  obtains l t r t' where "db = l @ t # r" "tbl_name t = name" "f t = Some t'" "db' = l @ t' # r"
    "name \<notin> set (table_names l)" "name \<notin> set (table_names r)"
proof -
  from assms(2) obtain t t' where f: "List.find (\<lambda>t. tbl_name t = name) db = Some t" "f t = Some t'"
      "db' = map (\<lambda>u. if tbl_name u = name then t' else u) db"
    by (auto simp: alter_table_def split: option.splits)
  from f(1) obtain l r where s: "db = l @ t # r" "tbl_name t = name" by (blast dest: find_split)
  then have o: "name \<notin> set (table_names l)" "name \<notin> set (table_names r)"
    using assms(1) by (auto simp: table_names_def)
  then have "db' = l @ t' # r" using s by (simp add: f(3) replace_other)
  then show ?thesis using that s f(2) o by blast
qed

text \<open>What a foreign key relies on in the table it refers to.\<close>

definition same_key :: "table \<Rightarrow> table \<Rightarrow> bool" where
  "same_key t t' \<longleftrightarrow> tbl_name t' = tbl_name t \<and> tbl_primary_key t' = tbl_primary_key t \<and>
     (\<forall>c \<in> set (tbl_primary_key t). column_type c t' = column_type c t)"

lemma resolves_alter:
  assumes "resolves (l @ t # r) u fk" "same_key t t'"
  shows "resolves (l @ t' # r) u fk"
  using assms by (auto simp: resolves_def same_key_def)

lemma resolves_mono: "resolves db t fk \<Longrightarrow> resolves (db @ ts) t fk"
  by (auto simp: resolves_def)

lemma resolves_cong:
  "column_type (fst fk) t = column_type (fst fk) t' \<Longrightarrow> resolves db t fk = resolves db t' fk"
  by (simp add: resolves_def)

lemma find_append_some: "List.find P xs = Some x \<Longrightarrow> List.find P (xs @ ys) = Some x"
  by (induction xs) (auto split: if_splits)

lemma find_filter_other: "(\<And>x. P x \<Longrightarrow> Q x) \<Longrightarrow> List.find P (filter Q xs) = List.find P xs"
  by (induction xs) auto

lemma map_find_cong: "(\<And>x. P (g x) = P x) \<Longrightarrow> (\<And>x. h (g x) = h x) \<Longrightarrow>
    map_option h (List.find P (map g xs)) = map_option h (List.find P xs)"
  by (induction xs) auto

lemma column_type_iff: "column_type c t \<noteq> None \<longleftrightarrow> c \<in> set (column_names t)"
  by (auto simp: column_type_def column_names_def find_None_iff)

lemma relation_names_mid:
  "set (relation_names (l @ t # r)) = insert (tbl_name t) (set (map idx_name (tbl_indexes t)))
     \<union> set (relation_names l) \<union> set (relation_names r)"
  by (auto simp: relation_names_def table_names_def index_names_def)

lemma distinct_relation_mid:
  "distinct (relation_names (l @ t # r)) \<longleftrightarrow>
     distinct ((tbl_name t # map idx_name (tbl_indexes t)) @ relation_names (l @ r))"
  by (rule mset_eq_imp_distinct_iff) (simp add: relation_names_def table_names_def index_names_def)

lemma distinct_relation_append:
  "distinct (relation_names (db @ ts)) \<longleftrightarrow> distinct (relation_names db @ relation_names ts)"
  by (rule mset_eq_imp_distinct_iff) (simp add: relation_names_def table_names_def index_names_def)

lemma column_type_append:
  "col_name col \<notin> set (column_names t) \<Longrightarrow> c \<in> set (column_names t) \<Longrightarrow>
     column_type c (t\<lparr>tbl_columns := tbl_columns t @ [col]\<rparr>) = column_type c t"
  using column_type_iff[of c t] by (auto simp: column_type_def find_append_some)

lemma column_type_filter:
  "c \<noteq> name \<Longrightarrow> column_type c (t\<lparr>tbl_columns := filter (\<lambda>col. col_name col \<noteq> name) (tbl_columns t),
     tbl_foreign_keys := fks\<rparr>) = column_type c t"
  by (auto simp: column_type_def intro!: arg_cong[where f = "map_option col_type"] find_filter_other)

lemma column_type_default:
  "column_type c (t\<lparr>tbl_columns := map (\<lambda>col. if col_name col = name
     then col\<lparr>col_default := dflt\<rparr> else col) (tbl_columns t)\<rparr>) = column_type c t"
  by (simp add: column_type_def map_find_cong if_distrib[of col_name] if_distrib[of col_type] cong: if_cong)

text \<open>
  What a change of one table has to preserve for the catalogue to stay well-formed: its key,
  its own well-formedness, and that index names it adds are new.
\<close>

definition keeps_catalogue :: "schema \<Rightarrow> table \<Rightarrow> table \<Rightarrow> bool" where
  "keeps_catalogue db t t' \<longleftrightarrow>
     same_key t t' \<and> distinct (column_names t') \<and>
     set (tbl_primary_key t') \<subseteq> set (column_names t') \<and>
     (\<forall>fk \<in> set (tbl_foreign_keys t'). fk \<in> set (tbl_foreign_keys t) \<and>
        column_type (fst fk) t' = column_type (fst fk) t) \<and>
     (\<forall>i \<in> set (tbl_indexes t'). set (idx_columns i) \<subseteq> set (column_names t')) \<and>
     (distinct (map idx_name (tbl_indexes t)) \<longrightarrow> distinct (map idx_name (tbl_indexes t'))) \<and>
     set (map idx_name (tbl_indexes t')) \<subseteq>
       set (map idx_name (tbl_indexes t)) \<union> (- set (relation_names db))"

lemma wf_schema_alter:
  assumes "wf_schema db" "alter_table name f db = Some db'"
    and change: "\<And>t t'. \<lbrakk>t \<in> set db; wf_table db t; tbl_name t = name; f t = Some t'\<rbrakk> \<Longrightarrow>
      keeps_catalogue db t t'"
  shows "wf_schema db'"
proof -
  have d: "distinct (relation_names db)" and w: "list_all (wf_table db) db"
    using assms(1) by (auto simp: wf_schema_def)
  from d have dt: "distinct (table_names db)" by (simp add: relation_names_def)
  obtain l t r t' where
      s: "db = l @ t # r" "tbl_name t = name" "f t = Some t'" "db' = l @ t' # r"
      and "name \<notin> set (table_names l)" "name \<notin> set (table_names r)"
    by (rule table_in_alter[OF dt assms(2)])
  have t: "wf_table db t" using w by (simp add: s(1))
  have "keeps_catalogue db t t'" using change[OF _ t s(2,3)] by (simp add: s(1))
  note ch = this[unfolded keeps_catalogue_def]
  have key: "same_key t t'" using ch by blast
  have new: "set (map idx_name (tbl_indexes t')) \<subseteq>
      set (map idx_name (tbl_indexes t)) \<union> (- set (relation_names db))" using ch by blast
  have names: "set (relation_names db) = insert name (set (map idx_name (tbl_indexes t))) \<union>
      set (relation_names (l @ r))"
    by (auto simp: s(1,2) relation_names_def table_names_def index_names_def)
  have parts: "distinct (map idx_name (tbl_indexes t))" "name \<notin> set (map idx_name (tbl_indexes t))"
      "insert name (set (map idx_name (tbl_indexes t))) \<inter> set (relation_names (l @ r)) = {}"
      "distinct (relation_names (l @ r))"
    using d unfolding s(1) distinct_relation_mid by (simp_all add: s(2))
  have "distinct (relation_names db')"
    unfolding s(4) distinct_relation_mid
  proof (subst distinct_append, intro conjI)
    have n: "tbl_name t' = name" using key s(2) by (simp add: same_key_def)
    have "distinct (map idx_name (tbl_indexes t'))" using ch parts(1) by blast
    moreover have "name \<notin> set (map idx_name (tbl_indexes t'))" using new names parts(2) by blast
    ultimately show "distinct (tbl_name t' # map idx_name (tbl_indexes t'))" by (simp add: n)
    show "set (tbl_name t' # map idx_name (tbl_indexes t')) \<inter> set (relation_names (l @ r)) = {}"
      unfolding list.set(2) n using parts(3) new unfolding names by blast
  qed (rule parts(4))
  moreover have "wf_table db' u" if "u \<in> set l \<union> set r" for u
    using that w resolves_alter[OF _ key] by (auto simp: s(1,4) wf_table_def list_all_iff)
  moreover have "wf_table db' t'"
    using t ch resolves_alter[OF _ key]
    by (fastforce simp: s(1,4) wf_table_def list_all_iff intro: resolves_cong[THEN iffD1])
  ultimately show ?thesis by (auto simp: wf_schema_def s(4) list_all_iff)
qed

lemma references_iff: "references name t \<longleftrightarrow> (\<exists>fk \<in> set (tbl_foreign_keys t). target_table (snd fk) = name)"
  by (auto simp: references_def list_ex_iff)

lemma wf_schema_create:
  assumes "wf_schema db" "execute (CreateTable name cols fks pk) db = Some db'"
  shows "wf_schema db'"
proof -
  let ?t = "\<lparr>tbl_name = name, tbl_columns = cols, tbl_foreign_keys = fks,
              tbl_primary_key = pk, tbl_indexes = []\<rparr>"
  have n: "name \<notin> set (relation_names db)" "wf_table (db @ [?t]) ?t" "db' = db @ [?t]"
    using assms(2) by (auto simp: Let_def split: if_splits)
  have "wf_table (db @ [?t]) t" if "t \<in> set db" for t
    using that assms(1) by (auto simp: wf_schema_def wf_table_def list_all_iff intro: resolves_mono)
  moreover have "distinct (relation_names (db @ [?t]))"
    using assms(1) n(1) unfolding distinct_relation_mid by (simp add: wf_schema_def)
  ultimately show ?thesis using n(2) by (auto simp: wf_schema_def n(3) list_all_iff)
qed

lemma relation_names_filter: "set (relation_names (filter P db)) \<subseteq> set (relation_names db)"
  by (auto simp: relation_names_def table_names_def index_names_def)

lemma distinct_relation_filter:
  "distinct (relation_names db) \<Longrightarrow> distinct (relation_names (filter P db))"
proof (induction db)
  case (Cons t db)
  then have d: "distinct (relation_names [t])" "distinct (relation_names db)"
      "set (relation_names [t]) \<inter> set (relation_names db) = {}"
    using distinct_relation_append[of "[t]" db] by simp_all
  then have "set (relation_names [t]) \<inter> set (relation_names (filter P db)) = {}"
    using relation_names_filter[of P db] by blast
  then have "distinct (relation_names ([t] @ filter P db))"
    unfolding distinct_relation_append distinct_append using d(1) Cons.IH[OF d(2)] by blast
  then show ?case using Cons.IH[OF d(2)] by simp
qed simp

lemma wf_schema_drop:
  assumes "wf_schema db" "execute (DropTable name) db = Some db'"
  shows "wf_schema db'"
proof -
  let ?P = "\<lambda>t. tbl_name t \<noteq> name"
  have n: "\<And>t. t \<in> set db \<Longrightarrow> ?P t \<Longrightarrow> \<not> references name t" "db' = filter ?P db"
    using assms(2) by (auto simp: list_all_iff split: if_splits)
  have r: "resolves (filter ?P db) t fk" if "resolves db t fk" "target_table (snd fk) \<noteq> name" for t fk
    using that by (auto simp: resolves_def list_ex_iff)
  have "wf_table (filter ?P db) t" if t: "t \<in> set db" "?P t" for t
    using assms(1) t n(1)[OF t] r
    by (fastforce simp: wf_schema_def wf_table_def list_all_iff references_iff)
  moreover have "distinct (relation_names (filter ?P db))"
    using assms(1) distinct_relation_filter by (simp add: wf_schema_def)
  ultimately show ?thesis by (simp add: wf_schema_def n(2) list_all_iff)
qed

text \<open>Each change of a table, by its effect on the columns.\<close>

lemma columns_indexes [simp]:
  "column_names (t\<lparr>tbl_indexes := is\<rparr>) = column_names t"
  "column_type c (t\<lparr>tbl_indexes := is\<rparr>) = column_type c t"
  by (simp_all add: column_names_def column_type_def)

lemma columns_append [simp]:
  "column_names (t\<lparr>tbl_columns := tbl_columns t @ [col]\<rparr>) = column_names t @ [col_name col]"
  by (simp add: column_names_def)

lemma columns_filter [simp]:
  "column_names (t\<lparr>tbl_columns := filter (\<lambda>col. col_name col \<noteq> name) (tbl_columns t),
      tbl_foreign_keys := fks\<rparr>) = filter (\<lambda>c. c \<noteq> name) (column_names t)"
  by (simp add: column_names_def filter_map o_def)

lemma columns_default [simp]:
  "column_names (t\<lparr>tbl_columns := map (\<lambda>col. if col_name col = name
     then col\<lparr>col_default := dflt\<rparr> else col) (tbl_columns t)\<rparr>) = column_names t"
  by (simp add: column_names_def if_distrib[of col_name] o_def cong: if_cong)

lemma resolves_column: "resolves db t fk \<Longrightarrow> fst fk \<in> set (column_names t)"
  by (auto simp: resolves_def list_ex_iff simp flip: column_type_iff)

lemmas catalogue_defs = keeps_catalogue_def same_key_def wf_table_def list_all_iff

lemma wf_schema_index:
  assumes "wf_schema db" "execute (CreateIndex name table cols unique) db = Some db'"
  shows "wf_schema db'"
proof -
  have n: "name \<notin> set (relation_names db)" using assms(2) by (simp split: if_splits)
  have e: "alter_table table (\<lambda>t. if set cols \<subseteq> set (column_names t)
      then Some (t\<lparr>tbl_indexes := tbl_indexes t @
             [\<lparr>idx_name = name, idx_columns = cols, idx_unique = unique\<rparr>]\<rparr>) else None) db = Some db'"
    using assms(2) by (simp split: if_splits)
  show ?thesis
  proof (rule wf_schema_alter[OF assms(1) e])
    fix t t' assume t: "t \<in> set db" "wf_table db t"
      and "(if set cols \<subseteq> set (column_names t)
        then Some (t\<lparr>tbl_indexes := tbl_indexes t @
               [\<lparr>idx_name = name, idx_columns = cols, idx_unique = unique\<rparr>]\<rparr>) else None) = Some t'"
    then have t': "set cols \<subseteq> set (column_names t)" "t' = t\<lparr>tbl_indexes := tbl_indexes t @
        [\<lparr>idx_name = name, idx_columns = cols, idx_unique = unique\<rparr>]\<rparr>" by (auto split: if_splits)
    have "name \<notin> idx_name ` set (tbl_indexes t)"
      using n t(1) by (auto simp: relation_names_def index_names_def)
    then show "keeps_catalogue db t t'" using t(2) t'(1) n by (auto simp: catalogue_defs t'(2))
  qed
qed

lemma wf_schema_alterations:
  assumes "wf_schema db"
  shows "execute (DropIndex name table) db = Some db' \<Longrightarrow> wf_schema db'"
    and "execute (AddColumn table col) db = Some db' \<Longrightarrow> wf_schema db'"
    and "execute (AlterDefault table name dflt) db = Some db' \<Longrightarrow> wf_schema db'"
proof -
  show "execute (DropIndex name table) db = Some db' \<Longrightarrow> wf_schema db'"
    unfolding execute.simps
    by (erule wf_schema_alter[OF assms])
      (auto simp: catalogue_defs subset_iff split: if_splits intro: distinct_map_filter)
  show "execute (AddColumn table col) db = Some db' \<Longrightarrow> wf_schema db'"
    unfolding execute.simps
    by (erule wf_schema_alter[OF assms]) (auto simp: catalogue_defs subset_iff split: if_splits
        intro!: column_type_append dest: resolves_column)
  show "execute (AlterDefault table name dflt) db = Some db' \<Longrightarrow> wf_schema db'"
    unfolding execute.simps
    by (erule wf_schema_alter[OF assms])
      (auto simp: catalogue_defs subset_iff column_type_default split: if_splits)
qed

lemma wf_schema_drop_column:
  assumes "wf_schema db" "execute (DropColumn table name) db = Some db'"
  shows "wf_schema db'"
  using assms(2) unfolding execute.simps
  by (rule wf_schema_alter[OF assms(1)])
    (auto simp: catalogue_defs subset_iff split: if_splits intro: distinct_map_filter
      intro!: column_type_filter)

lemma execute_wf: "wf_schema db \<Longrightarrow> execute s db = Some db' \<Longrightarrow> wf_schema db'"
  by (cases s) (blast intro: wf_schema_create wf_schema_drop wf_schema_index
      wf_schema_alterations wf_schema_drop_column)+

lemma execute_all_wf: "wf_schema db \<Longrightarrow> execute_all ss db = Some db' \<Longrightarrow> wf_schema db'"
  by (induction ss arbitrary: db) (auto simp: bind_eq_Some_conv dest: execute_wf)

subsection \<open>Creating and dropping whole tables\<close>

text \<open>The statements that create a table with its indexes.\<close>

definition create_statements :: "table \<Rightarrow> statement list" where
  "create_statements t =
     CreateTable (tbl_name t) (tbl_columns t) (tbl_foreign_keys t) (tbl_primary_key t) #
     map (\<lambda>i. CreateIndex (idx_name i) (tbl_name t) (idx_columns i) (idx_unique i)) (tbl_indexes t)"

text \<open>All tables of the program have the key \<open>id\<close>, and all foreign keys refer to such keys.\<close>

definition uuid_keyed :: "table \<Rightarrow> bool" where
  "uuid_keyed t \<longleftrightarrow> tbl_primary_key t = [''id''] \<and> column_type ''id'' t = Some UUID"

definition foreign_key_ok :: "string list \<Rightarrow> table \<Rightarrow> foreign_key \<Rightarrow> bool" where
  "foreign_key_ok available t fk \<longleftrightarrow>
     target_column (snd fk) = ''id'' \<and> column_type (fst fk) t = Some UUID \<and>
     List.member available (target_table (snd fk))"

definition table_ok :: "string list \<Rightarrow> table \<Rightarrow> bool" where
  "table_ok available t \<longleftrightarrow>
     uuid_keyed t \<and> distinct (column_names t) \<and>
     list_all (foreign_key_ok available t) (tbl_foreign_keys t) \<and>
     list_all (\<lambda>i. list_all (List.member (column_names t)) (idx_columns i)) (tbl_indexes t)"

fun creatable :: "string list \<Rightarrow> table list \<Rightarrow> bool" where
  "creatable available [] \<longleftrightarrow> True"
| "creatable available (t # ts) \<longleftrightarrow>
     table_ok available t \<and> creatable (available @ [tbl_name t]) ts"

definition provides :: "schema \<Rightarrow> string list \<Rightarrow> bool" where
  "provides db available \<longleftrightarrow> (\<forall>n \<in> set available. \<exists>t \<in> set db. tbl_name t = n \<and> uuid_keyed t)"

lemma creatable_append: "creatable available (ts @ us) \<longleftrightarrow>
    creatable available ts \<and> creatable (available @ table_names ts) us"
  by (induction ts arbitrary: available) (auto simp: table_names_def)

lemma creatable_keyed: "creatable available ts \<Longrightarrow> list_all uuid_keyed ts"
  by (induction ts arbitrary: available) (auto simp: table_ok_def)

lemma provides_all: "list_all uuid_keyed db \<Longrightarrow> provides db (table_names db)"
  by (auto simp: provides_def table_names_def list_all_iff)

lemma alter_last:
  "tbl_name t \<notin> set (table_names db) \<Longrightarrow> tbl_name t = name \<Longrightarrow>
     alter_table name f (db @ [t]) = map_option (\<lambda>t'. db @ [t']) (f t)"
proof -
  assume a: "tbl_name t \<notin> set (table_names db)" "tbl_name t = name"
  then have "List.find (\<lambda>t. tbl_name t = name) (db @ [t]) = Some t"
    by (induction db) (auto simp: table_names_def)
  then show ?thesis using a replace_other[of name db] by (auto simp: alter_table_def intro!: option.map_cong)
qed

lemma alter_prefix:
  assumes "name \<in> set (table_names db)" "name \<notin> set (table_names ts)"
  shows "alter_table name f (db @ ts) = map_option (\<lambda>d. d @ ts) (alter_table name f db)"
proof -
  obtain t where "List.find (\<lambda>t. tbl_name t = name) db = Some t"
    using assms(1) by (cases "List.find (\<lambda>t. tbl_name t = name) db")
      (auto simp: find_None_iff table_names_def)
  then show ?thesis using replace_other[OF assms(2)]
    by (simp add: alter_table_def find_append_some option.map_comp o_def)
qed

lemma execute_indexes:
  assumes "distinct (relation_names (db @ [t\<lparr>tbl_indexes := js @ is\<rparr>]))"
    and "\<forall>i \<in> set is. set (idx_columns i) \<subseteq> set (column_names t)"
  shows "execute_all (map (\<lambda>i. CreateIndex (idx_name i) (tbl_name t) (idx_columns i) (idx_unique i)) is)
     (db @ [t\<lparr>tbl_indexes := js\<rparr>]) = Some (db @ [t\<lparr>tbl_indexes := js @ is\<rparr>])"
  using assms
proof (induction "is" arbitrary: js)
  case (Cons i "is")
  have n: "idx_name i \<notin> set (relation_names (db @ [t\<lparr>tbl_indexes := js\<rparr>]))"
      "tbl_name t \<notin> set (table_names db)"
    using Cons.prems(1) by (auto simp: relation_names_def table_names_def index_names_def)
  have "execute (CreateIndex (idx_name i) (tbl_name t) (idx_columns i) (idx_unique i))
      (db @ [t\<lparr>tbl_indexes := js\<rparr>]) = Some (db @ [t\<lparr>tbl_indexes := js @ [i]\<rparr>])"
    using n Cons.prems(2) by (simp add: alter_last)
  then show ?case using Cons by simp
qed simp

lemma execute_create:
  assumes "distinct (relation_names (db @ [t]))" "table_ok available t" "provides db available"
  shows "execute_all (create_statements t) db = Some (db @ [t])"
proof -
  let ?t = "t\<lparr>tbl_indexes := []\<rparr>"
  have r: "resolves (db @ [?t]) ?t fk" if "fk \<in> set (tbl_foreign_keys t)" for fk
  proof -
    have f: "foreign_key_ok available t fk" using assms(2) that by (simp add: table_ok_def list_all_iff)
    then obtain u where "u \<in> set db" "tbl_name u = target_table (snd fk)" "uuid_keyed u"
      using assms(3) by (auto simp: provides_def foreign_key_ok_def)
    then show ?thesis using f by (auto simp: resolves_def list_ex_iff foreign_key_ok_def uuid_keyed_def)
  qed
  have "''id'' \<in> set (column_names t)"
    using assms(2) column_type_iff[of "''id''" t] by (auto simp: table_ok_def uuid_keyed_def)
  then have "wf_table (db @ [?t]) ?t"
    using assms(2) r by (auto simp: wf_table_def table_ok_def uuid_keyed_def list_all_iff)
  moreover have "tbl_name t \<notin> set (relation_names db)"
    using assms(1) by (auto simp: relation_names_def table_names_def index_names_def)
  moreover have "?t = \<lparr>tbl_name = tbl_name t, tbl_columns = tbl_columns t,
      tbl_foreign_keys = tbl_foreign_keys t, tbl_primary_key = tbl_primary_key t, tbl_indexes = []\<rparr>"
    by simp
  ultimately have "execute (CreateTable (tbl_name t) (tbl_columns t) (tbl_foreign_keys t)
      (tbl_primary_key t)) db = Some (db @ [?t])" by (simp only: execute.simps Let_def) simp
  moreover have "execute_all (map (\<lambda>i. CreateIndex (idx_name i) (tbl_name t) (idx_columns i)
      (idx_unique i)) (tbl_indexes t)) (db @ [?t]) = Some (db @ [t\<lparr>tbl_indexes := [] @ tbl_indexes t\<rparr>])"
    using assms(1,2) by (intro execute_indexes) (auto simp: table_ok_def list_all_iff)
  ultimately show ?thesis by (simp add: create_statements_def)
qed

lemma create_tables:
  assumes "distinct (relation_names (db @ ts))" "creatable available ts" "provides db available"
  shows "execute_all (concat (map create_statements ts)) db = Some (db @ ts)"
  using assms
proof (induction ts arbitrary: db available)
  case (Cons t ts)
  have "distinct (relation_names (db @ [t]))"
    using Cons.prems(1) distinct_relation_append[of "db @ [t]" ts] by simp
  moreover have t: "table_ok available t" using Cons.prems(2) by simp
  ultimately have "execute_all (create_statements t) db = Some (db @ [t])"
    using execute_create Cons.prems(3) by blast
  moreover have "provides (db @ [t]) (available @ [tbl_name t])"
    using Cons.prems(3) t by (auto simp: provides_def table_ok_def)
  ultimately show ?case
    using Cons.IH[of "db @ [t]" "available @ [tbl_name t]"] Cons.prems by (simp add: execute_all_append)
qed simp

text \<open>
  Dropping tables again needs an order in which no table that is still there refers to the
  one being dropped. The check only looks at names (\<open>outline\<close>).
\<close>

definition outline :: "table \<Rightarrow> string \<times> string list" where
  "outline t = (tbl_name t, map (\<lambda>fk. target_table (snd fk)) (tbl_foreign_keys t))"

fun droppable :: "string list \<Rightarrow> (string \<times> string list) list \<Rightarrow> bool" where
  "droppable [] os \<longleftrightarrow> os = []"
| "droppable (n # ns) os \<longleftrightarrow>
     (let rest = filter (\<lambda>(name, _). name \<noteq> n) os
      in length rest < length os \<and> list_all (\<lambda>(_, targets). \<not> List.member targets n) rest \<and>
         droppable ns rest)"

lemma references_present:
  assumes "wf_schema db" "t \<in> set db" "references n t"
  shows "n \<in> set (table_names db)"
proof -
  obtain fk where fk: "fk \<in> set (tbl_foreign_keys t)" "target_table (snd fk) = n"
    using assms(3) by (auto simp: references_iff)
  then have "resolves db t fk" using assms(1,2) by (simp add: wf_schema_def wf_table_def list_all_iff)
  then obtain u where "u \<in> set db" "tbl_name u = n"
    using fk(2) by (auto simp: resolves_def list_ex_iff)
  then show ?thesis by (auto simp: table_names_def)
qed

lemma filter_outline: "filter (\<lambda>(name, _). name \<noteq> n) (map outline ts) =
    map outline (filter (\<lambda>t. tbl_name t \<noteq> n) ts)"
  by (simp add: filter_map outline_def o_def)

lemma drop_tables:
  assumes "wf_schema db" "distinct (relation_names (db @ ts))" "droppable ns (map outline ts)"
  shows "execute_all (map DropTable ns) (db @ ts) = Some db"
  using assms(2,3)
proof (induction ns arbitrary: ts)
  case (Cons n ns)
  let ?rest = "filter (\<lambda>t. tbl_name t \<noteq> n) ts"
  have rest: "length ?rest < length ts" "\<And>t. t \<in> set ?rest \<Longrightarrow> \<not> references n t"
      "droppable ns (map outline ?rest)"
    using Cons.prems(2) unfolding droppable.simps Let_def filter_outline length_map
    by (auto simp: list_all_iff references_iff outline_def)
  then have n: "n \<in> set (table_names ts)"
    by (metis (mono_tags, lifting) filter_True less_irrefl table_names_def image_eqI set_map)
  then have db: "n \<notin> set (table_names db)"
    using Cons.prems(1) by (auto simp: relation_names_def table_names_def)
  then have "\<not> references n t" if "t \<in> set db" for t
    using references_present[OF assms(1) that] by blast
  moreover have "filter (\<lambda>t. tbl_name t \<noteq> n) db = db"
    using db by (induction db) (auto simp: table_names_def)
  ultimately have "execute (DropTable n) (db @ ts) = Some (db @ ?rest)"
    using n rest(2) by (auto simp: list_all_iff table_names_def)
  moreover have "distinct (relation_names (db @ ?rest))"
    using Cons.prems(1) distinct_relation_filter[of ts] relation_names_filter[of _ ts]
    unfolding distinct_relation_append distinct_append by blast
  ultimately show ?case using Cons.IH rest(3) by simp
qed simp

end
