(* ===== verification/Migrations.thy ===== *)
theory Migrations
  imports Schema
begin

text \<open>
  The database migrations, \<^verbatim>\<open>backend/alembic/versions\<close>, and the way
  \<^verbatim>\<open>backend/alembic/env.py\<close> runs them. The statements a revision issues are the list
  \<open>upgrade\<close>, those that take it back \<open>downgrade\<close>; the helpers of the last two revisions
  (\<open>create\<close>) are functions to lists of statements.
\<close>

subsection \<open>The vocabulary of the scripts\<close>

datatype column_arg = NotNull | Null | ServerDefault sql_default

text \<open>A column accepts NULL unless the script says otherwise.\<close>

definition Column :: "string \<Rightarrow> sql_type \<Rightarrow> column_arg list \<Rightarrow> column" where
  "Column name ty args =
     \<lparr>col_name = name, col_type = ty, col_nullable = NotNull \<notin> set args,
      col_default = List.find (\<lambda>_. True)
        (concat (map (\<lambda>a. case a of ServerDefault d \<Rightarrow> [d] | _ \<Rightarrow> []) args))\<rparr>"

record migration =
  revision :: string
  down_revision :: "string option"
  upgrade :: "statement list"
  downgrade :: "statement list"

subsection \<open>Revisions 0001 to 0008\<close>

definition upgrade_0001 :: "statement list" where
  "upgrade_0001 =
     [CreateTable ''organizations''
        [Column ''name'' (String 255) [NotNull], Column ''slug'' (String 120) [NotNull],
         Column ''id'' UUID [NotNull],
         Column ''created_at'' DateTime [NotNull, ServerDefault (Expression ''now()'')],
         Column ''updated_at'' DateTime [NotNull, ServerDefault (Expression ''now()'')]]
        [] [''id''],
      CreateIndex ''ix_organizations_name'' ''organizations'' [''name''] True,
      CreateIndex ''ix_organizations_slug'' ''organizations'' [''slug''] True,
      CreateTable ''devices''
        [Column ''organization_id'' UUID [NotNull], Column ''hostname'' (String 255) [NotNull],
         Column ''operating_system'' (String 128) [NotNull],
         Column ''status'' (String 64) [NotNull], Column ''id'' UUID [NotNull],
         Column ''created_at'' DateTime [NotNull, ServerDefault (Expression ''now()'')],
         Column ''updated_at'' DateTime [NotNull, ServerDefault (Expression ''now()'')]]
        [(''organization_id'', ''organizations.id'')] [''id''],
      CreateIndex ''ix_devices_hostname'' ''devices'' [''hostname''] False,
      CreateIndex ''ix_devices_organization_id'' ''devices'' [''organization_id''] False,
      CreateTable ''users''
        [Column ''organization_id'' UUID [NotNull], Column ''email'' (String 320) [NotNull],
         Column ''hashed_password'' (String 255) [NotNull], Column ''role'' (String 64) [NotNull],
         Column ''is_active'' Boolean [NotNull], Column ''id'' UUID [NotNull],
         Column ''created_at'' DateTime [NotNull, ServerDefault (Expression ''now()'')],
         Column ''updated_at'' DateTime [NotNull, ServerDefault (Expression ''now()'')]]
        [(''organization_id'', ''organizations.id'')] [''id''],
      CreateIndex ''ix_users_email'' ''users'' [''email''] True,
      CreateIndex ''ix_users_organization_id'' ''users'' [''organization_id''] False,
      CreateTable ''agents''
        [Column ''organization_id'' UUID [NotNull], Column ''device_id'' UUID [Null],
         Column ''version'' (String 64) [NotNull], Column ''install_id'' (String 128) [NotNull],
         Column ''last_seen_at'' DateTime [Null], Column ''id'' UUID [NotNull],
         Column ''created_at'' DateTime [NotNull, ServerDefault (Expression ''now()'')],
         Column ''updated_at'' DateTime [NotNull, ServerDefault (Expression ''now()'')]]
        [(''device_id'', ''devices.id''), (''organization_id'', ''organizations.id'')] [''id''],
      CreateIndex ''ix_agents_install_id'' ''agents'' [''install_id''] True,
      CreateIndex ''ix_agents_organization_id'' ''agents'' [''organization_id''] False,
      CreateTable ''audit_logs''
        [Column ''organization_id'' UUID [NotNull], Column ''actor_user_id'' UUID [Null],
         Column ''action'' (String 128) [NotNull], Column ''target_type'' (String 128) [NotNull],
         Column ''target_id'' (String 128) [Null], Column ''metadata_json'' JSON [NotNull],
         Column ''id'' UUID [NotNull],
         Column ''created_at'' DateTime [NotNull, ServerDefault (Expression ''now()'')],
         Column ''updated_at'' DateTime [NotNull, ServerDefault (Expression ''now()'')]]
        [(''actor_user_id'', ''users.id''), (''organization_id'', ''organizations.id'')] [''id''],
      CreateIndex ''ix_audit_logs_action'' ''audit_logs'' [''action''] False,
      CreateTable ''device_checkins''
        [Column ''organization_id'' UUID [NotNull], Column ''device_id'' UUID [NotNull],
         Column ''agent_id'' UUID [NotNull], Column ''status'' (String 64) [NotNull],
         Column ''payload'' JSON [NotNull],
         Column ''checked_in_at'' DateTime [NotNull, ServerDefault (Expression ''now()'')],
         Column ''id'' UUID [NotNull]]
        [(''agent_id'', ''agents.id''), (''device_id'', ''devices.id''),
         (''organization_id'', ''organizations.id'')] [''id''],
      CreateIndex ''ix_device_checkins_agent_id'' ''device_checkins'' [''agent_id''] False,
      CreateIndex ''ix_device_checkins_device_id'' ''device_checkins'' [''device_id''] False,
      CreateIndex ''ix_device_checkins_organization_id'' ''device_checkins'' [''organization_id''] False]"

definition downgrade_0001 :: "statement list" where
  "downgrade_0001 =
     [DropTable ''device_checkins'',
      DropTable ''audit_logs'',
      DropTable ''agents'',
      DropTable ''users'',
      DropTable ''devices'',
      DropTable ''organizations'']"

definition version_0001 :: migration where
  "version_0001 =
     \<lparr>revision = ''0001_initial_foundation'',
      down_revision = None,
      upgrade = upgrade_0001, downgrade = downgrade_0001\<rparr>"

definition upgrade_0002 :: "statement list" where
  "upgrade_0002 =
     [CreateTable ''enrollment_tokens''
        [Column ''organization_id'' UUID [NotNull], Column ''token_hash'' (String 128) [NotNull],
         Column ''expires_at'' DateTime [NotNull], Column ''max_uses'' Integer [NotNull],
         Column ''uses'' Integer [NotNull], Column ''revoked_at'' DateTime [Null],
         Column ''created_by_user_id'' UUID [Null], Column ''id'' UUID [NotNull],
         Column ''created_at'' DateTime [NotNull, ServerDefault (Expression ''now()'')],
         Column ''updated_at'' DateTime [NotNull, ServerDefault (Expression ''now()'')]]
        [(''created_by_user_id'', ''users.id''), (''organization_id'', ''organizations.id'')] [''id''],
      CreateIndex ''ix_enrollment_tokens_organization_id'' ''enrollment_tokens'' [''organization_id''] False,
      CreateIndex ''ix_enrollment_tokens_token_hash'' ''enrollment_tokens'' [''token_hash''] True,
      AddColumn ''agents'' (Column ''device_secret_hash'' (String 128) [NotNull, ServerDefault (Literal ''migrated'')]),
      AlterDefault ''agents'' ''device_secret_hash'' None,
      AddColumn ''devices'' (Column ''architecture'' (String 64) [Null]),
      AddColumn ''devices'' (Column ''machine_identifier'' (String 255) [NotNull, ServerDefault (Literal ''unknown'')]),
      AddColumn ''devices'' (Column ''ip_address'' (String 64) [Null]),
      AddColumn ''devices'' (Column ''agent_version'' (String 64) [Null]),
      AddColumn ''devices'' (Column ''health_status'' (String 64) [NotNull, ServerDefault (Literal ''unknown'')]),
      AddColumn ''devices'' (Column ''is_online'' Boolean [NotNull, ServerDefault (Expression ''false'')]),
      AddColumn ''devices'' (Column ''last_seen_at'' DateTime [Null]),
      AlterDefault ''devices'' ''machine_identifier'' None,
      AlterDefault ''devices'' ''health_status'' None,
      AlterDefault ''devices'' ''is_online'' None,
      CreateIndex ''ix_devices_machine_identifier'' ''devices'' [''machine_identifier''] False,
      AddColumn ''device_checkins'' (Column ''ip_address'' (String 64) [Null]),
      AddColumn ''device_checkins'' (Column ''agent_version'' (String 64) [Null])]"

definition downgrade_0002 :: "statement list" where
  "downgrade_0002 =
     [DropColumn ''device_checkins'' ''agent_version'',
      DropColumn ''device_checkins'' ''ip_address'',
      DropIndex ''ix_devices_machine_identifier'' ''devices'',
      DropColumn ''devices'' ''last_seen_at'',
      DropColumn ''devices'' ''is_online'',
      DropColumn ''devices'' ''health_status'',
      DropColumn ''devices'' ''agent_version'',
      DropColumn ''devices'' ''ip_address'',
      DropColumn ''devices'' ''machine_identifier'',
      DropColumn ''devices'' ''architecture'',
      DropColumn ''agents'' ''device_secret_hash'',
      DropIndex ''ix_enrollment_tokens_token_hash'' ''enrollment_tokens'',
      DropIndex ''ix_enrollment_tokens_organization_id'' ''enrollment_tokens'',
      DropTable ''enrollment_tokens'']"

definition version_0002 :: migration where
  "version_0002 =
     \<lparr>revision = ''0002_agent_enrollment'',
      down_revision = Some ''0001_initial_foundation'',
      upgrade = upgrade_0002, downgrade = downgrade_0002\<rparr>"

definition upgrade_0003 :: "statement list" where
  "upgrade_0003 =
     [CreateTable ''device_inventories''
        [Column ''device_id'' UUID [NotNull], Column ''organization_id'' UUID [NotNull],
         Column ''hostname'' (String 255) [NotNull],
         Column ''operating_system'' (String 128) [NotNull],
         Column ''os_version'' (String 128) [Null], Column ''os_build'' (String 128) [Null],
         Column ''architecture'' (String 64) [Null], Column ''agent_version'' (String 64) [Null],
         Column ''cpu_model'' (String 255) [Null], Column ''cpu_cores'' Integer [Null],
         Column ''memory_total_bytes'' BigInteger [Null],
         Column ''bios_vendor'' (String 255) [Null], Column ''bios_version'' (String 255) [Null],
         Column ''system_manufacturer'' (String 255) [Null],
         Column ''system_model'' (String 255) [Null],
         Column ''inventory_refreshed_at'' DateTime [NotNull], Column ''id'' UUID [NotNull],
         Column ''created_at'' DateTime [NotNull, ServerDefault (Expression ''now()'')],
         Column ''updated_at'' DateTime [NotNull, ServerDefault (Expression ''now()'')]]
        [(''device_id'', ''devices.id''), (''organization_id'', ''organizations.id'')] [''id''],
      CreateIndex ''ix_device_inventories_device_id'' ''device_inventories'' [''device_id''] True,
      CreateIndex ''ix_device_inventories_organization_id'' ''device_inventories'' [''organization_id''] False,
      CreateTable ''disk_inventories''
        [Column ''device_id'' UUID [NotNull], Column ''organization_id'' UUID [NotNull],
         Column ''name'' (String 255) [NotNull], Column ''filesystem'' (String 64) [Null],
         Column ''size_bytes'' BigInteger [Null], Column ''free_bytes'' BigInteger [Null],
         Column ''id'' UUID [NotNull],
         Column ''created_at'' DateTime [NotNull, ServerDefault (Expression ''now()'')],
         Column ''updated_at'' DateTime [NotNull, ServerDefault (Expression ''now()'')]]
        [(''device_id'', ''devices.id''), (''organization_id'', ''organizations.id'')] [''id''],
      CreateIndex ''ix_disk_inventories_device_id'' ''disk_inventories'' [''device_id''] False,
      CreateIndex ''ix_disk_inventories_organization_id'' ''disk_inventories'' [''organization_id''] False,
      CreateTable ''network_interface_inventories''
        [Column ''device_id'' UUID [NotNull], Column ''organization_id'' UUID [NotNull],
         Column ''name'' (String 255) [NotNull], Column ''mac_address'' (String 64) [Null],
         Column ''ip_addresses'' JSON [NotNull], Column ''id'' UUID [NotNull],
         Column ''created_at'' DateTime [NotNull, ServerDefault (Expression ''now()'')],
         Column ''updated_at'' DateTime [NotNull, ServerDefault (Expression ''now()'')]]
        [(''device_id'', ''devices.id''), (''organization_id'', ''organizations.id'')] [''id''],
      CreateIndex ''ix_network_interface_inventories_device_id'' ''network_interface_inventories'' [''device_id''] False,
      CreateIndex ''ix_network_interface_inventories_organization_id'' ''network_interface_inventories'' [''organization_id''] False,
      CreateTable ''installed_software''
        [Column ''device_id'' UUID [NotNull], Column ''organization_id'' UUID [NotNull],
         Column ''name'' (String 255) [NotNull], Column ''version'' (String 128) [Null],
         Column ''publisher'' (String 255) [Null], Column ''installed_at'' DateTime [Null],
         Column ''id'' UUID [NotNull],
         Column ''created_at'' DateTime [NotNull, ServerDefault (Expression ''now()'')],
         Column ''updated_at'' DateTime [NotNull, ServerDefault (Expression ''now()'')]]
        [(''device_id'', ''devices.id''), (''organization_id'', ''organizations.id'')] [''id''],
      CreateIndex ''ix_installed_software_device_id'' ''installed_software'' [''device_id''] False,
      CreateIndex ''ix_installed_software_name'' ''installed_software'' [''name''] False,
      CreateIndex ''ix_installed_software_organization_id'' ''installed_software'' [''organization_id''] False,
      CreateTable ''security_statuses''
        [Column ''device_id'' UUID [NotNull], Column ''organization_id'' UUID [NotNull],
         Column ''antivirus_product'' (String 255) [Null],
         Column ''antivirus_enabled'' Boolean [Null],
         Column ''antivirus_up_to_date'' Boolean [Null], Column ''defender_enabled'' Boolean [Null],
         Column ''firewall_enabled'' Boolean [Null], Column ''details'' JSON [NotNull],
         Column ''refreshed_at'' DateTime [NotNull], Column ''id'' UUID [NotNull],
         Column ''created_at'' DateTime [NotNull, ServerDefault (Expression ''now()'')],
         Column ''updated_at'' DateTime [NotNull, ServerDefault (Expression ''now()'')]]
        [(''device_id'', ''devices.id''), (''organization_id'', ''organizations.id'')] [''id''],
      CreateIndex ''ix_security_statuses_device_id'' ''security_statuses'' [''device_id''] True,
      CreateIndex ''ix_security_statuses_organization_id'' ''security_statuses'' [''organization_id''] False,
      CreateTable ''update_statuses''
        [Column ''device_id'' UUID [NotNull], Column ''organization_id'' UUID [NotNull],
         Column ''pending_reboot'' Boolean [Null], Column ''update_status'' (String 128) [Null],
         Column ''last_update_check_at'' DateTime [Null], Column ''details'' JSON [NotNull],
         Column ''refreshed_at'' DateTime [NotNull], Column ''id'' UUID [NotNull],
         Column ''created_at'' DateTime [NotNull, ServerDefault (Expression ''now()'')],
         Column ''updated_at'' DateTime [NotNull, ServerDefault (Expression ''now()'')]]
        [(''device_id'', ''devices.id''), (''organization_id'', ''organizations.id'')] [''id''],
      CreateIndex ''ix_update_statuses_device_id'' ''update_statuses'' [''device_id''] True,
      CreateIndex ''ix_update_statuses_organization_id'' ''update_statuses'' [''organization_id''] False]"

definition downgrade_0003 :: "statement list" where
  "downgrade_0003 =
     [DropTable ''update_statuses'',
      DropTable ''security_statuses'',
      DropTable ''installed_software'',
      DropTable ''network_interface_inventories'',
      DropTable ''disk_inventories'',
      DropTable ''device_inventories'']"

definition version_0003 :: migration where
  "version_0003 =
     \<lparr>revision = ''0003_endpoint_inventory'',
      down_revision = Some ''0002_agent_enrollment'',
      upgrade = upgrade_0003, downgrade = downgrade_0003\<rparr>"

definition upgrade_0004 :: "statement list" where
  "upgrade_0004 =
     [CreateTable ''alert_rules''
        [Column ''organization_id'' UUID [NotNull], Column ''rule_key'' (String 128) [NotNull],
         Column ''name'' (String 255) [NotNull], Column ''severity'' (String 32) [NotNull],
         Column ''description'' (String 512) [NotNull], Column ''enabled'' Boolean [NotNull],
         Column ''parameters'' JSON [NotNull], Column ''id'' UUID [NotNull],
         Column ''created_at'' DateTime [NotNull, ServerDefault (Expression ''now()'')],
         Column ''updated_at'' DateTime [NotNull, ServerDefault (Expression ''now()'')]]
        [(''organization_id'', ''organizations.id'')] [''id''],
      CreateIndex ''ix_alert_rules_organization_id'' ''alert_rules'' [''organization_id''] False,
      CreateIndex ''ix_alert_rules_rule_key'' ''alert_rules'' [''rule_key''] False,
      CreateTable ''alerts''
        [Column ''organization_id'' UUID [NotNull], Column ''device_id'' UUID [NotNull],
         Column ''rule_id'' UUID [NotNull], Column ''severity'' (String 32) [NotNull],
         Column ''status'' (String 32) [NotNull], Column ''title'' (String 255) [NotNull],
         Column ''message'' (String 1024) [NotNull], Column ''first_seen_at'' DateTime [NotNull],
         Column ''last_seen_at'' DateTime [NotNull], Column ''acknowledged_at'' DateTime [Null],
         Column ''resolved_at'' DateTime [Null], Column ''id'' UUID [NotNull],
         Column ''created_at'' DateTime [NotNull, ServerDefault (Expression ''now()'')],
         Column ''updated_at'' DateTime [NotNull, ServerDefault (Expression ''now()'')]]
        [(''device_id'', ''devices.id''), (''organization_id'', ''organizations.id''),
         (''rule_id'', ''alert_rules.id'')] [''id''],
      CreateIndex ''ix_alerts_device_id'' ''alerts'' [''device_id''] False,
      CreateIndex ''ix_alerts_organization_id'' ''alerts'' [''organization_id''] False,
      CreateIndex ''ix_alerts_rule_id'' ''alerts'' [''rule_id''] False,
      CreateIndex ''ix_alerts_severity'' ''alerts'' [''severity''] False,
      CreateIndex ''ix_alerts_status'' ''alerts'' [''status''] False,
      CreateTable ''alert_events''
        [Column ''organization_id'' UUID [NotNull], Column ''alert_id'' UUID [NotNull],
         Column ''event_type'' (String 64) [NotNull], Column ''message'' (String 1024) [NotNull],
         Column ''metadata_json'' JSON [NotNull], Column ''id'' UUID [NotNull],
         Column ''created_at'' DateTime [NotNull, ServerDefault (Expression ''now()'')],
         Column ''updated_at'' DateTime [NotNull, ServerDefault (Expression ''now()'')]]
        [(''alert_id'', ''alerts.id''), (''organization_id'', ''organizations.id'')] [''id''],
      CreateIndex ''ix_alert_events_alert_id'' ''alert_events'' [''alert_id''] False,
      CreateIndex ''ix_alert_events_event_type'' ''alert_events'' [''event_type''] False,
      CreateIndex ''ix_alert_events_organization_id'' ''alert_events'' [''organization_id''] False]"

definition downgrade_0004 :: "statement list" where
  "downgrade_0004 =
     [DropTable ''alert_events'',
      DropTable ''alerts'',
      DropTable ''alert_rules'']"

definition version_0004 :: migration where
  "version_0004 =
     \<lparr>revision = ''0004_alerts'',
      down_revision = Some ''0003_endpoint_inventory'',
      upgrade = upgrade_0004, downgrade = downgrade_0004\<rparr>"

definition upgrade_0005 :: "statement list" where
  "upgrade_0005 =
     [CreateTable ''agent_jobs''
        [Column ''organization_id'' UUID [NotNull], Column ''device_id'' UUID [NotNull],
         Column ''assigned_agent_id'' UUID [Null], Column ''job_type'' (String 64) [NotNull],
         Column ''status'' (String 32) [NotNull], Column ''payload'' JSON [NotNull],
         Column ''expires_at'' DateTime [NotNull], Column ''started_at'' DateTime [Null],
         Column ''completed_at'' DateTime [Null], Column ''result_summary'' (String 512) [Null],
         Column ''id'' UUID [NotNull],
         Column ''created_at'' DateTime [NotNull, ServerDefault (Expression ''now()'')],
         Column ''updated_at'' DateTime [NotNull, ServerDefault (Expression ''now()'')]]
        [(''assigned_agent_id'', ''agents.id''), (''device_id'', ''devices.id''),
         (''organization_id'', ''organizations.id'')] [''id''],
      CreateIndex ''ix_agent_jobs_assigned_agent_id'' ''agent_jobs'' [''assigned_agent_id''] False,
      CreateIndex ''ix_agent_jobs_device_id'' ''agent_jobs'' [''device_id''] False,
      CreateIndex ''ix_agent_jobs_job_type'' ''agent_jobs'' [''job_type''] False,
      CreateIndex ''ix_agent_jobs_organization_id'' ''agent_jobs'' [''organization_id''] False,
      CreateIndex ''ix_agent_jobs_status'' ''agent_jobs'' [''status''] False,
      CreateTable ''agent_job_results''
        [Column ''organization_id'' UUID [NotNull], Column ''job_id'' UUID [NotNull],
         Column ''status'' (String 32) [NotNull], Column ''output'' Text [NotNull],
         Column ''error'' Text [Null], Column ''exit_code'' Integer [Null],
         Column ''metadata_json'' JSON [NotNull], Column ''id'' UUID [NotNull],
         Column ''created_at'' DateTime [NotNull, ServerDefault (Expression ''now()'')],
         Column ''updated_at'' DateTime [NotNull, ServerDefault (Expression ''now()'')]]
        [(''job_id'', ''agent_jobs.id''), (''organization_id'', ''organizations.id'')] [''id''],
      CreateIndex ''ix_agent_job_results_job_id'' ''agent_job_results'' [''job_id''] True,
      CreateIndex ''ix_agent_job_results_organization_id'' ''agent_job_results'' [''organization_id''] False,
      CreateTable ''agent_job_events''
        [Column ''organization_id'' UUID [NotNull], Column ''job_id'' UUID [NotNull],
         Column ''event_type'' (String 64) [NotNull], Column ''message'' (String 1024) [NotNull],
         Column ''metadata_json'' JSON [NotNull], Column ''id'' UUID [NotNull],
         Column ''created_at'' DateTime [NotNull, ServerDefault (Expression ''now()'')],
         Column ''updated_at'' DateTime [NotNull, ServerDefault (Expression ''now()'')]]
        [(''job_id'', ''agent_jobs.id''), (''organization_id'', ''organizations.id'')] [''id''],
      CreateIndex ''ix_agent_job_events_event_type'' ''agent_job_events'' [''event_type''] False,
      CreateIndex ''ix_agent_job_events_job_id'' ''agent_job_events'' [''job_id''] False,
      CreateIndex ''ix_agent_job_events_organization_id'' ''agent_job_events'' [''organization_id''] False]"

definition downgrade_0005 :: "statement list" where
  "downgrade_0005 =
     [DropTable ''agent_job_events'',
      DropTable ''agent_job_results'',
      DropTable ''agent_jobs'']"

definition version_0005 :: migration where
  "version_0005 =
     \<lparr>revision = ''0005_agent_jobs'',
      down_revision = Some ''0004_alerts'',
      upgrade = upgrade_0005, downgrade = downgrade_0005\<rparr>"

definition upgrade_0006 :: "statement list" where
  "upgrade_0006 =
     [CreateTable ''notification_channels''
        [Column ''organization_id'' UUID [NotNull], Column ''name'' (String 255) [NotNull],
         Column ''channel_type'' (String 32) [NotNull], Column ''enabled'' Boolean [NotNull],
         Column ''config'' JSON [NotNull], Column ''id'' UUID [NotNull],
         Column ''created_at'' DateTime [NotNull, ServerDefault (Expression ''now()'')],
         Column ''updated_at'' DateTime [NotNull, ServerDefault (Expression ''now()'')]]
        [(''organization_id'', ''organizations.id'')] [''id''],
      CreateIndex ''ix_notification_channels_channel_type'' ''notification_channels'' [''channel_type''] False,
      CreateIndex ''ix_notification_channels_organization_id'' ''notification_channels'' [''organization_id''] False,
      CreateTable ''notification_rules''
        [Column ''organization_id'' UUID [NotNull], Column ''name'' (String 255) [NotNull],
         Column ''enabled'' Boolean [NotNull], Column ''severity_filter'' JSON [NotNull],
         Column ''alert_rule_type_filter'' JSON [NotNull], Column ''channel_ids'' JSON [NotNull],
         Column ''id'' UUID [NotNull],
         Column ''created_at'' DateTime [NotNull, ServerDefault (Expression ''now()'')],
         Column ''updated_at'' DateTime [NotNull, ServerDefault (Expression ''now()'')]]
        [(''organization_id'', ''organizations.id'')] [''id''],
      CreateIndex ''ix_notification_rules_organization_id'' ''notification_rules'' [''organization_id''] False,
      CreateTable ''notification_deliveries''
        [Column ''organization_id'' UUID [NotNull], Column ''alert_id'' UUID [NotNull],
         Column ''channel_id'' UUID [NotNull], Column ''status'' (String 32) [NotNull],
         Column ''attempts'' Integer [NotNull], Column ''last_error'' (String 1024) [Null],
         Column ''sent_at'' DateTime [Null], Column ''id'' UUID [NotNull],
         Column ''created_at'' DateTime [NotNull, ServerDefault (Expression ''now()'')],
         Column ''updated_at'' DateTime [NotNull, ServerDefault (Expression ''now()'')]]
        [(''alert_id'', ''alerts.id''), (''channel_id'', ''notification_channels.id''),
         (''organization_id'', ''organizations.id'')] [''id''],
      CreateIndex ''ix_notification_deliveries_alert_id'' ''notification_deliveries'' [''alert_id''] False,
      CreateIndex ''ix_notification_deliveries_channel_id'' ''notification_deliveries'' [''channel_id''] False,
      CreateIndex ''ix_notification_deliveries_organization_id'' ''notification_deliveries'' [''organization_id''] False,
      CreateIndex ''ix_notification_deliveries_status'' ''notification_deliveries'' [''status''] False]"

definition downgrade_0006 :: "statement list" where
  "downgrade_0006 =
     [DropTable ''notification_deliveries'',
      DropTable ''notification_rules'',
      DropTable ''notification_channels'']"

definition version_0006 :: migration where
  "version_0006 =
     \<lparr>revision = ''0006_notifications'',
      down_revision = Some ''0005_agent_jobs'',
      upgrade = upgrade_0006, downgrade = downgrade_0006\<rparr>"

definition upgrade_0007 :: "statement list" where
  "upgrade_0007 =
     [CreateTable ''refresh_tokens''
        [Column ''organization_id'' UUID [NotNull], Column ''user_id'' UUID [NotNull],
         Column ''token_hash'' (String 255) [NotNull], Column ''expires_at'' DateTime [NotNull],
         Column ''revoked_at'' DateTime [Null], Column ''id'' UUID [NotNull],
         Column ''created_at'' DateTime [NotNull, ServerDefault (Expression ''now()'')],
         Column ''updated_at'' DateTime [NotNull, ServerDefault (Expression ''now()'')]]
        [(''organization_id'', ''organizations.id''), (''user_id'', ''users.id'')] [''id''],
      CreateIndex ''ix_refresh_tokens_organization_id'' ''refresh_tokens'' [''organization_id''] False,
      CreateIndex ''ix_refresh_tokens_token_hash'' ''refresh_tokens'' [''token_hash''] True,
      CreateIndex ''ix_refresh_tokens_user_id'' ''refresh_tokens'' [''user_id''] False,
      AlterDefault ''users'' ''role'' (Some (Literal ''viewer''))]"

definition downgrade_0007 :: "statement list" where
  "downgrade_0007 =
     [DropTable ''refresh_tokens'',
      AlterDefault ''users'' ''role'' (Some (Literal ''operator''))]"

definition version_0007 :: migration where
  "version_0007 =
     \<lparr>revision = ''0007_auth_rbac'',
      down_revision = Some ''0006_notifications'',
      upgrade = upgrade_0007, downgrade = downgrade_0007\<rparr>"

definition upgrade_0008 :: "statement list" where
  "upgrade_0008 =
     [CreateTable ''remote_provider_configs''
        [Column ''organization_id'' UUID [NotNull], Column ''provider_type'' (String 64) [NotNull],
         Column ''name'' (String 255) [NotNull], Column ''host'' (String 255) [NotNull],
         Column ''relay_host'' (String 255) [Null], Column ''public_key'' (String 1024) [Null],
         Column ''enabled'' Boolean [NotNull], Column ''id'' UUID [NotNull],
         Column ''created_at'' DateTime [NotNull, ServerDefault (Expression ''now()'')],
         Column ''updated_at'' DateTime [NotNull, ServerDefault (Expression ''now()'')]]
        [(''organization_id'', ''organizations.id'')] [''id''],
      CreateIndex ''ix_remote_provider_configs_organization_id'' ''remote_provider_configs'' [''organization_id''] False,
      CreateTable ''remote_device_links''
        [Column ''organization_id'' UUID [NotNull], Column ''device_id'' UUID [NotNull],
         Column ''provider_config_id'' UUID [Null], Column ''provider_type'' (String 64) [NotNull],
         Column ''rustdesk_id'' (String 128) [Null], Column ''installed'' Boolean [NotNull],
         Column ''last_status'' (String 64) [NotNull], Column ''last_reported_at'' DateTime [Null],
         Column ''id'' UUID [NotNull],
         Column ''created_at'' DateTime [NotNull, ServerDefault (Expression ''now()'')],
         Column ''updated_at'' DateTime [NotNull, ServerDefault (Expression ''now()'')]]
        [(''device_id'', ''devices.id''), (''organization_id'', ''organizations.id''),
         (''provider_config_id'', ''remote_provider_configs.id'')] [''id''],
      CreateIndex ''ix_remote_device_links_device_id'' ''remote_device_links'' [''device_id''] False,
      CreateIndex ''ix_remote_device_links_organization_id'' ''remote_device_links'' [''organization_id''] False,
      CreateIndex ''ix_remote_device_links_provider_config_id'' ''remote_device_links'' [''provider_config_id''] False,
      CreateIndex ''ix_remote_device_links_rustdesk_id'' ''remote_device_links'' [''rustdesk_id''] False,
      CreateTable ''remote_session_audits''
        [Column ''organization_id'' UUID [NotNull], Column ''device_id'' UUID [NotNull],
         Column ''provider_config_id'' UUID [Null], Column ''actor_user_id'' UUID [Null],
         Column ''provider_type'' (String 64) [NotNull], Column ''action'' (String 128) [NotNull],
         Column ''launch_url'' (String 512) [Null], Column ''metadata_json'' JSON [NotNull],
         Column ''created_at'' DateTime [NotNull], Column ''id'' UUID [NotNull]]
        [(''actor_user_id'', ''users.id''), (''device_id'', ''devices.id''),
         (''organization_id'', ''organizations.id''),
         (''provider_config_id'', ''remote_provider_configs.id'')] [''id''],
      CreateIndex ''ix_remote_session_audits_actor_user_id'' ''remote_session_audits'' [''actor_user_id''] False,
      CreateIndex ''ix_remote_session_audits_organization_id'' ''remote_session_audits'' [''organization_id''] False]"

definition downgrade_0008 :: "statement list" where
  "downgrade_0008 =
     [DropTable ''remote_session_audits'',
      DropTable ''remote_device_links'',
      DropTable ''remote_provider_configs'']"

definition version_0008 :: migration where
  "version_0008 =
     \<lparr>revision = ''0008_rustdesk_remote_access'',
      down_revision = Some ''0007_auth_rbac'',
      upgrade = upgrade_0008, downgrade = downgrade_0008\<rparr>"

subsection \<open>Operations (0009)\<close>

definition pk_timestamps :: "column list" where
  "pk_timestamps =
     [Column ''id'' UUID [NotNull],
      Column ''created_at'' DateTime [NotNull, ServerDefault (Expression ''now()'')],
      Column ''updated_at'' DateTime [NotNull, ServerDefault (Expression ''now()'')]]"

definition org_fk :: column where
  "org_fk = Column ''organization_id'' UUID [NotNull]"

definition create_phase2 ::
  "string \<Rightarrow> column list \<Rightarrow> foreign_key list \<Rightarrow> string list \<Rightarrow> statement list" where
  "create_phase2 name cols fks indexes =
     CreateTable name (cols @ pk_timestamps)
       ((''organization_id'', ''organizations.id'') # fks) [''id''] #
     CreateIndex (''ix_'' @ name @ ''_organization_id'') name [''organization_id''] False #
     map (\<lambda>index. CreateIndex (''ix_'' @ name @ ''_'' @ index) name [index] False) indexes"

definition upgrade_0009 :: "statement list" where
  "upgrade_0009 = concat
     [create_phase2 ''asset_types''
        [org_fk, Column ''name'' (String 128) [NotNull]]
        [] [],
      create_phase2 ''asset_statuses''
        [org_fk, Column ''name'' (String 64) [NotNull]]
        [] [],
      create_phase2 ''assets''
        [org_fk, Column ''device_id'' UUID [Null], Column ''asset_type_id'' UUID [Null],
         Column ''asset_tag'' (String 128) [NotNull], Column ''name'' (String 255) [NotNull],
         Column ''serial_number'' (String 255) [Null], Column ''manufacturer'' (String 255) [Null],
         Column ''model'' (String 255) [Null], Column ''purchase_date'' Date [Null],
         Column ''purchase_cost'' (Numeric 12 2) [Null], Column ''vendor'' (String 255) [Null],
         Column ''warranty_expiration'' Date [Null], Column ''assigned_user'' (String 255) [Null],
         Column ''department'' (String 255) [Null], Column ''location'' (String 255) [Null],
         Column ''status'' (String 64) [NotNull], Column ''notes'' Text [Null]]
        [(''device_id'', ''devices.id''), (''asset_type_id'', ''asset_types.id'')] [''device_id'', ''asset_tag'', ''serial_number'', ''warranty_expiration''],
      create_phase2 ''asset_assignments''
        [org_fk, Column ''asset_id'' UUID [NotNull], Column ''assigned_user'' (String 255) [],
         Column ''department'' (String 255) [], Column ''location'' (String 255) [],
         Column ''assigned_at'' DateTime [NotNull], Column ''released_at'' DateTime []]
        [(''asset_id'', ''assets.id'')] [''asset_id''],
      create_phase2 ''asset_warranties''
        [org_fk, Column ''asset_id'' UUID [NotNull], Column ''vendor'' (String 255) [],
         Column ''expires_at'' Date [NotNull], Column ''notes'' Text []]
        [(''asset_id'', ''assets.id'')] [''asset_id'', ''expires_at''],
      create_phase2 ''companies''
        [org_fk, Column ''name'' (String 255) [NotNull], Column ''notes'' Text []]
        [] [''name''],
      create_phase2 ''contacts''
        [org_fk, Column ''company_id'' UUID [], Column ''name'' (String 255) [NotNull],
         Column ''email'' (String 320) [], Column ''phone'' (String 64) []]
        [(''company_id'', ''companies.id'')] [],
      create_phase2 ''locations''
        [org_fk, Column ''company_id'' UUID [], Column ''name'' (String 255) [NotNull],
         Column ''address'' Text []]
        [(''company_id'', ''companies.id'')] [],
      create_phase2 ''documentation_categories''
        [org_fk, Column ''name'' (String 255) [NotNull]]
        [] [],
      create_phase2 ''documentation_articles''
        [org_fk, Column ''company_id'' UUID [], Column ''category_id'' UUID [],
         Column ''title'' (String 255) [NotNull], Column ''body_markdown'' Text [NotNull],
         Column ''tags'' JSON [NotNull], Column ''version'' Integer [NotNull]]
        [(''company_id'', ''companies.id''), (''category_id'', ''documentation_categories.id'')] [''title''],
      create_phase2 ''network_diagrams''
        [org_fk, Column ''company_id'' UUID [], Column ''title'' (String 255) [NotNull],
         Column ''diagram_markdown'' Text [NotNull]]
        [(''company_id'', ''companies.id'')] [],
      create_phase2 ''domain_records''
        [org_fk, Column ''company_id'' UUID [], Column ''domain'' (String 255) [NotNull],
         Column ''registrar'' (String 255) [], Column ''expires_at'' Date []]
        [(''company_id'', ''companies.id'')] [''domain''],
      create_phase2 ''ssl_certificates''
        [org_fk, Column ''company_id'' UUID [], Column ''common_name'' (String 255) [NotNull],
         Column ''issuer'' (String 255) [], Column ''expires_at'' Date []]
        [(''company_id'', ''companies.id'')] [],
      create_phase2 ''procedures''
        [org_fk, Column ''title'' (String 255) [NotNull], Column ''body_markdown'' Text [NotNull]]
        [] [],
      create_phase2 ''notes''
        [org_fk, Column ''company_id'' UUID [], Column ''title'' (String 255) [NotNull],
         Column ''body_markdown'' Text [NotNull]]
        [(''company_id'', ''companies.id'')] [],
      create_phase2 ''discovery_scans''
        [org_fk, Column ''device_id'' UUID [], Column ''scan_type'' (String 64) [NotNull],
         Column ''status'' (String 64) [NotNull], Column ''scheduled_for'' DateTime [],
         Column ''completed_at'' DateTime []]
        [(''device_id'', ''devices.id'')] [],
      create_phase2 ''discovered_devices''
        [org_fk, Column ''asset_id'' UUID [], Column ''ip_address'' (String 64) [NotNull],
         Column ''hostname'' (String 255) [], Column ''mac_address'' (String 64) [],
         Column ''vendor'' (String 255) [], Column ''open_ports'' JSON [NotNull],
         Column ''snmp_data'' JSON [NotNull], Column ''last_seen_at'' DateTime [NotNull]]
        [(''asset_id'', ''assets.id'')] [''ip_address''],
      create_phase2 ''discovery_results''
        [org_fk, Column ''scan_id'' UUID [NotNull], Column ''discovered_device_id'' UUID [],
         Column ''result'' JSON [NotNull]]
        [(''scan_id'', ''discovery_scans.id''),
         (''discovered_device_id'', ''discovered_devices.id'')] [''scan_id''],
      create_phase2 ''tickets''
        [org_fk, Column ''device_id'' UUID [], Column ''asset_id'' UUID [],
         Column ''company_id'' UUID [], Column ''alert_id'' UUID [],
         Column ''assigned_user_id'' UUID [], Column ''title'' (String 255) [NotNull],
         Column ''description'' Text [], Column ''status'' (String 64) [NotNull],
         Column ''priority'' (String 64) [NotNull]]
        [(''device_id'', ''devices.id''), (''asset_id'', ''assets.id''),
         (''company_id'', ''companies.id''), (''alert_id'', ''alerts.id''),
         (''assigned_user_id'', ''users.id'')] [''title''],
      create_phase2 ''ticket_statuses''
        [org_fk, Column ''name'' (String 64) [NotNull]]
        [] [],
      create_phase2 ''ticket_priorities''
        [org_fk, Column ''name'' (String 64) [NotNull]]
        [] [],
      create_phase2 ''ticket_comments''
        [org_fk, Column ''ticket_id'' UUID [NotNull], Column ''author_user_id'' UUID [],
         Column ''body'' Text [NotNull], Column ''internal'' Boolean [NotNull]]
        [(''ticket_id'', ''tickets.id''), (''author_user_id'', ''users.id'')] [''ticket_id''],
      create_phase2 ''ticket_time_entries''
        [org_fk, Column ''ticket_id'' UUID [NotNull], Column ''user_id'' UUID [],
         Column ''minutes'' Integer [NotNull], Column ''notes'' Text []]
        [(''ticket_id'', ''tickets.id''), (''user_id'', ''users.id'')] [''ticket_id''],
      create_phase2 ''ticket_attachments''
        [org_fk, Column ''ticket_id'' UUID [NotNull], Column ''filename'' (String 255) [NotNull],
         Column ''content_type'' (String 128) [], Column ''storage_path'' (String 512) [NotNull]]
        [(''ticket_id'', ''tickets.id'')] [''ticket_id''],
      create_phase2 ''ai_conversations''
        [org_fk, Column ''user_id'' UUID [], Column ''title'' (String 255) [NotNull]]
        [(''user_id'', ''users.id'')] [],
      create_phase2 ''ai_messages''
        [org_fk, Column ''conversation_id'' UUID [NotNull], Column ''role'' (String 32) [NotNull],
         Column ''content'' Text [NotNull]]
        [(''conversation_id'', ''ai_conversations.id'')] [''conversation_id''],
      create_phase2 ''ai_insights''
        [org_fk, Column ''insight_type'' (String 128) [NotNull], Column ''summary'' Text [NotNull],
         Column ''metadata_json'' JSON [NotNull]]
        [] [],
      create_phase2 ''report_templates''
        [org_fk, Column ''name'' (String 255) [NotNull],
         Column ''report_type'' (String 128) [NotNull], Column ''config'' JSON [NotNull]]
        [] [],
      create_phase2 ''report_runs''
        [org_fk, Column ''template_id'' UUID [], Column ''status'' (String 64) [NotNull],
         Column ''format'' (String 16) [NotNull], Column ''output_path'' (String 512) [],
         Column ''completed_at'' DateTime []]
        [(''template_id'', ''report_templates.id'')] [],
      create_phase2 ''report_schedules''
        [org_fk, Column ''template_id'' UUID [NotNull], Column ''cron'' (String 128) [NotNull],
         Column ''enabled'' Boolean [NotNull], Column ''email_recipients'' JSON [NotNull]]
        [(''template_id'', ''report_templates.id'')] [''template_id'']]"

definition downgrade_0009 :: "statement list" where
  "downgrade_0009 = map DropTable
     [''report_schedules'', ''report_runs'', ''report_templates'', ''ai_insights'', ''ai_messages'',
      ''ai_conversations'', ''ticket_attachments'', ''ticket_time_entries'', ''ticket_comments'',
      ''ticket_priorities'', ''ticket_statuses'', ''tickets'', ''discovery_results'',
      ''discovered_devices'', ''discovery_scans'', ''notes'', ''procedures'', ''ssl_certificates'',
      ''domain_records'', ''network_diagrams'', ''documentation_articles'',
      ''documentation_categories'', ''locations'', ''contacts'', ''companies'',
      ''asset_warranties'', ''asset_assignments'', ''assets'', ''asset_statuses'', ''asset_types'']"

definition version_0009 :: migration where
  "version_0009 =
     \<lparr>revision = ''0009_msp_operations_phase2'',
      down_revision = Some ''0008_rustdesk_remote_access'',
      upgrade = upgrade_0009, downgrade = downgrade_0009\<rparr>"

subsection \<open>Platform (0010)\<close>

definition timestamp_cols :: "column list" where
  "timestamp_cols =
     [Column ''id'' UUID [NotNull],
      Column ''created_at'' DateTime [NotNull, ServerDefault (Expression ''now()'')],
      Column ''updated_at'' DateTime [NotNull, ServerDefault (Expression ''now()'')]]"

definition org_column :: "bool \<Rightarrow> column" where
  "org_column nullable = Column ''organization_id'' UUID [if nullable then Null else NotNull]"

definition create_phase3 ::
  "string \<Rightarrow> column list \<Rightarrow> foreign_key list \<Rightarrow> bool \<Rightarrow> statement list" where
  "create_phase3 name columns fks org_nullable =
     [CreateTable name (org_column org_nullable # columns @ timestamp_cols)
        ((''organization_id'', ''organizations.id'') # fks) [''id''],
      CreateIndex (''ix_'' @ name @ ''_organization_id'') name [''organization_id''] False]"

definition upgrade_0010 :: "statement list" where
  "upgrade_0010 = concat
     [create_phase3 ''dashboard_preferences''
        [Column ''user_id'' UUID [NotNull], Column ''layout'' JSON [NotNull],
         Column ''role_widgets'' JSON [NotNull]]
        [(''user_id'', ''users.id'')] False,
      create_phase3 ''portal_roles''
        [Column ''name'' (String 64) [NotNull], Column ''permissions'' JSON [NotNull]]
        [] False,
      create_phase3 ''portal_users''
        [Column ''portal_role_id'' UUID [], Column ''email'' (String 320) [NotNull],
         Column ''display_name'' (String 255) [NotNull],
         Column ''hashed_password'' (String 255) [NotNull], Column ''is_active'' Boolean [NotNull]]
        [(''portal_role_id'', ''portal_roles.id'')] False,
      create_phase3 ''portal_sessions''
        [Column ''portal_user_id'' UUID [NotNull], Column ''token_hash'' (String 255) [NotNull],
         Column ''expires_at'' DateTime [NotNull], Column ''revoked_at'' DateTime []]
        [(''portal_user_id'', ''portal_users.id'')] False,
      create_phase3 ''workflows''
        [Column ''name'' (String 255) [NotNull], Column ''enabled'' Boolean [NotNull]]
        [] False,
      create_phase3 ''workflow_triggers''
        [Column ''workflow_id'' UUID [NotNull], Column ''trigger_type'' (String 128) [NotNull],
         Column ''config'' JSON [NotNull]]
        [(''workflow_id'', ''workflows.id'')] False,
      create_phase3 ''workflow_actions''
        [Column ''workflow_id'' UUID [NotNull], Column ''action_type'' (String 128) [NotNull],
         Column ''config'' JSON [NotNull]]
        [(''workflow_id'', ''workflows.id'')] False,
      create_phase3 ''workflow_executions''
        [Column ''workflow_id'' UUID [NotNull], Column ''status'' (String 64) [NotNull],
         Column ''trigger_payload'' JSON [NotNull], Column ''completed_at'' DateTime []]
        [(''workflow_id'', ''workflows.id'')] False,
      create_phase3 ''api_keys''
        [Column ''name'' (String 255) [NotNull], Column ''key_hash'' (String 255) [NotNull],
         Column ''prefix'' (String 32) [NotNull], Column ''scopes'' JSON [NotNull],
         Column ''last_used_at'' DateTime [], Column ''revoked_at'' DateTime []]
        [] False,
      create_phase3 ''system_health''
        [Column ''component'' (String 128) [NotNull], Column ''status'' (String 64) [NotNull],
         Column ''details'' JSON [NotNull], Column ''checked_at'' DateTime [NotNull]]
        [] True,
      create_phase3 ''service_statuses''
        [Column ''service_name'' (String 128) [NotNull], Column ''status'' (String 64) [NotNull],
         Column ''details'' JSON [NotNull], Column ''checked_at'' DateTime [NotNull]]
        [] True,
      create_phase3 ''backup_jobs''
        [Column ''name'' (String 255) [NotNull], Column ''schedule'' (String 128) [NotNull],
         Column ''enabled'' Boolean [NotNull], Column ''target'' (String 512) [NotNull]]
        [] True,
      create_phase3 ''backup_runs''
        [Column ''job_id'' UUID [], Column ''status'' (String 64) [NotNull],
         Column ''backup_path'' (String 512) [], Column ''validation_status'' (String 64) [],
         Column ''notes'' Text [], Column ''completed_at'' DateTime []]
        [(''job_id'', ''backup_jobs.id'')] True]"

definition downgrade_0010 :: "statement list" where
  "downgrade_0010 = map DropTable
     [''backup_runs'', ''backup_jobs'', ''service_statuses'', ''system_health'', ''api_keys'',
      ''workflow_executions'', ''workflow_actions'', ''workflow_triggers'', ''workflows'',
      ''portal_sessions'', ''portal_users'', ''portal_roles'', ''dashboard_preferences'']"

definition version_0010 :: migration where
  "version_0010 =
     \<lparr>revision = ''0010_production_readiness_phase3'',
      down_revision = Some ''0009_msp_operations_phase2'',
      upgrade = upgrade_0010, downgrade = downgrade_0010\<rparr>"

subsection \<open>Running the migrations\<close>

text \<open>
  Alembic finds the scripts in the directory and orders them by their \<open>down_revision\<close>.
\<close>

definition versions :: "migration list" where
  "versions =
     [version_0001, version_0002, version_0003, version_0004, version_0005, version_0006,
      version_0007, version_0008, version_0009, version_0010]"

definition next_version :: "migration list \<Rightarrow> string option \<Rightarrow> migration option" where
  "next_version ms current = List.find (\<lambda>m. down_revision m = current) ms"

fun upgrade_path :: "nat \<Rightarrow> migration list \<Rightarrow> string option \<Rightarrow> migration list" where
  "upgrade_path 0 ms current = []"
| "upgrade_path (Suc n) ms current =
     (case next_version ms current of
        None \<Rightarrow> []
      | Some m \<Rightarrow> m # upgrade_path n ms (Some (revision m)))"

fun downgrade_path ::
  "nat \<Rightarrow> migration list \<Rightarrow> string option \<Rightarrow> string option \<Rightarrow> migration list" where
  "downgrade_path 0 ms target current = []"
| "downgrade_path (Suc n) ms target current =
     (if current = target then []
      else case List.find (\<lambda>m. Some (revision m) = current) ms of
        None \<Rightarrow> []
      | Some m \<Rightarrow> m # downgrade_path n ms target (down_revision m))"

text \<open>
  A database is its schema with the revision recorded in it. All statements of a run are
  one transaction: a refused statement leaves the database as it was. A path visits a
  revision once, so as many steps as there are revisions are enough.
\<close>

type_synonym database = "schema \<times> string option"

definition run_migrations ::
  "statement list \<Rightarrow> string option \<Rightarrow> database \<Rightarrow> bool \<times> database" where
  "run_migrations ss target db =
     (case execute_all ss (fst db) of
        None \<Rightarrow> (False, db)
      | Some schema \<Rightarrow> (True, (schema, target)))"

definition upgrade_head :: "migration list \<Rightarrow> database \<Rightarrow> bool \<times> database" where
  "upgrade_head ms db =
     (let path = upgrade_path (length ms) ms (snd db)
      in run_migrations (concat (map upgrade path))
           (if path = [] then snd db else Some (revision (last path))) db)"

definition downgrade_to :: "migration list \<Rightarrow> string option \<Rightarrow> database \<Rightarrow> bool \<times> database" where
  "downgrade_to ms target db =
     run_migrations (concat (map downgrade (downgrade_path (length ms) ms target (snd db)))) target db"

end
