(* ===== verification/Metadata.thy ===== *)
theory Metadata
  imports Schema
begin

text \<open>
  The tables the mapped classes of \<^verbatim>\<open>backend/app/models\<close> declare, collected in
  \<open>Base.metadata\<close> by \<^verbatim>\<open>backend/app/db/base.py\<close>. The records of \<open>Models\<close>,
  \<open>Phase2Models\<close> and \<open>Phase3Models\<close> are the rows of these tables; here are their columns with
  types, keys and indexes. Defaults computed in Python are not part of a table.
\<close>

subsection \<open>Mapped columns\<close>

datatype mapped_arg =
  NotNull | Null | PrimaryKey | ForeignKey string | Index | Unique | ServerDefault sql_default

record mapped_attribute =
  att_name :: string
  att_optional :: bool
  att_type :: sql_type
  att_args :: "mapped_arg list"

text \<open>\<open>Mapped[T]\<close> and \<open>Mapped[T | None]\<close>.\<close>

definition mapped_column :: "string \<Rightarrow> sql_type \<Rightarrow> mapped_arg list \<Rightarrow> mapped_attribute" where
  "mapped_column name ty args =
     \<lparr>att_name = name, att_optional = False, att_type = ty, att_args = args\<rparr>"

definition mapped_optional :: "string \<Rightarrow> sql_type \<Rightarrow> mapped_arg list \<Rightarrow> mapped_attribute" where
  "mapped_optional name ty args =
     \<lparr>att_name = name, att_optional = True, att_type = ty, att_args = args\<rparr>"

text \<open>
  Whether the column accepts NULL: as its arguments say, else as its annotation does; a
  primary key never does.
\<close>

definition declared_column :: "mapped_attribute \<Rightarrow> column" where
  "declared_column a =
     \<lparr>col_name = att_name a, col_type = att_type a,
      col_nullable = (if PrimaryKey \<in> set (att_args a) \<or> NotNull \<in> set (att_args a) then False
                      else if Null \<in> set (att_args a) then True else att_optional a),
      col_default = List.find (\<lambda>_. True)
        (concat (map (\<lambda>x. case x of ServerDefault d \<Rightarrow> [d] | _ \<Rightarrow> []) (att_args a)))\<rparr>"

definition declared_foreign_keys :: "mapped_attribute \<Rightarrow> foreign_key list" where
  "declared_foreign_keys a =
     concat (map (\<lambda>x. case x of ForeignKey target \<Rightarrow> [(att_name a, target)] | _ \<Rightarrow> []) (att_args a))"

definition declared_indexes :: "string \<Rightarrow> mapped_attribute \<Rightarrow> index list" where
  "declared_indexes table a =
     (if Index \<in> set (att_args a)
      then [\<lparr>idx_name = ''ix_'' @ table @ ''_'' @ att_name a, idx_columns = [att_name a],
             idx_unique = Unique \<in> set (att_args a)\<rparr>]
      else [])"

record mapped_class =
  cls_tablename :: string
  cls_attributes :: "mapped_attribute list"

definition declared_table :: "mapped_class \<Rightarrow> table" where
  "declared_table c =
     \<lparr>tbl_name = cls_tablename c,
      tbl_columns = map declared_column (cls_attributes c),
      tbl_foreign_keys = concat (map declared_foreign_keys (cls_attributes c)),
      tbl_primary_key = map att_name (filter (\<lambda>a. PrimaryKey \<in> set (att_args a)) (cls_attributes c)),
      tbl_indexes = concat (map (declared_indexes (cls_tablename c)) (cls_attributes c))\<rparr>"

text \<open>Columns declared unique, by an index or by a constraint of their own.\<close>

definition declared_unique :: "mapped_class \<Rightarrow> (string \<times> string) list" where
  "declared_unique c =
     map (\<lambda>a. (cls_tablename c, att_name a))
       (filter (\<lambda>a. Unique \<in> set (att_args a)) (cls_attributes c))"

subsection \<open>Mixins\<close>

definition UUIDPrimaryKeyMixin :: "mapped_attribute list" where
  "UUIDPrimaryKeyMixin =
     [mapped_column ''id'' UUID [PrimaryKey]]"

definition TimestampMixin :: "mapped_attribute list" where
  "TimestampMixin =
     [mapped_column ''created_at'' DateTime [ServerDefault (Expression ''now()'')],
      mapped_column ''updated_at'' DateTime [ServerDefault (Expression ''now()'')]]"

subsection \<open>Tenants, operators and devices\<close>

definition Agent_class :: mapped_class where
  "Agent_class =
     \<lparr>cls_tablename = ''agents'',
      cls_attributes =
        [mapped_column ''organization_id'' UUID [ForeignKey ''organizations.id'', Index],
         mapped_optional ''device_id'' UUID [Null, ForeignKey ''devices.id''],
         mapped_column ''version'' (String 64) [NotNull],
         mapped_column ''install_id'' (String 128) [NotNull, Index, Unique],
         mapped_column ''device_secret_hash'' (String 128) [NotNull],
         mapped_optional ''last_seen_at'' DateTime [Null]] @
        UUIDPrimaryKeyMixin @ TimestampMixin\<rparr>"

definition AgentJob_class :: mapped_class where
  "AgentJob_class =
     \<lparr>cls_tablename = ''agent_jobs'',
      cls_attributes =
        [mapped_column ''organization_id'' UUID [ForeignKey ''organizations.id'', Index],
         mapped_column ''device_id'' UUID [ForeignKey ''devices.id'', Index],
         mapped_optional ''assigned_agent_id'' UUID [Null, ForeignKey ''agents.id'', Index],
         mapped_column ''job_type'' (String 64) [NotNull, Index],
         mapped_column ''status'' (String 32) [NotNull, Index],
         mapped_column ''payload'' JSON [NotNull], mapped_column ''expires_at'' DateTime [NotNull],
         mapped_optional ''started_at'' DateTime [Null],
         mapped_optional ''completed_at'' DateTime [Null],
         mapped_optional ''result_summary'' (String 512) [Null]] @
        UUIDPrimaryKeyMixin @ TimestampMixin\<rparr>"

definition AgentJobEvent_class :: mapped_class where
  "AgentJobEvent_class =
     \<lparr>cls_tablename = ''agent_job_events'',
      cls_attributes =
        [mapped_column ''organization_id'' UUID [ForeignKey ''organizations.id'', Index],
         mapped_column ''job_id'' UUID [ForeignKey ''agent_jobs.id'', Index],
         mapped_column ''event_type'' (String 64) [NotNull, Index],
         mapped_column ''message'' (String 1024) [NotNull],
         mapped_column ''metadata_json'' JSON [NotNull]] @
        UUIDPrimaryKeyMixin @ TimestampMixin\<rparr>"

definition AgentJobResult_class :: mapped_class where
  "AgentJobResult_class =
     \<lparr>cls_tablename = ''agent_job_results'',
      cls_attributes =
        [mapped_column ''organization_id'' UUID [ForeignKey ''organizations.id'', Index],
         mapped_column ''job_id'' UUID [ForeignKey ''agent_jobs.id'', Unique],
         mapped_column ''status'' (String 32) [NotNull], mapped_column ''output'' Text [NotNull],
         mapped_optional ''error'' Text [Null], mapped_optional ''exit_code'' Integer [Null],
         mapped_column ''metadata_json'' JSON [NotNull]] @
        UUIDPrimaryKeyMixin @ TimestampMixin\<rparr>"

definition Alert_class :: mapped_class where
  "Alert_class =
     \<lparr>cls_tablename = ''alerts'',
      cls_attributes =
        [mapped_column ''organization_id'' UUID [ForeignKey ''organizations.id'', Index],
         mapped_column ''device_id'' UUID [ForeignKey ''devices.id'', Index],
         mapped_column ''rule_id'' UUID [ForeignKey ''alert_rules.id'', Index],
         mapped_column ''severity'' (String 32) [NotNull, Index],
         mapped_column ''status'' (String 32) [NotNull, Index],
         mapped_column ''title'' (String 255) [NotNull],
         mapped_column ''message'' (String 1024) [NotNull],
         mapped_column ''first_seen_at'' DateTime [NotNull],
         mapped_column ''last_seen_at'' DateTime [NotNull],
         mapped_optional ''acknowledged_at'' DateTime [Null],
         mapped_optional ''resolved_at'' DateTime [Null]] @
        UUIDPrimaryKeyMixin @ TimestampMixin\<rparr>"

definition AlertEvent_class :: mapped_class where
  "AlertEvent_class =
     \<lparr>cls_tablename = ''alert_events'',
      cls_attributes =
        [mapped_column ''organization_id'' UUID [ForeignKey ''organizations.id'', Index],
         mapped_column ''alert_id'' UUID [ForeignKey ''alerts.id'', Index],
         mapped_column ''event_type'' (String 64) [NotNull, Index],
         mapped_column ''message'' (String 1024) [NotNull],
         mapped_column ''metadata_json'' JSON [NotNull]] @
        UUIDPrimaryKeyMixin @ TimestampMixin\<rparr>"

definition AlertRule_class :: mapped_class where
  "AlertRule_class =
     \<lparr>cls_tablename = ''alert_rules'',
      cls_attributes =
        [mapped_column ''organization_id'' UUID [ForeignKey ''organizations.id'', Index],
         mapped_column ''rule_key'' (String 128) [NotNull, Index],
         mapped_column ''name'' (String 255) [NotNull],
         mapped_column ''severity'' (String 32) [NotNull],
         mapped_column ''description'' (String 512) [NotNull],
         mapped_column ''enabled'' Boolean [NotNull], mapped_column ''parameters'' JSON [NotNull]] @
        UUIDPrimaryKeyMixin @ TimestampMixin\<rparr>"

definition AuditLog_class :: mapped_class where
  "AuditLog_class =
     \<lparr>cls_tablename = ''audit_logs'',
      cls_attributes =
        [mapped_column ''organization_id'' UUID [ForeignKey ''organizations.id'', Index],
         mapped_optional ''actor_user_id'' UUID [Null, ForeignKey ''users.id''],
         mapped_column ''action'' (String 128) [NotNull, Index],
         mapped_column ''target_type'' (String 128) [NotNull],
         mapped_optional ''target_id'' (String 128) [Null],
         mapped_column ''metadata_json'' JSON [NotNull]] @
        UUIDPrimaryKeyMixin @ TimestampMixin\<rparr>"

definition Device_class :: mapped_class where
  "Device_class =
     \<lparr>cls_tablename = ''devices'',
      cls_attributes =
        [mapped_column ''organization_id'' UUID [ForeignKey ''organizations.id'', Index],
         mapped_column ''hostname'' (String 255) [NotNull, Index],
         mapped_column ''operating_system'' (String 128) [NotNull],
         mapped_optional ''architecture'' (String 64) [Null],
         mapped_column ''machine_identifier'' (String 255) [NotNull, Index],
         mapped_optional ''ip_address'' (String 64) [Null],
         mapped_optional ''agent_version'' (String 64) [Null],
         mapped_column ''health_status'' (String 64) [NotNull],
         mapped_column ''status'' (String 64) [NotNull],
         mapped_column ''is_online'' Boolean [NotNull],
         mapped_optional ''last_seen_at'' DateTime [Null]] @
        UUIDPrimaryKeyMixin @ TimestampMixin\<rparr>"

definition DeviceCheckin_class :: mapped_class where
  "DeviceCheckin_class =
     \<lparr>cls_tablename = ''device_checkins'',
      cls_attributes =
        [mapped_column ''organization_id'' UUID [ForeignKey ''organizations.id'', Index],
         mapped_column ''device_id'' UUID [ForeignKey ''devices.id'', Index],
         mapped_column ''agent_id'' UUID [ForeignKey ''agents.id'', Index],
         mapped_column ''status'' (String 64) [NotNull],
         mapped_optional ''ip_address'' (String 64) [Null],
         mapped_optional ''agent_version'' (String 64) [Null],
         mapped_column ''payload'' JSON [NotNull],
         mapped_column ''checked_in_at'' DateTime [ServerDefault (Expression ''now()'')]] @
        UUIDPrimaryKeyMixin\<rparr>"

definition DeviceInventory_class :: mapped_class where
  "DeviceInventory_class =
     \<lparr>cls_tablename = ''device_inventories'',
      cls_attributes =
        [mapped_column ''device_id'' UUID [ForeignKey ''devices.id'', Index, Unique],
         mapped_column ''organization_id'' UUID [ForeignKey ''organizations.id'', Index],
         mapped_column ''hostname'' (String 255) [NotNull],
         mapped_column ''operating_system'' (String 128) [NotNull],
         mapped_optional ''os_version'' (String 128) [Null],
         mapped_optional ''os_build'' (String 128) [Null],
         mapped_optional ''architecture'' (String 64) [Null],
         mapped_optional ''agent_version'' (String 64) [Null],
         mapped_optional ''cpu_model'' (String 255) [Null],
         mapped_optional ''cpu_cores'' Integer [Null],
         mapped_optional ''memory_total_bytes'' BigInteger [Null],
         mapped_optional ''bios_vendor'' (String 255) [Null],
         mapped_optional ''bios_version'' (String 255) [Null],
         mapped_optional ''system_manufacturer'' (String 255) [Null],
         mapped_optional ''system_model'' (String 255) [Null],
         mapped_column ''inventory_refreshed_at'' DateTime [NotNull]] @
        UUIDPrimaryKeyMixin @ TimestampMixin\<rparr>"

definition DiskInventory_class :: mapped_class where
  "DiskInventory_class =
     \<lparr>cls_tablename = ''disk_inventories'',
      cls_attributes =
        [mapped_column ''device_id'' UUID [ForeignKey ''devices.id'', Index],
         mapped_column ''organization_id'' UUID [ForeignKey ''organizations.id'', Index],
         mapped_column ''name'' (String 255) [NotNull],
         mapped_optional ''filesystem'' (String 64) [Null],
         mapped_optional ''size_bytes'' BigInteger [Null],
         mapped_optional ''free_bytes'' BigInteger [Null]] @
        UUIDPrimaryKeyMixin @ TimestampMixin\<rparr>"

definition EnrollmentToken_class :: mapped_class where
  "EnrollmentToken_class =
     \<lparr>cls_tablename = ''enrollment_tokens'',
      cls_attributes =
        [mapped_column ''organization_id'' UUID [ForeignKey ''organizations.id'', Index],
         mapped_column ''token_hash'' (String 128) [NotNull, Index, Unique],
         mapped_column ''expires_at'' DateTime [NotNull],
         mapped_column ''max_uses'' Integer [NotNull], mapped_column ''uses'' Integer [NotNull],
         mapped_optional ''revoked_at'' DateTime [Null],
         mapped_optional ''created_by_user_id'' UUID [Null, ForeignKey ''users.id'']] @
        UUIDPrimaryKeyMixin @ TimestampMixin\<rparr>"

definition InstalledSoftware_class :: mapped_class where
  "InstalledSoftware_class =
     \<lparr>cls_tablename = ''installed_software'',
      cls_attributes =
        [mapped_column ''device_id'' UUID [ForeignKey ''devices.id'', Index],
         mapped_column ''organization_id'' UUID [ForeignKey ''organizations.id'', Index],
         mapped_column ''name'' (String 255) [NotNull, Index],
         mapped_optional ''version'' (String 128) [Null],
         mapped_optional ''publisher'' (String 255) [Null],
         mapped_optional ''installed_at'' DateTime [Null]] @
        UUIDPrimaryKeyMixin @ TimestampMixin\<rparr>"

definition NetworkInterfaceInventory_class :: mapped_class where
  "NetworkInterfaceInventory_class =
     \<lparr>cls_tablename = ''network_interface_inventories'',
      cls_attributes =
        [mapped_column ''device_id'' UUID [ForeignKey ''devices.id'', Index],
         mapped_column ''organization_id'' UUID [ForeignKey ''organizations.id'', Index],
         mapped_column ''name'' (String 255) [NotNull],
         mapped_optional ''mac_address'' (String 64) [Null],
         mapped_column ''ip_addresses'' JSON [NotNull]] @
        UUIDPrimaryKeyMixin @ TimestampMixin\<rparr>"

definition NotificationChannel_class :: mapped_class where
  "NotificationChannel_class =
     \<lparr>cls_tablename = ''notification_channels'',
      cls_attributes =
        [mapped_column ''organization_id'' UUID [ForeignKey ''organizations.id'', Index],
         mapped_column ''name'' (String 255) [NotNull],
         mapped_column ''channel_type'' (String 32) [NotNull, Index],
         mapped_column ''enabled'' Boolean [NotNull], mapped_column ''config'' JSON [NotNull]] @
        UUIDPrimaryKeyMixin @ TimestampMixin\<rparr>"

definition NotificationDelivery_class :: mapped_class where
  "NotificationDelivery_class =
     \<lparr>cls_tablename = ''notification_deliveries'',
      cls_attributes =
        [mapped_column ''organization_id'' UUID [ForeignKey ''organizations.id'', Index],
         mapped_column ''alert_id'' UUID [ForeignKey ''alerts.id'', Index],
         mapped_column ''channel_id'' UUID [ForeignKey ''notification_channels.id'', Index],
         mapped_column ''status'' (String 32) [NotNull, Index],
         mapped_column ''attempts'' Integer [NotNull],
         mapped_optional ''last_error'' (String 1024) [Null],
         mapped_optional ''sent_at'' DateTime [Null]] @
        UUIDPrimaryKeyMixin @ TimestampMixin\<rparr>"

definition NotificationRule_class :: mapped_class where
  "NotificationRule_class =
     \<lparr>cls_tablename = ''notification_rules'',
      cls_attributes =
        [mapped_column ''organization_id'' UUID [ForeignKey ''organizations.id'', Index],
         mapped_column ''name'' (String 255) [NotNull], mapped_column ''enabled'' Boolean [NotNull],
         mapped_column ''severity_filter'' JSON [NotNull],
         mapped_column ''alert_rule_type_filter'' JSON [NotNull],
         mapped_column ''channel_ids'' JSON [NotNull]] @
        UUIDPrimaryKeyMixin @ TimestampMixin\<rparr>"

definition Organization_class :: mapped_class where
  "Organization_class =
     \<lparr>cls_tablename = ''organizations'',
      cls_attributes =
        [mapped_column ''name'' (String 255) [NotNull, Index, Unique],
         mapped_column ''slug'' (String 120) [NotNull, Index, Unique]] @
        UUIDPrimaryKeyMixin @ TimestampMixin\<rparr>"

definition RefreshToken_class :: mapped_class where
  "RefreshToken_class =
     \<lparr>cls_tablename = ''refresh_tokens'',
      cls_attributes =
        [mapped_column ''organization_id'' UUID [ForeignKey ''organizations.id'', Index],
         mapped_column ''user_id'' UUID [ForeignKey ''users.id'', Index],
         mapped_column ''token_hash'' (String 255) [NotNull, Index, Unique],
         mapped_column ''expires_at'' DateTime [NotNull],
         mapped_optional ''revoked_at'' DateTime [Null]] @
        UUIDPrimaryKeyMixin @ TimestampMixin\<rparr>"

definition RemoteDeviceLink_class :: mapped_class where
  "RemoteDeviceLink_class =
     \<lparr>cls_tablename = ''remote_device_links'',
      cls_attributes =
        [mapped_column ''organization_id'' UUID [ForeignKey ''organizations.id'', Index],
         mapped_column ''device_id'' UUID [ForeignKey ''devices.id'', Index],
         mapped_optional ''provider_config_id'' UUID [Null, ForeignKey ''remote_provider_configs.id'', Index],
         mapped_column ''provider_type'' (String 64) [NotNull],
         mapped_optional ''rustdesk_id'' (String 128) [Null, Index],
         mapped_column ''installed'' Boolean [NotNull],
         mapped_column ''last_status'' (String 64) [NotNull],
         mapped_optional ''last_reported_at'' DateTime [Null]] @
        UUIDPrimaryKeyMixin @ TimestampMixin\<rparr>"

definition RemoteProviderConfig_class :: mapped_class where
  "RemoteProviderConfig_class =
     \<lparr>cls_tablename = ''remote_provider_configs'',
      cls_attributes =
        [mapped_column ''organization_id'' UUID [ForeignKey ''organizations.id'', Index],
         mapped_column ''provider_type'' (String 64) [NotNull],
         mapped_column ''name'' (String 255) [NotNull],
         mapped_column ''host'' (String 255) [NotNull],
         mapped_optional ''relay_host'' (String 255) [Null],
         mapped_optional ''public_key'' (String 1024) [Null],
         mapped_column ''enabled'' Boolean [NotNull]] @
        UUIDPrimaryKeyMixin @ TimestampMixin\<rparr>"

definition RemoteSessionAudit_class :: mapped_class where
  "RemoteSessionAudit_class =
     \<lparr>cls_tablename = ''remote_session_audits'',
      cls_attributes =
        [mapped_column ''organization_id'' UUID [ForeignKey ''organizations.id'', Index],
         mapped_column ''device_id'' UUID [ForeignKey ''devices.id'', Index],
         mapped_optional ''provider_config_id'' UUID [Null, ForeignKey ''remote_provider_configs.id''],
         mapped_optional ''actor_user_id'' UUID [Null, ForeignKey ''users.id'', Index],
         mapped_column ''provider_type'' (String 64) [NotNull],
         mapped_column ''action'' (String 128) [NotNull],
         mapped_optional ''launch_url'' (String 512) [Null],
         mapped_column ''metadata_json'' JSON [NotNull],
         mapped_column ''created_at'' DateTime [NotNull]] @
        UUIDPrimaryKeyMixin\<rparr>"

definition SecurityStatus_class :: mapped_class where
  "SecurityStatus_class =
     \<lparr>cls_tablename = ''security_statuses'',
      cls_attributes =
        [mapped_column ''device_id'' UUID [ForeignKey ''devices.id'', Index, Unique],
         mapped_column ''organization_id'' UUID [ForeignKey ''organizations.id'', Index],
         mapped_optional ''antivirus_product'' (String 255) [Null],
         mapped_optional ''antivirus_enabled'' Boolean [Null],
         mapped_optional ''antivirus_up_to_date'' Boolean [Null],
         mapped_optional ''defender_enabled'' Boolean [Null],
         mapped_optional ''firewall_enabled'' Boolean [Null],
         mapped_column ''details'' JSON [NotNull], mapped_column ''refreshed_at'' DateTime [NotNull]] @
        UUIDPrimaryKeyMixin @ TimestampMixin\<rparr>"

definition UpdateStatus_class :: mapped_class where
  "UpdateStatus_class =
     \<lparr>cls_tablename = ''update_statuses'',
      cls_attributes =
        [mapped_column ''device_id'' UUID [ForeignKey ''devices.id'', Index, Unique],
         mapped_column ''organization_id'' UUID [ForeignKey ''organizations.id'', Index],
         mapped_optional ''pending_reboot'' Boolean [Null],
         mapped_optional ''update_status'' (String 128) [Null],
         mapped_optional ''last_update_check_at'' DateTime [Null],
         mapped_column ''details'' JSON [NotNull], mapped_column ''refreshed_at'' DateTime [NotNull]] @
        UUIDPrimaryKeyMixin @ TimestampMixin\<rparr>"

definition User_class :: mapped_class where
  "User_class =
     \<lparr>cls_tablename = ''users'',
      cls_attributes =
        [mapped_column ''organization_id'' UUID [ForeignKey ''organizations.id'', Index],
         mapped_column ''email'' (String 320) [NotNull, Index, Unique],
         mapped_column ''hashed_password'' (String 255) [NotNull],
         mapped_column ''role'' (String 64) [NotNull], mapped_column ''is_active'' Boolean [NotNull]] @
        UUIDPrimaryKeyMixin @ TimestampMixin\<rparr>"

subsection \<open>Operations (phase2.py)\<close>

definition AssetType_class :: mapped_class where
  "AssetType_class =
     \<lparr>cls_tablename = ''asset_types'',
      cls_attributes =
        [mapped_column ''organization_id'' UUID [ForeignKey ''organizations.id'', Index],
         mapped_column ''name'' (String 128) [NotNull]] @
        UUIDPrimaryKeyMixin @ TimestampMixin\<rparr>"

definition AssetStatus_class :: mapped_class where
  "AssetStatus_class =
     \<lparr>cls_tablename = ''asset_statuses'',
      cls_attributes =
        [mapped_column ''organization_id'' UUID [ForeignKey ''organizations.id'', Index],
         mapped_column ''name'' (String 64) [NotNull]] @
        UUIDPrimaryKeyMixin @ TimestampMixin\<rparr>"

definition Asset_class :: mapped_class where
  "Asset_class =
     \<lparr>cls_tablename = ''assets'',
      cls_attributes =
        [mapped_column ''organization_id'' UUID [ForeignKey ''organizations.id'', Index],
         mapped_optional ''device_id'' UUID [Null, ForeignKey ''devices.id'', Index],
         mapped_optional ''asset_type_id'' UUID [Null, ForeignKey ''asset_types.id''],
         mapped_column ''asset_tag'' (String 128) [NotNull, Index],
         mapped_column ''name'' (String 255) [NotNull],
         mapped_optional ''serial_number'' (String 255) [Null, Index],
         mapped_optional ''manufacturer'' (String 255) [Null],
         mapped_optional ''model'' (String 255) [Null],
         mapped_optional ''purchase_date'' Date [Null],
         mapped_optional ''purchase_cost'' (Numeric 12 2) [Null],
         mapped_optional ''vendor'' (String 255) [Null],
         mapped_optional ''warranty_expiration'' Date [Null, Index],
         mapped_optional ''assigned_user'' (String 255) [Null],
         mapped_optional ''department'' (String 255) [Null],
         mapped_optional ''location'' (String 255) [Null],
         mapped_column ''status'' (String 64) [NotNull], mapped_optional ''notes'' Text [Null]] @
        UUIDPrimaryKeyMixin @ TimestampMixin\<rparr>"

definition AssetAssignment_class :: mapped_class where
  "AssetAssignment_class =
     \<lparr>cls_tablename = ''asset_assignments'',
      cls_attributes =
        [mapped_column ''organization_id'' UUID [ForeignKey ''organizations.id'', Index],
         mapped_column ''asset_id'' UUID [ForeignKey ''assets.id'', Index],
         mapped_optional ''assigned_user'' (String 255) [Null],
         mapped_optional ''department'' (String 255) [Null],
         mapped_optional ''location'' (String 255) [Null],
         mapped_column ''assigned_at'' DateTime [NotNull],
         mapped_optional ''released_at'' DateTime [Null]] @
        UUIDPrimaryKeyMixin @ TimestampMixin\<rparr>"

definition AssetWarranty_class :: mapped_class where
  "AssetWarranty_class =
     \<lparr>cls_tablename = ''asset_warranties'',
      cls_attributes =
        [mapped_column ''organization_id'' UUID [ForeignKey ''organizations.id'', Index],
         mapped_column ''asset_id'' UUID [ForeignKey ''assets.id'', Index],
         mapped_optional ''vendor'' (String 255) [Null],
         mapped_column ''expires_at'' Date [NotNull, Index], mapped_optional ''notes'' Text [Null]] @
        UUIDPrimaryKeyMixin @ TimestampMixin\<rparr>"

definition Company_class :: mapped_class where
  "Company_class =
     \<lparr>cls_tablename = ''companies'',
      cls_attributes =
        [mapped_column ''organization_id'' UUID [ForeignKey ''organizations.id'', Index],
         mapped_column ''name'' (String 255) [NotNull, Index], mapped_optional ''notes'' Text [Null]] @
        UUIDPrimaryKeyMixin @ TimestampMixin\<rparr>"

definition Contact_class :: mapped_class where
  "Contact_class =
     \<lparr>cls_tablename = ''contacts'',
      cls_attributes =
        [mapped_column ''organization_id'' UUID [ForeignKey ''organizations.id'', Index],
         mapped_optional ''company_id'' UUID [Null, ForeignKey ''companies.id''],
         mapped_column ''name'' (String 255) [NotNull],
         mapped_optional ''email'' (String 320) [Null], mapped_optional ''phone'' (String 64) [Null]] @
        UUIDPrimaryKeyMixin @ TimestampMixin\<rparr>"

definition Location_class :: mapped_class where
  "Location_class =
     \<lparr>cls_tablename = ''locations'',
      cls_attributes =
        [mapped_column ''organization_id'' UUID [ForeignKey ''organizations.id'', Index],
         mapped_optional ''company_id'' UUID [Null, ForeignKey ''companies.id''],
         mapped_column ''name'' (String 255) [NotNull], mapped_optional ''address'' Text [Null]] @
        UUIDPrimaryKeyMixin @ TimestampMixin\<rparr>"

definition DocumentationCategory_class :: mapped_class where
  "DocumentationCategory_class =
     \<lparr>cls_tablename = ''documentation_categories'',
      cls_attributes =
        [mapped_column ''organization_id'' UUID [ForeignKey ''organizations.id'', Index],
         mapped_column ''name'' (String 255) [NotNull]] @
        UUIDPrimaryKeyMixin @ TimestampMixin\<rparr>"

definition DocumentationArticle_class :: mapped_class where
  "DocumentationArticle_class =
     \<lparr>cls_tablename = ''documentation_articles'',
      cls_attributes =
        [mapped_column ''organization_id'' UUID [ForeignKey ''organizations.id'', Index],
         mapped_optional ''company_id'' UUID [Null, ForeignKey ''companies.id''],
         mapped_optional ''category_id'' UUID [Null, ForeignKey ''documentation_categories.id''],
         mapped_column ''title'' (String 255) [NotNull, Index],
         mapped_column ''body_markdown'' Text [NotNull], mapped_column ''tags'' JSON [NotNull],
         mapped_column ''version'' Integer [NotNull]] @
        UUIDPrimaryKeyMixin @ TimestampMixin\<rparr>"

definition NetworkDiagram_class :: mapped_class where
  "NetworkDiagram_class =
     \<lparr>cls_tablename = ''network_diagrams'',
      cls_attributes =
        [mapped_column ''organization_id'' UUID [ForeignKey ''organizations.id'', Index],
         mapped_optional ''company_id'' UUID [Null, ForeignKey ''companies.id''],
         mapped_column ''title'' (String 255) [NotNull],
         mapped_column ''diagram_markdown'' Text [NotNull]] @
        UUIDPrimaryKeyMixin @ TimestampMixin\<rparr>"

definition DomainRecord_class :: mapped_class where
  "DomainRecord_class =
     \<lparr>cls_tablename = ''domain_records'',
      cls_attributes =
        [mapped_column ''organization_id'' UUID [ForeignKey ''organizations.id'', Index],
         mapped_optional ''company_id'' UUID [Null, ForeignKey ''companies.id''],
         mapped_column ''domain'' (String 255) [NotNull, Index],
         mapped_optional ''registrar'' (String 255) [Null],
         mapped_optional ''expires_at'' Date [Null]] @
        UUIDPrimaryKeyMixin @ TimestampMixin\<rparr>"

definition SSLCertificate_class :: mapped_class where
  "SSLCertificate_class =
     \<lparr>cls_tablename = ''ssl_certificates'',
      cls_attributes =
        [mapped_column ''organization_id'' UUID [ForeignKey ''organizations.id'', Index],
         mapped_optional ''company_id'' UUID [Null, ForeignKey ''companies.id''],
         mapped_column ''common_name'' (String 255) [NotNull],
         mapped_optional ''issuer'' (String 255) [Null], mapped_optional ''expires_at'' Date [Null]] @
        UUIDPrimaryKeyMixin @ TimestampMixin\<rparr>"

definition Procedure_class :: mapped_class where
  "Procedure_class =
     \<lparr>cls_tablename = ''procedures'',
      cls_attributes =
        [mapped_column ''organization_id'' UUID [ForeignKey ''organizations.id'', Index],
         mapped_column ''title'' (String 255) [NotNull],
         mapped_column ''body_markdown'' Text [NotNull]] @
        UUIDPrimaryKeyMixin @ TimestampMixin\<rparr>"

definition Note_class :: mapped_class where
  "Note_class =
     \<lparr>cls_tablename = ''notes'',
      cls_attributes =
        [mapped_column ''organization_id'' UUID [ForeignKey ''organizations.id'', Index],
         mapped_optional ''company_id'' UUID [Null, ForeignKey ''companies.id''],
         mapped_column ''title'' (String 255) [NotNull],
         mapped_column ''body_markdown'' Text [NotNull]] @
        UUIDPrimaryKeyMixin @ TimestampMixin\<rparr>"

definition DiscoveryScan_class :: mapped_class where
  "DiscoveryScan_class =
     \<lparr>cls_tablename = ''discovery_scans'',
      cls_attributes =
        [mapped_column ''organization_id'' UUID [ForeignKey ''organizations.id'', Index],
         mapped_optional ''device_id'' UUID [Null, ForeignKey ''devices.id''],
         mapped_column ''scan_type'' (String 64) [NotNull],
         mapped_column ''status'' (String 64) [NotNull],
         mapped_optional ''scheduled_for'' DateTime [Null],
         mapped_optional ''completed_at'' DateTime [Null]] @
        UUIDPrimaryKeyMixin @ TimestampMixin\<rparr>"

definition DiscoveredDevice_class :: mapped_class where
  "DiscoveredDevice_class =
     \<lparr>cls_tablename = ''discovered_devices'',
      cls_attributes =
        [mapped_column ''organization_id'' UUID [ForeignKey ''organizations.id'', Index],
         mapped_optional ''asset_id'' UUID [Null, ForeignKey ''assets.id''],
         mapped_column ''ip_address'' (String 64) [NotNull, Index],
         mapped_optional ''hostname'' (String 255) [Null],
         mapped_optional ''mac_address'' (String 64) [Null],
         mapped_optional ''vendor'' (String 255) [Null],
         mapped_column ''open_ports'' JSON [NotNull], mapped_column ''snmp_data'' JSON [NotNull],
         mapped_column ''last_seen_at'' DateTime [NotNull]] @
        UUIDPrimaryKeyMixin @ TimestampMixin\<rparr>"

definition DiscoveryResult_class :: mapped_class where
  "DiscoveryResult_class =
     \<lparr>cls_tablename = ''discovery_results'',
      cls_attributes =
        [mapped_column ''organization_id'' UUID [ForeignKey ''organizations.id'', Index],
         mapped_column ''scan_id'' UUID [ForeignKey ''discovery_scans.id'', Index],
         mapped_optional ''discovered_device_id'' UUID [Null, ForeignKey ''discovered_devices.id''],
         mapped_column ''result'' JSON [NotNull]] @
        UUIDPrimaryKeyMixin @ TimestampMixin\<rparr>"

definition Ticket_class :: mapped_class where
  "Ticket_class =
     \<lparr>cls_tablename = ''tickets'',
      cls_attributes =
        [mapped_column ''organization_id'' UUID [ForeignKey ''organizations.id'', Index],
         mapped_optional ''device_id'' UUID [Null, ForeignKey ''devices.id''],
         mapped_optional ''asset_id'' UUID [Null, ForeignKey ''assets.id''],
         mapped_optional ''company_id'' UUID [Null, ForeignKey ''companies.id''],
         mapped_optional ''alert_id'' UUID [Null, ForeignKey ''alerts.id''],
         mapped_optional ''assigned_user_id'' UUID [Null, ForeignKey ''users.id''],
         mapped_column ''title'' (String 255) [NotNull, Index],
         mapped_optional ''description'' Text [Null],
         mapped_column ''status'' (String 64) [NotNull],
         mapped_column ''priority'' (String 64) [NotNull]] @
        UUIDPrimaryKeyMixin @ TimestampMixin\<rparr>"

definition TicketStatus_class :: mapped_class where
  "TicketStatus_class =
     \<lparr>cls_tablename = ''ticket_statuses'',
      cls_attributes =
        [mapped_column ''organization_id'' UUID [ForeignKey ''organizations.id'', Index],
         mapped_column ''name'' (String 64) [NotNull]] @
        UUIDPrimaryKeyMixin @ TimestampMixin\<rparr>"

definition TicketPriority_class :: mapped_class where
  "TicketPriority_class =
     \<lparr>cls_tablename = ''ticket_priorities'',
      cls_attributes =
        [mapped_column ''organization_id'' UUID [ForeignKey ''organizations.id'', Index],
         mapped_column ''name'' (String 64) [NotNull]] @
        UUIDPrimaryKeyMixin @ TimestampMixin\<rparr>"

definition TicketComment_class :: mapped_class where
  "TicketComment_class =
     \<lparr>cls_tablename = ''ticket_comments'',
      cls_attributes =
        [mapped_column ''organization_id'' UUID [ForeignKey ''organizations.id'', Index],
         mapped_column ''ticket_id'' UUID [ForeignKey ''tickets.id'', Index],
         mapped_optional ''author_user_id'' UUID [Null, ForeignKey ''users.id''],
         mapped_column ''body'' Text [NotNull], mapped_column ''internal'' Boolean [NotNull]] @
        UUIDPrimaryKeyMixin @ TimestampMixin\<rparr>"

definition TicketTimeEntry_class :: mapped_class where
  "TicketTimeEntry_class =
     \<lparr>cls_tablename = ''ticket_time_entries'',
      cls_attributes =
        [mapped_column ''organization_id'' UUID [ForeignKey ''organizations.id'', Index],
         mapped_column ''ticket_id'' UUID [ForeignKey ''tickets.id'', Index],
         mapped_optional ''user_id'' UUID [Null, ForeignKey ''users.id''],
         mapped_column ''minutes'' Integer [NotNull], mapped_optional ''notes'' Text [Null]] @
        UUIDPrimaryKeyMixin @ TimestampMixin\<rparr>"

definition TicketAttachment_class :: mapped_class where
  "TicketAttachment_class =
     \<lparr>cls_tablename = ''ticket_attachments'',
      cls_attributes =
        [mapped_column ''organization_id'' UUID [ForeignKey ''organizations.id'', Index],
         mapped_column ''ticket_id'' UUID [ForeignKey ''tickets.id'', Index],
         mapped_column ''filename'' (String 255) [NotNull],
         mapped_optional ''content_type'' (String 128) [Null],
         mapped_column ''storage_path'' (String 512) [NotNull]] @
        UUIDPrimaryKeyMixin @ TimestampMixin\<rparr>"

definition AIConversation_class :: mapped_class where
  "AIConversation_class =
     \<lparr>cls_tablename = ''ai_conversations'',
      cls_attributes =
        [mapped_column ''organization_id'' UUID [ForeignKey ''organizations.id'', Index],
         mapped_optional ''user_id'' UUID [Null, ForeignKey ''users.id''],
         mapped_column ''title'' (String 255) [NotNull]] @
        UUIDPrimaryKeyMixin @ TimestampMixin\<rparr>"

definition AIMessage_class :: mapped_class where
  "AIMessage_class =
     \<lparr>cls_tablename = ''ai_messages'',
      cls_attributes =
        [mapped_column ''organization_id'' UUID [ForeignKey ''organizations.id'', Index],
         mapped_column ''conversation_id'' UUID [ForeignKey ''ai_conversations.id'', Index],
         mapped_column ''role'' (String 32) [NotNull], mapped_column ''content'' Text [NotNull]] @
        UUIDPrimaryKeyMixin @ TimestampMixin\<rparr>"

definition AIInsight_class :: mapped_class where
  "AIInsight_class =
     \<lparr>cls_tablename = ''ai_insights'',
      cls_attributes =
        [mapped_column ''organization_id'' UUID [ForeignKey ''organizations.id'', Index],
         mapped_column ''insight_type'' (String 128) [NotNull],
         mapped_column ''summary'' Text [NotNull], mapped_column ''metadata_json'' JSON [NotNull]] @
        UUIDPrimaryKeyMixin @ TimestampMixin\<rparr>"

definition ReportTemplate_class :: mapped_class where
  "ReportTemplate_class =
     \<lparr>cls_tablename = ''report_templates'',
      cls_attributes =
        [mapped_column ''organization_id'' UUID [ForeignKey ''organizations.id'', Index],
         mapped_column ''name'' (String 255) [NotNull],
         mapped_column ''report_type'' (String 128) [NotNull],
         mapped_column ''config'' JSON [NotNull]] @
        UUIDPrimaryKeyMixin @ TimestampMixin\<rparr>"

definition ReportRun_class :: mapped_class where
  "ReportRun_class =
     \<lparr>cls_tablename = ''report_runs'',
      cls_attributes =
        [mapped_column ''organization_id'' UUID [ForeignKey ''organizations.id'', Index],
         mapped_optional ''template_id'' UUID [Null, ForeignKey ''report_templates.id''],
         mapped_column ''status'' (String 64) [NotNull],
         mapped_column ''format'' (String 16) [NotNull],
         mapped_optional ''output_path'' (String 512) [Null],
         mapped_optional ''completed_at'' DateTime [Null]] @
        UUIDPrimaryKeyMixin @ TimestampMixin\<rparr>"

definition ReportSchedule_class :: mapped_class where
  "ReportSchedule_class =
     \<lparr>cls_tablename = ''report_schedules'',
      cls_attributes =
        [mapped_column ''organization_id'' UUID [ForeignKey ''organizations.id'', Index],
         mapped_column ''template_id'' UUID [ForeignKey ''report_templates.id'', Index],
         mapped_column ''cron'' (String 128) [NotNull], mapped_column ''enabled'' Boolean [NotNull],
         mapped_column ''email_recipients'' JSON [NotNull]] @
        UUIDPrimaryKeyMixin @ TimestampMixin\<rparr>"

subsection \<open>Platform (phase3.py)\<close>

definition DashboardPreference_class :: mapped_class where
  "DashboardPreference_class =
     \<lparr>cls_tablename = ''dashboard_preferences'',
      cls_attributes =
        [mapped_column ''organization_id'' UUID [ForeignKey ''organizations.id'', Index],
         mapped_column ''user_id'' UUID [ForeignKey ''users.id'', Index],
         mapped_column ''layout'' JSON [NotNull], mapped_column ''role_widgets'' JSON [NotNull]] @
        UUIDPrimaryKeyMixin @ TimestampMixin\<rparr>"

definition PortalRole_class :: mapped_class where
  "PortalRole_class =
     \<lparr>cls_tablename = ''portal_roles'',
      cls_attributes =
        [mapped_column ''organization_id'' UUID [ForeignKey ''organizations.id'', Index],
         mapped_column ''name'' (String 64) [NotNull], mapped_column ''permissions'' JSON [NotNull]] @
        UUIDPrimaryKeyMixin @ TimestampMixin\<rparr>"

definition PortalUser_class :: mapped_class where
  "PortalUser_class =
     \<lparr>cls_tablename = ''portal_users'',
      cls_attributes =
        [mapped_column ''organization_id'' UUID [ForeignKey ''organizations.id'', Index],
         mapped_optional ''portal_role_id'' UUID [Null, ForeignKey ''portal_roles.id''],
         mapped_column ''email'' (String 320) [NotNull, Index],
         mapped_column ''display_name'' (String 255) [NotNull],
         mapped_column ''hashed_password'' (String 255) [NotNull],
         mapped_column ''is_active'' Boolean [NotNull]] @
        UUIDPrimaryKeyMixin @ TimestampMixin\<rparr>"

definition PortalSession_class :: mapped_class where
  "PortalSession_class =
     \<lparr>cls_tablename = ''portal_sessions'',
      cls_attributes =
        [mapped_column ''organization_id'' UUID [ForeignKey ''organizations.id'', Index],
         mapped_column ''portal_user_id'' UUID [ForeignKey ''portal_users.id'', Index],
         mapped_column ''token_hash'' (String 255) [NotNull, Index],
         mapped_column ''expires_at'' DateTime [NotNull],
         mapped_column ''created_at'' DateTime [NotNull],
         mapped_optional ''revoked_at'' DateTime [Null]] @
        UUIDPrimaryKeyMixin\<rparr>"

definition Workflow_class :: mapped_class where
  "Workflow_class =
     \<lparr>cls_tablename = ''workflows'',
      cls_attributes =
        [mapped_column ''organization_id'' UUID [ForeignKey ''organizations.id'', Index],
         mapped_column ''name'' (String 255) [NotNull], mapped_column ''enabled'' Boolean [NotNull]] @
        UUIDPrimaryKeyMixin @ TimestampMixin\<rparr>"

definition WorkflowTrigger_class :: mapped_class where
  "WorkflowTrigger_class =
     \<lparr>cls_tablename = ''workflow_triggers'',
      cls_attributes =
        [mapped_column ''organization_id'' UUID [ForeignKey ''organizations.id'', Index],
         mapped_column ''workflow_id'' UUID [ForeignKey ''workflows.id'', Index],
         mapped_column ''trigger_type'' (String 128) [NotNull],
         mapped_column ''config'' JSON [NotNull]] @
        UUIDPrimaryKeyMixin @ TimestampMixin\<rparr>"

definition WorkflowAction_class :: mapped_class where
  "WorkflowAction_class =
     \<lparr>cls_tablename = ''workflow_actions'',
      cls_attributes =
        [mapped_column ''organization_id'' UUID [ForeignKey ''organizations.id'', Index],
         mapped_column ''workflow_id'' UUID [ForeignKey ''workflows.id'', Index],
         mapped_column ''action_type'' (String 128) [NotNull],
         mapped_column ''config'' JSON [NotNull]] @
        UUIDPrimaryKeyMixin @ TimestampMixin\<rparr>"

definition WorkflowExecution_class :: mapped_class where
  "WorkflowExecution_class =
     \<lparr>cls_tablename = ''workflow_executions'',
      cls_attributes =
        [mapped_column ''organization_id'' UUID [ForeignKey ''organizations.id'', Index],
         mapped_column ''workflow_id'' UUID [ForeignKey ''workflows.id'', Index],
         mapped_column ''status'' (String 64) [NotNull],
         mapped_column ''trigger_payload'' JSON [NotNull],
         mapped_optional ''completed_at'' DateTime [Null]] @
        UUIDPrimaryKeyMixin @ TimestampMixin\<rparr>"

definition APIKey_class :: mapped_class where
  "APIKey_class =
     \<lparr>cls_tablename = ''api_keys'',
      cls_attributes =
        [mapped_column ''organization_id'' UUID [ForeignKey ''organizations.id'', Index],
         mapped_column ''name'' (String 255) [NotNull],
         mapped_column ''key_hash'' (String 255) [NotNull, Index],
         mapped_column ''prefix'' (String 32) [NotNull, Index],
         mapped_column ''scopes'' JSON [NotNull], mapped_optional ''last_used_at'' DateTime [Null],
         mapped_optional ''revoked_at'' DateTime [Null]] @
        UUIDPrimaryKeyMixin @ TimestampMixin\<rparr>"

definition SystemHealth_class :: mapped_class where
  "SystemHealth_class =
     \<lparr>cls_tablename = ''system_health'',
      cls_attributes =
        [mapped_optional ''organization_id'' UUID [Null, ForeignKey ''organizations.id'', Index],
         mapped_column ''component'' (String 128) [NotNull],
         mapped_column ''status'' (String 64) [NotNull], mapped_column ''details'' JSON [NotNull],
         mapped_column ''checked_at'' DateTime [NotNull]] @
        UUIDPrimaryKeyMixin @ TimestampMixin\<rparr>"

definition ServiceStatus_class :: mapped_class where
  "ServiceStatus_class =
     \<lparr>cls_tablename = ''service_statuses'',
      cls_attributes =
        [mapped_optional ''organization_id'' UUID [Null, ForeignKey ''organizations.id'', Index],
         mapped_column ''service_name'' (String 128) [NotNull],
         mapped_column ''status'' (String 64) [NotNull], mapped_column ''details'' JSON [NotNull],
         mapped_column ''checked_at'' DateTime [NotNull]] @
        UUIDPrimaryKeyMixin @ TimestampMixin\<rparr>"

definition BackupJob_class :: mapped_class where
  "BackupJob_class =
     \<lparr>cls_tablename = ''backup_jobs'',
      cls_attributes =
        [mapped_optional ''organization_id'' UUID [Null, ForeignKey ''organizations.id'', Index],
         mapped_column ''name'' (String 255) [NotNull],
         mapped_column ''schedule'' (String 128) [NotNull],
         mapped_column ''enabled'' Boolean [NotNull],
         mapped_column ''target'' (String 512) [NotNull]] @
        UUIDPrimaryKeyMixin @ TimestampMixin\<rparr>"

definition BackupRun_class :: mapped_class where
  "BackupRun_class =
     \<lparr>cls_tablename = ''backup_runs'',
      cls_attributes =
        [mapped_optional ''organization_id'' UUID [Null, ForeignKey ''organizations.id'', Index],
         mapped_optional ''job_id'' UUID [Null, ForeignKey ''backup_jobs.id''],
         mapped_column ''status'' (String 64) [NotNull],
         mapped_optional ''backup_path'' (String 512) [Null],
         mapped_optional ''validation_status'' (String 64) [Null],
         mapped_optional ''notes'' Text [Null], mapped_optional ''completed_at'' DateTime [Null]] @
        UUIDPrimaryKeyMixin @ TimestampMixin\<rparr>"

subsection \<open>The registry\<close>

definition base_classes :: "mapped_class list" where
  "base_classes =
     [Organization_class, User_class, Device_class, AlertRule_class, Alert_class, AlertEvent_class,
      Agent_class, AgentJobEvent_class, AgentJobResult_class, AgentJob_class, DeviceCheckin_class,
      AuditLog_class, DeviceInventory_class, DiskInventory_class, NetworkInterfaceInventory_class,
      NotificationRule_class, NotificationDelivery_class, NotificationChannel_class,
      InstalledSoftware_class, SecurityStatus_class, UpdateStatus_class, EnrollmentToken_class,
      RefreshToken_class, RemoteProviderConfig_class, RemoteDeviceLink_class,
      RemoteSessionAudit_class, AssetType_class, AssetStatus_class, Asset_class,
      AssetAssignment_class, AssetWarranty_class, Company_class, Contact_class, Location_class,
      DocumentationCategory_class, DocumentationArticle_class, NetworkDiagram_class,
      DomainRecord_class, SSLCertificate_class, Procedure_class, Note_class, DiscoveryScan_class,
      DiscoveredDevice_class, DiscoveryResult_class, Ticket_class, TicketStatus_class,
      TicketPriority_class, TicketComment_class, TicketTimeEntry_class, TicketAttachment_class,
      AIConversation_class, AIMessage_class, AIInsight_class, ReportTemplate_class, ReportRun_class,
      ReportSchedule_class, DashboardPreference_class, PortalRole_class, PortalUser_class,
      PortalSession_class, Workflow_class, WorkflowTrigger_class, WorkflowAction_class,
      WorkflowExecution_class, APIKey_class, SystemHealth_class, ServiceStatus_class,
      BackupJob_class, BackupRun_class]"

definition base_metadata :: schema where
  "base_metadata = map declared_table base_classes"

end
