(* ===== verification/Migrated.thy ===== *)
theory Migrated
  imports Migrations Metadata Session
begin

text \<open>
  What the migrations do to a database: from an empty one they reach the tables the mapped
  classes declare, and they can be taken back. Revisions 0003 to 0010 create whole tables
  (\<open>tables_of\<close>), so \<open>create_tables\<close> and \<open>drop_tables\<close> describe them; only the first two and
  the change of a default in 0007 are evaluated statement by statement.
\<close>

subsection \<open>Checking many names\<close>

text \<open>Names with different hashes differ, and hashes are quickly compared.\<close>

definition name_hash :: "string \<Rightarrow> int" where
  "name_hash s = foldl (\<lambda>h c. h + h + h + of_char c) 0 s"

fun quick_distinct :: "int list \<Rightarrow> bool" where
  "quick_distinct [] \<longleftrightarrow> True"
| "quick_distinct (x # xs) \<longleftrightarrow>
     (let below = filter (\<lambda>y. y < x) xs; above = filter (\<lambda>y. x < y) xs
      in length below + length above = length xs \<and> quick_distinct below \<and> quick_distinct above)"

lemma split_at:
  fixes x :: "'a :: linorder"
  shows "length (filter (\<lambda>y. y < x) xs) + length (filter (\<lambda>y. x < y) xs) =
      length (filter (\<lambda>y. y \<noteq> x) xs)"
    and "x \<notin> set xs \<Longrightarrow> mset xs = mset (filter (\<lambda>y. y < x) xs @ filter (\<lambda>y. x < y) xs)"
  by (induction xs) auto

lemma quick_distinct: "quick_distinct xs \<Longrightarrow> distinct xs"
proof (induction xs rule: quick_distinct.induct)
  case (2 x xs)
  let ?parts = "filter (\<lambda>y. y < x) xs @ filter (\<lambda>y. x < y) xs"
  have "distinct ?parts" using 2 by (auto simp: Let_def)
  moreover have "length (filter (\<lambda>y. y \<noteq> x) xs) = length xs"
    using 2(3) by (simp add: Let_def flip: split_at(1))
  then have x: "x \<notin> set xs" using length_filter_less[of x xs "\<lambda>y. y \<noteq> x"] by auto
  ultimately have "distinct xs" using mset_eq_imp_distinct_iff[OF split_at(2)[OF x]] by blast
  with x show ?case by simp
qed simp

lemma distinct_hashes: "quick_distinct (map name_hash names) \<Longrightarrow> distinct names"
  by (drule quick_distinct) (simp add: distinct_map)

subsection \<open>The tables of a revision\<close>

fun leading_indexes :: "statement list \<Rightarrow> index list" where
  "leading_indexes (CreateIndex name table cols unique # ss) =
     \<lparr>idx_name = name, idx_columns = cols, idx_unique = unique\<rparr> # leading_indexes ss"
| "leading_indexes _ = []"

fun tables_of :: "statement list \<Rightarrow> table list" where
  "tables_of (CreateTable name cols fks pk # ss) =
     \<lparr>tbl_name = name, tbl_columns = cols, tbl_foreign_keys = fks, tbl_primary_key = pk,
      tbl_indexes = leading_indexes ss\<rparr> # tables_of ss"
| "tables_of (_ # ss) = tables_of ss"
| "tables_of [] = []"

abbreviation tables_0003 where "tables_0003 \<equiv> tables_of upgrade_0003"
abbreviation tables_0004 where "tables_0004 \<equiv> tables_of upgrade_0004"
abbreviation tables_0005 where "tables_0005 \<equiv> tables_of upgrade_0005"
abbreviation tables_0006 where "tables_0006 \<equiv> tables_of upgrade_0006"
abbreviation tables_0007 where "tables_0007 \<equiv> tables_of upgrade_0007"
abbreviation tables_0008 where "tables_0008 \<equiv> tables_of upgrade_0008"
abbreviation tables_0009 where "tables_0009 \<equiv> tables_of upgrade_0009"
abbreviation tables_0010 where "tables_0010 \<equiv> tables_of upgrade_0010"

definition later_tables :: "table list" where
  "later_tables = tables_0003 @ tables_0004 @ tables_0005 @ tables_0006 @ tables_0007 @
     tables_0008 @ tables_0009 @ tables_0010"

definition base_schema :: schema where
  "base_schema = the (execute_all (upgrade_0001 @ upgrade_0002) [])"

definition role_default :: "sql_default option \<Rightarrow> statement" where
  "role_default d = AlterDefault ''users'' ''role'' d"

definition base_with :: "string \<Rightarrow> schema" where
  "base_with d = the (execute (role_default (Some (Literal d))) base_schema)"

lemma regroup:
  "upgrade_0003 = concat (map create_statements (tables_of upgrade_0003))"
  "upgrade_0004 = concat (map create_statements (tables_of upgrade_0004))"
  "upgrade_0005 = concat (map create_statements (tables_of upgrade_0005))"
  "upgrade_0006 = concat (map create_statements (tables_of upgrade_0006))"
  "upgrade_0007 = concat (map create_statements (tables_of upgrade_0007)) @
     [role_default (Some (Literal ''viewer''))]"
  "upgrade_0008 = concat (map create_statements (tables_of upgrade_0008))"
  "upgrade_0009 = concat (map create_statements (tables_of upgrade_0009))"
  "upgrade_0010 = concat (map create_statements (tables_of upgrade_0010))"
  by (simp_all add: upgrade_0003_def upgrade_0004_def upgrade_0005_def upgrade_0006_def
      upgrade_0007_def upgrade_0008_def upgrade_0009_def upgrade_0010_def create_phase2_def
      create_phase3_def create_statements_def role_default_def)

lemma base_defined:
  "execute_all (upgrade_0001 @ upgrade_0002) [] = Some base_schema"
  "execute (role_default (Some (Literal ''viewer''))) base_schema = Some (base_with ''viewer'')"
  "execute (role_default (Some (Literal ''operator''))) base_schema = Some (base_with ''operator'')"
  "execute (role_default (Some (Literal ''operator''))) (base_with ''viewer'') = Some (base_with ''operator'')"
  by code_simp+

lemma base_names:
  "relation_names (base_with ''viewer'') = relation_names base_schema"
  "relation_names (base_with ''operator'') = relation_names base_schema"
  "table_names base_schema = [''organizations'', ''devices'', ''users'', ''agents'', ''audit_logs'',
     ''device_checkins'', ''enrollment_tokens'']"
  "table_names (base_with ''viewer'') = table_names base_schema"
  "table_names (base_with ''operator'') = table_names base_schema"
  by code_simp+

lemma base_keyed:
  "list_all uuid_keyed base_schema" "list_all uuid_keyed (base_with ''viewer'')"
  "list_all uuid_keyed (base_with ''operator'')"
  by code_simp+

lemma base_undone:
  "Option.bind (execute_all upgrade_0001 []) (execute_all upgrade_0002) = Some base_schema"
  "execute_all downgrade_0002 base_schema = execute_all upgrade_0001 []"
  "Option.bind (execute_all upgrade_0001 []) (execute_all downgrade_0001) = Some []"
  "execute_all (downgrade_0002 @ downgrade_0001) (base_with ''operator'') = Some []"
  by code_simp+

lemma names_distinct: "distinct (relation_names (base_schema @ later_tables))"
  by (rule distinct_hashes) code_simp

lemma later_creatable: "creatable (table_names base_schema) (later_tables)"
  by code_simp

lemma base_wf: "wf_schema base_schema" "wf_schema (base_with ''operator'')"
proof -
  have "wf_schema []" by (simp add: wf_schema_def relation_names_def table_names_def index_names_def)
  then show "wf_schema base_schema" using execute_all_wf base_defined(1) by blast
  then show "wf_schema (base_with ''operator'')" using execute_wf base_defined(3) by blast
qed

fun dropped :: "statement list \<Rightarrow> string list" where
  "dropped (DropTable name # ss) = name # dropped ss"
| "dropped _ = []"

lemma drops:
  "downgrade_0003 = map DropTable (dropped downgrade_0003)"
  "downgrade_0004 = map DropTable (dropped downgrade_0004)"
  "downgrade_0005 = map DropTable (dropped downgrade_0005)"
  "downgrade_0006 = map DropTable (dropped downgrade_0006)"
  "downgrade_0007 = map DropTable (dropped downgrade_0007) @
     [role_default (Some (Literal ''operator''))]"
  "downgrade_0008 = map DropTable (dropped downgrade_0008)"
  "downgrade_0009 = map DropTable (dropped downgrade_0009)"
  "downgrade_0010 = map DropTable (dropped downgrade_0010)"
  by (simp_all add: downgrade_0003_def downgrade_0004_def downgrade_0005_def downgrade_0006_def
      downgrade_0007_def downgrade_0008_def downgrade_0009_def downgrade_0010_def role_default_def)

lemma drop_orders:
  "droppable (dropped downgrade_0003) (map outline tables_0003)"
  "droppable (dropped downgrade_0004) (map outline tables_0004)"
  "droppable (dropped downgrade_0005) (map outline tables_0005)"
  "droppable (dropped downgrade_0006) (map outline tables_0006)"
  "droppable (dropped downgrade_0007) (map outline tables_0007)"
  "droppable (dropped downgrade_0008) (map outline tables_0008)"
  "droppable (dropped downgrade_0009) (map outline tables_0009)"
  "droppable (dropped downgrade_0010) (map outline tables_0010)"
  by code_simp+

subsection \<open>From revision to revision\<close>

text \<open>
  The base tables come in three variants, which differ only in the default of the role
  column. On each of them the later revisions add their tables and take them away again.
\<close>

definition base_variant :: "schema \<Rightarrow> bool" where
  "base_variant b \<longleftrightarrow> wf_schema b \<and> list_all uuid_keyed b \<and>
     relation_names b = relation_names base_schema \<and> table_names b = table_names base_schema"

lemma base_variants:
  "base_variant base_schema" "base_variant (base_with ''viewer'')" "base_variant (base_with ''operator'')"
  using base_keyed base_names base_wf execute_wf[OF base_wf(1) base_defined(2)]
  by (simp_all add: base_variant_def)

lemma grow:
  assumes b: "base_variant b" and l: "later_tables = pre @ ts @ post"
  shows "execute_all (concat (map create_statements ts)) (b @ pre) = Some (b @ pre @ ts)"
proof -
  have "distinct (relation_names (b @ later_tables))"
    using names_distinct b unfolding base_variant_def by (simp add: distinct_relation_append)
  then have d: "distinct (relation_names ((b @ pre) @ ts))"
    using distinct_relation_append[of "(b @ pre) @ ts" post] by (simp add: l)
  have c: "creatable (table_names b) (pre @ ts @ post)"
    using later_creatable b by (simp add: base_variant_def l)
  then have "list_all uuid_keyed (b @ pre)"
    using b creatable_keyed[OF c] by (simp add: base_variant_def)
  then have "provides (b @ pre) (table_names b @ table_names pre)"
    using provides_all[of "b @ pre"] by (simp add: table_names_def)
  moreover have "creatable (table_names b @ table_names pre) ts"
    using c by (simp add: creatable_append)
  ultimately show ?thesis using create_tables[OF d] by simp
qed

lemma grown_wf:
  assumes "base_variant b" "later_tables = pre @ post"
  shows "wf_schema (b @ pre)"
  using execute_all_wf[OF _ grow[of b "[]" pre post]] assms by (simp add: base_variant_def)

lemma shrink:
  assumes "base_variant b" "later_tables = pre @ ts @ post" "droppable ns (map outline ts)"
  shows "execute_all (map DropTable ns) (b @ pre @ ts) = Some (b @ pre)"
proof -
  have "wf_schema ((b @ pre) @ ts)" using grown_wf[OF assms(1), of "pre @ ts" post] assms(2) by simp
  then show ?thesis
    using drop_tables[OF grown_wf[OF assms(1,2)] _ assms(3)] by (simp add: wf_schema_def)
qed

definition classes_by_revision :: "mapped_class list" where
  "classes_by_revision =
     [Organization_class, Device_class, User_class, Agent_class, AuditLog_class,
      DeviceCheckin_class, EnrollmentToken_class, DeviceInventory_class, DiskInventory_class,
      NetworkInterfaceInventory_class, InstalledSoftware_class, SecurityStatus_class,
      UpdateStatus_class, AlertRule_class, Alert_class, AlertEvent_class, AgentJob_class,
      AgentJobResult_class, AgentJobEvent_class, NotificationChannel_class, NotificationRule_class,
      NotificationDelivery_class, RefreshToken_class, RemoteProviderConfig_class,
      RemoteDeviceLink_class, RemoteSessionAudit_class, AssetType_class, AssetStatus_class,
      Asset_class, AssetAssignment_class, AssetWarranty_class, Company_class, Contact_class,
      Location_class, DocumentationCategory_class, DocumentationArticle_class, NetworkDiagram_class,
      DomainRecord_class, SSLCertificate_class, Procedure_class, Note_class, DiscoveryScan_class,
      DiscoveredDevice_class, DiscoveryResult_class, Ticket_class, TicketStatus_class,
      TicketPriority_class, TicketComment_class, TicketTimeEntry_class, TicketAttachment_class,
      AIConversation_class, AIMessage_class, AIInsight_class, ReportTemplate_class, ReportRun_class,
      ReportSchedule_class, DashboardPreference_class, PortalRole_class, PortalUser_class,
      PortalSession_class, Workflow_class, WorkflowTrigger_class, WorkflowAction_class,
      WorkflowExecution_class, APIKey_class, SystemHealth_class, ServiceStatus_class,
      BackupJob_class, BackupRun_class]"

lemma classes_by_revision: "set classes_by_revision = set base_classes"
  by (auto simp only: classes_by_revision_def base_classes_def list.set)

definition same_column :: "column \<Rightarrow> column \<Rightarrow> bool" where
  "same_column c c' \<longleftrightarrow> col_name c = col_name c' \<and> col_type c = col_type c' \<and>
     col_nullable c = col_nullable c' \<and> (col_default c = None \<or> col_default c = col_default c')"

definition unique_columns :: "table \<Rightarrow> (string \<times> string list) list" where
  "unique_columns t = map (\<lambda>i. (tbl_name t, idx_columns i)) (filter idx_unique (tbl_indexes t))"

definition serves :: "table \<Rightarrow> mapped_class \<Rightarrow> bool" where
  "serves t c \<longleftrightarrow>
     (let d = declared_table c
      in tbl_name t = tbl_name d \<and> tbl_primary_key t = tbl_primary_key d \<and>
         list_all (\<lambda>col. list_ex (same_column col) (tbl_columns t)) (tbl_columns d) \<and>
         list_all (\<lambda>col. col_name col \<in> set (column_names d) \<or> col_nullable col \<or>
            col_default col \<noteq> None) (tbl_columns t) \<and>
         set (tbl_foreign_keys t) = set (tbl_foreign_keys d) \<and>
         set (unique_columns t) = set (map (\<lambda>(table, col). (table, [col])) (declared_unique c)))"

definition lacking :: "table \<Rightarrow> mapped_class \<Rightarrow> string list" where
  "lacking t c = map idx_name (filter
     (\<lambda>i. \<not> list_ex (\<lambda>j. idx_columns j = idx_columns i) (tbl_indexes t)) (tbl_indexes (declared_table c)))"

lemma served: "list_all2 serves (base_with ''viewer'' @ later_tables) classes_by_revision"
  by code_simp

lemma lacking_indexes:
  "concat (map2 lacking (base_with ''viewer'' @ later_tables) classes_by_revision) =
     [''ix_audit_logs_organization_id'', ''ix_remote_session_audits_device_id'',
      ''ix_dashboard_preferences_user_id'', ''ix_portal_users_email'',
      ''ix_portal_sessions_portal_user_id'', ''ix_portal_sessions_token_hash'',
      ''ix_workflow_triggers_workflow_id'', ''ix_workflow_actions_workflow_id'',
      ''ix_workflow_executions_workflow_id'', ''ix_api_keys_key_hash'', ''ix_api_keys_prefix'']"
  by code_simp

lemma unique_indexes:
  "concat (map unique_columns (base_with ''viewer'' @ later_tables)) =
     [(''organizations'', [''name'']), (''organizations'', [''slug'']), (''users'', [''email'']),
      (''agents'', [''install_id'']), (''enrollment_tokens'', [''token_hash'']),
      (''device_inventories'', [''device_id'']), (''security_statuses'', [''device_id'']),
      (''update_statuses'', [''device_id'']), (''agent_job_results'', [''job_id'']),
      (''refresh_tokens'', [''token_hash''])]"
  by code_simp

end
