(* ===== verification/SchemaHistory.thy ===== *)
theory SchemaHistory
  imports Migrated
begin

text \<open>
  The history of the database schema, from revision to revision, and its properties: a new
  database is migrated to tables that serve every mapped class, every revision can be
  taken back, and the unique indexes the database ends up with are the constraints the
  session model enforces.
\<close>

subsection \<open>The later revisions, uniformly\<close>

definition parts :: "table list list" where
  "parts = [tables_0003, tables_0004, tables_0005, tables_0006, tables_0007, tables_0008,
            tables_0009, tables_0010]"

definition added :: "nat \<Rightarrow> table list" where
  "added k = concat (take k parts)"

definition later :: "nat \<Rightarrow> migration" where
  "later k = versions ! (k + 2)"

lemma lengths [simp]: "length versions = 10" "length parts = 8"
  by (simp_all add: versions_def parts_def)

lemma eight_cases:
  assumes "k < (8::nat)" "P 0" "P (Suc 0)" "P 2" "P 3" "P 4" "P 5" "P 6" "P 7"
  shows "P k"
proof -
  have "k = 0 \<or> k = Suc 0 \<or> k = 2 \<or> k = 3 \<or> k = 4 \<or> k = 5 \<or> k = 6 \<or> k = 7" using assms(1) by arith
  then show ?thesis using assms(2-) by blast
qed

lemma later_defs:
  "later 0 = version_0003" "later (Suc 0) = version_0004" "later 2 = version_0005"
  "later 3 = version_0006" "later 4 = version_0007" "later 5 = version_0008"
  "later 6 = version_0009" "later 7 = version_0010"
  by (simp_all add: later_def versions_def)

lemmas version_defs = version_0001_def version_0002_def version_0003_def version_0004_def
  version_0005_def version_0006_def version_0007_def version_0008_def version_0009_def
  version_0010_def

lemma upgrade_later:
  assumes "k < 8"
  shows "upgrade (later k) = concat (map create_statements (parts ! k)) @
     (if k = 4 then [role_default (Some (Literal ''viewer''))] else [])"
  by (rule eight_cases[OF assms])
    (simp_all add: later_defs version_defs parts_def flip: regroup)

lemma downgrade_later:
  assumes "k < 8"
  shows "downgrade (later k) = map DropTable (dropped (downgrade (later k))) @
     (if k = 4 then [role_default (Some (Literal ''operator''))] else [])"
  by (rule eight_cases[OF assms])
    (simp_all add: later_defs version_defs flip: drops)

lemma droppable_later:
  assumes "k < 8"
  shows "droppable (dropped (downgrade (later k))) (map outline (parts ! k))"
  by (rule eight_cases[OF assms])
    (simp_all add: later_defs version_defs parts_def drop_orders)

lemma added_split:
  assumes "k < 8"
  shows "later_tables = added k @ parts ! k @ concat (drop (Suc k) parts)"
proof -
  have "later_tables = concat parts" by (simp add: later_tables_def parts_def)
  also have "parts = take k parts @ parts ! k # drop (Suc k) parts"
    using assms by (simp add: id_take_nth_drop)
  finally show ?thesis by (simp add: added_def)
qed

lemma added_Suc: "k < 8 \<Longrightarrow> added (Suc k) = added k @ parts ! k"
  by (simp add: added_def take_Suc_conv_app_nth)

lemma added_0 [simp]: "added 0 = []"
  by (simp add: added_def)

lemma added_all: "added 8 = later_tables"
  by (simp add: added_def later_tables_def parts_def)

lemma execute_role_default:
  assumes "execute (role_default d) b = Some b'" "base_variant b" "k < 8"
  shows "execute (role_default d) (b @ added k) = Some (b' @ added k)"
    and "execute (role_default d) (b @ added (Suc k)) = Some (b' @ added (Suc k))"
proof -
  have b: "''users'' \<in> set (table_names b)" using assms(2) by (simp add: base_variant_def base_names)
  have n: "''users'' \<notin> set (table_names later_tables)"
  proof -
    have "distinct (table_names base_schema @ table_names later_tables)"
      using names_distinct unfolding relation_names_def table_names_def map_append distinct_append
      by blast
    then show ?thesis by (simp add: base_names(3))
  qed
  have "''users'' \<notin> set (table_names (added k))" "''users'' \<notin> set (table_names (added (Suc k)))"
    using n unfolding added_split[OF assms(3)] added_Suc[OF assms(3)] by (simp_all add: table_names_def)
  then show "execute (role_default d) (b @ added k) = Some (b' @ added k)"
    and "execute (role_default d) (b @ added (Suc k)) = Some (b' @ added (Suc k))"
    using b assms(1) by (simp_all add: role_default_def alter_prefix)
qed

lemma step_up:
  assumes "k < 8" "base_variant b"
    and "if k = 4 then execute (role_default (Some (Literal ''viewer''))) b = Some b' else b' = b"
  shows "execute_all (upgrade (later k)) (b @ added k) = Some (b' @ added (Suc k))"
  using grow[OF assms(2) added_split[OF assms(1)]] execute_role_default(2)[OF _ assms(2,1)] assms(1,3)
  by (auto simp: upgrade_later added_Suc execute_all_append split: if_splits)

lemma step_down:
  assumes "k < 8" "base_variant b"
    and "if k = 4 then execute (role_default (Some (Literal ''operator''))) b = Some b' else b' = b"
  shows "execute_all (downgrade (later k)) (b @ added (Suc k)) = Some (b' @ added k)"
proof -
  have "execute_all (map DropTable (dropped (downgrade (later k)))) (b @ added (Suc k)) = Some (b @ added k)"
    using shrink[OF assms(2) added_split[OF assms(1)] droppable_later[OF assms(1)]] assms(1)
    by (simp add: added_Suc)
  then show ?thesis
    using execute_role_default(1)[OF _ assms(2,1)] assms(1,3)
    by (subst downgrade_later) (auto simp: execute_all_append split: if_splits)
qed

subsection \<open>The schema at each revision\<close>

definition schema_at :: "nat \<Rightarrow> schema option" where
  "schema_at n = execute_all (concat (map upgrade (take n versions))) []"

lemma schema_at_Suc:
  "n < 10 \<Longrightarrow> schema_at (Suc n) = Option.bind (schema_at n) (execute_all (upgrade (versions ! n)))"
  by (simp add: schema_at_def take_Suc_conv_app_nth execute_all_append)

lemma schema_at_early:
  "schema_at 0 = Some []" "schema_at 1 = execute_all upgrade_0001 []" "schema_at 2 = Some base_schema"
proof -
  show s0: "schema_at 0 = Some []" by (simp add: schema_at_def)
  show s1: "schema_at 1 = execute_all upgrade_0001 []"
    using schema_at_Suc[of 0] s0 by (simp add: versions_def version_defs)
  show "schema_at 2 = Some base_schema"
    using schema_at_Suc[of 1] s1 base_undone(1) by (simp add: versions_def version_defs numeral_2_eq_2)
qed

lemma schema_at_later:
  "k \<le> 8 \<Longrightarrow> schema_at (k + 2) =
     Some ((if k < 5 then base_schema else base_with ''viewer'') @ added k)"
proof (induction k)
  case 0
  then show ?case using schema_at_early(3) by (simp add: numeral_2_eq_2)
next
  case (Suc k)
  let ?b = "\<lambda>k. if k < (5::nat) then base_schema else base_with ''viewer''"
  have k: "k < 8" using Suc.prems by simp
  have "execute_all (upgrade (later k)) (?b k @ added k) = Some (?b (Suc k) @ added (Suc k))"
    using base_variants base_defined(2) by (intro step_up[OF k]) auto
  then show ?case using Suc.IH k schema_at_Suc[of "k + 2"] by (simp add: later_def)
qed

lemma head_schema: "schema_at 10 = Some (base_with ''viewer'' @ later_tables)"
  using schema_at_later[of 8] by (simp add: added_all)

subsection \<open>Migrating\<close>

lemma upgrade_paths:
  "upgrade_path 10 versions None = versions"
  "upgrade_path 10 versions (Some (revision version_0010)) = []"
  "downgrade_path 10 versions None (Some (revision version_0010)) = rev versions"
  by code_simp+

lemma upgrade_empty:
  "upgrade_head versions ([], None) =
     (True, base_with ''viewer'' @ later_tables, Some (revision version_0010))"
proof -
  have "execute_all (concat (map upgrade versions)) [] = Some (base_with ''viewer'' @ later_tables)"
    using head_schema by (simp add: schema_at_def)
  moreover have "versions \<noteq> []" "last versions = version_0010" by (simp_all add: versions_def)
  ultimately show ?thesis
    by (simp add: upgrade_head_def run_migrations_def upgrade_paths(1))
qed

lemma head_wf: "wf_schema (base_with ''viewer'' @ later_tables)"
  using grown_wf[OF base_variants(2), of later_tables "[]"] by simp

definition missing_indexes :: "schema \<Rightarrow> mapped_class list \<Rightarrow> string list" where
  "missing_indexes db cs = concat (map (\<lambda>c.
     case List.find (\<lambda>t. tbl_name t = cls_tablename c) db of
       None \<Rightarrow> [] | Some t \<Rightarrow> lacking t c) cs)"

definition served_by :: "mapped_class list \<Rightarrow> schema \<Rightarrow> bool" where
  "served_by cs db \<longleftrightarrow>
     (\<forall>c \<in> set cs. \<exists>t \<in> set db. serves t c) \<and> (\<forall>t \<in> set db. \<exists>c \<in> set cs. serves t c)"

lemma zip_served: "list_all2 serves db cs \<Longrightarrow> served_by cs db"
  unfolding served_by_def list_all2_conv_all_nth in_set_conv_nth Bex_def Ball_def by metis

lemma zip_find:
  assumes "list_all2 serves db cs" "distinct (table_names db)"
  shows "set (missing_indexes db cs) = set (concat (map2 lacking db cs))"
proof -
  have "List.find (\<lambda>t. tbl_name t = cls_tablename (cs ! i)) db = Some (db ! i)" if "i < length db" for i
  proof -
    have "tbl_name (db ! i) = cls_tablename (cs ! i)"
      using assms(1) that by (auto simp: list_all2_conv_all_nth serves_def Let_def declared_table_def)
    moreover have "tbl_name (db ! j) \<noteq> tbl_name (db ! i)" if "j < i" for j
      using assms(2) that \<open>i < length db\<close> by (simp add: table_names_def distinct_conv_nth)
    ultimately show ?thesis using that unfolding find_Some_iff by (intro exI[of _ i]) auto
  qed
  then have "map (\<lambda>c. case List.find (\<lambda>t. tbl_name t = cls_tablename c) db of
      None \<Rightarrow> [] | Some t \<Rightarrow> lacking t c) cs = map2 lacking db cs"
    using assms(1) by (intro nth_equalityI) (auto simp: list_all2_conv_all_nth)
  then show ?thesis by (simp add: missing_indexes_def)
qed

lemma missing_cong: "set cs = set cs' \<Longrightarrow> set (missing_indexes db cs) = set (missing_indexes db cs')"
  by (simp add: missing_indexes_def)

text \<open>C20. Migrating an empty database succeeds and ends at the last revision. The catalogue
  is well-formed, its tables are exactly those the mapped classes declare, with the same
  columns, keys and unique columns, and what a class does not know of its table is filled in
  by the database. Eleven of the declared indexes are not created. Migrating again changes
  nothing.\<close>

theorem migrations_match_models:
  "\<exists>head. upgrade_head versions ([], None) =
       (True, head, Some ''0010_production_readiness_phase3'') \<and>
     wf_schema head \<and> length head = length base_classes \<and> served_by base_classes head \<and>
     set (missing_indexes head base_classes) =
       {''ix_audit_logs_organization_id'', ''ix_remote_session_audits_device_id'',
        ''ix_dashboard_preferences_user_id'', ''ix_portal_users_email'',
        ''ix_portal_sessions_portal_user_id'', ''ix_portal_sessions_token_hash'',
        ''ix_workflow_triggers_workflow_id'', ''ix_workflow_actions_workflow_id'',
        ''ix_workflow_executions_workflow_id'', ''ix_api_keys_key_hash'', ''ix_api_keys_prefix''} \<and>
     upgrade_head versions (head, Some ''0010_production_readiness_phase3'') =
       (True, head, Some ''0010_production_readiness_phase3'')"
proof (intro exI[of _ "base_with ''viewer'' @ later_tables"] conjI)
  let ?head = "base_with ''viewer'' @ later_tables"
  have r: "revision version_0010 = ''0010_production_readiness_phase3''"
    by (simp add: version_0010_def)
  show "upgrade_head versions ([], None) = (True, ?head, Some ''0010_production_readiness_phase3'')"
    using upgrade_empty r by simp
  show "wf_schema ?head" by (rule head_wf)
  show "length ?head = length base_classes"
    using list_all2_lengthD[OF served] by (simp add: classes_by_revision_def base_classes_def)
  show "served_by base_classes ?head"
    using zip_served[OF served] by (simp add: served_by_def classes_by_revision)
  have "distinct (table_names ?head)" using head_wf by (simp add: wf_schema_def relation_names_def)
  then show "set (missing_indexes ?head base_classes) =
       {''ix_audit_logs_organization_id'', ''ix_remote_session_audits_device_id'',
        ''ix_dashboard_preferences_user_id'', ''ix_portal_users_email'',
        ''ix_portal_sessions_portal_user_id'', ''ix_portal_sessions_token_hash'',
        ''ix_workflow_triggers_workflow_id'', ''ix_workflow_actions_workflow_id'',
        ''ix_workflow_executions_workflow_id'', ''ix_api_keys_key_hash'', ''ix_api_keys_prefix''}"
    unfolding missing_cong[OF classes_by_revision[symmetric]] zip_find[OF served \<open>distinct (table_names ?head)\<close>]
      lacking_indexes by simp
  show "upgrade_head versions (?head, Some ''0010_production_readiness_phase3'') =
       (True, ?head, Some ''0010_production_readiness_phase3'')"
    using upgrade_paths(2) r by (simp add: upgrade_head_def run_migrations_def)
qed

subsection \<open>Taking revisions back\<close>

text \<open>
  Taking back revision 0007 sets the default role to \<open>operator\<close>; before 0007 there was
  none. All other revisions are taken back exactly.
\<close>

definition undone :: "nat \<Rightarrow> bool" where
  "undone n \<longleftrightarrow>
     (case (schema_at n, schema_at (Suc n)) of
        (Some before, Some now) \<Rightarrow>
          execute_all (downgrade (versions ! n)) now =
            (if n = 6 then execute (role_default (Some (Literal ''operator''))) before else Some before)
      | _ \<Rightarrow> False)"

lemma undone_early: "undone 0" "undone 1"
  using base_undone schema_at_early
  by (auto simp: undone_def versions_def version_defs numeral_2_eq_2 bind_eq_Some_conv)

lemma undone_later:
  assumes "k < 8"
  shows "undone (k + 2)"
proof -
  let ?b = "\<lambda>k. if k < (5::nat) then base_schema else base_with ''viewer''"
  have s: "schema_at (k + 2) = Some (?b k @ added k)" "schema_at (Suc (k + 2)) = Some (?b (Suc k) @ added (Suc k))"
    using schema_at_later[of k] schema_at_later[of "Suc k"] assms by simp_all
  have "execute_all (downgrade (later k)) (?b (Suc k) @ added (Suc k)) =
      Some ((if k = 4 then base_with ''operator'' else ?b (Suc k)) @ added k)"
    using base_variants base_defined(4) by (intro step_down[OF assms]) auto
  moreover have "execute (role_default (Some (Literal ''operator''))) (base_schema @ added k) =
      Some (base_with ''operator'' @ added k)"
    by (rule execute_role_default(1)[OF base_defined(3) base_variants(1) assms])
  ultimately show ?thesis using s by (auto simp: undone_def later_def)
qed

lemma down_many:
  assumes "base_variant b"
  shows "\<lbrakk>i \<le> j; j \<le> 8; 4 < i \<or> j \<le> 4\<rbrakk> \<Longrightarrow>
    execute_all (concat (map (\<lambda>k. downgrade (later k)) (rev [i..<j]))) (b @ added j) = Some (b @ added i)"
proof (induction j)
  case (Suc j)
  show ?case
  proof (cases "i = Suc j")
    case False
    then have "execute_all (downgrade (later j)) (b @ added (Suc j)) = Some (b @ added j)"
      using Suc.prems by (intro step_down[OF _ assms]) auto
    moreover have "execute_all (concat (map (\<lambda>k. downgrade (later k)) (rev [i..<j]))) (b @ added j) =
        Some (b @ added i)"
      using Suc.prems False by (intro Suc.IH) auto
    ultimately show ?thesis using Suc.prems False by (simp add: execute_all_append)
  qed simp
qed simp

lemma execute_all_seq: "execute_all ss db = Some db' \<Longrightarrow> execute_all (ss @ ts) db = execute_all ts db'"
  by (simp add: execute_all_append)

lemma downgrade_all:
  "execute_all (concat (map downgrade (rev versions))) (base_with ''viewer'' @ added 8) = Some []"
proof -
  have v: "rev versions = map later (rev [5..<8]) @ later 4 # map later (rev [0..<4]) @ [version_0002, version_0001]"
  proof -
    have "[5..<8] = [5, 6, 7::nat]" "[0..<4] = [0, Suc 0, 2, 3::nat]" by code_simp+
    then show ?thesis by (simp add: later_defs versions_def del: upt_Suc)
  qed
  have s1: "execute_all (concat (map (\<lambda>k. downgrade (later k)) (rev [5..<8]))) (base_with ''viewer'' @ added 8) =
      Some (base_with ''viewer'' @ added 5)"
    by (rule down_many[OF base_variants(2)]) simp_all
  have s2: "execute_all (downgrade (later 4)) (base_with ''viewer'' @ added 5) =
      Some (base_with ''operator'' @ added 4)"
    using base_defined(4) step_down[of 4, OF _ base_variants(2)] by simp
  have s3: "execute_all (concat (map (\<lambda>k. downgrade (later k)) (rev [0..<4])))
      (base_with ''operator'' @ added 4) = Some (base_with ''operator'')"
    using down_many[OF base_variants(3), of 0 4] by simp
  have s4: "execute_all (downgrade version_0002 @ downgrade version_0001) (base_with ''operator'') = Some []"
    using base_undone(4) by (simp add: version_defs)
  have "concat (map downgrade (rev versions)) =
      concat (map (\<lambda>k. downgrade (later k)) (rev [5..<8])) @ downgrade (later 4) @
      concat (map (\<lambda>k. downgrade (later k)) (rev [0..<4])) @ downgrade version_0002 @ downgrade version_0001"
    by (simp only: v map_append list.map concat_append concat.simps map_map o_def append_assoc append_Nil2)
  then show ?thesis by (simp only: execute_all_seq[OF s1] execute_all_seq[OF s2] execute_all_seq[OF s3] s4)
qed

text \<open>C21. Every revision can be taken back to exactly the schema before it, except for
  0007, which leaves a default role of operator on the users table that no earlier revision
  had set. Downgrading a migrated database all the way leaves an empty one.\<close>

theorem migrations_undone:
  "list_all undone [0..<10] \<and>
   downgrade_to versions None (snd (upgrade_head versions ([], None))) = (True, [], None) \<and>
   Option.bind (schema_at 7) (execute_all downgrade_0007) \<noteq> schema_at 6"
proof (intro conjI)
  have "[0..<10] = 0 # 1 # map (\<lambda>k. k + 2) [0..<8]" by (simp add: upt_rec)
  moreover have "list_all undone (map (\<lambda>k. k + 2) [0..<8])"
    using undone_later by (simp add: list_all_iff)
  ultimately show "list_all undone [0..<10]" using undone_early by simp
  show "downgrade_to versions None (snd (upgrade_head versions ([], None))) = (True, [], None)"
    using downgrade_all upgrade_paths(3)
    by (simp add: upgrade_empty downgrade_to_def run_migrations_def added_all)
  have "schema_at 7 = Some (base_with ''viewer'' @ added (Suc 4))" "schema_at 6 = Some (base_schema @ added 4)"
    using schema_at_later[of 5] schema_at_later[of 4] by simp_all
  moreover have "execute_all (downgrade (later 4)) (base_with ''viewer'' @ added (Suc 4)) =
      Some (base_with ''operator'' @ added 4)"
    using base_defined(4) by (intro step_down[OF _ base_variants(2)]) simp_all
  moreover have "base_with ''operator'' \<noteq> base_schema" by code_simp
  ultimately show "Option.bind (schema_at 7) (execute_all downgrade_0007) \<noteq> schema_at 6"
    by (simp add: later_defs version_defs)
qed

subsection \<open>Unique indexes and the session\<close>

text \<open>The values of a column of the stored rows.\<close>

definition column_of :: "store \<Rightarrow> string \<times> string list \<Rightarrow> (uuid + string) list option" where
  "column_of st = map_of
     [((''organizations'', [''name'']), map (Inr \<circ> org_name) (organizations st)),
      ((''organizations'', [''slug'']), map (Inr \<circ> org_slug) (organizations st)),
      ((''users'', [''email'']), map (Inr \<circ> usr_email) (users st)),
      ((''refresh_tokens'', [''token_hash'']), map (Inr \<circ> rft_token_hash) (refresh_tokens st)),
      ((''enrollment_tokens'', [''token_hash'']), map (Inr \<circ> ent_token_hash) (enrollment_tokens st)),
      ((''agents'', [''install_id'']), map (Inr \<circ> agt_install_id) (agents st)),
      ((''device_inventories'', [''device_id'']), map (Inl \<circ> inv_device_id) (device_inventories st)),
      ((''security_statuses'', [''device_id'']), map (Inl \<circ> sec_device_id) (security_statuses st)),
      ((''update_statuses'', [''device_id'']), map (Inl \<circ> ups_device_id) (update_statuses st)),
      ((''agent_job_results'', [''job_id'']), map (Inl \<circ> jrs_job_id) (agent_job_results st))]"

definition unique_of :: "schema \<Rightarrow> (string \<times> string list) list" where
  "unique_of db = concat (map unique_columns db)"

lemma distinct_tagged [simp]:
  "distinct (map (Inr \<circ> f) xs :: ('a + 'b) list) \<longleftrightarrow> distinct (map f xs)"
  "distinct (map (Inl \<circ> g) xs :: ('a + 'b) list) \<longleftrightarrow> distinct (map g xs)"
  by (simp_all add: distinct_map inj_on_def)

text \<open>C23. What the session refuses to flush is what the migrated database refuses to store:
  the unique indexes of the migrated schema are all on columns of the stored tables, and
  the rows of a store satisfy them exactly when the constraint check of the session does.\<close>

theorem migrated_constraints:
  "\<exists>head columns. snd (upgrade_head versions ([], None)) = (head, Some (revision version_0010)) \<and>
     those (map (column_of st) (unique_of head)) = Some columns \<and>
     (unique_ok st \<longleftrightarrow> list_all distinct columns)"
proof -
  let ?columns = "[map (Inr \<circ> org_name) (organizations st), map (Inr \<circ> org_slug) (organizations st),
     map (Inr \<circ> usr_email) (users st), map (Inr \<circ> agt_install_id) (agents st),
     map (Inr \<circ> ent_token_hash) (enrollment_tokens st),
     map (Inl \<circ> inv_device_id) (device_inventories st),
     map (Inl \<circ> sec_device_id) (security_statuses st),
     map (Inl \<circ> ups_device_id) (update_statuses st),
     map (Inl \<circ> jrs_job_id) (agent_job_results st), map (Inr \<circ> rft_token_hash) (refresh_tokens st)]"
  have "those (map (column_of st) (unique_of (base_with ''viewer'' @ later_tables))) = Some ?columns"
    unfolding unique_of_def unique_indexes by (simp add: column_of_def)
  moreover have "unique_ok st \<longleftrightarrow> list_all distinct ?columns"
    by (auto simp: unique_ok_def)
  ultimately show ?thesis by (auto simp: upgrade_empty)
qed

end
