(* ===== verification/Scripts.thy ===== *)
theory Scripts
  imports Bootstrap AgentApi
begin

text \<open>
  The command-line scripts that prepare an installation without the web interface:
  \<^verbatim>\<open>scripts/create-owner-user.py\<close> and \<^verbatim>\<open>scripts/create-enrollment-token.py\<close>. The parsed
  arguments are arguments of the definitions, the value is the line a script prints. The
  properties: creating an owner twice is creating it once, and the token the second script
  prints is one an agent can enroll with.
\<close>

subsection \<open>create-owner-user\<close>

text \<open>\<open>Path(args.password_file).read_text().strip()\<close>, or what the operator types.\<close>

definition read_password :: "string option \<Rightarrow> string \<Rightarrow> string" where
  "read_password password_file typed =
     (case password_file of Some content \<Rightarrow> strip_by is_space content | None \<Rightarrow> typed)"

definition create_owner_user ::
  "runtime \<Rightarrow> settings \<Rightarrow> datetime \<Rightarrow> byte list \<Rightarrow> string \<Rightarrow> string \<Rightarrow> string \<Rightarrow> string \<Rightarrow>
   string db_op" where
  "create_owner_user rt cfg now salt raw organization email password =
     andThen (lift_sum (validate_strong_password password)) (\<lambda>_.
     andThen (gets (db_scalar users usr_id (\<lambda>u. usr_email u = py_lower email))) (\<lambda>existing.
     if existing \<noteq> None then ret ''Owner user already exists; no changes made.''
     else andThen (gets setup_required) (\<lambda>required.
     if required
     then andThen (create_first_owner rt cfg now salt raw organization email password)
            (\<lambda>(usr, _).
          andThen db_commit (\<lambda>_.
          ret (''Created owner user '' @ usr_email usr @ '' for new organization.'')))
     else andThen (gets (db_select_by organizations org_id org_created_at (\<lambda>_. True))) (\<lambda>orgs.
          case orgs of
            [] \<Rightarrow> raise (RuntimeError ''No organization exists but setup is marked complete'')
          | org # _ \<Rightarrow>
              andThen (insert_row users_update (new_user (org_id org) (py_lower email)
                 (hash_password rt salt password) ''owner'' now)) (\<lambda>usr.
              andThen db_commit (\<lambda>_.
              ret (''Created owner user '' @ usr_email usr @ '' for existing organization.'')))))))"

lemma owner_exists:
  assumes "validate_strong_password password = Inr ()" "wf_server w"
    "u \<in> set (users (srv_store w))" "usr_email u = py_lower email"
  shows "run_request (create_owner_user rt cfg now salt raw organization email password) w =
    (Inr ''Owner user already exists; no changes made.'', w)"
proof -
  have "List.find (\<lambda>u. usr_email u = py_lower email) (users (srv_store w)) \<noteq> None"
    using assms(3,4) by (auto simp: find_None_iff)
  then have "create_owner_user rt cfg now salt raw organization email password (open_session w) =
      (Inr ''Owner user already exists; no changes made.'', open_session w)"
    using assms(1) by (auto simp: create_owner_user_def lift_sum_def users_tbl.open_scalar[OF assms(2)])
  then show ?thesis by (simp add: run_request_state)
qed

lemma wf_create_owner:
  "keeps wf_session (create_owner_user rt cfg now salt raw organization email password)"
  unfolding create_owner_user_def create_first_owner_def
  by (intro keeps_intro organizations_tbl.insert_wf users_tbl.insert_wf)
    (auto simp: new_organization_def new_user_def split: list.split
      intro!: keeps_intro users_tbl.insert_wf)

text \<open>What a successful run that finds no account of that name has added.\<close>

lemma owner_created:
  assumes run: "run_request (create_owner_user rt cfg now salt raw organization email password) w =
      (Inr msg, w')" and w: "wf_server w"
    and new: "\<forall>u \<in> set (users (srv_store w)). usr_email u \<noteq> py_lower email"
  shows "\<exists>owner. users (srv_store w') = users (srv_store w) @ [owner] \<and>
     usr_email owner = py_lower email \<and> usr_role owner = ''owner'' \<and> usr_is_active owner \<and>
     usr_hashed_password owner = hash_password rt salt password \<and>
     (\<exists>org \<in> set (organizations (srv_store w')). org_id org = usr_organization_id owner) \<and>
     \<not> setup_required (open_session w')"
proof -
  from run obtain s where s: "create_owner_user rt cfg now salt raw organization email password
      (open_session w) = (Inr msg, s)" and w': "w' = close_session s" by (rule run_requestE)
  have none: "db_scalar users usr_id (\<lambda>u. usr_email u = py_lower email) (open_session w) = None"
    using new by (simp add: users_tbl.open_scalar[OF w] find_None_iff)
  show ?thesis
  proof (cases "setup_required (open_session w)")
    case True
    let ?p = "\<lparr>bst_organization_name = organization, bst_owner_name = email, bst_owner_email = email,
        bst_owner_password = password\<rparr>"
    obtain usr tok t where o: "create_first_owner rt cfg now salt raw (bst_organization_name ?p)
        (bst_owner_email ?p) (bst_owner_password ?p) (open_session w) = (Inr (usr, tok), t)"
      and d: "durable s = live t"
      using s True none
      by (auto simp: create_owner_user_def andThen_run lift_sum_def db_commit_def
          split: if_splits sum.splits prod.splits)
    have st: "srv_store w' = after_setup rt cfg now salt raw ?p w"
      using first_owner_success[OF o] d w' by simp
    then have "\<not> setup_required (open_session w')"
      by (simp add: setup_required_flushed has_active_owner_def after_setup_def Let_def)
    then show ?thesis using st by (simp add: after_setup_def Let_def)
  next
    case False
    then have ne: "organizations (srv_store w) \<noteq> []" "has_active_owner (srv_store w)"
      by (auto simp: setup_required_flushed)
    let ?orgs = "sort_key org_created_at (organizations (srv_store w))"
    have orgs: "?orgs \<noteq> []" using ne(1) by (metis length_0_conv length_sort)
    then obtain org rest where o: "?orgs = org # rest" by (cases ?orgs) auto
    then have mem: "org \<in> set (organizations (srv_store w))" by (metis list.set_intros(1) set_sort)
    let ?owner = "new_user (org_id org) (py_lower email) (hash_password rt salt password) ''owner'' now (srv_next_id w)"
    have "durable s = users_update (\<lambda>us. us @ [?owner]) (srv_store w)"
      using s False none o
      by (auto simp: create_owner_user_def andThen_run lift_sum_def db_commit_def insert_row_def
          organizations_tbl.open_select_by[OF w] split: if_splits sum.splits)
    then have st: "srv_store w' = users_update (\<lambda>us. us @ [?owner]) (srv_store w)" using w' by simp
    then have "\<not> setup_required (open_session w')"
      using ne by (simp add: setup_required_flushed has_active_owner_def)
    then show ?thesis using st mem by (auto simp: new_user_def)
  qed
qed

text \<open>C34. Running the owner script a second time changes nothing. If it succeeds, an account
  with the given email exists, and unless it existed before (then nothing changed) it is the
  one account added: an active owner of a stored organization with the given password, and
  setup is closed.\<close>

theorem create_owner_idempotent:
  assumes "run_request (create_owner_user rt cfg now salt raw organization email password) w = (Inr msg, w')"
    and w: "wf_server w" and "validate_strong_password password' = Inr ()"
  shows "(if \<exists>u \<in> set (users (srv_store w)). usr_email u = py_lower email then w' = w
      else \<exists>owner. users (srv_store w') = users (srv_store w) @ [owner] \<and>
        usr_email owner = py_lower email \<and> usr_role owner = ''owner'' \<and> usr_is_active owner \<and>
        verify_password rt password (usr_hashed_password owner) \<and>
        (\<exists>org \<in> set (organizations (srv_store w')). org_id org = usr_organization_id owner) \<and>
        \<not> setup_required (open_session w')) \<and>
     run_request (create_owner_user rt' cfg' now' salt' raw' organization' email password') w' =
       (Inr ''Owner user already exists; no changes made.'', w')"
proof (cases "\<exists>u \<in> set (users (srv_store w)). usr_email u = py_lower email")
  case True
  have "validate_strong_password password = Inr ()"
    using assms(1) by (auto simp: run_request_def create_owner_user_def andThen_run lift_sum_def
        split: sum.splits prod.splits)
  then have "w' = w" using True owner_exists[OF _ w] assms(1) by fastforce
  then show ?thesis using True owner_exists[OF assms(3) w] by auto
next
  case False
  then obtain owner where owner: "users (srv_store w') = users (srv_store w) @ [owner]"
      "usr_email owner = py_lower email" "usr_role owner = ''owner''" "usr_is_active owner"
      "usr_hashed_password owner = hash_password rt salt password"
      "\<exists>org \<in> set (organizations (srv_store w')). org_id org = usr_organization_id owner"
      "\<not> setup_required (open_session w')"
    using owner_created[OF assms(1) w] by blast
  have "wf_server w'" using run_request_wf[OF wf_create_owner w] assms(1) by (metis snd_conv)
  then show ?thesis
    using False owner owner_exists[OF assms(3), of w' owner] by (auto simp: verify_hash_password)
qed

theorem create_owner_idempotent_witness:
  "\<exists>w'. run_request (create_owner_user sample_runtime default_settings 9 [] ''t'' ''Acme'' ''NEW@acme.test''
       ''Correct-Horse-9'') w' = (Inr ''Owner user already exists; no changes made.'', w') \<and>
     map usr_email (users (srv_store w')) = map usr_email (users sample_store) @ [''new@acme.test'']"
proof -
  let ?run = "create_owner_user sample_runtime default_settings 5 [1] ''t'' ''Acme'' ''NEW@acme.test'' ''Correct-Horse-1''"
  let ?owner = "new_user 1 ''new@acme.test'' (hash_password sample_runtime [1] ''Correct-Horse-1'') ''owner'' 5 100"
  let ?st = "users_update (\<lambda>us. us @ [?owner]) sample_store"
  have strong: "validate_strong_password ''Correct-Horse-1'' = Inr ()"
      "validate_strong_password ''Correct-Horse-9'' = Inr ()"
    by (simp_all add: validate_strong_password_def char_class_defs)
  have email: "py_lower ''NEW@acme.test'' = ''new@acme.test''" by (simp add: char_eval)
  have closed: "\<not> setup_required (open_session sample_server)"
    by (simp add: setup_required_flushed has_active_owner_def sample_defs)
  have "List.find (\<lambda>u. usr_email u = ''new@acme.test'') (users sample_store) = None"
    by (simp add: sample_defs)
  moreover have "sort_key org_created_at (organizations sample_store) =
      [\<lparr>org_id = 1, org_name = ''Acme'', org_slug = ''acme'', org_created_at = 0\<rparr>,
       \<lparr>org_id = 2, org_name = ''Globex'', org_slug = ''globex'', org_created_at = 0\<rparr>]"
    by (simp add: sample_defs)
  moreover have "unique_ok ?st" by (simp add: unique_ok_def new_user_def sample_defs)
  moreover have "usr_email ?owner = ''new@acme.test''" by (simp add: new_user_def)
  ultimately have "?run (open_session sample_server) =
      (Inr ''Created owner user new@acme.test for existing organization.'', committed ?st 101)"
    using strong closed
    by (simp add: create_owner_user_def lift_sum_def email users_tbl.open_scalar[OF sample_wf] sample_server_simps
        organizations_tbl.open_select_by[OF sample_wf] insert_row_def andThen_run commit_open)
  then have "run_request ?run sample_server =
      (Inr ''Created owner user new@acme.test for existing organization.'', close_session (committed ?st 101))"
    using run_request_eq by blast
  from create_owner_idempotent[OF this sample_wf strong(2)]
  show ?thesis by (intro exI[of _ "close_session (committed ?st 101)"]) (simp add: new_user_def email)
qed

subsection \<open>create-enrollment-token\<close>

text \<open>
  \<open>one_or_none\<close> is \<open>db_scalar\<close> here: slugs are unique, so at most one row matches.
\<close>

definition organization_named :: "string \<Rightarrow> string \<Rightarrow> datetime \<Rightarrow> uuid \<Rightarrow> organization" where
  "organization_named name slug now i =
     \<lparr>org_id = i, org_name = name, org_slug = slug, org_created_at = now\<rparr>"

definition create_enrollment_token ::
  "runtime \<Rightarrow> settings \<Rightarrow> datetime \<Rightarrow> string \<Rightarrow> string \<Rightarrow> string \<Rightarrow> int \<Rightarrow> int \<Rightarrow> string db_op" where
  "create_enrollment_token rt cfg now drawn organization name ttl_hours max_uses =
     andThen (gets (db_scalar organizations org_id (\<lambda>o'. org_slug o' = organization))) (\<lambda>found.
     andThen (case found of
         Some org \<Rightarrow> ret org
       | None \<Rightarrow>
           andThen (insert_row organizations_update (organization_named name organization now)) (\<lambda>org.
           andThen db_flush (\<lambda>_. ret org))) (\<lambda>org.
     case build_enrollment_token rt cfg now drawn (org_id org) ttl_hours max_uses of
       (plaintext, tok) \<Rightarrow>
         andThen (insert_row enrollment_tokens_update tok) (\<lambda>_.
         andThen db_commit (\<lambda>_. ret plaintext))))"

definition printed_token ::
  "runtime \<Rightarrow> settings \<Rightarrow> datetime \<Rightarrow> string \<Rightarrow> uuid \<Rightarrow> int \<Rightarrow> int \<Rightarrow> uuid \<Rightarrow> enrollment_token" where
  "printed_token rt cfg now drawn organization_id ttl_hours max_uses i =
     snd (build_enrollment_token rt cfg now drawn organization_id ttl_hours max_uses) i"

lemma wf_create_token:
  "keeps wf_session (create_enrollment_token rt cfg now drawn organization name ttl_hours max_uses)"
  unfolding create_enrollment_token_def build_enrollment_token_def prod.case
  by (intro keeps_intro organizations_tbl.insert_wf enrollment_tokens_tbl.insert_wf)
    (auto simp: organization_named_def split: option.split
      intro!: keeps_intro organizations_tbl.insert_wf enrollment_tokens_tbl.insert_wf)

lemma find_last: "\<forall>x \<in> set xs. \<not> P x \<Longrightarrow> P y \<Longrightarrow> List.find P (xs @ [y]) = Some y"
  by (induction xs) auto

lemma token_created:
  assumes run: "run_request (create_enrollment_token rt cfg now drawn organization name ttl_hours max_uses) w =
      (Inr printed, w')" and w: "wf_server w"
  shows "printed = drawn \<and> (\<exists>org i. org \<in> set (organizations (srv_store w')) \<and> org_slug org = organization \<and>
     enrollment_tokens (srv_store w') = enrollment_tokens (srv_store w) @
       [printed_token rt cfg now drawn (org_id org) ttl_hours max_uses i] \<and> unique_ok (srv_store w'))"
proof -
  from run obtain s where s: "create_enrollment_token rt cfg now drawn organization name ttl_hours max_uses
      (open_session w) = (Inr printed, s)" and w': "w' = close_session s" by (rule run_requestE)
  show ?thesis
  proof (cases "List.find (\<lambda>o'. org_slug o' = organization) (organizations (srv_store w))")
    case (Some org)
    then have "org \<in> set (organizations (srv_store w))" "org_slug org = organization"
      by (auto simp: find_Some_iff)
    then show ?thesis
      using s w' Some
      by (auto simp: create_enrollment_token_def andThen_run organizations_tbl.open_scalar[OF w] insert_row_def
          db_commit_def build_enrollment_token_def printed_token_def split: if_splits intro!: exI[of _ org])
  next
    case None
    let ?org = "organization_named name organization now (srv_next_id w)"
    show ?thesis
      using s w' None
      by (auto simp: create_enrollment_token_def andThen_run organizations_tbl.open_scalar[OF w] insert_row_def
          db_commit_def db_flush_def build_enrollment_token_def printed_token_def organization_named_def
          split: if_splits intro!: exI[of _ ?org])
  qed
qed

text \<open>The token the script prints is good for enrolling: while it has uses and time left,
  an agent presenting it gets past the token check, into the organization with the given
  slug, which exists.\<close>

theorem printed_token_enrolls:
  assumes "run_request (create_enrollment_token rt cfg now drawn organization name ttl_hours max_uses) w =
      (Inr printed, w')" and "wf_server w"
    and "1 \<le> max_uses" and "now' < now + timedelta_hours ttl_hours"
  shows "wf_server w' \<and>
     (\<exists>tok org. usable_token rt cfg now' printed (open_session w') = (Inr tok, open_session w') \<and>
        org \<in> set (organizations (srv_store w')) \<and> org_slug org = organization \<and>
        ent_organization_id tok = org_id org \<and> ent_max_uses tok - ent_uses tok = max_uses)"
proof -
  have wf: "wf_server w'" using run_request_wf[OF wf_create_token assms(2)] assms(1) by (metis snd_conv)
  obtain org i where o: "printed = drawn" "org \<in> set (organizations (srv_store w'))" "org_slug org = organization"
      "enrollment_tokens (srv_store w') = enrollment_tokens (srv_store w) @
         [printed_token rt cfg now drawn (org_id org) ttl_hours max_uses i]" "unique_ok (srv_store w')"
    using token_created[OF assms(1,2)] by blast
  let ?tok = "printed_token rt cfg now drawn (org_id org) ttl_hours max_uses i"
  have "distinct (map ent_token_hash (enrollment_tokens (srv_store w')))"
    using o(5) by (simp add: unique_ok_def)
  moreover have h: "ent_token_hash ?tok = hash_token rt cfg printed"
    by (simp add: printed_token_def build_enrollment_token_def o(1))
  ultimately have "find_token rt cfg printed (srv_store w') = Some ?tok"
    unfolding find_token_def o(4) by (intro find_last) (auto simp: image_iff)
  moreover have "\<not> enrollment_refused now' ?tok"
    using assms(3,4) by (simp add: enrollment_refused_def printed_token_def build_enrollment_token_def)
  ultimately have "usable_token rt cfg now' printed (open_session w') = (Inr ?tok, open_session w')"
    by (simp add: usable_token_open[OF wf])
  moreover have "ent_organization_id ?tok = org_id org" "ent_max_uses ?tok - ent_uses ?tok = max_uses"
    by (simp_all add: printed_token_def build_enrollment_token_def)
  ultimately show ?thesis using wf o(2,3) by blast
qed

theorem printed_token_enrolls_witness:
  "\<exists>w' tok. usable_token sample_runtime default_settings 6 ''drawn-token'' (open_session w') =
     (Inr tok, open_session w') \<and> ent_max_uses tok - ent_uses tok = 1"
proof -
  let ?run = "create_enrollment_token sample_runtime default_settings 5 ''drawn-token'' ''acme'' ''Acme'' 24 1"
  let ?tok = "printed_token sample_runtime default_settings 5 ''drawn-token'' 1 24 1 100"
  let ?st = "enrollment_tokens_update (\<lambda>ts. ts @ [?tok]) sample_store"
  have "List.find (\<lambda>o'. org_slug o' = ''acme'') (organizations sample_store) =
      Some \<lparr>org_id = 1, org_name = ''Acme'', org_slug = ''acme'', org_created_at = 0\<rparr>"
    by (simp add: sample_defs)
  moreover have "unique_ok ?st"
    by (simp add: unique_ok_def printed_token_def build_enrollment_token_def sample_hash sample_defs)
  ultimately have "?run (open_session sample_server) = (Inr ''drawn-token'', committed ?st 101)"
    by (simp add: create_enrollment_token_def build_enrollment_token_def printed_token_def sample_server_simps
        organizations_tbl.open_scalar[OF sample_wf] insert_row_def andThen_run commit_open)
  then have "run_request ?run sample_server = (Inr ''drawn-token'', close_session (committed ?st 101))"
    using run_request_eq by blast
  from printed_token_enrolls[OF this sample_wf, of 6] show ?thesis
    by (auto simp: timedelta_hours_def)
qed

end
