(* ===== verification/References.thy ===== *)
theory References
  imports Tables
begin

text \<open>
  The foreign keys of the tables (\<^verbatim>\<open>ForeignKey(...)\<close> in \<^verbatim>\<open>backend/app/models\<close>): which row each
  reference column of a row names, when the named row is there, and how the primitives of
  the session act on both. A row and what it refers to belong to the same organization;
  only an agent can move to another one, by enrolling again, so a reference to an agent
  says no more than that it exists. Seven columns are left out, because their handlers
  store what the request says (\<open>unchecked_columns\<close> in \<open>Integrity\<close>).
\<close>

subsection \<open>Reference columns\<close>

datatype parent =
    OrganizationTable | UserTable | DeviceTable | AgentTable
  | AlertRuleTable | AlertTable | ChannelTable | JobTable
  | NotificationRuleTable | ProviderTable | LinkTable | AssetTable | CategoryTable
  | TicketTable | ConversationTable | TemplateTable | PortalRoleTable
  | PortalUserTable | WorkflowTable | BackupJobTable | AssetTypeTable

text \<open>
  A column's name, the table it refers to and the keys it holds: one, none where it is NULL,
  and any number for the JSON list of channels in a notification rule, which is not declared
  as a foreign key.
\<close>

type_synonym 'r foreign_keys = "(string \<times> parent \<times> ('r \<Rightarrow> uuid list)) list"

definition opt_list :: "'a option \<Rightarrow> 'a list" where
  "opt_list v = (case v of None \<Rightarrow> [] | Some x \<Rightarrow> [x])"

lemma opt_list_simps [simp]: "opt_list None = []" "opt_list (Some x) = [x]"
  by (simp_all add: opt_list_def)

lemma set_opt_list [simp]: "set (opt_list v) = set_option v"
  by (cases v) simp_all

definition organization_keys :: "organization foreign_keys" where
  "organization_keys =
     []"

definition user_keys :: "user foreign_keys" where
  "user_keys =
     [(''organization_id'', OrganizationTable, \<lambda>r. [usr_organization_id r])]"

definition refresh_token_keys :: "refresh_token foreign_keys" where
  "refresh_token_keys =
     [(''organization_id'', OrganizationTable, \<lambda>r. [rft_organization_id r]),
      (''user_id'', UserTable, \<lambda>r. [rft_user_id r])]"

definition enrollment_token_keys :: "enrollment_token foreign_keys" where
  "enrollment_token_keys =
     [(''organization_id'', OrganizationTable, \<lambda>r. [ent_organization_id r]),
      (''created_by_user_id'', UserTable, \<lambda>r. opt_list (ent_created_by_user_id r))]"

definition audit_log_keys :: "audit_log foreign_keys" where
  "audit_log_keys =
     [(''organization_id'', OrganizationTable, \<lambda>r. [aud_organization_id r]),
      (''actor_user_id'', UserTable, \<lambda>r. opt_list (aud_actor_user_id r))]"

definition device_keys :: "device foreign_keys" where
  "device_keys =
     [(''organization_id'', OrganizationTable, \<lambda>r. [dev_organization_id r])]"

definition agent_keys :: "agent foreign_keys" where
  "agent_keys =
     [(''organization_id'', OrganizationTable, \<lambda>r. [agt_organization_id r]),
      (''device_id'', DeviceTable, \<lambda>r. opt_list (agt_device_id r))]"

definition device_checkin_keys :: "device_checkin foreign_keys" where
  "device_checkin_keys =
     [(''organization_id'', OrganizationTable, \<lambda>r. [chk_organization_id r]),
      (''device_id'', DeviceTable, \<lambda>r. [chk_device_id r]),
      (''agent_id'', AgentTable, \<lambda>r. [chk_agent_id r])]"

definition device_inventory_keys :: "device_inventory foreign_keys" where
  "device_inventory_keys =
     [(''organization_id'', OrganizationTable, \<lambda>r. [inv_organization_id r]),
      (''device_id'', DeviceTable, \<lambda>r. [inv_device_id r])]"

definition disk_inventory_keys :: "disk_inventory foreign_keys" where
  "disk_inventory_keys =
     [(''organization_id'', OrganizationTable, \<lambda>r. [dsk_organization_id r]),
      (''device_id'', DeviceTable, \<lambda>r. [dsk_device_id r])]"

definition network_interface_inventory_keys :: "network_interface_inventory foreign_keys" where
  "network_interface_inventory_keys =
     [(''organization_id'', OrganizationTable, \<lambda>r. [nic_organization_id r]),
      (''device_id'', DeviceTable, \<lambda>r. [nic_device_id r])]"

definition installed_software_keys :: "installed_software foreign_keys" where
  "installed_software_keys =
     [(''organization_id'', OrganizationTable, \<lambda>r. [sft_organization_id r]),
      (''device_id'', DeviceTable, \<lambda>r. [sft_device_id r])]"

definition security_status_keys :: "security_status foreign_keys" where
  "security_status_keys =
     [(''organization_id'', OrganizationTable, \<lambda>r. [sec_organization_id r]),
      (''device_id'', DeviceTable, \<lambda>r. [sec_device_id r])]"

definition update_status_keys :: "update_status foreign_keys" where
  "update_status_keys =
     [(''organization_id'', OrganizationTable, \<lambda>r. [ups_organization_id r]),
      (''device_id'', DeviceTable, \<lambda>r. [ups_device_id r])]"

definition alert_rule_keys :: "alert_rule foreign_keys" where
  "alert_rule_keys =
     [(''organization_id'', OrganizationTable, \<lambda>r. [alr_organization_id r])]"

definition alert_keys :: "alert foreign_keys" where
  "alert_keys =
     [(''organization_id'', OrganizationTable, \<lambda>r. [alt_organization_id r]),
      (''device_id'', DeviceTable, \<lambda>r. [alt_device_id r]),
      (''rule_id'', AlertRuleTable, \<lambda>r. [alt_rule_id r])]"

definition alert_event_keys :: "alert_event foreign_keys" where
  "alert_event_keys =
     [(''organization_id'', OrganizationTable, \<lambda>r. [ale_organization_id r]),
      (''alert_id'', AlertTable, \<lambda>r. [ale_alert_id r])]"

definition notification_channel_keys :: "notification_channel foreign_keys" where
  "notification_channel_keys =
     [(''organization_id'', OrganizationTable, \<lambda>r. [ncl_organization_id r])]"

definition notification_rule_keys :: "notification_rule foreign_keys" where
  "notification_rule_keys =
     [(''organization_id'', OrganizationTable, \<lambda>r. [nrl_organization_id r]),
      (''channel_ids'', ChannelTable, \<lambda>r. List.map_filter uuid_parse (nrl_channel_ids r))]"

definition notification_delivery_keys :: "notification_delivery foreign_keys" where
  "notification_delivery_keys =
     [(''organization_id'', OrganizationTable, \<lambda>r. [ndl_organization_id r]),
      (''alert_id'', AlertTable, \<lambda>r. [ndl_alert_id r]),
      (''channel_id'', ChannelTable, \<lambda>r. [ndl_channel_id r])]"

definition agent_job_keys :: "agent_job foreign_keys" where
  "agent_job_keys =
     [(''organization_id'', OrganizationTable, \<lambda>r. [job_organization_id r]),
      (''device_id'', DeviceTable, \<lambda>r. [job_device_id r]),
      (''assigned_agent_id'', AgentTable, \<lambda>r. opt_list (job_assigned_agent_id r))]"

definition agent_job_event_keys :: "agent_job_event foreign_keys" where
  "agent_job_event_keys =
     [(''organization_id'', OrganizationTable, \<lambda>r. [jev_organization_id r]),
      (''job_id'', JobTable, \<lambda>r. [jev_job_id r])]"

definition agent_job_result_keys :: "agent_job_result foreign_keys" where
  "agent_job_result_keys =
     [(''organization_id'', OrganizationTable, \<lambda>r. [jrs_organization_id r]),
      (''job_id'', JobTable, \<lambda>r. [jrs_job_id r])]"

definition remote_provider_config_keys :: "remote_provider_config foreign_keys" where
  "remote_provider_config_keys =
     [(''organization_id'', OrganizationTable, \<lambda>r. [rpc_organization_id r])]"

definition remote_device_link_keys :: "remote_device_link foreign_keys" where
  "remote_device_link_keys =
     [(''organization_id'', OrganizationTable, \<lambda>r. [rdl_organization_id r]),
      (''device_id'', DeviceTable, \<lambda>r. [rdl_device_id r]),
      (''provider_config_id'', ProviderTable, \<lambda>r. opt_list (rdl_provider_config_id r))]"

definition remote_session_audit_keys :: "remote_session_audit foreign_keys" where
  "remote_session_audit_keys =
     [(''organization_id'', OrganizationTable, \<lambda>r. [rsa_organization_id r]),
      (''device_id'', DeviceTable, \<lambda>r. [rsa_device_id r]),
      (''provider_config_id'', ProviderTable, \<lambda>r. opt_list (rsa_provider_config_id r)),
      (''actor_user_id'', UserTable, \<lambda>r. opt_list (rsa_actor_user_id r))]"

definition asset_keys :: "asset foreign_keys" where
  "asset_keys =
     [(''organization_id'', OrganizationTable, \<lambda>r. [ast_organization_id r]),
      (''asset_type_id'', AssetTypeTable, \<lambda>r. opt_list (ast_asset_type_id r))]"

definition company_keys :: "company foreign_keys" where
  "company_keys =
     [(''organization_id'', OrganizationTable, \<lambda>r. [cmp_organization_id r])]"

definition documentation_category_keys :: "documentation_category foreign_keys" where
  "documentation_category_keys =
     [(''organization_id'', OrganizationTable, \<lambda>r. [dcg_organization_id r])]"

definition documentation_article_keys :: "documentation_article foreign_keys" where
  "documentation_article_keys =
     [(''organization_id'', OrganizationTable, \<lambda>r. [dar_organization_id r]),
      (''category_id'', CategoryTable, \<lambda>r. opt_list (dar_category_id r))]"

definition discovery_scan_keys :: "discovery_scan foreign_keys" where
  "discovery_scan_keys =
     [(''organization_id'', OrganizationTable, \<lambda>r. [dsn_organization_id r]),
      (''device_id'', DeviceTable, \<lambda>r. opt_list (dsn_device_id r))]"

definition discovered_device_keys :: "discovered_device foreign_keys" where
  "discovered_device_keys =
     [(''organization_id'', OrganizationTable, \<lambda>r. [dcd_organization_id r]),
      (''asset_id'', AssetTable, \<lambda>r. opt_list (dcd_asset_id r))]"

definition ticket_keys :: "ticket foreign_keys" where
  "ticket_keys =
     [(''organization_id'', OrganizationTable, \<lambda>r. [tkt_organization_id r]),
      (''device_id'', DeviceTable, \<lambda>r. opt_list (tkt_device_id r))]"

definition ticket_comment_keys :: "ticket_comment foreign_keys" where
  "ticket_comment_keys =
     [(''organization_id'', OrganizationTable, \<lambda>r. [tkc_organization_id r]),
      (''ticket_id'', TicketTable, \<lambda>r. [tkc_ticket_id r]),
      (''author_user_id'', UserTable, \<lambda>r. opt_list (tkc_author_user_id r))]"

definition ticket_time_entry_keys :: "ticket_time_entry foreign_keys" where
  "ticket_time_entry_keys =
     [(''organization_id'', OrganizationTable, \<lambda>r. [tke_organization_id r]),
      (''ticket_id'', TicketTable, \<lambda>r. [tke_ticket_id r]),
      (''user_id'', UserTable, \<lambda>r. opt_list (tke_user_id r))]"

definition ai_conversation_keys :: "ai_conversation foreign_keys" where
  "ai_conversation_keys =
     [(''organization_id'', OrganizationTable, \<lambda>r. [aic_organization_id r]),
      (''user_id'', UserTable, \<lambda>r. opt_list (aic_user_id r))]"

definition ai_message_keys :: "ai_message foreign_keys" where
  "ai_message_keys =
     [(''organization_id'', OrganizationTable, \<lambda>r. [aim_organization_id r]),
      (''conversation_id'', ConversationTable, \<lambda>r. [aim_conversation_id r])]"

definition ai_insight_keys :: "ai_insight foreign_keys" where
  "ai_insight_keys =
     [(''organization_id'', OrganizationTable, \<lambda>r. [aii_organization_id r])]"

definition report_template_keys :: "report_template foreign_keys" where
  "report_template_keys =
     [(''organization_id'', OrganizationTable, \<lambda>r. [rtm_organization_id r])]"

definition report_run_keys :: "report_run foreign_keys" where
  "report_run_keys =
     [(''organization_id'', OrganizationTable, \<lambda>r. [rrn_organization_id r])]"

definition report_schedule_keys :: "report_schedule foreign_keys" where
  "report_schedule_keys =
     [(''organization_id'', OrganizationTable, \<lambda>r. [rsc_organization_id r]),
      (''template_id'', TemplateTable, \<lambda>r. [rsc_template_id r])]"

definition dashboard_preference_keys :: "dashboard_preference foreign_keys" where
  "dashboard_preference_keys =
     [(''organization_id'', OrganizationTable, \<lambda>r. [dpr_organization_id r]),
      (''user_id'', UserTable, \<lambda>r. [dpr_user_id r])]"

definition portal_role_keys :: "portal_role foreign_keys" where
  "portal_role_keys =
     [(''organization_id'', OrganizationTable, \<lambda>r. [prl_organization_id r])]"

definition portal_user_keys :: "portal_user foreign_keys" where
  "portal_user_keys =
     [(''organization_id'', OrganizationTable, \<lambda>r. [pus_organization_id r]),
      (''portal_role_id'', PortalRoleTable, \<lambda>r. opt_list (pus_portal_role_id r))]"

definition portal_session_keys :: "portal_session foreign_keys" where
  "portal_session_keys =
     [(''organization_id'', OrganizationTable, \<lambda>r. [pse_organization_id r]),
      (''portal_user_id'', PortalUserTable, \<lambda>r. [pse_portal_user_id r])]"

definition workflow_keys :: "workflow foreign_keys" where
  "workflow_keys =
     [(''organization_id'', OrganizationTable, \<lambda>r. [wfl_organization_id r])]"

definition workflow_trigger_keys :: "workflow_trigger foreign_keys" where
  "workflow_trigger_keys =
     [(''organization_id'', OrganizationTable, \<lambda>r. [wft_organization_id r]),
      (''workflow_id'', WorkflowTable, \<lambda>r. [wft_workflow_id r])]"

definition workflow_action_keys :: "workflow_action foreign_keys" where
  "workflow_action_keys =
     [(''organization_id'', OrganizationTable, \<lambda>r. [wfa_organization_id r]),
      (''workflow_id'', WorkflowTable, \<lambda>r. [wfa_workflow_id r])]"

definition workflow_execution_keys :: "workflow_execution foreign_keys" where
  "workflow_execution_keys =
     [(''organization_id'', OrganizationTable, \<lambda>r. [wfe_organization_id r]),
      (''workflow_id'', WorkflowTable, \<lambda>r. [wfe_workflow_id r])]"

definition api_key_keys :: "api_key foreign_keys" where
  "api_key_keys =
     [(''organization_id'', OrganizationTable, \<lambda>r. [apk_organization_id r])]"

definition system_health_keys :: "system_health foreign_keys" where
  "system_health_keys =
     [(''organization_id'', OrganizationTable, \<lambda>r. [syh_organization_id r])]"

definition backup_job_keys :: "backup_job foreign_keys" where
  "backup_job_keys =
     [(''organization_id'', OrganizationTable, \<lambda>r. [bkj_organization_id r])]"

definition backup_run_keys :: "backup_run foreign_keys" where
  "backup_run_keys =
     [(''organization_id'', OrganizationTable, \<lambda>r. [bkr_organization_id r]),
      (''job_id'', BackupJobTable, \<lambda>r. opt_list (bkr_job_id r))]"

text \<open>
  What a reference asks for: a row with the key in the organization, or an agent with the key.
  An agent and its device also have the same machine, which no foreign key says: two more
  items tell the machine of a device and of an agent.
\<close>

datatype item =
    Row_of parent uuid uuid | Agent_row uuid | Machine_of uuid string | Install_of uuid string

definition pointer :: "parent \<Rightarrow> uuid \<Rightarrow> uuid \<Rightarrow> item" where
  "pointer p i o' = (if p = AgentTable then Agent_row i else Row_of p i o')"

definition references_of :: "'r foreign_keys \<Rightarrow> ('r \<Rightarrow> uuid) \<Rightarrow> 'r \<Rightarrow> item list" where
  "references_of keys org r =
     concat (map (\<lambda>(_, p, value). map (\<lambda>i. pointer p i (org r)) (value r)) keys)"

lemma references_of_simps [simp]:
  "references_of [] org r = []"
  "references_of ((c, p, v) # ks) org r =
     map (\<lambda>i. pointer p i (org r)) (v r) @ references_of ks org r"
  by (simp_all add: references_of_def)

lemma references_of_set:
  "set (references_of keys org r) = (\<Union>(_, p, value) \<in> set keys. (\<lambda>i. pointer p i (org r)) ` set (value r))"
  by (auto simp: references_of_def)

lemma pointer_simps [simp]:
  "pointer AgentTable i o' = Agent_row i" "p \<noteq> AgentTable \<Longrightarrow> pointer p i o' = Row_of p i o'"
  by (simp_all add: pointer_def)

text \<open>The rows a table offers to references, each with its organization.\<close>

definition parent_rows :: "parent \<Rightarrow> store \<Rightarrow> (uuid \<times> uuid) list" where
  "parent_rows p st = (case p of
     OrganizationTable \<Rightarrow> map (\<lambda>r. (org_id r, org_id r)) (organizations st)
   | UserTable \<Rightarrow> map (\<lambda>r. (usr_id r, usr_organization_id r)) (users st)
   | DeviceTable \<Rightarrow> map (\<lambda>r. (dev_id r, dev_organization_id r)) (devices st)
   | AlertRuleTable \<Rightarrow> map (\<lambda>r. (alr_id r, alr_organization_id r)) (alert_rules st)
   | AlertTable \<Rightarrow> map (\<lambda>r. (alt_id r, alt_organization_id r)) (alerts st)
   | ChannelTable \<Rightarrow> map (\<lambda>r. (ncl_id r, ncl_organization_id r)) (notification_channels st)
   | NotificationRuleTable \<Rightarrow> map (\<lambda>r. (nrl_id r, nrl_organization_id r)) (notification_rules st)
   | JobTable \<Rightarrow> map (\<lambda>r. (job_id r, job_organization_id r)) (agent_jobs st)
   | ProviderTable \<Rightarrow> map (\<lambda>r. (rpc_id r, rpc_organization_id r)) (remote_providers st)
   | LinkTable \<Rightarrow> map (\<lambda>r. (rdl_id r, rdl_organization_id r)) (remote_links st)
   | AssetTable \<Rightarrow> map (\<lambda>r. (ast_id r, ast_organization_id r)) (assets (phase2 st))
   | CategoryTable \<Rightarrow> map (\<lambda>r. (dcg_id r, dcg_organization_id r)) (documentation_categories (phase2 st))
   | TicketTable \<Rightarrow> map (\<lambda>r. (tkt_id r, tkt_organization_id r)) (tickets (phase2 st))
   | ConversationTable \<Rightarrow> map (\<lambda>r. (aic_id r, aic_organization_id r)) (ai_conversations (phase2 st))
   | TemplateTable \<Rightarrow> map (\<lambda>r. (rtm_id r, rtm_organization_id r)) (report_templates (phase2 st))
   | PortalRoleTable \<Rightarrow> map (\<lambda>r. (prl_id r, prl_organization_id r)) (portal_roles (phase3 st))
   | PortalUserTable \<Rightarrow> map (\<lambda>r. (pus_id r, pus_organization_id r)) (portal_users (phase3 st))
   | WorkflowTable \<Rightarrow> map (\<lambda>r. (wfl_id r, wfl_organization_id r)) (workflows (phase3 st))
   | BackupJobTable \<Rightarrow> map (\<lambda>r. (bkj_id r, bkj_organization_id r)) (backup_jobs (phase3 st))
   | AgentTable \<Rightarrow> []
   | AssetTypeTable \<Rightarrow> [])"

fun found :: "store \<Rightarrow> item \<Rightarrow> bool" where
  "found st (Row_of p i o') \<longleftrightarrow> (i, o') \<in> set (parent_rows p st)"
| "found st (Agent_row i) \<longleftrightarrow> i \<in> set (map agt_id (agents st))"
| "found st (Machine_of i m) \<longleftrightarrow> (i, m) \<in> set (map (\<lambda>d. (dev_id d, dev_machine_identifier d)) (devices st))"
| "found st (Install_of i m) \<longleftrightarrow> (i, m) \<in> set (map (\<lambda>a. (agt_id a, agt_install_id a)) (agents st))"

text \<open>All references of a store, and the stores without a dangling one.\<close>

definition agent_refs :: "agent \<Rightarrow> item list" where
  "agent_refs a = references_of agent_keys agt_organization_id a @
     map (\<lambda>d. Machine_of d (agt_install_id a)) (opt_list (agt_device_id a))"

definition table_refs :: "'r foreign_keys \<Rightarrow> ('r \<Rightarrow> uuid) \<Rightarrow> 'r list \<Rightarrow> item list" where
  "table_refs keys org rs = concat (map (references_of keys org) rs)"

definition phase2_refs :: "phase2_store \<Rightarrow> item list list" where
  "phase2_refs st =
    [table_refs asset_keys ast_organization_id (assets st),
     table_refs company_keys cmp_organization_id (companies st),
     table_refs documentation_category_keys dcg_organization_id (documentation_categories st),
     table_refs documentation_article_keys dar_organization_id (documentation_articles st),
     table_refs discovery_scan_keys dsn_organization_id (discovery_scans st),
     table_refs discovered_device_keys dcd_organization_id (discovered_devices st),
     table_refs ticket_keys tkt_organization_id (tickets st),
     table_refs ticket_comment_keys tkc_organization_id (ticket_comments st),
     table_refs ticket_time_entry_keys tke_organization_id (ticket_time_entries st),
     table_refs ai_conversation_keys aic_organization_id (ai_conversations st),
     table_refs ai_message_keys aim_organization_id (ai_messages st),
     table_refs ai_insight_keys aii_organization_id (ai_insights st),
     table_refs report_template_keys rtm_organization_id (report_templates st),
     table_refs report_run_keys rrn_organization_id (report_runs st),
     table_refs report_schedule_keys rsc_organization_id (report_schedules st)]"

definition phase3_refs :: "phase3_store \<Rightarrow> item list list" where
  "phase3_refs st =
    [table_refs dashboard_preference_keys dpr_organization_id (dashboard_preferences st),
     table_refs portal_role_keys prl_organization_id (portal_roles st),
     table_refs portal_user_keys pus_organization_id (portal_users st),
     table_refs portal_session_keys pse_organization_id (portal_sessions st),
     table_refs workflow_keys wfl_organization_id (workflows st),
     table_refs workflow_trigger_keys wft_organization_id (workflow_triggers st),
     table_refs workflow_action_keys wfa_organization_id (workflow_actions st),
     table_refs workflow_execution_keys wfe_organization_id (workflow_executions st),
     table_refs api_key_keys apk_organization_id (api_keys st),
     table_refs system_health_keys syh_organization_id (system_healths st),
     table_refs backup_job_keys bkj_organization_id (backup_jobs st),
     table_refs backup_run_keys bkr_organization_id (backup_runs st)]"

definition table_refs_of :: "store \<Rightarrow> item list list" where
  "table_refs_of st =
    [table_refs organization_keys org_id (organizations st),
     table_refs user_keys usr_organization_id (users st),
     table_refs refresh_token_keys rft_organization_id (refresh_tokens st),
     table_refs enrollment_token_keys ent_organization_id (enrollment_tokens st),
     table_refs audit_log_keys aud_organization_id (audit_logs st),
     table_refs device_keys dev_organization_id (devices st),
     concat (map agent_refs (agents st)),
     table_refs device_checkin_keys chk_organization_id (device_checkins st),
     table_refs device_inventory_keys inv_organization_id (device_inventories st),
     table_refs disk_inventory_keys dsk_organization_id (disk_inventories st),
     table_refs network_interface_inventory_keys nic_organization_id (network_interfaces st),
     table_refs installed_software_keys sft_organization_id (softwares st),
     table_refs security_status_keys sec_organization_id (security_statuses st),
     table_refs update_status_keys ups_organization_id (update_statuses st),
     table_refs alert_rule_keys alr_organization_id (alert_rules st),
     table_refs alert_keys alt_organization_id (alerts st),
     table_refs alert_event_keys ale_organization_id (alert_events st),
     table_refs notification_channel_keys ncl_organization_id (notification_channels st),
     table_refs notification_rule_keys nrl_organization_id (notification_rules st),
     table_refs notification_delivery_keys ndl_organization_id (notification_deliveries st),
     table_refs agent_job_keys job_organization_id (agent_jobs st),
     table_refs agent_job_event_keys jev_organization_id (agent_job_events st),
     table_refs agent_job_result_keys jrs_organization_id (agent_job_results st),
     table_refs remote_provider_config_keys rpc_organization_id (remote_providers st),
     table_refs remote_device_link_keys rdl_organization_id (remote_links st),
     table_refs remote_session_audit_keys rsa_organization_id (remote_session_audits st)] @
    phase2_refs (phase2 st) @ phase3_refs (phase3 st)"

definition all_refs :: "store \<Rightarrow> item list" where
  "all_refs st = concat (table_refs_of st)"

definition references_ok :: "store \<Rightarrow> bool" where
  "references_ok st \<longleftrightarrow> list_all (found st) (all_refs st)"

lemma table_refs_set [simp]: "set (table_refs keys org rs) = (\<Union>r \<in> set rs. set (references_of keys org r))"
  by (simp add: table_refs_def)

text \<open>Every table contributes its references, and a write to a table only its own.\<close>

lemmas refs_defs = table_refs_of_def phase2_refs_def phase3_refs_def

lemma listed_refs_read:
  assumes "concat (map refs rs) \<in> set (table_refs_of st)" and "r \<in> set rs"
  shows "set (refs r) \<subseteq> set (all_refs st)"
proof
  fix x assume "x \<in> set (refs r)"
  with assms(2) have "x \<in> set (concat (map refs rs))" by auto
  with assms(1) show "x \<in> set (all_refs st)" unfolding all_refs_def set_concat[of "table_refs_of st"] by blast
qed

lemma listed_refs_write:
  assumes "set (table_refs_of st') \<subseteq> insert (concat (map refs rs)) (set (table_refs_of st))"
  shows "set (all_refs st') \<subseteq> set (all_refs st) \<union> (\<Union>r \<in> set rs. set (refs r))"
proof
  fix x assume "x \<in> set (all_refs st')"
  then obtain l where "l \<in> set (table_refs_of st')" "x \<in> set l" by (auto simp: all_refs_def)
  with assms have "x \<in> set (concat (map refs rs)) \<or> x \<in> set (all_refs st)"
    unfolding all_refs_def set_concat[of "table_refs_of st"] by blast
  then show "x \<in> set (all_refs st) \<union> (\<Union>r \<in> set rs. set (refs r))" by auto
qed

text \<open>The rows of a table that others refer to, and of one none refers to.\<close>

lemma found_same:
  "(\<And>p. parent_rows p st' = parent_rows p st) \<Longrightarrow> agents st' = agents st \<Longrightarrow> devices st' = devices st \<Longrightarrow>
     found st x \<Longrightarrow> found st' x"
  by (cases x) simp_all

lemma found_grows:
  assumes rows: "parent_rows P st = map (\<lambda>r. (k r, org r)) rs" "parent_rows P st' = map (\<lambda>r. (k r, org r)) rs'"
    and same: "\<And>p. p \<noteq> P \<Longrightarrow> parent_rows p st' = parent_rows p st" "agents st' = agents st" "devices st' = devices st"
    and x: "found st x" "\<And>r. r \<in> set rs \<Longrightarrow> x \<in> set [Row_of P (k r) (org r)] \<Longrightarrow>
      \<exists>r' \<in> set rs'. x \<in> set [Row_of P (k r') (org r')]"
  shows "found st' x"
proof (cases "\<exists>i o'. x = Row_of P i o'")
  case True
  with x(1) rows(1) obtain r where "r \<in> set rs" "x = Row_of P (k r) (org r)" by auto
  with x(2)[of r] rows(2) show ?thesis by force
next
  case False
  with x(1) same show ?thesis by (cases x) auto
qed

lemma agent_grows:
  assumes "\<And>p. parent_rows p st' = parent_rows p st" and "devices st' = devices st" and "found st x"
    and "\<And>r. r \<in> set (agents st) \<Longrightarrow> x \<in> set [Agent_row (agt_id r), Install_of (agt_id r) (agt_install_id r)] \<Longrightarrow>
      \<exists>r' \<in> set (agents st'). x \<in> set [Agent_row (agt_id r'), Install_of (agt_id r') (agt_install_id r')]"
  shows "found st' x"
  using assms by (cases x) force+

lemma device_grows:
  assumes "\<And>p. p \<noteq> DeviceTable \<Longrightarrow> parent_rows p st' = parent_rows p st" and "agents st' = agents st" and "found st x"
    and "\<And>r. r \<in> set (devices st) \<Longrightarrow>
      x \<in> set [Row_of DeviceTable (dev_id r) (dev_organization_id r), Machine_of (dev_id r) (dev_machine_identifier r)] \<Longrightarrow>
      \<exists>r' \<in> set (devices st'). x \<in> set [Row_of DeviceTable (dev_id r') (dev_organization_id r'),
        Machine_of (dev_id r') (dev_machine_identifier r')]"
  shows "found st' x"
proof (cases x)
  case (Row_of p i o')
  with assms show ?thesis by (cases "p = DeviceTable") (force simp: parent_rows_def)+
next
  case (Machine_of i m)
  with assms(3,4) show ?thesis by force
qed (use assms(2,3) in auto)

lemma found_key:
  assumes "parent_rows P st = map (\<lambda>r. (k r, org r)) rs" and "keys_ok n k rs" and "r \<in> set rs" and "k r = k r'"
    and "\<forall>x \<in> set [Row_of P (k r') (org r')]. found st x"
  shows "[Row_of P (k r) (org r)] = [Row_of P (k r') (org r')]"
proof -
  from assms(1,5) obtain y where "y \<in> set rs" "k y = k r'" "org y = org r'" by auto
  with keys_ok_row[OF assms(2,3), of y] assms(4) show ?thesis by simp
qed

text \<open>
  While a request runs no reference dangles in any version of the data, the rows its queries
  can find are still there among the live ones, and so are the rows \<open>K\<close> the handler has got
  hold of so far.
\<close>

definition referring :: "item set \<Rightarrow> session \<Rightarrow> bool" where
  "referring K s \<longleftrightarrow> wf_session s \<and> references_ok (live s) \<and> references_ok (flushed s) \<and>
     references_ok (durable s) \<and> (\<forall>x. found (flushed s) x \<longrightarrow> found (live s) x) \<and>
     (\<forall>x \<in> K. found (live s) x)"

lemma referring_open:
  "wf_server w \<Longrightarrow> references_ok (srv_store w) \<Longrightarrow> \<forall>x \<in> K. found (srv_store w) x \<Longrightarrow> referring K (open_session w)"
  by (simp add: referring_def)

lemma referring_close:
  "referring K s \<Longrightarrow> wf_server (close_session s) \<and> references_ok (srv_store (close_session s))"
  by (simp add: referring_def wf_server_close)

lemma referring_mono: "referring K s \<Longrightarrow> K' \<subseteq> K \<Longrightarrow> referring K' s"
  by (auto simp: referring_def)

lemma referring_insert: "referring (insert x K) s \<longleftrightarrow> referring K s \<and> found (live s) x"
  by (auto simp: referring_def)

lemma referring_flush [keeps_intro]: "keeps (referring K) db_flush"
  by (auto simp: keeps_def db_flush_def referring_def wf_session_def)

lemma referring_commit [keeps_intro]: "keeps (referring K) db_commit"
  by (auto simp: keeps_def db_commit_def referring_def wf_session_def)

text \<open>An operation that keeps what the handler knows may run with more known.\<close>

lemma keeps_known:
  assumes "keeps (referring K') m" and "K \<subseteq> K'" and "referring K' s"
  shows "referring K (snd (m s))"
  by (rule referring_mono[OF keepsD[OF assms(1,3)] assms(2)])

subsection \<open>The interface of a table with references\<close>

locale referring_table = tenant_table t u k org
  for t :: "store \<Rightarrow> 'r list" and u and k and org +
  fixes refs :: "'r \<Rightarrow> item list" and own :: "'r \<Rightarrow> item list"
  assumes refs_read: "r \<in> set (t st) \<Longrightarrow> set (refs r) \<subseteq> set (all_refs st)"
    and refs_write: "set (all_refs (u f st)) \<subseteq> set (all_refs st) \<union> (\<Union>r \<in> set (f (t st)). set (refs r))"
    and own_read: "r \<in> set (t st) \<Longrightarrow> x \<in> set (own r) \<Longrightarrow> found st x"
    and own_write: "found st x \<Longrightarrow>
          (\<And>r. r \<in> set (t st) \<Longrightarrow> x \<in> set (own r) \<Longrightarrow> \<exists>r' \<in> set (f (t st)). x \<in> set (own r')) \<Longrightarrow>
          found (u f st) x"
    and own_key: "ids_ok n st \<Longrightarrow> r \<in> set (t st) \<Longrightarrow> k r = k r' \<Longrightarrow>
          \<forall>x \<in> set (own r'). found st x \<Longrightarrow> own r = own r'"
begin

text \<open>What reading a row teaches.\<close>

abbreviation known :: "'r \<Rightarrow> item set" where "known r \<equiv> set (refs r) \<union> set (own r)"

lemma row_known:
  assumes "referring K s" and "r \<in> set (t (live s)) \<union> set (t (flushed s))"
  shows "referring (K \<union> known r) s"
proof -
  have "found (live s) x" if "x \<in> set (refs r)" for x
    using assms subsetD[OF refs_read that] by (auto simp: referring_def references_ok_def list_all_iff)
  moreover have "found (live s) x" if "x \<in> set (own r)" for x
    using assms own_read[OF _ that, of "live s"] own_read[OF _ that, of "flushed s"] unfolding referring_def by blast
  ultimately show ?thesis using assms(1) by (auto simp: referring_def)
qed

lemma refs_ok_write:
  assumes ok: "references_ok st" and new: "\<And>r x. r \<in> set (f (t st)) \<Longrightarrow> x \<in> set (refs r) \<Longrightarrow> found st x"
    and kept: "\<And>r. r \<in> set (t st) \<Longrightarrow> \<exists>r' \<in> set (f (t st)). own r' = own r"
  shows "references_ok (u f st)" and "found st x \<Longrightarrow> found (u f st) x"
proof -
  show grows: "found (u f st) x" if "found st x" for x
    by (rule own_write[OF that]) (metis kept)
  have "found st x" if "x \<in> set (all_refs (u f st))" for x
    using subsetD[OF refs_write that] ok new by (auto simp: references_ok_def list_all_iff)
  with grows show "references_ok (u f st)" by (auto simp: references_ok_def list_all_iff)
qed

lemma insert_referring:
  assumes key: "\<And>i. k (mk i) = i" and new: "\<And>i. set (refs (mk i)) \<subseteq> K"
    and rest: "\<And>i. keeps (referring (K \<union> set (own (mk i)))) (f (mk i))"
  shows "keeps (referring K) (andThen (insert_row u mk) f)"
proof (rule keepsI)
  fix s assume s: "referring K s"
  let ?r = "mk (next_id s)" and ?s = "snd (insert_row u mk s)"
  have old: "found (live s) x" if r: "r \<in> set (t (live s) @ [?r])" "x \<in> set (refs r)" for r x
  proof (cases "r \<in> set (t (live s))")
    case True
    from subsetD[OF refs_read[OF this] r(2)] s show ?thesis by (auto simp: referring_def references_ok_def list_all_iff)
  next
    case False
    with r subsetD[OF new] s show ?thesis by (auto simp: referring_def)
  qed
  note ok = refs_ok_write[of "live s" "\<lambda>rs. rs @ [?r]"]
  have "references_ok (live ?s)" using s old by (auto simp: insert_row_def referring_def intro!: ok(1))
  moreover have grows: "found (live ?s) x" if "found (live s) x" for x
    using s old that by (auto simp: insert_row_def referring_def intro!: ok(2))
  moreover have "found (live ?s) x" if "x \<in> set (own ?r)" for x
    using that by (intro own_read[of ?r]) (simp_all add: insert_row_def read_write)
  moreover have "wf_session ?s" using s key by (intro keepsD[OF insert_wf]) (simp_all add: referring_def)
  ultimately have "referring (K \<union> set (own ?r)) ?s"
    using s by (auto simp: referring_def insert_row_def)
  with keepsD[OF rest] have "referring (K \<union> set (own ?r)) (snd (f ?r ?s))" by blast
  then show "referring K (snd (andThen (insert_row u mk) f s))"
    by (auto simp: andThen_def insert_row_def intro: referring_mono)
qed

lemma insert_only:
  assumes "\<And>i. k (mk i) = i" and "\<And>i. set (refs (mk i)) \<subseteq> K"
  shows "keeps (referring K) (insert_row u mk)"
  using insert_referring[where f = ret, OF assms keeps_ret] by simp

lemma put_referring:
  assumes "set (refs r) \<subseteq> K" and "set (own r) \<subseteq> K"
  shows "keeps (referring K) (put_row u k r)"
proof (rule keepsI)
  fix s assume s: "referring K s"
  let ?put = "map (\<lambda>x. if k x = k r then r else x)" and ?s = "snd (put_row u k r s)"
  have own: "own x = own r" if "x \<in> set (t (live s))" "k x = k r" for x
    using s assms(2) that by (intro own_key[of "next_id s" "live s"]) (auto simp: referring_def wf_session_def)
  have old: "found (live s) x" if "y \<in> set (?put (t (live s)))" "x \<in> set (refs y)" for x y
    using that s assms(1) refs_read[of _ "live s"]
    by (auto simp: referring_def references_ok_def list_all_iff split: if_splits)
  have kept: "\<exists>r' \<in> set (?put (t (live s))). own r' = own y" if "y \<in> set (t (live s))" for y
    using that own[OF that] by (intro bexI[of _ "if k y = k r then r else y"]) auto
  have "wf_session ?s" using s by (intro keepsD[OF put_wf]) (simp add: referring_def)
  moreover have "references_ok (live ?s)"
    using s old kept by (auto simp: put_row_def referring_def intro!: refs_ok_write(1))
  moreover have "found (live ?s) x" if "found (live s) x" for x
    using s old kept that by (auto simp: put_row_def referring_def intro!: refs_ok_write(2))
  ultimately show "referring K ?s" using s by (auto simp: referring_def put_row_def)
qed

text \<open>Rows nothing refers to may be deleted.\<close>

lemma delete_referring:
  assumes "\<And>r. own r = []"
  shows "keeps (referring K) (delete_rows t u k P)"
proof (rule keepsI)
  fix s assume s: "referring K s"
  have sub: "references_ok (u (filter Q) st)" "found (u (filter Q) st) x = found st x" if "references_ok st" for Q st x
  proof -
    have "set (all_refs (u (filter Q) st)) \<subseteq> set (all_refs st)"
      using refs_write[of "filter Q" st] refs_read[of _ st] by auto
    moreover have grows: "found (u (filter Q) st) y" if "found st y" for y
      using that by (rule own_write) (simp add: assms)
    ultimately show "references_ok (u (filter Q) st)" using that by (auto simp: references_ok_def list_all_iff)
    have "found st x" if "found (u (filter Q) st) x"
      using own_write[OF that, of "\<lambda>_. t st"] write_same[of "\<lambda>_. t st" st] by (simp add: assms write_write)
    with grows show "found (u (filter Q) st) x = found st x" by blast
  qed
  have "wf_session (snd (delete_rows t u k P s))"
    using s by (intro keepsD[OF delete_wf]) (simp add: referring_def)
  with s show "referring K (snd (delete_rows t u k P s))"
    by (auto simp: referring_def delete_rows_def Let_def sub)
qed

lemma get_referring:
  assumes "keeps (referring K) (f None)" and "\<And>r. k r = i \<Longrightarrow> keeps (referring (K \<union> known r)) (f (Some r))"
  shows "keeps (referring K) (andThen (gets (db_get t k i)) f)"
proof (rule keeps_gets_andThen)
  fix s assume s: "referring K s"
  show "referring K (snd (f (db_get t k i s) s))"
  proof (cases "db_get t k i s")
    case None
    with keepsD[OF assms(1) s] show ?thesis by simp
  next
    case (Some r)
    with get_SomeD[OF Some] have "k r = i" "r \<in> set (t (live s)) \<union> set (t (flushed s))" by auto
    with Some keeps_known[OF assms(2)[OF this(1)] Un_upper1 row_known[OF s this(2)]] show ?thesis by simp
  qed
qed

text \<open>A row read again is still the row with that key.\<close>

lemma current_referring:
  assumes "set (own r0) \<subseteq> K" and "\<And>r. k r = k r0 \<Longrightarrow> own r = own r0 \<Longrightarrow> keeps (referring K) (f r)"
  shows "keeps (referring K) (andThen (current_row t k r0) f)"
  unfolding current_row_def
proof (rule keeps_gets_andThen)
  fix s assume s: "referring K s"
  show "referring K (snd (f (live_row t k s r0) s))"
  proof (cases "List.find (\<lambda>r. k r = k r0) (t (live s))")
    case None
    with keepsD[OF assms(2)[OF refl refl] s] show ?thesis by (simp add: live_row_def)
  next
    case (Some r)
    with find_SomeD[OF Some] have r: "r \<in> set (t (live s))" "k r = k r0" by auto
    from s assms(1) have "ids_ok (next_id s) (live s)" "\<forall>x \<in> set (own r0). found (live s) x"
      by (auto simp: referring_def wf_session_def)
    from own_key[OF this(1) r this(2)] keepsD[OF assms(2)[OF r(2)] s] Some show ?thesis by (simp add: live_row_def)
  qed
qed

text \<open>
  A row a query returns and the flushed one that satisfied its condition have the same key;
  what refers to the one is served by the other.
\<close>

lemma read_known:
  assumes s: "referring K s" and r0: "r0 \<in> set (t (flushed s))"
  shows "k (live_row t k s r0) = k r0" and "own (live_row t k s r0) = own r0"
    and "referring (K \<union> known r0 \<union> known (live_row t k s r0)) s"
proof -
  let ?r = "live_row t k s r0"
  from live_row_in[OF r0] show key: "k ?r = k r0" by blast
  show "own ?r = own r0"
  proof (cases "?r \<in> set (t (live s))")
    case True
    have "\<forall>x \<in> set (own r0). found (live s) x"
      using s own_read[OF r0] unfolding referring_def by blast
    with own_key[OF _ True key] s show ?thesis unfolding referring_def wf_session_def by blast
  next
    case False
    then have "?r = r0" by (auto simp: live_row_def dest: find_SomeD split: option.splits)
    then show ?thesis by simp
  qed
  show "referring (K \<union> known r0 \<union> known ?r) s"
    using row_known[OF row_known[OF s]] r0 live_row_in[OF r0] by blast
qed

lemma scalar_referring:
  assumes "keeps (referring K) (f None)"
    and "\<And>r r0. P r0 \<Longrightarrow> k r = k r0 \<Longrightarrow> own r = own r0 \<Longrightarrow>
      keeps (referring (K \<union> known r0 \<union> known r)) (f (Some r))"
  shows "keeps (referring K) (andThen (gets (db_scalar t k P)) f)"
proof (rule keeps_gets_andThen)
  fix s assume s: "referring K s"
  show "referring K (snd (f (db_scalar t k P s) s))"
  proof (cases "db_scalar t k P s")
    case None
    with keepsD[OF assms(1) s] show ?thesis by simp
  next
    case (Some r)
    then obtain r0 where r0: "r0 \<in> set (t (flushed s))" "P r0" "r = live_row t k s r0"
      by (auto simp: db_scalar_def dest: find_SomeD)
    note known = read_known[OF s r0(1), folded r0(3)]
    from keeps_known[OF assms(2)[OF r0(2) known(1,2)] _ known(3)] Some show ?thesis by auto
  qed
qed

lemma select_referring:
  assumes "\<And>rs K'. K \<subseteq> K' \<Longrightarrow>
      (\<And>r. r \<in> set rs \<Longrightarrow> known r \<subseteq> K' \<and>
        (\<exists>r0. P r0 \<and> k r = k r0 \<and> own r = own r0 \<and> known r0 \<subseteq> K')) \<Longrightarrow>
      keeps (referring K') (f rs)"
  shows "keeps (referring K) (andThen (gets (db_select t k P)) f)"
    and "keeps (referring K) (andThen (gets (db_select_by t k key P)) f)"
proof -
  have main: "referring K (snd (f rs s))"
    if s: "referring K s" and rs: "set rs \<subseteq> live_row t k s ` set (filter P (t (flushed s)))" for rs s
  proof -
    let ?K = "{x. found (live s) x}"
    have "known r \<subseteq> ?K \<and> (\<exists>r0. P r0 \<and> k r = k r0 \<and> own r = own r0 \<and> known r0 \<subseteq> ?K)"
      if r: "r \<in> set rs" for r
    proof -
      obtain r0 where r0: "r0 \<in> set (t (flushed s))" "P r0" "r = live_row t k s r0" using r rs by auto
      note known = read_known[OF s r0(1), folded r0(3)]
      from known(3) have "known r \<subseteq> ?K" "known r0 \<subseteq> ?K" unfolding referring_def by blast+
      with known(1,2) r0(2) show ?thesis by blast
    qed
    moreover have "K \<subseteq> ?K" "referring ?K s" using s by (auto simp: referring_def)
    ultimately show ?thesis using keeps_known[OF assms, of ?K rs K s] by blast
  qed
  show "keeps (referring K) (andThen (gets (db_select t k P)) f)"
    by (rule keeps_gets_andThen, rule main) (auto simp: db_select_def)
  show "keeps (referring K) (andThen (gets (db_select_by t k key P)) f)"
    by (rule keeps_gets_andThen, rule main) (auto simp: db_select_by_def)
qed

end

subsection \<open>Tables by their foreign keys\<close>

text \<open>
  A table contributes the references its foreign keys declare; rows refer to it or they do not.
\<close>

locale keyed_table = tenant_table t u k org
  for t :: "store \<Rightarrow> 'r list" and u and k and org +
  fixes refs :: "'r \<Rightarrow> item list"
  assumes listed: "concat (map refs (t st)) \<in> set (table_refs_of st)"
    and listed_write: "set (table_refs_of (u f st)) \<subseteq> insert (concat (map refs (f (t st)))) (set (table_refs_of st))"
begin

lemma keyed_read: "r \<in> set (t st) \<Longrightarrow> set (refs r) \<subseteq> set (all_refs st)"
  by (rule listed_refs_read[OF listed])

lemma keyed_write: "set (all_refs (u f st)) \<subseteq> set (all_refs st) \<union> (\<Union>r \<in> set (f (t st)). set (refs r))"
  by (rule listed_refs_write[OF listed_write])

end

locale leaf_table = keyed_table t u k org "references_of keys org"
  for t :: "store \<Rightarrow> 'r list" and u and k and org and keys +
  assumes parents_same: "parent_rows p (u f st) = parent_rows p st"
    and agents_same: "agents (u f st) = agents st"
    and devices_same: "devices (u f st) = devices st"

sublocale leaf_table \<subseteq> referring_table t u k org "references_of keys org" "\<lambda>_. []"
  by unfold_locales
    (use keyed_read keyed_write in \<open>auto intro: found_same[OF parents_same agents_same devices_same]\<close>)

locale parent_table = keyed_table t u k org "references_of keys org"
  for t :: "store \<Rightarrow> 'r list" and u and k and org and keys +
  fixes P :: parent
  assumes rows_read: "parent_rows P st = map (\<lambda>r. (k r, org r)) (t st)"
    and rows_other: "p \<noteq> P \<Longrightarrow> parent_rows p (u f st) = parent_rows p st"
    and agents_other: "agents (u f st) = agents st"
    and devices_other: "devices (u f st) = devices st"

sublocale parent_table \<subseteq> referring_table t u k org "references_of keys org" "\<lambda>r. [Row_of P (k r) (org r)]"
proof unfold_locales
  show "r \<in> set (t st) \<Longrightarrow> x \<in> set [Row_of P (k r) (org r)] \<Longrightarrow> found st x" for r st x
    by (auto simp: rows_read)
  show "found (u f st) x"
    if "found st x" "\<And>r. r \<in> set (t st) \<Longrightarrow> x \<in> set [Row_of P (k r) (org r)] \<Longrightarrow>
      \<exists>r' \<in> set (f (t st)). x \<in> set [Row_of P (k r') (org r')]" for st x f
    by (rule found_grows[OF rows_read rows_read[of "u f st", unfolded read_write] _ agents_other devices_other that(1)])
      (erule rows_other, erule (1) that(2))
  show "ids_ok n st \<Longrightarrow> r \<in> set (t st) \<Longrightarrow> k r = k r' \<Longrightarrow>
      \<forall>x \<in> set [Row_of P (k r') (org r')]. found st x \<Longrightarrow>
      [Row_of P (k r) (org r)] = [Row_of P (k r') (org r')]" for n st r r'
    by (rule found_key[OF rows_read ids_read])
qed (rule keyed_read keyed_write; assumption)+

subsection \<open>Every table of the store is such a table\<close>

lemmas foreign_keys_defs = agent_refs_def
  organization_keys_def user_keys_def refresh_token_keys_def enrollment_token_keys_def
  audit_log_keys_def device_keys_def agent_keys_def device_checkin_keys_def
  device_inventory_keys_def disk_inventory_keys_def network_interface_inventory_keys_def installed_software_keys_def
  security_status_keys_def update_status_keys_def alert_rule_keys_def alert_keys_def
  alert_event_keys_def notification_channel_keys_def notification_rule_keys_def notification_delivery_keys_def
  agent_job_keys_def agent_job_event_keys_def agent_job_result_keys_def remote_provider_config_keys_def
  remote_device_link_keys_def remote_session_audit_keys_def asset_keys_def company_keys_def
  documentation_category_keys_def documentation_article_keys_def discovery_scan_keys_def discovered_device_keys_def
  ticket_keys_def ticket_comment_keys_def ticket_time_entry_keys_def ai_conversation_keys_def
  ai_message_keys_def ai_insight_keys_def report_template_keys_def report_run_keys_def
  report_schedule_keys_def dashboard_preference_keys_def portal_role_keys_def portal_user_keys_def
  portal_session_keys_def workflow_keys_def workflow_trigger_keys_def workflow_action_keys_def
  workflow_execution_keys_def api_key_keys_def system_health_keys_def backup_job_keys_def
  backup_run_keys_def

interpretation organizations_rtbl: parent_table organizations organizations_update org_id org_id organization_keys OrganizationTable
  by unfold_locales (simp_all add: refs_defs table_refs_def parent_rows_def split: parent.split)

interpretation users_rtbl: parent_table users users_update usr_id usr_organization_id user_keys UserTable
  by unfold_locales (simp_all add: refs_defs table_refs_def parent_rows_def split: parent.split)

interpretation refresh_tokens_rtbl: leaf_table refresh_tokens refresh_tokens_update rft_id rft_organization_id refresh_token_keys
  by unfold_locales (simp_all add: refs_defs table_refs_def parent_rows_def split: parent.split)

interpretation enrollment_tokens_rtbl: leaf_table enrollment_tokens enrollment_tokens_update ent_id ent_organization_id enrollment_token_keys
  by unfold_locales (simp_all add: refs_defs table_refs_def parent_rows_def split: parent.split)

interpretation audit_logs_rtbl: leaf_table audit_logs audit_logs_update aud_id aud_organization_id audit_log_keys
  by unfold_locales (simp_all add: refs_defs table_refs_def parent_rows_def split: parent.split)

interpretation devices_ktbl: keyed_table devices devices_update dev_id dev_organization_id
  "references_of device_keys dev_organization_id"
  by unfold_locales (simp_all add: refs_defs table_refs_def)

interpretation devices_rtbl: referring_table devices devices_update dev_id dev_organization_id
  "references_of device_keys dev_organization_id"
  "\<lambda>r. [Row_of DeviceTable (dev_id r) (dev_organization_id r), Machine_of (dev_id r) (dev_machine_identifier r)]"
proof unfold_locales
  show "found (devices_update f st) x"
    if "found st x" "\<And>r. r \<in> set (devices st) \<Longrightarrow>
      x \<in> set [Row_of DeviceTable (dev_id r) (dev_organization_id r), Machine_of (dev_id r) (dev_machine_identifier r)] \<Longrightarrow>
      \<exists>r' \<in> set (f (devices st)). x \<in> set [Row_of DeviceTable (dev_id r') (dev_organization_id r'),
        Machine_of (dev_id r') (dev_machine_identifier r')]" for st x f
    using that by (intro device_grows[of "devices_update f st" st]) (simp_all add: parent_rows_def split: parent.split)
  show "[Row_of DeviceTable (dev_id r) (dev_organization_id r), Machine_of (dev_id r) (dev_machine_identifier r)] =
      [Row_of DeviceTable (dev_id r') (dev_organization_id r'), Machine_of (dev_id r') (dev_machine_identifier r')]"
    if ids: "ids_ok n st" and r: "r \<in> set (devices st)" "dev_id r = dev_id r'"
      and own: "\<forall>x \<in> set [Row_of DeviceTable (dev_id r') (dev_organization_id r'),
        Machine_of (dev_id r') (dev_machine_identifier r')]. found st x" for n st r r'
  proof -
    note one = keys_ok_row[OF devices_tbl.ids_read[OF ids] _ r(1)]
    from own r(2) show ?thesis by (auto simp: parent_rows_def dest: one)
  qed
qed (use devices_ktbl.keyed_read devices_ktbl.keyed_write in \<open>auto simp: parent_rows_def\<close>)

interpretation agents_ktbl: keyed_table agents agents_update agt_id agt_organization_id agent_refs
  by unfold_locales (simp_all add: refs_defs)

interpretation agents_rtbl: referring_table agents agents_update agt_id agt_organization_id agent_refs
  "\<lambda>r. [Agent_row (agt_id r), Install_of (agt_id r) (agt_install_id r)]"
proof unfold_locales
  show "found (agents_update f st) x"
    if "found st x" "\<And>r. r \<in> set (agents st) \<Longrightarrow> x \<in> set [Agent_row (agt_id r), Install_of (agt_id r) (agt_install_id r)] \<Longrightarrow>
      \<exists>r' \<in> set (f (agents st)). x \<in> set [Agent_row (agt_id r'), Install_of (agt_id r') (agt_install_id r')]" for st x f
    using that by (intro agent_grows[of "agents_update f st" st]) (simp_all add: parent_rows_def split: parent.split)
  show "[Agent_row (agt_id r), Install_of (agt_id r) (agt_install_id r)] =
      [Agent_row (agt_id r'), Install_of (agt_id r') (agt_install_id r')]"
    if ids: "ids_ok n st" and r: "r \<in> set (agents st)" "agt_id r = agt_id r'"
      and own: "\<forall>x \<in> set [Agent_row (agt_id r'), Install_of (agt_id r') (agt_install_id r')]. found st x" for n st r r'
  proof -
    note one = keys_ok_row[OF agents_tbl.ids_read[OF ids] _ r(1)]
    from own r(2) show ?thesis by (auto dest: one)
  qed
qed (use agents_ktbl.keyed_read agents_ktbl.keyed_write in auto)

interpretation device_checkins_rtbl: leaf_table device_checkins device_checkins_update chk_id chk_organization_id device_checkin_keys
  by unfold_locales (simp_all add: refs_defs table_refs_def parent_rows_def split: parent.split)

interpretation device_inventories_rtbl: leaf_table device_inventories device_inventories_update inv_id inv_organization_id device_inventory_keys
  by unfold_locales (simp_all add: refs_defs table_refs_def parent_rows_def split: parent.split)

interpretation disk_inventories_rtbl: leaf_table disk_inventories disk_inventories_update dsk_id dsk_organization_id disk_inventory_keys
  by unfold_locales (simp_all add: refs_defs table_refs_def parent_rows_def split: parent.split)

interpretation network_interfaces_rtbl: leaf_table network_interfaces network_interfaces_update nic_id nic_organization_id network_interface_inventory_keys
  by unfold_locales (simp_all add: refs_defs table_refs_def parent_rows_def split: parent.split)

interpretation softwares_rtbl: leaf_table softwares softwares_update sft_id sft_organization_id installed_software_keys
  by unfold_locales (simp_all add: refs_defs table_refs_def parent_rows_def split: parent.split)

interpretation security_statuses_rtbl: leaf_table security_statuses security_statuses_update sec_id sec_organization_id security_status_keys
  by unfold_locales (simp_all add: refs_defs table_refs_def parent_rows_def split: parent.split)

interpretation update_statuses_rtbl: leaf_table update_statuses update_statuses_update ups_id ups_organization_id update_status_keys
  by unfold_locales (simp_all add: refs_defs table_refs_def parent_rows_def split: parent.split)

interpretation alert_rules_rtbl: parent_table alert_rules alert_rules_update alr_id alr_organization_id alert_rule_keys AlertRuleTable
  by unfold_locales (simp_all add: refs_defs table_refs_def parent_rows_def split: parent.split)

interpretation alerts_rtbl: parent_table alerts alerts_update alt_id alt_organization_id alert_keys AlertTable
  by unfold_locales (simp_all add: refs_defs table_refs_def parent_rows_def split: parent.split)

interpretation alert_events_rtbl: leaf_table alert_events alert_events_update ale_id ale_organization_id alert_event_keys
  by unfold_locales (simp_all add: refs_defs table_refs_def parent_rows_def split: parent.split)

interpretation notification_channels_rtbl: parent_table notification_channels notification_channels_update ncl_id ncl_organization_id notification_channel_keys ChannelTable
  by unfold_locales (simp_all add: refs_defs table_refs_def parent_rows_def split: parent.split)

interpretation notification_rules_rtbl: parent_table notification_rules notification_rules_update nrl_id nrl_organization_id notification_rule_keys NotificationRuleTable
  by unfold_locales (simp_all add: refs_defs table_refs_def parent_rows_def split: parent.split)

interpretation notification_deliveries_rtbl: leaf_table notification_deliveries notification_deliveries_update ndl_id ndl_organization_id notification_delivery_keys
  by unfold_locales (simp_all add: refs_defs table_refs_def parent_rows_def split: parent.split)

interpretation agent_jobs_rtbl: parent_table agent_jobs agent_jobs_update job_id job_organization_id agent_job_keys JobTable
  by unfold_locales (simp_all add: refs_defs table_refs_def parent_rows_def split: parent.split)

interpretation agent_job_events_rtbl: leaf_table agent_job_events agent_job_events_update jev_id jev_organization_id agent_job_event_keys
  by unfold_locales (simp_all add: refs_defs table_refs_def parent_rows_def split: parent.split)

interpretation agent_job_results_rtbl: leaf_table agent_job_results agent_job_results_update jrs_id jrs_organization_id agent_job_result_keys
  by unfold_locales (simp_all add: refs_defs table_refs_def parent_rows_def split: parent.split)

interpretation remote_providers_rtbl: parent_table remote_providers remote_providers_update rpc_id rpc_organization_id remote_provider_config_keys ProviderTable
  by unfold_locales (simp_all add: refs_defs table_refs_def parent_rows_def split: parent.split)

interpretation remote_links_rtbl: parent_table remote_links remote_links_update rdl_id rdl_organization_id remote_device_link_keys LinkTable
  by unfold_locales (simp_all add: refs_defs table_refs_def parent_rows_def split: parent.split)

interpretation remote_session_audits_rtbl: leaf_table remote_session_audits remote_session_audits_update rsa_id rsa_organization_id remote_session_audit_keys
  by unfold_locales (simp_all add: refs_defs table_refs_def parent_rows_def split: parent.split)

interpretation assets_rtbl: parent_table "\<lambda>st. assets (phase2 st)" "\<lambda>f. phase2_update (assets_update f)" ast_id ast_organization_id asset_keys AssetTable
  by unfold_locales (simp_all add: refs_defs table_refs_def parent_rows_def split: parent.split)

interpretation companies_rtbl: leaf_table "\<lambda>st. companies (phase2 st)" "\<lambda>f. phase2_update (companies_update f)" cmp_id cmp_organization_id company_keys
  by unfold_locales (simp_all add: refs_defs table_refs_def parent_rows_def split: parent.split)

interpretation documentation_categories_rtbl: parent_table "\<lambda>st. documentation_categories (phase2 st)" "\<lambda>f. phase2_update (documentation_categories_update f)" dcg_id dcg_organization_id documentation_category_keys CategoryTable
  by unfold_locales (simp_all add: refs_defs table_refs_def parent_rows_def split: parent.split)

interpretation documentation_articles_rtbl: leaf_table "\<lambda>st. documentation_articles (phase2 st)" "\<lambda>f. phase2_update (documentation_articles_update f)" dar_id dar_organization_id documentation_article_keys
  by unfold_locales (simp_all add: refs_defs table_refs_def parent_rows_def split: parent.split)

interpretation discovery_scans_rtbl: leaf_table "\<lambda>st. discovery_scans (phase2 st)" "\<lambda>f. phase2_update (discovery_scans_update f)" dsn_id dsn_organization_id discovery_scan_keys
  by unfold_locales (simp_all add: refs_defs table_refs_def parent_rows_def split: parent.split)

interpretation discovered_devices_rtbl: leaf_table "\<lambda>st. discovered_devices (phase2 st)" "\<lambda>f. phase2_update (discovered_devices_update f)" dcd_id dcd_organization_id discovered_device_keys
  by unfold_locales (simp_all add: refs_defs table_refs_def parent_rows_def split: parent.split)

interpretation tickets_rtbl: parent_table "\<lambda>st. tickets (phase2 st)" "\<lambda>f. phase2_update (tickets_update f)" tkt_id tkt_organization_id ticket_keys TicketTable
  by unfold_locales (simp_all add: refs_defs table_refs_def parent_rows_def split: parent.split)

interpretation ticket_comments_rtbl: leaf_table "\<lambda>st. ticket_comments (phase2 st)" "\<lambda>f. phase2_update (ticket_comments_update f)" tkc_id tkc_organization_id ticket_comment_keys
  by unfold_locales (simp_all add: refs_defs table_refs_def parent_rows_def split: parent.split)

interpretation ticket_time_entries_rtbl: leaf_table "\<lambda>st. ticket_time_entries (phase2 st)" "\<lambda>f. phase2_update (ticket_time_entries_update f)" tke_id tke_organization_id ticket_time_entry_keys
  by unfold_locales (simp_all add: refs_defs table_refs_def parent_rows_def split: parent.split)

interpretation ai_conversations_rtbl: parent_table "\<lambda>st. ai_conversations (phase2 st)" "\<lambda>f. phase2_update (ai_conversations_update f)" aic_id aic_organization_id ai_conversation_keys ConversationTable
  by unfold_locales (simp_all add: refs_defs table_refs_def parent_rows_def split: parent.split)

interpretation ai_messages_rtbl: leaf_table "\<lambda>st. ai_messages (phase2 st)" "\<lambda>f. phase2_update (ai_messages_update f)" aim_id aim_organization_id ai_message_keys
  by unfold_locales (simp_all add: refs_defs table_refs_def parent_rows_def split: parent.split)

interpretation ai_insights_rtbl: leaf_table "\<lambda>st. ai_insights (phase2 st)" "\<lambda>f. phase2_update (ai_insights_update f)" aii_id aii_organization_id ai_insight_keys
  by unfold_locales (simp_all add: refs_defs table_refs_def parent_rows_def split: parent.split)

interpretation report_templates_rtbl: parent_table "\<lambda>st. report_templates (phase2 st)" "\<lambda>f. phase2_update (report_templates_update f)" rtm_id rtm_organization_id report_template_keys TemplateTable
  by unfold_locales (simp_all add: refs_defs table_refs_def parent_rows_def split: parent.split)

interpretation report_runs_rtbl: leaf_table "\<lambda>st. report_runs (phase2 st)" "\<lambda>f. phase2_update (report_runs_update f)" rrn_id rrn_organization_id report_run_keys
  by unfold_locales (simp_all add: refs_defs table_refs_def parent_rows_def split: parent.split)

interpretation report_schedules_rtbl: leaf_table "\<lambda>st. report_schedules (phase2 st)" "\<lambda>f. phase2_update (report_schedules_update f)" rsc_id rsc_organization_id report_schedule_keys
  by unfold_locales (simp_all add: refs_defs table_refs_def parent_rows_def split: parent.split)

interpretation dashboard_preferences_rtbl: leaf_table "\<lambda>st. dashboard_preferences (phase3 st)" "\<lambda>f. phase3_update (dashboard_preferences_update f)" dpr_id dpr_organization_id dashboard_preference_keys
  by unfold_locales (simp_all add: refs_defs table_refs_def parent_rows_def split: parent.split)

interpretation portal_roles_rtbl: parent_table "\<lambda>st. portal_roles (phase3 st)" "\<lambda>f. phase3_update (portal_roles_update f)" prl_id prl_organization_id portal_role_keys PortalRoleTable
  by unfold_locales (simp_all add: refs_defs table_refs_def parent_rows_def split: parent.split)

interpretation portal_users_rtbl: parent_table "\<lambda>st. portal_users (phase3 st)" "\<lambda>f. phase3_update (portal_users_update f)" pus_id pus_organization_id portal_user_keys PortalUserTable
  by unfold_locales (simp_all add: refs_defs table_refs_def parent_rows_def split: parent.split)

interpretation portal_sessions_rtbl: leaf_table "\<lambda>st. portal_sessions (phase3 st)" "\<lambda>f. phase3_update (portal_sessions_update f)" pse_id pse_organization_id portal_session_keys
  by unfold_locales (simp_all add: refs_defs table_refs_def parent_rows_def split: parent.split)

interpretation workflows_rtbl: parent_table "\<lambda>st. workflows (phase3 st)" "\<lambda>f. phase3_update (workflows_update f)" wfl_id wfl_organization_id workflow_keys WorkflowTable
  by unfold_locales (simp_all add: refs_defs table_refs_def parent_rows_def split: parent.split)

interpretation workflow_triggers_rtbl: leaf_table "\<lambda>st. workflow_triggers (phase3 st)" "\<lambda>f. phase3_update (workflow_triggers_update f)" wft_id wft_organization_id workflow_trigger_keys
  by unfold_locales (simp_all add: refs_defs table_refs_def parent_rows_def split: parent.split)

interpretation workflow_actions_rtbl: leaf_table "\<lambda>st. workflow_actions (phase3 st)" "\<lambda>f. phase3_update (workflow_actions_update f)" wfa_id wfa_organization_id workflow_action_keys
  by unfold_locales (simp_all add: refs_defs table_refs_def parent_rows_def split: parent.split)

interpretation workflow_executions_rtbl: leaf_table "\<lambda>st. workflow_executions (phase3 st)" "\<lambda>f. phase3_update (workflow_executions_update f)" wfe_id wfe_organization_id workflow_execution_keys
  by unfold_locales (simp_all add: refs_defs table_refs_def parent_rows_def split: parent.split)

interpretation api_keys_rtbl: leaf_table "\<lambda>st. api_keys (phase3 st)" "\<lambda>f. phase3_update (api_keys_update f)" apk_id apk_organization_id api_key_keys
  by unfold_locales (simp_all add: refs_defs table_refs_def parent_rows_def split: parent.split)

interpretation system_healths_rtbl: leaf_table "\<lambda>st. system_healths (phase3 st)" "\<lambda>f. phase3_update (system_healths_update f)" syh_id syh_organization_id system_health_keys
  by unfold_locales (simp_all add: refs_defs table_refs_def parent_rows_def split: parent.split)

interpretation backup_jobs_rtbl: parent_table "\<lambda>st. backup_jobs (phase3 st)" "\<lambda>f. phase3_update (backup_jobs_update f)" bkj_id bkj_organization_id backup_job_keys BackupJobTable
  by unfold_locales (simp_all add: refs_defs table_refs_def parent_rows_def split: parent.split)

interpretation backup_runs_rtbl: leaf_table "\<lambda>st. backup_runs (phase3 st)" "\<lambda>f. phase3_update (backup_runs_update f)" bkr_id bkr_organization_id backup_run_keys
  by unfold_locales (simp_all add: refs_defs table_refs_def parent_rows_def split: parent.split)

end
