(* ===== verification/ReferenceFlow.thy ===== *)
theory ReferenceFlow
  imports References Tenancy AgentApi
begin

text \<open>
  Every operator route keeps the references of the tables in place: handler by handler,
  what the handler reads teaches it rows that exist, and what it stores refers to such rows.
\<close>

lemmas refs_tables =
  organizations_rtbl.get_referring users_rtbl.get_referring refresh_tokens_rtbl.get_referring enrollment_tokens_rtbl.get_referring
  audit_logs_rtbl.get_referring devices_rtbl.get_referring agents_rtbl.get_referring device_checkins_rtbl.get_referring
  device_inventories_rtbl.get_referring disk_inventories_rtbl.get_referring network_interfaces_rtbl.get_referring softwares_rtbl.get_referring
  security_statuses_rtbl.get_referring update_statuses_rtbl.get_referring alert_rules_rtbl.get_referring alerts_rtbl.get_referring
  alert_events_rtbl.get_referring notification_channels_rtbl.get_referring notification_rules_rtbl.get_referring notification_deliveries_rtbl.get_referring
  agent_jobs_rtbl.get_referring agent_job_events_rtbl.get_referring agent_job_results_rtbl.get_referring remote_providers_rtbl.get_referring
  remote_links_rtbl.get_referring remote_session_audits_rtbl.get_referring assets_rtbl.get_referring companies_rtbl.get_referring
  documentation_categories_rtbl.get_referring documentation_articles_rtbl.get_referring discovery_scans_rtbl.get_referring discovered_devices_rtbl.get_referring
  tickets_rtbl.get_referring ticket_comments_rtbl.get_referring ticket_time_entries_rtbl.get_referring ai_conversations_rtbl.get_referring
  ai_messages_rtbl.get_referring ai_insights_rtbl.get_referring report_templates_rtbl.get_referring report_runs_rtbl.get_referring
  report_schedules_rtbl.get_referring dashboard_preferences_rtbl.get_referring portal_roles_rtbl.get_referring portal_users_rtbl.get_referring
  portal_sessions_rtbl.get_referring workflows_rtbl.get_referring workflow_triggers_rtbl.get_referring workflow_actions_rtbl.get_referring
  workflow_executions_rtbl.get_referring api_keys_rtbl.get_referring system_healths_rtbl.get_referring backup_jobs_rtbl.get_referring
  backup_runs_rtbl.get_referring organizations_rtbl.scalar_referring users_rtbl.scalar_referring refresh_tokens_rtbl.scalar_referring
  enrollment_tokens_rtbl.scalar_referring audit_logs_rtbl.scalar_referring devices_rtbl.scalar_referring agents_rtbl.scalar_referring
  device_checkins_rtbl.scalar_referring device_inventories_rtbl.scalar_referring disk_inventories_rtbl.scalar_referring network_interfaces_rtbl.scalar_referring
  softwares_rtbl.scalar_referring security_statuses_rtbl.scalar_referring update_statuses_rtbl.scalar_referring alert_rules_rtbl.scalar_referring
  alerts_rtbl.scalar_referring alert_events_rtbl.scalar_referring notification_channels_rtbl.scalar_referring notification_rules_rtbl.scalar_referring
  notification_deliveries_rtbl.scalar_referring agent_jobs_rtbl.scalar_referring agent_job_events_rtbl.scalar_referring agent_job_results_rtbl.scalar_referring
  remote_providers_rtbl.scalar_referring remote_links_rtbl.scalar_referring remote_session_audits_rtbl.scalar_referring assets_rtbl.scalar_referring
  companies_rtbl.scalar_referring documentation_categories_rtbl.scalar_referring documentation_articles_rtbl.scalar_referring discovery_scans_rtbl.scalar_referring
  discovered_devices_rtbl.scalar_referring tickets_rtbl.scalar_referring ticket_comments_rtbl.scalar_referring ticket_time_entries_rtbl.scalar_referring
  ai_conversations_rtbl.scalar_referring ai_messages_rtbl.scalar_referring ai_insights_rtbl.scalar_referring report_templates_rtbl.scalar_referring
  report_runs_rtbl.scalar_referring report_schedules_rtbl.scalar_referring dashboard_preferences_rtbl.scalar_referring portal_roles_rtbl.scalar_referring
  portal_users_rtbl.scalar_referring portal_sessions_rtbl.scalar_referring workflows_rtbl.scalar_referring workflow_triggers_rtbl.scalar_referring
  workflow_actions_rtbl.scalar_referring workflow_executions_rtbl.scalar_referring api_keys_rtbl.scalar_referring system_healths_rtbl.scalar_referring
  backup_jobs_rtbl.scalar_referring backup_runs_rtbl.scalar_referring organizations_rtbl.select_referring users_rtbl.select_referring
  refresh_tokens_rtbl.select_referring enrollment_tokens_rtbl.select_referring audit_logs_rtbl.select_referring devices_rtbl.select_referring
  agents_rtbl.select_referring device_checkins_rtbl.select_referring device_inventories_rtbl.select_referring disk_inventories_rtbl.select_referring
  network_interfaces_rtbl.select_referring softwares_rtbl.select_referring security_statuses_rtbl.select_referring update_statuses_rtbl.select_referring
  alert_rules_rtbl.select_referring alerts_rtbl.select_referring alert_events_rtbl.select_referring notification_channels_rtbl.select_referring
  notification_rules_rtbl.select_referring notification_deliveries_rtbl.select_referring agent_jobs_rtbl.select_referring agent_job_events_rtbl.select_referring
  agent_job_results_rtbl.select_referring remote_providers_rtbl.select_referring remote_links_rtbl.select_referring remote_session_audits_rtbl.select_referring
  assets_rtbl.select_referring companies_rtbl.select_referring documentation_categories_rtbl.select_referring documentation_articles_rtbl.select_referring
  discovery_scans_rtbl.select_referring discovered_devices_rtbl.select_referring tickets_rtbl.select_referring ticket_comments_rtbl.select_referring
  ticket_time_entries_rtbl.select_referring ai_conversations_rtbl.select_referring ai_messages_rtbl.select_referring ai_insights_rtbl.select_referring
  report_templates_rtbl.select_referring report_runs_rtbl.select_referring report_schedules_rtbl.select_referring dashboard_preferences_rtbl.select_referring
  portal_roles_rtbl.select_referring portal_users_rtbl.select_referring portal_sessions_rtbl.select_referring workflows_rtbl.select_referring
  workflow_triggers_rtbl.select_referring workflow_actions_rtbl.select_referring workflow_executions_rtbl.select_referring api_keys_rtbl.select_referring
  system_healths_rtbl.select_referring backup_jobs_rtbl.select_referring backup_runs_rtbl.select_referring organizations_rtbl.insert_referring
  users_rtbl.insert_referring refresh_tokens_rtbl.insert_referring enrollment_tokens_rtbl.insert_referring audit_logs_rtbl.insert_referring
  devices_rtbl.insert_referring agents_rtbl.insert_referring device_checkins_rtbl.insert_referring device_inventories_rtbl.insert_referring
  disk_inventories_rtbl.insert_referring network_interfaces_rtbl.insert_referring softwares_rtbl.insert_referring security_statuses_rtbl.insert_referring
  update_statuses_rtbl.insert_referring alert_rules_rtbl.insert_referring alerts_rtbl.insert_referring alert_events_rtbl.insert_referring
  notification_channels_rtbl.insert_referring notification_rules_rtbl.insert_referring notification_deliveries_rtbl.insert_referring agent_jobs_rtbl.insert_referring
  agent_job_events_rtbl.insert_referring agent_job_results_rtbl.insert_referring remote_providers_rtbl.insert_referring remote_links_rtbl.insert_referring
  remote_session_audits_rtbl.insert_referring assets_rtbl.insert_referring companies_rtbl.insert_referring documentation_categories_rtbl.insert_referring
  documentation_articles_rtbl.insert_referring discovery_scans_rtbl.insert_referring discovered_devices_rtbl.insert_referring tickets_rtbl.insert_referring
  ticket_comments_rtbl.insert_referring ticket_time_entries_rtbl.insert_referring ai_conversations_rtbl.insert_referring ai_messages_rtbl.insert_referring
  ai_insights_rtbl.insert_referring report_templates_rtbl.insert_referring report_runs_rtbl.insert_referring report_schedules_rtbl.insert_referring
  dashboard_preferences_rtbl.insert_referring portal_roles_rtbl.insert_referring portal_users_rtbl.insert_referring portal_sessions_rtbl.insert_referring
  workflows_rtbl.insert_referring workflow_triggers_rtbl.insert_referring workflow_actions_rtbl.insert_referring workflow_executions_rtbl.insert_referring
  api_keys_rtbl.insert_referring system_healths_rtbl.insert_referring backup_jobs_rtbl.insert_referring backup_runs_rtbl.insert_referring
  organizations_rtbl.insert_only users_rtbl.insert_only refresh_tokens_rtbl.insert_only enrollment_tokens_rtbl.insert_only
  audit_logs_rtbl.insert_only devices_rtbl.insert_only agents_rtbl.insert_only device_checkins_rtbl.insert_only
  device_inventories_rtbl.insert_only disk_inventories_rtbl.insert_only network_interfaces_rtbl.insert_only softwares_rtbl.insert_only
  security_statuses_rtbl.insert_only update_statuses_rtbl.insert_only alert_rules_rtbl.insert_only alerts_rtbl.insert_only
  alert_events_rtbl.insert_only notification_channels_rtbl.insert_only notification_rules_rtbl.insert_only notification_deliveries_rtbl.insert_only
  agent_jobs_rtbl.insert_only agent_job_events_rtbl.insert_only agent_job_results_rtbl.insert_only remote_providers_rtbl.insert_only
  remote_links_rtbl.insert_only remote_session_audits_rtbl.insert_only assets_rtbl.insert_only companies_rtbl.insert_only
  documentation_categories_rtbl.insert_only documentation_articles_rtbl.insert_only discovery_scans_rtbl.insert_only discovered_devices_rtbl.insert_only
  tickets_rtbl.insert_only ticket_comments_rtbl.insert_only ticket_time_entries_rtbl.insert_only ai_conversations_rtbl.insert_only
  ai_messages_rtbl.insert_only ai_insights_rtbl.insert_only report_templates_rtbl.insert_only report_runs_rtbl.insert_only
  report_schedules_rtbl.insert_only dashboard_preferences_rtbl.insert_only portal_roles_rtbl.insert_only portal_users_rtbl.insert_only
  portal_sessions_rtbl.insert_only workflows_rtbl.insert_only workflow_triggers_rtbl.insert_only workflow_actions_rtbl.insert_only
  workflow_executions_rtbl.insert_only api_keys_rtbl.insert_only system_healths_rtbl.insert_only backup_jobs_rtbl.insert_only
  backup_runs_rtbl.insert_only

text \<open>What a request knows of its operator.\<close>

abbreviation user_rows :: "user \<Rightarrow> item set" where
  "user_rows current \<equiv> {Row_of OrganizationTable (usr_organization_id current) (usr_organization_id current),
     Row_of UserTable (usr_id current) (usr_organization_id current)}"

definition caller_known :: "error + user \<Rightarrow> item set" where
  "caller_known r = (case r of Inl _ \<Rightarrow> {} | Inr current \<Rightarrow> user_rows current)"

lemma referring_guard:
  assumes "\<And>current. keeps (referring (user_rows current)) (f current)"
  shows "keeps (referring (caller_known r)) (andThen (require_permission p (answered r)) f)"
  using assms by (cases r) (auto simp: require_permission_def answered_def andThen_def keeps_def caller_known_def)

context referring_table
begin

lemma create_referring:
  assumes "\<And>i. k (mk i) = i" and "\<And>i. set (refs (mk i)) \<subseteq> K"
    and "\<And>i. keeps (referring (K \<union> set (own (mk i)))) (entry (mk i))"
  shows "keeps (referring K) (create_row u mk entry answer)"
  unfolding create_row_def
  by (rule insert_referring[OF assms(1,2)]) (intro keeps_intro assms(3))

end

lemma audit_referring:
  assumes "user_rows current \<subseteq> K"
  shows "keeps (referring K) (user_audit now current a ty i d)"
    and "keeps (referring K) (operator_audit now current a ty i d)"
  unfolding user_audit_def operator_audit_def
  using assms by (intro audit_logs_rtbl.insert_referring keeps_intro; simp add: audit_log_keys_def)+

lemmas refs_creating =
  assets_rtbl.create_referring companies_rtbl.create_referring documentation_categories_rtbl.create_referring documentation_articles_rtbl.create_referring
  discovery_scans_rtbl.create_referring discovered_devices_rtbl.create_referring tickets_rtbl.create_referring ticket_comments_rtbl.create_referring
  ticket_time_entries_rtbl.create_referring ai_conversations_rtbl.create_referring ai_messages_rtbl.create_referring ai_insights_rtbl.create_referring
  report_templates_rtbl.create_referring report_runs_rtbl.create_referring report_schedules_rtbl.create_referring dashboard_preferences_rtbl.create_referring
  portal_roles_rtbl.create_referring portal_users_rtbl.create_referring portal_sessions_rtbl.create_referring workflows_rtbl.create_referring
  workflow_triggers_rtbl.create_referring workflow_actions_rtbl.create_referring workflow_executions_rtbl.create_referring api_keys_rtbl.create_referring
  system_healths_rtbl.create_referring backup_jobs_rtbl.create_referring backup_runs_rtbl.create_referring

text \<open>Branches are followed before the rest of the handler, which may use what they learned.\<close>

lemma flow_rules:
  "(v = None \<Longrightarrow> keeps I (andThen m f)) \<Longrightarrow> (\<And>y. v = Some y \<Longrightarrow> keeps I (andThen (g y) f)) \<Longrightarrow>
     keeps I (andThen (case v of None \<Rightarrow> m | Some y \<Rightarrow> g y) f)"
  "(b \<Longrightarrow> keeps I (andThen m1 f1)) \<Longrightarrow> (\<not> b \<Longrightarrow> keeps I (andThen n1 f1)) \<Longrightarrow>
     keeps I (andThen (if b then m1 else n1) f1)"
  "keeps I (f2 x) \<Longrightarrow> keeps I (andThen (ret x) f2)"
  "keeps I (andThen (raise e) f3)"
  "(\<And>y. v5 = Some y \<Longrightarrow> keeps I (f5 y)) \<Longrightarrow> keeps I (andThen (require_some e5 v5) f5)"
  "(\<And>a b. x6 = (a, b) \<Longrightarrow> keeps I (f6 a b)) \<Longrightarrow> keeps I (case x6 of (a, b) \<Rightarrow> f6 a b)"
  "keeps I (andThen m4 (\<lambda>x. andThen (h4 x) f4)) \<Longrightarrow> keeps I (andThen (andThen m4 h4) f4)"
  by (cases v; cases v5; cases x6; simp add: keeps_raise)+

lemmas refs_writing =
  users_rtbl.put_referring refresh_tokens_rtbl.put_referring enrollment_tokens_rtbl.put_referring
  devices_rtbl.put_referring agents_rtbl.put_referring device_inventories_rtbl.put_referring
  security_statuses_rtbl.put_referring update_statuses_rtbl.put_referring alerts_rtbl.put_referring
  notification_channels_rtbl.put_referring notification_rules_rtbl.put_referring notification_deliveries_rtbl.put_referring
  agent_jobs_rtbl.put_referring remote_links_rtbl.put_referring dashboard_preferences_rtbl.put_referring
  disk_inventories_rtbl.delete_referring network_interfaces_rtbl.delete_referring softwares_rtbl.delete_referring

lemmas refs_flow = refs_tables refs_creating refs_writing audit_referring flow_rules

lemma referring_operations:
  "keeps (referring (caller_known r)) (handle_operations now (answered r) q)"
  unfolding handle_operations_def operations_handlers Let_def own_ticket_def own_template_def ensure_device_def
    article_category_def
  by (cases q; simp only: operations_request.case; (rule keeps_validated)?; rule keeps_respond;
      rule referring_guard; intro refs_flow keeps_intro;
      simp add: foreign_keys_defs new_asset_def imported_asset_def new_template_def new_run_def new_message_def)

lemma referring_phase3:
  "keeps (referring (caller_known r)) (handle_phase3 rt cfg now (answered r) q)"
  unfolding handle_phase3_def phase3_handlers Let_def own_preference_def own_workflow_def own_backup_job_def
    portal_role_for_def
  by (cases q; simp only: phase3_request.case; (rule keeps_validated)?; rule keeps_respond;
      rule referring_guard; intro refs_flow keeps_intro; simp add: foreign_keys_defs new_template_def new_run_def)

lemma referring_users:
  "keeps (referring (caller_known r)) (list_users (answered r))"
  "keeps (referring (caller_known r)) (create_user rt now salt (answered r) p)"
  "keeps (referring (caller_known r)) (disable_user (answered r) i)"
  "keeps (referring (caller_known r)) (enable_user (answered r) i)"
  "keeps (referring (caller_known r)) (patch_user rt salt (answered r) i q)"
  unfolding list_users_def create_user_def disable_user_def enable_user_def patch_user_def require_same_org_user_def Let_def
  by (rule referring_guard; intro refs_flow keeps_intro; simp add: foreign_keys_defs new_user_def split: option.splits)+

lemma referring_alerts:
  "keeps (referring (caller_known r)) (acknowledge_alert now (answered r) i)"
  "keeps (referring (caller_known r)) (resolve_alert now (answered r) i)"
  unfolding acknowledge_alert_def resolve_alert_def acknowledge_on_def resolve_on_def own_alert_def
    add_alert_event_def alert_response_def Let_def
  by (rule referring_guard; intro refs_flow keeps_intro; simp add: foreign_keys_defs)+

lemma launchable_Some: "launchable link = Some (l, rid) \<Longrightarrow> link = Some l"
  by (auto simp: launchable_def split: option.splits if_splits)

lemma referring_remote:
  "keeps (referring (caller_known r)) (create_remote_provider now (answered r) p)"
  "keeps (referring (caller_known r)) (launch_device_remote now (answered r) i)"
  unfolding create_remote_provider_def launch_device_remote_def launch_on_def remote_device_or_404_def
  by (rule referring_guard; intro refs_flow keeps_intro;
      auto simp: foreign_keys_defs launch_audit_def rustdesk_link_def dest!: launchable_Some)+

lemma referring_devices:
  "keeps (referring (caller_known r)) (list_devices cfg now (answered r))"
  "keeps (referring (caller_known r)) (get_device cfg now (answered r) i)"
  unfolding list_devices_def get_device_def sync_status_def device_or_404_def
  by (rule referring_guard; intro refs_flow keeps_intro; simp add: foreign_keys_defs synced_device_def Let_def)+

lemma referring_jobs:
  "keeps (referring (caller_known r)) (create_device_job rt cfg now (answered r) i p)"
  "keeps (referring (caller_known r)) (list_device_jobs now (answered r) i)"
  "keeps (referring (caller_known r)) (get_job now (answered r) i)"
  "keeps (referring (caller_known r)) (cancel_agent_job now (answered r) i)"
  unfolding create_device_job_def list_device_jobs_def get_job_def cancel_agent_job_def create_job_def cancel_job_def
    expire_jobs_def expire_job_def add_job_event_def audit_def own_device_def own_job_def job_response_def Let_def
  by (rule referring_guard; intro refs_flow keeps_intro; auto simp: foreign_keys_defs new_job_def)+

lemma for_each_checks:
  assumes "\<And>x s. snd (f x s) = s"
  shows "snd (for_each xs f s) = s"
    and "fst (for_each xs f s) = Inr u \<Longrightarrow> x \<in> set xs \<Longrightarrow> \<exists>v. f x s = (Inr v, s)"
proof -
  have step: "f y s = (fst (f y s), s)" for y using assms[of y s] by (metis prod.collapse)
  show "snd (for_each xs f s) = s"
  proof (induction xs)
    case (Cons y ys)
    with step[of y] show ?case by (cases "fst (f y s)") (auto simp: andThen_def)
  qed simp
  show "fst (for_each xs f s) = Inr u \<Longrightarrow> x \<in> set xs \<Longrightarrow> \<exists>v. f x s = (Inr v, s)"
  proof (induction xs)
    case (Cons y ys)
    show ?case
    proof (cases "fst (f y s)")
      case (Inl e)
      with Cons.prems(1) step[of y] show ?thesis by (simp add: andThen_def)
    next
      case (Inr v)
      with Cons step[of y] show ?thesis by (auto simp: andThen_def)
    qed
  qed simp
qed

lemma referring_filters:
  assumes rest: "keeps (referring (K \<union> (\<lambda>i. Row_of ChannelTable i o') ` set ids)) (f (map uuid_str ids))"
  shows "keeps (referring K) (andThen (validate_rule_filters sev ids o') f)"
proof (rule keepsI)
  fix s assume s: "referring K s"
  let ?check = "validate_rule_channel o'"
  have reads: "snd (?check i s) = s" for i s
    by (simp add: validate_rule_channel_def split: option.splits)
  have row: "found (live s) (Row_of ChannelTable i o')" if check: "?check i s = (Inr u, s)" for i u
  proof -
    obtain c where c: "db_get notification_channels ncl_id i s = Some c" "ncl_organization_id c = o'"
      using check by (cases "db_get notification_channels ncl_id i s")
        (auto simp: validate_rule_channel_def split: if_splits)
    from notification_channels_tbl.get_SomeD[OF c(1)]
    have "ncl_id c = i" "c \<in> set (notification_channels (live s)) \<union> set (notification_channels (flushed s))" by auto
    with notification_channels_rtbl.row_known[OF s, of c] c(2) show ?thesis by (simp add: referring_insert)
  qed
  note checks = for_each_checks[where f = ?check, OF reads]
  show "referring K (snd (andThen (validate_rule_filters sev ids o') f s))"
  proof (cases "fst (for_each ids ?check s)")
    case (Inl e)
    with s checks(1)[of ids s] show ?thesis
      by (auto simp: validate_rule_filters_def andThen_def Let_def split: prod.splits)
  next
    case (Inr u)
    have all: "referring (K \<union> (\<lambda>i. Row_of ChannelTable i o') ` set ids) s"
      using s checks(2)[OF Inr] row by (fastforce simp: referring_def)
    have "for_each ids ?check s = (Inr u, s)" using Inr checks(1)[of ids s] by (metis prod.collapse)
    with s keeps_known[OF rest _ all] show ?thesis
      by (auto simp: validate_rule_filters_def andThen_def Let_def)
  qed
qed

text \<open>A UUID has 128 bits.\<close>

definition uuids_ok :: "uuid list \<Rightarrow> bool" where
  "uuids_ok ids \<longleftrightarrow> list_all (\<lambda>i. i < 16 ^ 32) ids"

lemma parse_printed: "uuids_ok ids \<Longrightarrow> List.map_filter uuid_parse (map uuid_str ids) = ids"
  by (induction ids) (simp_all add: uuids_ok_def List.map_filter_simps uuid_parse_str)

lemma referring_channels:
  "keeps (referring (caller_known r)) (create_channel rt now (answered r) cp)"
  "keeps (referring (caller_known r)) (patch_channel rt (answered r) i cq)"
  unfolding create_channel_def patch_channel_def own_channel_def require_org_def channel_response_def Let_def
  by (rule referring_guard; intro refs_flow keeps_intro; auto simp: foreign_keys_defs renamed_channel_def)+

lemma referring_rules:
  "uuids_ok (nrc_channel_ids p) \<Longrightarrow> keeps (referring (caller_known r)) (create_rule now (answered r) p)"
  "(\<And>ids. nrt_channel_ids q = Some ids \<Longrightarrow> uuids_ok ids) \<Longrightarrow>
     keeps (referring (caller_known r)) (patch_rule (answered r) i q)"
  unfolding create_rule_def patch_rule_def own_rule_def require_org_def rule_response_def Let_def
  by (rule referring_guard; intro referring_filters refs_flow keeps_intro;
      auto simp: foreign_keys_defs parse_printed patched_rule_def split: option.splits)+

text \<open>The channels a request names are 128-bit numbers, as every UUID.\<close>

definition operator_ids_ok :: "operator_request \<Rightarrow> bool" where
  "operator_ids_ok q = (case q of
     RuleCreate p \<Rightarrow> uuids_ok (nrc_channel_ids p)
   | RulePatch i p \<Rightarrow> (case nrt_channel_ids p of None \<Rightarrow> True | Some ids \<Rightarrow> uuids_ok ids)
   | _ \<Rightarrow> True)"

lemma referring_operator:
  assumes "operator_ids_ok q"
  shows "keeps (referring (caller_known r)) (handle_operator rt cfg now (answered r) q)"
  unfolding handle_operator_def
  using assms
  by (cases q; simp only: operator_request.case; intro keeps_validated keeps_discard
      referring_operations referring_phase3 referring_users referring_alerts referring_remote referring_devices
      referring_jobs referring_channels referring_rules reading_operators; simp add: operator_ids_ok_def)

end
