(* ===== verification/ReferenceAgents.thy ===== *)
theory ReferenceAgents
  imports ReferenceFlow Scripts
begin

text \<open>
  The requests without an operator keep the references in place too: agents that poll for
  jobs, enroll and check in, the sessions of users, the first setup, the portal, the
  delivery of notifications and the maintenance scripts.
\<close>

lemma referring_reads: "(\<And>v. keeps I (f v)) \<Longrightarrow> keeps I (andThen (gets h) f)"
  by (auto simp: keeps_def)

lemma referring_quiet_audits:
  assumes "Row_of OrganizationTable o' o' \<in> K"
  shows "keeps (referring K) (audit now o' a ty ti d)"
    and "keeps (referring K) (agent_audit now o' a ty i d)"
    and "keeps (referring K) (notification_audit now o' a ty ti d)"
  unfolding audit_def agent_audit_def notification_audit_def
  using assms by (intro audit_logs_rtbl.insert_referring keeps_intro; simp add: audit_log_keys_def)+

lemma referring_events:
  "{Row_of OrganizationTable (job_organization_id job) (job_organization_id job),
    Row_of JobTable (job_id job) (job_organization_id job)} \<subseteq> K \<Longrightarrow>
     keeps (referring K) (add_job_event now job ev msg md)"
  "{Row_of OrganizationTable (alt_organization_id a) (alt_organization_id a),
    Row_of AlertTable (alt_id a) (alt_organization_id a)} \<subseteq> K \<Longrightarrow>
     keeps (referring K) (add_alert_event now a ev msg md)"
  unfolding add_job_event_def add_alert_event_def
  by (intro refs_flow keeps_intro; simp add: foreign_keys_defs)+

lemma referring_expire: "keeps (referring K) (expire_jobs now d)"
  unfolding expire_jobs_def expire_job_def Let_def andThen_ret
  by (rule agent_jobs_rtbl.select_referring(1)[where f = "\<lambda>jobs. for_each jobs (expire_job now)" for now, unfolded expire_job_def Let_def];
    intro refs_flow referring_events referring_quiet_audits keeps_intro; auto simp: foreign_keys_defs)

lemma referring_assign:
  assumes "Agent_row (agt_id agent) \<in> K"
  shows "keeps (referring K) (assign_jobs_for_agent now agent)"
  unfolding assign_jobs_for_agent_def assign_job_def Let_def
  using assms
  by (intro keeps_andThen[OF referring_expire] agent_jobs_rtbl.select_referring; 
     intro refs_flow referring_events referring_quiet_audits keeps_intro; auto simp: foreign_keys_defs dest!: in_set_takeD)

lemma referring_start: "keeps (referring {}) (start_polled_job rt cfg now i p)"
  unfolding start_polled_job_def start_job_def require_agent_job_def authenticate_agent_jobs_def polled_job_def Let_def
  by (intro refs_flow referring_events referring_quiet_audits keeps_intro) (auto simp: foreign_keys_defs)

lemma referring_complete: "keeps (referring {}) (complete_polled_job rt cfg now i q)"
  unfolding complete_polled_job_def complete_job_def require_agent_job_def authenticate_agent_jobs_def polled_job_def
    Let_def new_job_result_def
  by (intro refs_flow referring_events referring_quiet_audits keeps_intro) (auto simp: foreign_keys_defs)

lemma referring_poll: "keeps (referring {}) (poll_jobs rt cfg now d secret hdr hsecret)"
  unfolding poll_jobs_def authenticate_agent_jobs_def Let_def
  by (intro referring_assign refs_flow keeps_intro; auto simp: foreign_keys_defs)

lemma referring_enroll: "keeps (referring {}) (enroll_agent rt cfg now client secret payload)"
  unfolding enroll_agent_def usable_token_def enroll_device_def enroll_agent_row_def Let_def
  by (intro refs_flow referring_quiet_audits keeps_intro;
      auto simp: foreign_keys_defs enrolled_device_def reenrolled_device_def enrolled_agent_def reenrolled_agent_def)

abbreviation device_rows :: "device \<Rightarrow> item set" where
  "device_rows d \<equiv> {Row_of OrganizationTable (dev_organization_id d) (dev_organization_id d),
     Row_of DeviceTable (dev_id d) (dev_organization_id d)}"

lemma keeps_case_list:
  "(xs = [] \<Longrightarrow> keeps I m) \<Longrightarrow> (\<And>y ys. xs = y # ys \<Longrightarrow> keeps I (f y ys)) \<Longrightarrow>
     keeps I (case xs of [] \<Rightarrow> m | y # ys \<Rightarrow> f y ys)"
  by (cases xs) simp_all

lemma referring_provider:
  assumes "\<And>K' v. K \<subseteq> K' \<Longrightarrow> (\<And>p. v = Some p \<Longrightarrow> Row_of ProviderTable (rpc_id p) o' \<in> K') \<Longrightarrow>
      keeps (referring K') (f v)"
  shows "keeps (referring K) (andThen (default_provider o') f)"
  unfolding default_provider_def andThen_assoc andThen_ret
  by (rule remote_providers_rtbl.select_referring, rule assms, assumption) (force split: list.splits)

lemma referring_rustdesk:
  assumes "device_rows device \<subseteq> K"
  shows "keeps (referring K) (upsert_rustdesk_status now device p)"
proof -
  have K: "device_rows device \<subseteq> K'" if "K \<subseteq> K'" for K' using assms that by blast
  show ?thesis
    unfolding upsert_rustdesk_status_def upsert_row_def
    apply (intro referring_provider refs_flow keeps_intro; (drule K)?)
    apply (auto simp: foreign_keys_defs new_link_def reported_link_def rustdesk_link_def split: option.splits)
    done
qed

lemma referring_first_owner:
  "keeps (referring {}) (create_first_owner rt cfg now salt raw o' email password)"
  unfolding create_first_owner_def issue_refresh_token_def
  by (intro refs_flow keeps_intro) (auto simp: foreign_keys_defs new_refresh_token_def new_user_def new_organization_def)

lemma referring_owner_script:
  "keeps (referring {}) (create_owner_user rt cfg now salt raw o' email password)"
  unfolding create_owner_user_def
  by (intro keeps_andThen[OF referring_first_owner] keeps_case_list refs_flow keeps_intro) (auto simp: foreign_keys_defs new_user_def)

lemma referring_token_script:
  "keeps (referring {}) (create_enrollment_token rt cfg now raw o' name ttl uses)"
  unfolding create_enrollment_token_def build_enrollment_token_def prod.case
  by (intro refs_flow keeps_intro) (auto simp: foreign_keys_defs organization_named_def)

lemma referring_session_requests:
  "keeps (referring {}) (login rt cfg now raw p1)"
  "keeps (referring {}) (refresh rt cfg now raw p2)"
  "keeps (referring {}) (logout rt cfg now p2)"
  "keeps (referring {}) (bootstrap_setup rt cfg now salt raw p3)"
  "keeps (referring {}) (portal_login rt cfg now raw p4)"
  unfolding login_def refresh_def logout_def bootstrap_setup_def portal_login_def
    issue_refresh_token_def find_valid_refresh_token_def auth_response_def
  apply (intro refs_flow keeps_intro; auto simp: foreign_keys_defs new_refresh_token_def)
  apply (intro refs_flow keeps_intro; auto simp: foreign_keys_defs new_refresh_token_def dest!: find_SomeD)
  apply (intro refs_flow keeps_intro; auto simp: foreign_keys_defs new_refresh_token_def dest!: find_SomeD)
  apply (intro keeps_value_error[OF referring_first_owner] refs_flow keeps_intro; auto)
  apply (intro refs_flow keeps_intro; auto simp: foreign_keys_defs new_portal_session_def)
  done

lemma referring_inventory:
  assumes "device_rows device \<subseteq> K"
  shows "keeps (referring K) (upsert_inventory now device p)"
  unfolding upsert_inventory_def upsert_row_def replace_rows_def upsert_security_def upsert_updates_def
  using assms
  by (intro refs_flow referring_quiet_audits keeps_intro) (auto simp: foreign_keys_defs new_inventory_def refreshed_inventory_def new_disk_def new_interface_def new_software_def
        new_security_def refreshed_security_def new_updates_def refreshed_updates_def)

lemma referring_missing_rules:
  assumes "Row_of OrganizationTable o' o' \<in> K"
    and "\<And>K' m. K \<subseteq> K' \<Longrightarrow> (\<And>key r. m key = Some r \<Longrightarrow> Row_of AlertRuleTable (alr_id r) o' \<in> K') \<Longrightarrow>
      keeps (referring K') (f m)"
    and "\<And>key r. existing key = Some r \<Longrightarrow> Row_of AlertRuleTable (alr_id r) o' \<in> K"
  shows "keeps (referring K) (andThen (add_missing_rules now o' ds existing) f)"
  using assms
proof (induction ds arbitrary: existing K)
  case Nil
  then show ?case by simp
next
  case (Cons d ds)
  show ?case
  proof (cases "existing (rd_key d)")
    case None
    have "keeps (referring (K \<union> set [Row_of AlertRuleTable (alr_id rule) (alr_organization_id rule)]))
        (andThen db_flush (\<lambda>_. andThen (add_missing_rules now o' ds (existing(alr_rule_key rule \<mapsto> rule))) f))"
      if "rule = new_alert_rule now o' d i" for rule i
      using Cons.prems that
      by (intro keeps_andThen[OF referring_flush] Cons.IH) (auto simp: new_alert_rule_def split: if_splits)
    with None show ?thesis
      unfolding add_missing_rules.simps
      using Cons.prems(1)
      by (simp add: andThen_assoc) (intro alert_rules_rtbl.insert_referring; simp add: foreign_keys_defs new_alert_rule_def)
  next
    case (Some r)
    with Cons show ?thesis by simp
  qed
qed

lemma referring_default_rules:
  assumes "Row_of OrganizationTable o' o' \<in> K"
    and "\<And>K' m. K \<subseteq> K' \<Longrightarrow> (\<And>key r. m key = Some r \<Longrightarrow> Row_of AlertRuleTable (alr_id r) o' \<in> K') \<Longrightarrow>
      keeps (referring K') (f m)"
  shows "keeps (referring K) (andThen (ensure_default_alert_rules cfg now o') f)"
  unfolding ensure_default_alert_rules_def andThen_assoc
proof (rule alert_rules_rtbl.select_referring)
  fix rs K'
  assume K': "K \<subseteq> K'" and rows: "\<And>r. r \<in> set rs \<Longrightarrow> alert_rules_rtbl.known r \<subseteq> K' \<and>
     (\<exists>r0. alr_organization_id r0 = o' \<and> alr_id r = alr_id r0 \<and>
       [Row_of AlertRuleTable (alr_id r) (alr_organization_id r)] =
       [Row_of AlertRuleTable (alr_id r0) (alr_organization_id r0)] \<and> alert_rules_rtbl.known r0 \<subseteq> K')"
  have "Row_of AlertRuleTable (alr_id r) o' \<in> K'" if "rules_by_key rs key = Some r" for key r
    using rows[of r] rules_by_key_SomeD[OF that] by force
  with K' assms show "keeps (referring K') (andThen (add_missing_rules now o' (default_rule_definitions cfg) (rules_by_key rs)) f)"
    by (intro referring_missing_rules) auto
qed

lemma referring_enqueue_channel:
  assumes "Row_of OrganizationTable (alt_organization_id a) (alt_organization_id a) \<in> K"
    and "Row_of AlertTable (alt_id a) (alt_organization_id a) \<in> K"
    and "\<And>i. uuid_parse c = Some i \<Longrightarrow> Row_of ChannelTable i (alt_organization_id a) \<in> K"
  shows "keeps (referring K) (enqueue_channel now a c)"
proof (cases "uuid_parse c")
  case (Some i)
  have reads: "keeps (referring K) (get_enabled_channel (alt_organization_id a) c)"
    unfolding get_enabled_channel_def by (intro keeps_intro)
  show ?thesis
    unfolding enqueue_channel_def Some option.case
    by (intro keeps_andThen[OF reads] notification_deliveries_rtbl.insert_referring referring_quiet_audits;
        use assms Some in \<open>simp add: foreign_keys_defs new_delivery_def\<close>)
qed (simp add: enqueue_channel_def keeps_ret)

lemma referring_enqueue:
  assumes org: "Row_of OrganizationTable (alt_organization_id a) (alt_organization_id a) \<in> K"
    and a: "Row_of AlertTable (alt_id a) (alt_organization_id a) \<in> K"
  shows "keeps (referring K) (enqueue_alert_notifications now a)"
proof -
  have channels: "Row_of ChannelTable i (alt_organization_id a) \<in> K'"
    if "notification_rules_rtbl.known r \<subseteq> K'" "nrl_organization_id r = alt_organization_id a"
      "c \<in> set (nrl_channel_ids r)" "uuid_parse c = Some i" for K' r c i
  proof -
    from that(3,4) have "i \<in> set (List.map_filter uuid_parse (nrl_channel_ids r))"
      by (force simp: List.map_filter_def)
    with that(1,2) show ?thesis by (auto simp: foreign_keys_defs)
  qed
  have rules: "keeps (referring K') (for_each rs (\<lambda>r. if \<not> rule_matches alert_rule a r then ret ()
      else for_each (nrl_channel_ids r) (enqueue_channel now a)))"
    if "K \<subseteq> K'" "\<And>r. r \<in> set rs \<Longrightarrow> notification_rules_rtbl.known r \<subseteq> K' \<and> nrl_organization_id r = alt_organization_id a"
    for K' rs alert_rule
    by (intro keeps_intro referring_enqueue_channel) (use org a that channels in blast)+
  show ?thesis
    unfolding enqueue_alert_notifications_def
    by (intro alert_rules_rtbl.get_referring notification_rules_rtbl.select_referring rules flow_rules keeps_intro) fastforce+
qed

lemma referring_apply:
  assumes "device_rows device \<subseteq> K" and "Row_of AlertRuleTable (alr_id rule) (dev_organization_id device) \<in> K"
  shows "keeps (referring K) (apply_result now device rule result)"
  unfolding apply_result_def Let_def
  using assms
  by (intro refs_flow referring_events referring_enqueue keeps_intro) (auto simp: foreign_keys_defs new_alert_def)

lemma referring_evaluate:
  assumes "device_rows device \<subseteq> K"
  shows "keeps (referring K) (evaluate_device_alerts rt cfg now device e)"
  unfolding evaluate_device_alerts_def apply_keyed_result_def
  using assms by (intro referring_default_rules flow_rules referring_apply keeps_intro) blast+

lemma referring_store_checkin:
  assumes "devices_rtbl.known device \<subseteq> K" and "agents_rtbl.known agent \<subseteq> K"
  shows "keeps (referring K) (store_checkin now client q agent device)"
  unfolding store_checkin_def Let_def
  using assms
  by (intro refs_flow referring_inventory referring_rustdesk keeps_intro) (auto simp: foreign_keys_defs checked_in_device_def new_checkin_def)

lemma referring_checkin: "keeps (referring {}) (checkin_agent rt cfg now client q)"
  unfolding checkin_agent_def checkin_auth_def finish_checkin_def
  by (intro devices_rtbl.current_referring keeps_andThen[OF referring_store_checkin] referring_evaluate
      referring_quiet_audits refs_flow keeps_intro) (auto simp: foreign_keys_defs)

lemma keeps_case_sum:
  "(\<And>e. keeps I (f e)) \<Longrightarrow> (\<And>x. keeps I (g x)) \<Longrightarrow> keeps I (case v of Inl e \<Rightarrow> f e | Inr x \<Rightarrow> g x)"
  by (cases v) simp_all

lemma referring_delivery:
  assumes "notification_deliveries_rtbl.known d \<subseteq> K"
  shows "keeps (referring K) (process_delivery tr cfg now d)"
  unfolding process_delivery_def skip_delivery_row_def Let_def
  using assms
  by (intro keeps_case_sum notification_deliveries_rtbl.put_referring referring_quiet_audits keeps_intro)
    (auto simp: foreign_keys_defs)

lemma referring_deliveries: "keeps (referring {}) (process_pending_deliveries tr cfg now limit)"
  unfolding process_pending_deliveries_def
  by (intro notification_deliveries_rtbl.select_referring referring_delivery keeps_intro) (auto dest!: in_set_takeD)

end
