(* ===== verification/AlertInvariant.thy ===== *)
theory AlertInvariant
  imports ReferenceAgents AlertsApi
begin

text \<open>
  At most one open alert per device and rule, whatever is requested: only check-ins and the
  two operator actions on alerts write alerts, every other request leaves them as they are.
\<close>

subsection \<open>Requests that do not write alerts\<close>

abbreviation alerts_stay :: "alert list \<Rightarrow> session \<Rightarrow> bool" where
  "alerts_stay v \<equiv> everywhere (\<lambda>st. alerts st = v)"

lemma alerts_stay_writes:
  assumes "\<And>f st. alerts (u f st) = alerts st"
  shows "keeps (alerts_stay v) (insert_row u mk)" and "keeps (alerts_stay v) (put_row u k r)"
    and "keeps (alerts_stay v) (delete_rows t u k P)"
  using assms by (intro everywhere_insert everywhere_put everywhere_delete; simp)+

lemma alerts_stay_create:
  assumes "\<And>f st. alerts (u f st) = alerts st" and "\<And>r. keeps (alerts_stay v) (entry r)"
  shows "keeps (alerts_stay v) (create_row u mk entry answer)"
  unfolding create_row_def by (intro keeps_intro alerts_stay_writes assms)

lemma alerts_stay_guard:
  assumes "\<And>current. keeps I (f current)"
  shows "keeps I (andThen (require_permission p (answered r)) f)"
  using assms by (cases r) (auto simp: require_permission_def answered_def andThen_def keeps_def)

lemma alerts_stay_audits:
  "keeps (alerts_stay v) (user_audit now current a ty i d)"
  "keeps (alerts_stay v) (operator_audit now current a ty i d)"
  unfolding user_audit_def operator_audit_def by (intro keeps_intro alerts_stay_writes; simp)+

lemmas alerts_stay_flow = alerts_stay_create alerts_stay_writes alerts_stay_audits alerts_stay_guard

lemma alerts_stay_operations: "keeps (alerts_stay v) (handle_operations now (answered r) q)"
  unfolding handle_operations_def operations_handlers Let_def article_category_def
  by (cases q; simp only: operations_request.case; (rule keeps_validated)?; rule keeps_respond;
      intro keeps_intro alerts_stay_flow; simp)

lemma alerts_stay_platform: "keeps (alerts_stay v) (handle_phase3 rt cfg now (answered r) q)"
  unfolding handle_phase3_def phase3_handlers Let_def own_preference_def portal_role_for_def
  by (cases q; simp only: phase3_request.case; (rule keeps_validated)?; rule keeps_respond;
      intro keeps_intro alerts_stay_flow; simp)

lemma alerts_stay_routes:
  "keeps (alerts_stay v) (create_user rt now salt (answered r) up)"
  "keeps (alerts_stay v) (disable_user (answered r) i)"
  "keeps (alerts_stay v) (enable_user (answered r) i)"
  "keeps (alerts_stay v) (patch_user rt salt (answered r) i uq)"
  "keeps (alerts_stay v) (list_devices cfg now (answered r))"
  "keeps (alerts_stay v) (get_device cfg now (answered r) i)"
  "keeps (alerts_stay v) (create_remote_provider now (answered r) rp)"
  "keeps (alerts_stay v) (launch_device_remote now (answered r) i)"
  "keeps (alerts_stay v) (create_device_job rt cfg now (answered r) i jp)"
  "keeps (alerts_stay v) (list_device_jobs now (answered r) i)"
  "keeps (alerts_stay v) (get_job now (answered r) i)"
  "keeps (alerts_stay v) (cancel_agent_job now (answered r) i)"
  "keeps (alerts_stay v) (create_channel rt now (answered r) cp)"
  "keeps (alerts_stay v) (patch_channel rt (answered r) i cq)"
  "keeps (alerts_stay v) (create_rule now (answered r) np)"
  "keeps (alerts_stay v) (patch_rule (answered r) i nq)"
  unfolding create_user_def disable_user_def enable_user_def patch_user_def require_same_org_user_def
    list_devices_def get_device_def sync_status_def device_or_404_def
    create_remote_provider_def launch_device_remote_def launch_on_def remote_device_or_404_def
    create_device_job_def list_device_jobs_def get_job_def cancel_agent_job_def create_job_def cancel_job_def
    expire_jobs_def expire_job_def add_job_event_def audit_def own_device_def own_job_def job_response_def
    create_channel_def patch_channel_def own_channel_def require_org_def channel_response_def
    create_rule_def patch_rule_def own_rule_def rule_response_def validate_rule_filters_def validate_rule_channel_def Let_def
  by (intro keeps_intro alerts_stay_flow; simp)+

lemma alerts_stay_services:
  "keeps (alerts_stay v) (login rt cfg now raw p1)"
  "keeps (alerts_stay v) (refresh rt cfg now raw p2)"
  "keeps (alerts_stay v) (logout rt cfg now p2)"
  "keeps (alerts_stay v) (bootstrap_setup rt cfg now salt raw p3)"
  "keeps (alerts_stay v) (portal_login rt cfg now raw p4)"
  "keeps (alerts_stay v) (create_owner_user rt cfg now salt raw o' email password)"
  "keeps (alerts_stay v) (create_enrollment_token rt cfg now raw o' name ttl uses)"
  "keeps (alerts_stay v) (enroll_agent rt cfg now client secret p5)"
  "keeps (alerts_stay v) (poll_jobs rt cfg now d hsecret hdr qsecret)"
  "keeps (alerts_stay v) (start_polled_job rt cfg now i p6)"
  "keeps (alerts_stay v) (complete_polled_job rt cfg now i p7)"
  "keeps (alerts_stay v) (process_pending_deliveries tr cfg now limit)"
  unfolding login_def refresh_def logout_def bootstrap_setup_def portal_login_def create_owner_user_def
    create_enrollment_token_def create_first_owner_def build_enrollment_token_def issue_refresh_token_def
    find_valid_refresh_token_def auth_response_def prod.case
    enroll_agent_def usable_token_def enroll_device_def enroll_agent_row_def agent_audit_def
    poll_jobs_def start_polled_job_def complete_polled_job_def assign_jobs_for_agent_def start_job_def
    complete_job_def require_agent_job_def assign_job_def expire_jobs_def expire_job_def audit_def add_job_event_def
    authenticate_agent_jobs_def polled_job_def process_pending_deliveries_def process_delivery_def
    skip_delivery_row_def notification_audit_def Let_def
  by (intro keeps_case_list keeps_case_sum keeps_intro alerts_stay_flow; simp)+

subsection \<open>At most one open alert\<close>

lemma open_count_map_le:
  "(\<And>x. x \<in> set rows \<Longrightarrow> open_alert d r (f x) \<Longrightarrow> open_alert d r x) \<Longrightarrow>
     open_count d r (map f rows) \<le> open_count d r rows"
  by (induction rows) (auto simp: open_count_def le_Suc_eq)

text \<open>Overwriting an alert by one that is open only where it was opens no second one.\<close>

lemma one_open_acted:
  assumes w: "wf_server w" and one: "one_open (srv_store w)" and a: "a \<in> set (alerts (srv_store w))"
    and same: "alt_id b = alt_id a" "\<And>d r. open_alert d r b \<Longrightarrow> open_alert d r a"
  shows "one_open (acted b e (srv_store w))"
proof -
  have same_key: "x = a" if "x \<in> set (alerts (srv_store w))" "alt_id x = alt_id b" for x
    using alerts_tbl.open_distinct[OF w] that a same(1) by (auto simp: distinct_map dest: inj_onD)
  have "open_count d r (alerts (acted b e (srv_store w))) \<le> 1" for d r
  proof -
    have "open_alert d r (if alt_id x = alt_id b then b else x) \<Longrightarrow> open_alert d r x"
      if "x \<in> set (alerts (srv_store w))" for x
      using same(2)[of d r] same_key[OF that] by (cases "alt_id x = alt_id b") simp_all
    from open_count_map_le[OF this]
    have "open_count d r (alerts (acted b e (srv_store w))) \<le> open_count d r (alerts (srv_store w))"
      by (simp add: acted_def)
    also have "\<dots> \<le> 1" using one by (simp add: one_open_iff)
    finally show ?thesis .
  qed
  then show ?thesis by (simp add: one_open_iff)
qed

lemma atomic_actions: "atomic (acknowledge_alert now auth' i)" "atomic (resolve_alert now auth' i)"
  if "\<And>d. keeps (\<lambda>s. durable s = d) auth'" for auth'
proof -
  have safe: "safe_return (alert_response a b)" for a b
    using alert_response_state[of a b] unfolding safe_return_def by (metis fst_conv sum.disc(2))
  show "atomic (acknowledge_alert now auth' i)" "atomic (resolve_alert now auth' i)"
    unfolding acknowledge_alert_def acknowledge_on_def resolve_alert_def resolve_on_def Let_def
    by (intro atomic_intro safe atomic_uncommitted uncommittedI keeps_intro durable_alert_parts that)+
qed

lemma one_open_actions:
  fixes rt cfg t cred
  defines "auth \<equiv> require_authenticated_user rt cfg t cred"
  assumes w: "wf_server w" and one: "one_open (srv_store w)"
  shows "one_open (srv_store (snd (run_request (acknowledge_alert now auth i) w)))"
    and "one_open (srv_store (snd (run_request (resolve_alert now auth i) w)))"
proof -
  have quiet: "keeps (\<lambda>s. durable s = d) auth" for d
    unfolding auth_def by (rule keeps_authenticate)
  note acted = one_open_acted[OF w one]
  show "one_open (srv_store (snd (run_request (acknowledge_alert now auth i) w)))"
  proof (rule one_open_request[OF atomic_actions(1)[OF quiet] one])
    fix resp s
    assume run: "acknowledge_alert now auth i (open_session w) = (Inr resp, s)"
    obtain a where "a \<in> set (alerts (srv_store w))" "acknowledge_on now a (open_session w) = (Inr resp, s)"
      by (rule alert_action_InrD[OF w run[unfolded acknowledge_alert_def auth_def]])
    with acknowledge_on_run[OF this(2)] one show "one_open (durable s)"
      by (auto simp: acknowledged_alert_def open_alert_def split: if_splits intro!: acted)
  qed
  show "one_open (srv_store (snd (run_request (resolve_alert now auth i) w)))"
  proof (rule one_open_request[OF atomic_actions(2)[OF quiet] one])
    fix resp s
    assume run: "resolve_alert now auth i (open_session w) = (Inr resp, s)"
    obtain a where "a \<in> set (alerts (srv_store w))" "resolve_on now a (open_session w) = (Inr resp, s)"
      by (rule alert_action_InrD[OF w run[unfolded resolve_alert_def auth_def]])
    with resolve_on_run[OF this(2)] one show "one_open (durable s)"
      by (auto simp: resolved_alert_def open_alert_def split: if_splits intro!: acted)
  qed
qed

text \<open>A request that leaves the alerts alone leaves them as they are.\<close>

lemma one_open_stay:
  assumes "\<And>v. keeps (alerts_stay v) h" and "one_open (srv_store w)"
  shows "one_open (srv_store (snd (run_request h w)))"
  using run_request_everywhere[OF assms(1)[of "alerts (srv_store w)"], of w] assms(2) by (simp add: one_open_def)

lemma run_request_discard: "srv_store (snd (run_request (discard h) w)) = srv_store (snd (run_request h w))"
  by (simp add: run_request_snd discard_def andThen_def split: prod.split sum.split)

lemma one_open_operator:
  assumes w: "wf_server w" and one: "one_open (srv_store w)"
    and auth: "auth = require_authenticated_user rt cfg now cred"
  shows "one_open (srv_store (snd (run_request (handle_operator rt cfg now auth q) w)))"
proof (cases "\<exists>i. q = Acknowledge i \<or> q = Resolve i")
  case True
  then show ?thesis
    using one_open_actions[OF w one, of now rt cfg now cred] auth
    by (auto simp: handle_operator_def run_request_discard)
next
  case False
  let ?r = "fst (auth (open_session w))"
  have "auth (open_session w) = (?r, open_session w)" using authenticate_state auth by (metis prod.collapse)
  from handle_answered(3)[where auth = auth, OF this]
  have same: "run_request (handle_operator rt cfg now auth q) w = run_request (handle_operator rt cfg now (answered ?r) q) w"
    by (simp add: run_request_def)
  have "keeps (alerts_stay v) (handle_operator rt cfg now (answered ?r) q)" for v
    unfolding handle_operator_def
    using False
    by (cases q; simp only: operator_request.case; intro keeps_validated keeps_discard alerts_stay_operations
        alerts_stay_platform alerts_stay_routes reading_operators; simp)
  from one_open_stay[OF this one] same show ?thesis by simp
qed

end
