(* ===== verification/Integrity.thy ===== *)
theory Integrity
  imports AlertInvariant SchemaHistory
begin

text \<open>
  The whole program over time: every request it serves, the servers it can reach from an
  empty database, and what holds of all of them. Keys are unique, no checked reference
  dangles or leaves its organization, agents are those of their devices' machines and no
  device has two open alerts for a rule. With that, the properties whose theories assume
  these facts (\<open>AgentApi\<close>, \<open>Tenancy\<close>) hold in every reachable state.
\<close>

subsection \<open>The references the models declare\<close>

definition parent_name :: "parent \<Rightarrow> string" where
  "parent_name p = (case p of
     OrganizationTable \<Rightarrow> ''organizations'' | UserTable \<Rightarrow> ''users'' | DeviceTable \<Rightarrow> ''devices''
   | AgentTable \<Rightarrow> ''agents'' | AlertRuleTable \<Rightarrow> ''alert_rules'' | AlertTable \<Rightarrow> ''alerts''
   | ChannelTable \<Rightarrow> ''notification_channels'' | JobTable \<Rightarrow> ''agent_jobs''
   | NotificationRuleTable \<Rightarrow> ''notification_rules'' | ProviderTable \<Rightarrow> ''remote_provider_configs''
   | LinkTable \<Rightarrow> ''remote_device_links'' | AssetTable \<Rightarrow> ''assets''
   | CategoryTable \<Rightarrow> ''documentation_categories'' | TicketTable \<Rightarrow> ''tickets''
   | ConversationTable \<Rightarrow> ''ai_conversations'' | TemplateTable \<Rightarrow> ''report_templates''
   | PortalRoleTable \<Rightarrow> ''portal_roles'' | PortalUserTable \<Rightarrow> ''portal_users''
   | WorkflowTable \<Rightarrow> ''workflows'' | BackupJobTable \<Rightarrow> ''backup_jobs''
   | AssetTypeTable \<Rightarrow> ''asset_types'')"

definition key_columns :: "'r foreign_keys \<Rightarrow> foreign_key list" where
  "key_columns keys = map (\<lambda>(column, p, _). (column, parent_name p @ ''.id''))
     (filter (\<lambda>(column, _). column \<noteq> ''channel_ids'') keys)"

text \<open>
  Foreign key columns whose handlers store the key a request names without looking it up, or
  after looking for it among the rows of all organizations.
\<close>

definition unchecked_columns :: "mapped_class \<Rightarrow> foreign_key list" where
  "unchecked_columns c =
     (if cls_tablename c = ''assets'' then [(''device_id'', ''devices.id'')]
      else if cls_tablename c = ''tickets'' then
        [(''asset_id'', ''assets.id''), (''company_id'', ''companies.id''), (''alert_id'', ''alerts.id''),
         (''assigned_user_id'', ''users.id'')]
      else if cls_tablename c = ''documentation_articles'' then [(''company_id'', ''companies.id'')]
      else if cls_tablename c = ''report_runs'' then [(''template_id'', ''report_templates.id'')]
      else [])"

definition reference_columns :: "(mapped_class \<times> foreign_key list) list" where
  "reference_columns =
    [(Organization_class, key_columns organization_keys),
     (User_class, key_columns user_keys),
     (RefreshToken_class, key_columns refresh_token_keys),
     (EnrollmentToken_class, key_columns enrollment_token_keys),
     (AuditLog_class, key_columns audit_log_keys),
     (Device_class, key_columns device_keys),
     (Agent_class, key_columns agent_keys),
     (DeviceCheckin_class, key_columns device_checkin_keys),
     (DeviceInventory_class, key_columns device_inventory_keys),
     (DiskInventory_class, key_columns disk_inventory_keys),
     (NetworkInterfaceInventory_class, key_columns network_interface_inventory_keys),
     (InstalledSoftware_class, key_columns installed_software_keys),
     (SecurityStatus_class, key_columns security_status_keys),
     (UpdateStatus_class, key_columns update_status_keys),
     (AlertRule_class, key_columns alert_rule_keys),
     (Alert_class, key_columns alert_keys),
     (AlertEvent_class, key_columns alert_event_keys),
     (NotificationChannel_class, key_columns notification_channel_keys),
     (NotificationRule_class, key_columns notification_rule_keys),
     (NotificationDelivery_class, key_columns notification_delivery_keys),
     (AgentJob_class, key_columns agent_job_keys),
     (AgentJobEvent_class, key_columns agent_job_event_keys),
     (AgentJobResult_class, key_columns agent_job_result_keys),
     (RemoteProviderConfig_class, key_columns remote_provider_config_keys),
     (RemoteDeviceLink_class, key_columns remote_device_link_keys),
     (RemoteSessionAudit_class, key_columns remote_session_audit_keys),
     (Asset_class, key_columns asset_keys),
     (Company_class, key_columns company_keys),
     (DocumentationCategory_class, key_columns documentation_category_keys),
     (DocumentationArticle_class, key_columns documentation_article_keys),
     (DiscoveryScan_class, key_columns discovery_scan_keys),
     (DiscoveredDevice_class, key_columns discovered_device_keys),
     (Ticket_class, key_columns ticket_keys),
     (TicketComment_class, key_columns ticket_comment_keys),
     (TicketTimeEntry_class, key_columns ticket_time_entry_keys),
     (AIConversation_class, key_columns ai_conversation_keys),
     (AIMessage_class, key_columns ai_message_keys),
     (AIInsight_class, key_columns ai_insight_keys),
     (ReportTemplate_class, key_columns report_template_keys),
     (ReportRun_class, key_columns report_run_keys),
     (ReportSchedule_class, key_columns report_schedule_keys),
     (DashboardPreference_class, key_columns dashboard_preference_keys),
     (PortalRole_class, key_columns portal_role_keys),
     (PortalUser_class, key_columns portal_user_keys),
     (PortalSession_class, key_columns portal_session_keys),
     (Workflow_class, key_columns workflow_keys),
     (WorkflowTrigger_class, key_columns workflow_trigger_keys),
     (WorkflowAction_class, key_columns workflow_action_keys),
     (WorkflowExecution_class, key_columns workflow_execution_keys),
     (APIKey_class, key_columns api_key_keys),
     (SystemHealth_class, key_columns system_health_keys),
     (BackupJob_class, key_columns backup_job_keys),
     (BackupRun_class, key_columns backup_run_keys)]"

lemmas stored_classes =
  Organization_class_def User_class_def RefreshToken_class_def EnrollmentToken_class_def
  AuditLog_class_def Device_class_def Agent_class_def DeviceCheckin_class_def
  DeviceInventory_class_def DiskInventory_class_def NetworkInterfaceInventory_class_def InstalledSoftware_class_def
  SecurityStatus_class_def UpdateStatus_class_def AlertRule_class_def Alert_class_def
  AlertEvent_class_def NotificationChannel_class_def NotificationRule_class_def NotificationDelivery_class_def
  AgentJob_class_def AgentJobEvent_class_def AgentJobResult_class_def RemoteProviderConfig_class_def
  RemoteDeviceLink_class_def RemoteSessionAudit_class_def Asset_class_def Company_class_def
  DocumentationCategory_class_def DocumentationArticle_class_def DiscoveryScan_class_def DiscoveredDevice_class_def
  Ticket_class_def TicketComment_class_def TicketTimeEntry_class_def AIConversation_class_def
  AIMessage_class_def AIInsight_class_def ReportTemplate_class_def ReportRun_class_def
  ReportSchedule_class_def DashboardPreference_class_def PortalRole_class_def PortalUser_class_def
  PortalSession_class_def Workflow_class_def WorkflowTrigger_class_def WorkflowAction_class_def
  WorkflowExecution_class_def APIKey_class_def SystemHealth_class_def BackupJob_class_def
  BackupRun_class_def


text \<open>What an unchecked column lets in: a bulk import stores whatever device it is told, also one of
  another organization or none at all, where \<open>create_asset\<close> asks for a device of the operator's.\<close>

lemma bulk_import_unchecked:
  assumes "wf_server w" and "auth (open_session w) = (Inr current, open_session w)"
    and "''assets:write'' \<in> set (role_permissions (usr_role current))" and "asq_status item \<in> set ASSET_STATUSES"
    and w': "w' = snd (run_request (bulk_import_assets now auth [item]) w)"
  shows "\<exists>a \<in> set (assets (phase2 (srv_store w'))). ast_organization_id a = usr_organization_id current \<and>
    ast_device_id a = asq_device_id item"
proof -
  have "unique_ok (srv_store w)" using assms(1) by (simp add: wf_server_def)
  then have unique: "unique_ok (audit_logs_update g (phase2_update (assets_update f) (srv_store w)))"
    "unique_ok (phase2_update (assets_update f) (srv_store w))" for f g
    by (simp_all add: unique_ok_def)
  show ?thesis
    using assms(2-4) w' unique
    by (simp add: bulk_import_assets_def require_permission_def andThen_run run_request_snd insert_row_def
        db_flush_def db_commit_def user_audit_def imported_asset_def)
qed

subsection \<open>All requests\<close>

text \<open>The routes that take no operator, the delivery of notifications and the scripts.\<close>

datatype service_request =
    SignIn string LoginRequest | Renew string RefreshRequest | SignOut RefreshRequest
  | FirstSetup "byte list" string BootstrapSetupRequest
  | PortalSignIn string PortalLoginRequest
  | EnrollAgent "string option" string AgentEnrollRequest
  | CheckinAgent "string option" AgentCheckinRequest
  | PollWork "uuid option" "string option" "uuid option" "string option"
  | StartWork uuid AgentJobPollRequest
  | CompleteWork uuid AgentJobCompleteRequest
  | DeliverNotifications transport nat
  | OwnerScript "byte list" string string string string
  | TokenScript string string string int int

definition handle_service :: "runtime \<Rightarrow> settings \<Rightarrow> datetime \<Rightarrow> service_request \<Rightarrow> unit db_op" where
  "handle_service rt cfg now q = (case q of
     SignIn raw p \<Rightarrow> validated (valid_LoginRequest p) (discard (login rt cfg now raw p))
   | Renew raw p \<Rightarrow> validated (valid_RefreshRequest p) (discard (refresh rt cfg now raw p))
   | SignOut p \<Rightarrow> validated (valid_RefreshRequest p) (discard (logout rt cfg now p))
   | FirstSetup salt raw p \<Rightarrow> validated (valid_BootstrapSetupRequest p)
       (discard (bootstrap_setup rt cfg now salt raw p))
   | PortalSignIn token p \<Rightarrow> discard (portal_login rt cfg now token p)
   | EnrollAgent client secret p \<Rightarrow> validated (valid_AgentEnrollRequest p)
       (discard (enroll_agent rt cfg now client secret p))
   | CheckinAgent client p \<Rightarrow> validated (valid_AgentCheckinRequest p)
       (discard (checkin_agent rt cfg now client p))
   | PollWork d secret hdr hsecret \<Rightarrow> discard (poll_jobs rt cfg now d secret hdr hsecret)
   | StartWork i p \<Rightarrow> validated (valid_AgentJobPollRequest p) (discard (start_polled_job rt cfg now i p))
   | CompleteWork i p \<Rightarrow> validated (valid_AgentJobCompleteRequest p)
       (discard (complete_polled_job rt cfg now i p))
   | DeliverNotifications tr limit \<Rightarrow> discard (process_pending_deliveries tr cfg now limit)
   | OwnerScript salt raw organization email password \<Rightarrow>
       discard (create_owner_user rt cfg now salt raw organization email password)
   | TokenScript drawn organization name ttl_hours max_uses \<Rightarrow>
       discard (create_enrollment_token rt cfg now drawn organization name ttl_hours max_uses))"

lemma referring_service: "keeps (referring {}) (handle_service rt cfg now q)"
  unfolding handle_service_def
  by (cases q; simp only: service_request.case; intro keeps_validated keeps_discard referring_session_requests
      referring_enroll referring_checkin referring_poll referring_start referring_complete referring_deliveries
      referring_owner_script referring_token_script)

text \<open>
  What the program can make of an empty database. Times, drawn tokens, salts, client
  addresses and what the network answers are arbitrary, and so is the order of requests.
\<close>

inductive reachable :: "runtime \<Rightarrow> settings \<Rightarrow> server \<Rightarrow> bool" for rt cfg where
  installed: "reachable rt cfg \<lparr>srv_store = empty_store, srv_next_id = n\<rparr>"
| operator: "reachable rt cfg w \<Longrightarrow> operator_ids_ok q \<Longrightarrow>
    reachable rt cfg (snd (run_request (handle_operator rt cfg now (require_authenticated_user rt cfg now cred) q) w))"
| service: "reachable rt cfg w \<Longrightarrow> reachable rt cfg (snd (run_request (handle_service rt cfg now q) w))"

subsection \<open>Invariants over all histories\<close>

lemma one_open_service:
  assumes w: "wf_server w" and one: "one_open (srv_store w)"
  shows "one_open (srv_store (snd (run_request (handle_service rt cfg now q) w)))"
proof (cases "\<exists>client p. q = CheckinAgent client p")
  case True
  then show ?thesis
    using checkin_one_open[OF w one] one by (auto simp: handle_service_def validated_def run_request_discard run_request_snd)
next
  case False
  then have "keeps (alerts_stay v) (handle_service rt cfg now q)" for v
    unfolding handle_service_def
    by (cases q; simp only: service_request.case; intro keeps_validated keeps_discard alerts_stay_services; simp)
  from one_open_stay[OF this one] show ?thesis .
qed


lemma empty_store_ok: "wf_server \<lparr>srv_store = empty_store, srv_next_id = n\<rparr>" "references_ok empty_store" "one_open empty_store"
  by (simp_all add: one_open_def wf_server_def ids_ok_def keys_ok_def unique_ok_def references_ok_def all_refs_def refs_defs
      table_refs_def empty_store_def empty_phase2_def empty_phase3_def phase2_ids_ok_def phase3_ids_ok_def)

lemma referring_request:
  assumes "keeps (referring K) h" and "wf_server w" and "references_ok (srv_store w)"
    and "\<forall>x \<in> K. found (srv_store w) x"
  shows "wf_server (snd (run_request h w)) \<and> references_ok (srv_store (snd (run_request h w)))"
  using referring_close[OF keepsD[OF assms(1) referring_open[OF assms(2-4)]]] by (simp add: run_request_snd)

lemma caller_found:
  assumes "wf_server w" and "references_ok (srv_store w)"
  shows "\<forall>x \<in> caller_known (fst (require_authenticated_user rt cfg now cred (open_session w))). found (srv_store w) x"
proof (cases "fst (require_authenticated_user rt cfg now cred (open_session w))")
  case (Inr current)
  then have "current \<in> set (users (srv_store w))"
    by (auto simp: require_authenticated_user_def andThen_run users_tbl.open_get[OF assms(1)] dest!: find_SomeD
        split: option.splits if_splits prod.splits)
  with users_rtbl.row_known[OF referring_open[OF assms, of "{}"], of current] Inr show ?thesis
    by (auto simp: caller_known_def referring_def user_keys_def)
qed (simp add: caller_known_def)

lemma operator_request:
  assumes "wf_server w" and "references_ok (srv_store w)" and "operator_ids_ok q"
    and w': "w' = snd (run_request (handle_operator rt cfg now (require_authenticated_user rt cfg now cred) q) w)"
  shows "wf_server w' \<and> references_ok (srv_store w')"
proof -
  let ?auth = "require_authenticated_user rt cfg now cred"
  let ?r = "fst (?auth (open_session w))"
  have "?auth (open_session w) = (?r, open_session w)" using authenticate_state by (metis prod.collapse)
  from handle_answered(3)[where auth = ?auth, OF this]
  have "run_request (handle_operator rt cfg now ?auth q) w = run_request (handle_operator rt cfg now (answered ?r) q) w"
    by (simp add: run_request_def)
  with referring_request[OF referring_operator[OF assms(3)] assms(1,2) caller_found[OF assms(1,2)]] w'
  show ?thesis by simp
qed

lemma reachable_ok:
  assumes "reachable rt cfg w"
  shows "wf_server w \<and> references_ok (srv_store w) \<and> one_open (srv_store w)"
  using assms
proof induction
  case (installed n)
  show ?case using empty_store_ok by simp
next
  case (operator w q now cred)
  then show ?case using operator_request[OF _ _ operator.hyps(2) refl] one_open_operator[OF _ _ refl] by blast
next
  case (service w now q)
  then show ?case using referring_request[OF referring_service] one_open_service by simp
qed

text \<open>An agent belongs to the device of its machine.\<close>

lemma references_linked:
  assumes "wf_server w" and ok: "references_ok (srv_store w)"
  shows "agents_linked (srv_store w)"
proof -
  let ?st = "srv_store w"
  have "list_ex (\<lambda>x. dev_id x = d \<and> dev_machine_identifier x = agt_install_id a \<and>
      dev_organization_id x = agt_organization_id a) (devices ?st)"
    if a: "a \<in> set (agents ?st)" and d: "agt_device_id a = Some d" for a d
  proof -
    have "{Row_of DeviceTable d (agt_organization_id a), Machine_of d (agt_install_id a)} \<subseteq> set (all_refs ?st)"
      using agents_rtbl.refs_read[OF a] d by (auto simp: agent_refs_def agent_keys_def)
    with ok have "found ?st (Row_of DeviceTable d (agt_organization_id a))" "found ?st (Machine_of d (agt_install_id a))"
      unfolding references_ok_def list_all_iff by blast+
    then obtain x y where "x \<in> set (devices ?st)" "dev_id x = d" "dev_organization_id x = agt_organization_id a"
      and "y \<in> set (devices ?st)" "dev_id y = d" "dev_machine_identifier y = agt_install_id a"
      by (auto simp: parent_rows_def)
    moreover from this have "x = y"
      using keys_ok_row[OF devices_tbl.ids_read] assms(1) by (metis wf_server_def)
    ultimately show ?thesis by (auto simp: list_ex_iff)
  qed
  then show ?thesis by (auto simp: agents_linked_def agent_linked_def list_all_iff split: option.splits)
qed

text \<open>A small history for the witnesses: the first setup, then an enrollment token for a second organization.\<close>

definition sample_setup :: BootstrapSetupRequest where
  "sample_setup = \<lparr>bst_organization_name = ''Acme'', bst_owner_name = ''Ann'',
     bst_owner_email = ''ann@acme.test'', bst_owner_password = ''Correct-Horse-1''\<rparr>"

definition setup_server :: server where
  "setup_server = \<lparr>srv_store = after_setup sample_runtime default_settings 5 [1] ''first-token'' sample_setup
     \<lparr>srv_store = empty_store, srv_next_id = 2\<rparr>, srv_next_id = 5\<rparr>"

lemma setup_reachable: "reachable sample_runtime default_settings setup_server"
proof -
  let ?w = "\<lparr>srv_store = empty_store, srv_next_id = 2\<rparr>"
  let ?q = "FirstSetup [1] ''first-token'' sample_setup"
  have "validate_strong_password (bst_owner_password sample_setup) = Inr ()"
    by (simp add: sample_setup_def validate_strong_password_def char_class_defs)
  then obtain resp where "bootstrap_setup sample_runtime default_settings 5 [1] ''first-token'' sample_setup (open_session ?w) =
      (Inr resp, committed (after_setup sample_runtime default_settings 5 [1] ''first-token'' sample_setup ?w) 5)"
    using fresh_setup[of sample_setup, where n = 2] by fastforce
  moreover have "valid_BootstrapSetupRequest sample_setup"
    by (simp add: valid_BootstrapSetupRequest_def sample_setup_def len_between_def)
  ultimately have "snd (run_request (handle_service sample_runtime default_settings 5 ?q) ?w) = setup_server"
    by (simp add: handle_service_def validated_def run_request_snd discard_def andThen_run setup_server_def)
  with reachable.service[OF reachable.installed, of sample_runtime default_settings 5 ?q 2] show ?thesis by simp
qed

text \<open>C4. The invariants of the program: in every state it can reach from an empty database, after
  any sequence of requests of operators, agents, users and scripts, the keys of all tables are
  unique, no checked reference dangles, each agent is that of its device's machine, and no
  device has two open alerts for one rule. A reference names a row that exists and, but for
  agents, belongs to the organization of the row that refers to it: no table mixes tenants.\<close>

theorem reachable_invariants:
  assumes "reachable rt cfg w"
  shows "wf_server w \<and> references_ok (srv_store w) \<and> agents_linked (srv_store w) \<and> one_open (srv_store w)"
  using reachable_ok[OF assms] references_linked by blast

theorem reachable_invariants_witness:
  "references_ok (srv_store setup_server) \<and> map rft_user_id (refresh_tokens (srv_store setup_server)) = [3]"
  using reachable_invariants[OF setup_reachable]
  by (simp add: setup_server_def after_setup_def Let_def empty_store_def new_refresh_token_def)

subsection \<open>Tenant isolation over all histories\<close>

text \<open>A job belongs to the organization of its device.\<close>

lemma references_home:
  assumes "references_ok st"
  shows "jobs_at_home st"
proof -
  have "list_ex (\<lambda>d. dev_id d = job_device_id j \<and> dev_organization_id d = job_organization_id j) (devices st)"
    if "j \<in> set (agent_jobs st)" for j
  proof -
    have "Row_of DeviceTable (job_device_id j) (job_organization_id j) \<in> set (all_refs st)"
      using agent_jobs_rtbl.refs_read[OF that] by (auto simp: agent_job_keys_def)
    with assms have "found st (Row_of DeviceTable (job_device_id j) (job_organization_id j))"
      by (auto simp: references_ok_def list_all_iff)
    then show ?thesis by (auto simp: parent_rows_def list_ex_iff)
  qed
  then show ?thesis by (simp add: jobs_at_home_def list_all_iff)
qed

text \<open>Any number of requests of operators, none of the organization \<open>o'\<close>.\<close>

inductive operated :: "runtime \<Rightarrow> settings \<Rightarrow> uuid \<Rightarrow> server \<Rightarrow> server \<Rightarrow> bool" for rt cfg o' w where
  idle: "operated rt cfg o' w w"
| request: "operated rt cfg o' w w' \<Longrightarrow> operator_ids_ok q \<Longrightarrow>
    fst (require_authenticated_user rt cfg now cred (open_session w')) \<notin>
      {Inr current | current. usr_organization_id current = o'} \<Longrightarrow>
    operated rt cfg o' w (snd (run_request (handle_operator rt cfg now (require_authenticated_user rt cfg now cred) q) w'))"

lemma isolated_request:
  assumes ok: "wf_server w" "references_ok (srv_store w)"
    and other: "fst (require_authenticated_user rt cfg now cred (open_session w)) \<notin>
      {Inr current | current. usr_organization_id current = o'}"
    and w': "w' = snd (run_request (handle_operator rt cfg now (require_authenticated_user rt cfg now cred) q) w)"
  shows "org_view o' (srv_store w') = org_view o' (srv_store w)"
proof -
  let ?auth = "require_authenticated_user rt cfg now cred"
  let ?r = "fst (?auth (open_session w))"
  have auth: "?auth (open_session w) = (?r, open_session w)" using authenticate_state by (metis prod.collapse)
  have "usr_organization_id current \<noteq> o'" if "?r = Inr current" for current using other that by auto
  from isolated_operator[OF this ok(1) references_home[OF ok(2)]]
  have "isolated o' (org_view o' (srv_store w)) (snd (handle_operator rt cfg now ?auth q (open_session w)))"
    unfolding handle_answered(3)[where auth = ?auth, OF auth] .
  with w' show ?thesis by (auto simp: run_request_snd isolated_def)
qed

text \<open>C3. Tenant isolation over time: from every reachable state, whatever sequence of requests
  operators of other organizations make, the rows of the organization \<open>o'\<close> stay exactly as
  they were, in every table. Nothing is assumed of the stored data: what the single request
  needs, jobs in the organization of their device, follows from the references.\<close>

theorem tenants_isolated_forever:
  assumes "reachable rt cfg w" and "operated rt cfg o' w w'"
  shows "org_view o' (srv_store w') = org_view o' (srv_store w) \<and> reachable rt cfg w'"
  using assms(2)
proof induction
  case idle
  show ?case using assms(1) by simp
next
  case (request w' q now cred)
  then have "reachable rt cfg w'" by simp
  note ok = reachable_ok[OF this]
  from isolated_request[OF conjunct1[OF ok] conjunct1[OF conjunct2[OF ok]] request.hyps(3) refl] request.IH
    reachable.operator[OF \<open>reachable rt cfg w'\<close> request.hyps(2)]
  show ?case by (intro conjI) (rule trans, assumption, erule conjunct1)
qed

definition shared_server :: server where
  "shared_server = snd (run_request (handle_service sample_runtime default_settings 6
     (TokenScript ''drawn-token'' ''globex'' ''Globex'' 24 1)) setup_server)"

lemma shared_reachable: "reachable sample_runtime default_settings shared_server"
  unfolding shared_server_def by (rule reachable.service[OF setup_reachable])

lemma shared_rows:
  "map org_id (organizations (srv_store shared_server)) = [2, 5]"
  "users (srv_store shared_server) = users (srv_store setup_server)"
proof -
  have slug: "slugify ''Acme'' = ''acme''"
    by (simp add: slugify_def strip_by_def is_alnum_def char_eval)
  note w = conjunct1[OF reachable_ok[OF setup_reachable]]
  note defs = setup_server_def after_setup_def sample_setup_def empty_store_def Let_def slug
  have org: "List.find (\<lambda>o'. org_slug o' = ''globex'') (organizations (srv_store setup_server)) = None"
    by (simp add: defs)
  let ?org = "organization_named ''Globex'' ''globex'' 6 5"
  let ?tok = "printed_token sample_runtime default_settings 6 ''drawn-token'' 5 24 1 6"
  let ?st = "organizations_update (\<lambda>os. os @ [?org]) (srv_store setup_server)"
  let ?st' = "enrollment_tokens_update (\<lambda>ts. ts @ [?tok]) ?st"
  have "unique_ok ?st" "unique_ok ?st'"
    by (simp_all add: unique_ok_def defs organization_named_def new_refresh_token_def)
  then have "create_enrollment_token sample_runtime default_settings 6 ''drawn-token'' ''globex'' ''Globex'' 24 1
      (open_session setup_server) = (Inr ''drawn-token'', committed ?st' 7)"
    by (simp add: create_enrollment_token_def organizations_tbl.open_scalar[OF w] org insert_row_def andThen_run
        db_flush_def build_enrollment_token_def printed_token_def organization_named_def)
      (simp add: setup_server_def db_commit_def committed_def open_session_def)
  then have "srv_store shared_server = ?st'"
    by (simp add: shared_server_def handle_service_def run_request_snd discard_def andThen_run)
  then show "map org_id (organizations (srv_store shared_server)) = [2, 5]"
    "users (srv_store shared_server) = users (srv_store setup_server)"
    by (simp_all add: defs organization_named_def)
qed

lemma shared_authenticates:
  "\<exists>current. require_authenticated_user sample_runtime cfg now (Some (''Bearer'', ''access-token''))
     (open_session shared_server) = (Inr current, open_session shared_server) \<and> usr_organization_id current = 2"
proof -
  have "jwt_decode sample_runtime ''access-token'' k a i n =
      Some (access_token_payload default_settings 0 sample_owner)" for k a i n
    by (simp add: sample_runtime_def)
  moreover obtain current where "db_get users usr_id 3 (open_session shared_server) = Some current"
    and "usr_is_active current" "usr_organization_id current = 2"
    by (simp add: users_tbl.open_get[OF conjunct1[OF reachable_ok[OF shared_reachable]]] shared_rows)
      (simp add: setup_server_def after_setup_def empty_store_def Let_def)
  moreover have "uuid_parse (uuid_str 3) = Some 3" by (simp add: uuid_parse_str)
  ultimately show ?thesis
    by (simp add: lower_Bearer require_authenticated_user_def access_token_payload_def dict_get_def py_str_def
        sample_owner_def)
qed

theorem tenants_isolated_forever_witness:
  "let auth = require_authenticated_user sample_runtime default_settings 7 (Some (''Bearer'', ''access-token''));
       w' = snd (run_request (handle_operator sample_runtime default_settings 7 auth (DisableUser 3)) shared_server)
   in org_view 5 (srv_store w') = org_view 5 (srv_store shared_server) \<and>
      map org_id (organizations (srv_store shared_server)) = [2, 5]"
proof -
  obtain current where "require_authenticated_user sample_runtime default_settings 7 (Some (''Bearer'', ''access-token''))
      (open_session shared_server) = (Inr current, open_session shared_server)" "usr_organization_id current = 2"
    using shared_authenticates by blast
  then have "operated sample_runtime default_settings 5 shared_server (snd (run_request (handle_operator sample_runtime
      default_settings 7 (require_authenticated_user sample_runtime default_settings 7 (Some (''Bearer'', ''access-token'')))
      (DisableUser 3)) shared_server))"
    by (intro operated.request operated.idle) (auto simp: operator_ids_ok_def)
  from tenants_isolated_forever[OF shared_reachable this] show ?thesis by (simp add: shared_rows Let_def)
qed

end
