(* ===== verification/Spec2Isabelle.thy ===== *)
theory Spec2Isabelle
  imports Prelude PyLib Models Session Tables Settings Security Schemas Samples Access Auth Users
    Bootstrap Lifecycle Jobs JobsApi Notifications Alerts DeviceSchemas Inventory Remote AgentApi
    Tracking AlertsApi NotificationsApi Devices Phase2Models Phase3Models OperationsSchemas
    Operations Phase3 Tenancy Confidentiality JobsQueue Schema Migrations Metadata Migrated
    SchemaHistory Scripts References ReferenceFlow ReferenceAgents
    AlertInvariant Integrity
begin

text \<open>
  Cyclope Central is a monitoring service for the devices of many organizations. Agents on
  the devices enroll with a token, check in and poll for jobs; operators log in and manage
  what belongs to their organization. This development models the backend, the Python code
  under \<^verbatim>\<open>backend/app\<close>, with its database migrations and maintenance scripts.

  \<^bold>\<open>How the program is modelled.\<close> A request handler is a function from the state of its
  database session to a result and the session it leaves (\<open>db_op\<close>); an exception is the left
  part of the result. \<open>andThen\<close>, \<open>ret\<close>, \<open>raise\<close> and the loop combinators of \<open>Prelude\<close> are
  the sequencing of Python statements. \<open>Session\<close> is \<^verbatim>\<open>db/session.py\<close>: autoflush is off, so it
  keeps committed, flushed and live rows apart, a query filters on the flushed rows and
  returns the live objects, and a flush or commit that breaks a unique constraint raises an
  IntegrityError. \<open>run_request\<close> opens a session on the server, runs a handler and keeps what
  it committed. A pydantic model is a record, its field constraints a predicate \<open>valid_...\<close>;
  \<open>validated\<close> answers 422 where it fails. A FastAPI dependency is an argument: a handler
  takes the operation that authenticates its caller.

  \<^bold>\<open>The theories and the code they model.\<close>
  \<^item> \<open>Prelude\<close>, \<open>PyLib\<close>: the errors, the operations on the session with their rules, and the
    parts of Python's text methods, JSON values, UUIDs and number parsing the code uses.
  \<^item> \<open>Models\<close>, \<open>Phase2Models\<close>, \<open>Phase3Models\<close>: the rows of all tables (\<^verbatim>\<open>app/models\<close>).
    \<open>Session\<close>, \<open>Tables\<close>: the session and the facts that hold of every table.
  \<^item> \<open>Settings\<close> (\<^verbatim>\<open>core/config.py\<close>), \<open>Security\<close> (\<^verbatim>\<open>core/security.py\<close>,
    \<^verbatim>\<open>core/token_hashing.py\<close>, \<^verbatim>\<open>core/enrollment.py\<close>), \<open>Schemas\<close>, \<open>DeviceSchemas\<close>,
    \<open>OperationsSchemas\<close> (\<^verbatim>\<open>api/schemas.py\<close> and the request bodies of the last two APIs).
  \<^item> \<open>Access\<close>, \<open>Auth\<close> (\<^verbatim>\<open>api/auth.py\<close>), \<open>Users\<close> (\<^verbatim>\<open>api/users.py\<close>), \<open>Bootstrap\<close>
    (\<^verbatim>\<open>core/bootstrap.py\<close>, \<^verbatim>\<open>api/bootstrap.py\<close>): who gets in, and with what permissions.
  \<^item> \<open>Jobs\<close> (\<^verbatim>\<open>core/jobs.py\<close>), \<open>JobsApi\<close> (\<^verbatim>\<open>api/jobs.py\<close> and the job routes of
    \<^verbatim>\<open>api/agent.py\<close>), \<open>JobsQueue\<close>: the job queue of a device.
  \<^item> \<open>AgentApi\<close> (\<^verbatim>\<open>api/agent.py\<close>), \<open>Inventory\<close> (\<^verbatim>\<open>api/inventory.py\<close>), \<open>Remote\<close>
    (\<^verbatim>\<open>api/remote.py\<close>), \<open>Alerts\<close> (\<^verbatim>\<open>core/alerts.py\<close>), \<open>Notifications\<close>
    (\<^verbatim>\<open>core/notifications.py\<close>): enrollment, and what one check-in does: it stores the report,
    evaluates the alert rules and enqueues the notifications of new alerts.
  \<^item> \<open>AlertsApi\<close>, \<open>NotificationsApi\<close>, \<open>Devices\<close> (also \<^verbatim>\<open>api/dashboard.py\<close>), \<open>Operations\<close>,
    \<open>Phase3\<close>: the operators' routes of the files of these names under \<^verbatim>\<open>api\<close>.
  \<^item> \<open>Tenancy\<close>, \<open>Confidentiality\<close>: all operator routes together (\<^verbatim>\<open>api/__init__.py\<close>,
    \<^verbatim>\<open>main.py\<close>).
  \<^item> \<open>Schema\<close>, \<open>Migrations\<close>, \<open>Metadata\<close>, \<open>Migrated\<close>, \<open>SchemaHistory\<close>: the statements of
    \<^verbatim>\<open>backend/alembic\<close>, the tables the mapped classes declare (\<^verbatim>\<open>db/base.py\<close>), and how the
    two agree.
  \<^item> \<open>References\<close>: the foreign keys of the tables. \<open>ReferenceFlow\<close> and \<open>ReferenceAgents\<close> follow
    them through the operators' routes and all other requests, \<open>AlertInvariant\<close> the open alerts;
    \<open>Integrity\<close> puts the requests together into the servers the program can reach.
  \<^item> \<open>Scripts\<close>: \<^verbatim>\<open>scripts/create-owner-user.py\<close> and \<^verbatim>\<open>scripts/create-enrollment-token.py\<close>.
  \<^item> \<open>Lifecycle\<close>, \<open>Tracking\<close>: status columns and what may become of their rows; \<open>Samples\<close>: an
    installation the witnesses run on.

  \<^bold>\<open>Interfaces.\<close> \<open>orm_table\<close> and \<open>tenant_table\<close> are the contract of a table with its session,
  interpreted on every table; \<open>lifecycle\<close> is a status with steps and terminal values,
  interpreted on jobs, deliveries and alerts; \<open>tracked_table\<close> joins the two for the rows of
  jobs and alerts; \<open>referring_table\<close>, with \<open>leaf_table\<close> and \<open>parent_table\<close> below it, is a table
  whose rows refer to others and may be referred to, interpreted on every table by its
  foreign keys; \<open>credential\<close> is a hash with its check.

  \<^bold>\<open>What is proved.\<close> Invariants go over every handler with \<open>keeps\<close> and its composition rules
  (\<open>keeps_intro\<close>): keys stay unique (\<open>wf_session\<close>), accounts, channels and rules stay valid,
  rows of another organization stay as they are. \<open>Tenancy\<close> shows the last for all operator
  routes at once, \<open>Confidentiality\<close> that the answers of the operations and platform routes
  do not depend on another organization's rows either. \<open>Integrity\<close> shows for every reachable
  server that no checked reference dangles or crosses tenants, that agents and devices belong
  together and that no device has two open alerts for a rule, from which isolation holds over
  all histories without assumptions on the data. The authentication theories show
  what login, refresh, logout and setup establish and refuse; the job and alert theories
  that statuses only move along their lifecycles under any history of requests, what a poll
  hands out and that polling empties the queue; the notification theories that exactly the
  wanted deliveries are enqueued and are decided after bounded retries; the agent theories
  what an enrollment and a check-in store. The migrations end at tables that serve every
  mapped class and can be taken back, and their unique indexes are the constraints of the
  session model.

  \<^bold>\<open>Bounds.\<close> The loops of the handlers run over lists and are structural recursion.
  \<open>like_match\<close>, the SQL pattern match, ends because each step shortens pattern or text.
  Retrying a delivery is driven from outside: \<open>process_repeatedly\<close> takes the list of rounds,
  and \<open>notification_retry_limit\<close> rounds decide a delivery. Paths through the migrations take as
  much fuel as there are revisions, which visits each of them. Integers of Python and of
  the database are unbounded here.

  \<^bold>\<open>Arguments of the model.\<close> The cryptographic primitives, the JWT library and the text of
  floats (\<open>runtime\<close>), the network (\<open>transport\<close>), drawn secrets and salts, the client's
  address, the present day and the time are arguments. One time \<open>now\<close> stands for the clock of
  the application and of the database during a request.

  \<^bold>\<open>Not modelled.\<close> The \<open>updated_at\<close> columns, which only the database writes and no code reads;
  the length limits of columns and NOT NULL at run time (the schema theories have them as
  declarations); the database's own check of foreign keys, which could never fail on the
  columns \<open>References\<close> follows (\<open>reachable_invariants\<close>) but could on the seven
  \<open>unchecked_columns\<close>, where a key that names no row is stored here; the rounding of decimals and floats; characters outside
  ASCII; timestamps without a time zone; requests that interleave within a transaction.
  \<open>validated\<close> runs before authentication, while FastAPI answers 401 or 403 first where both
  apply: neither changes the data. Tables of \<^verbatim>\<open>models/phase2.py\<close> and
  \<^verbatim>\<open>models/phase3.py\<close> that no handler touches have columns in \<open>Metadata\<close> but no rows.
  Left out altogether: logging, the environment and argument parsing, the offline mode of the
  migrations, the agent (a Go program), the web frontend and the deployment files.
\<close>

end
